(* ===== verification/NC_Prelude.thy ===== *)
theory NC_Prelude
  imports Main "HOL-Library.Word" "HOL-Library.AList"
begin

text \<open>
  Shared vocabulary of the development: machine integers, byte strings in network byte
  order, Rust's \<open>Result\<close> with the early return of the question mark operator, the
  effect of writing into an in-memory buffer, and the generic list lemmas the component
  theories use.  Nothing in this theory is specific to one crate.
\<close>

section \<open>Machine integers and byte strings\<close>

type_synonym u8 = "8 word"
type_synonym u16 = "16 word"
type_synonym u32 = "32 word"
type_synonym u64 = "64 word"
type_synonym u128 = "128 word"
type_synonym bytes = "8 word list"

named_theorems result_simps \<open>equations for results and the early return\<close>
named_theorems wire_simps \<open>equations for wire readers and writers\<close>
named_theorems fsm_simps \<open>defining equations of the session state machine\<close>

lemma unat_less: "unat (w :: 'a::len word) < 2 ^ LENGTH('a)"
  by (rule unsigned_less)

lemma unat_u8_less [simp]: "unat (w :: u8) < 256"
  using unat_less [of w] by simp

lemma unat_u8_le [simp]: "unat (w :: u8) \<le> 255"
proof -
  have "unat w < Suc 255" using unat_less [of w] by (simp del: unat_u8_less)
  then show ?thesis by (simp only: less_Suc_eq_le)
qed

lemma unat_u16_less [simp]: "unat (w :: u16) < 65536"
  using unat_less [of w] by simp

lemma unat_u32_less [simp]: "unat (w :: u32) < 4294967296"
  using unat_less [of w] by simp

text \<open>
  \<open>be_nat\<close> reads a byte string as an unsigned number, most significant byte first
  (\<open>from_be_bytes\<close>); \<open>be_bytes n x\<close> is the \<open>n\<close>-byte string of \<open>x\<close> (\<open>to_be_bytes\<close>).
\<close>

primrec be_acc :: "nat \<Rightarrow> bytes \<Rightarrow> nat" where
  "be_acc a [] = a"
| "be_acc a (b # bs) = be_acc (a * 256 + unat b) bs"

definition be_nat :: "bytes \<Rightarrow> nat" where
  "be_nat bs = be_acc 0 bs"

primrec be_bytes :: "nat \<Rightarrow> nat \<Rightarrow> bytes" where
  "be_bytes 0 x = []"
| "be_bytes (Suc n) x = of_nat (x div 256 ^ n) # be_bytes n x"

lemma length_be_bytes [simp]: "length (be_bytes n x) = n"
  by (induction n) auto

lemma be_acc_shift: "be_acc a bs = a * 256 ^ length bs + be_acc 0 bs"
proof (induction bs arbitrary: a)
  case Nil
  then show ?case by simp
next
  case (Cons b bs)
  show ?case
    using Cons [of "a * 256 + unat b"] Cons [of "unat b"]
    by (simp add: algebra_simps)
qed

lemma unat_of_nat_u8: "unat (of_nat x :: u8) = x mod 256"
  by (simp add: unat_of_nat)

lemma be_nat_be_bytes: "be_nat (be_bytes n x) = x mod 256 ^ n"
proof (induction n)
  case 0
  then show ?case by (simp add: be_nat_def)
next
  case (Suc n)
  have "be_nat (be_bytes (Suc n) x) = (x div 256 ^ n mod 256) * 256 ^ n + x mod 256 ^ n"
    using Suc be_acc_shift [of "x div 256 ^ n mod 256" "be_bytes n x"]
    by (simp add: be_nat_def unat_of_nat_u8)
  also have "\<dots> = x mod 256 ^ Suc n"
    by (metis add.commute mod_mult2_eq mult.commute power_Suc2)
  finally show ?case .
qed

lemma be_nat_bound: "be_nat bs < 256 ^ length bs"
proof (induction bs)
  case Nil
  then show ?case by (simp add: be_nat_def)
next
  case (Cons b bs)
  have "be_nat (b # bs) = unat b * 256 ^ length bs + be_nat bs"
    using be_acc_shift [of "unat b" bs] by (simp add: be_nat_def)
  also have "\<dots> < (unat b + 1) * 256 ^ length bs"
    using Cons by simp
  also have "\<dots> \<le> 256 * 256 ^ length bs"
    using unat_u8_less [of b] by (intro mult_right_mono) (linarith, simp)
  finally show ?case by simp
qed

lemma be_bytes_add_mult: "be_bytes n (x + 256 ^ n * y) = be_bytes n x"
proof -
  have "be_bytes m (x + 256 ^ n * y) = be_bytes m x" if "m \<le> n" for m
    using that
  proof (induction m)
    case (Suc m)
    obtain k where k: "n = Suc m + k" using Suc.prems le_Suc_ex by blast
    have "(x + 256 ^ n * y) div 256 ^ m = x div 256 ^ m + 256 * (256 ^ k * y)"
    proof -
      have "256 ^ n * y = 256 ^ m * (256 * (256 ^ k * y))" by (simp add: k power_add)
      then show ?thesis by (simp only: div_mult_self2) simp
    qed
    then have "(of_nat ((x + 256 ^ n * y) div 256 ^ m) :: u8) = of_nat (x div 256 ^ m)"
      by (simp only: word_of_nat_eq_iff take_bit_eq_mod) simp
    with Suc show ?case by simp
  qed simp
  then show ?thesis by simp
qed

lemma be_bytes_be_nat: "n = length bs \<Longrightarrow> be_bytes n (be_nat bs) = bs"
proof (induction bs arbitrary: n)
  case (Cons b bs)
  have eq: "be_nat (b # bs) = be_nat bs + 256 ^ length bs * unat b"
    using be_acc_shift [of "unat b" bs] by (simp add: be_nat_def)
  have "be_nat (b # bs) div 256 ^ length bs = unat b"
    using be_nat_bound [of bs] by (simp add: eq)
  then show ?case
    using Cons be_bytes_add_mult [of "length bs" "be_nat bs" "unat b"] by (simp add: eq)
qed simp

lemma be_bytes_2: "be_bytes 2 x = [of_nat (x div 256), of_nat x]"
  by (simp add: numeral_2_eq_2)

lemma unat_of_nat_u8_id: "n < 256 \<Longrightarrow> unat (of_nat n :: u8) = n"
  by (simp add: unat_of_nat)

lemma unat_of_nat_u16_id: "n < 65536 \<Longrightarrow> unat (of_nat n :: u16) = n"
  by (simp add: unat_of_nat)

lemma unat_of_nat_u32_id: "n < 4294967296 \<Longrightarrow> unat (of_nat n :: u32) = n"
  by (simp add: unat_of_nat)

lemma unat_ucast_u8_u16: "unat (ucast (b :: u8) :: u16) = unat b"
  using less_trans [OF unat_u8_less [of b], of 65536] by (simp add: unsigned_ucast_eq take_bit_eq_mod)

lemma ucast_u16_u8 [simp]: "ucast (ucast (b :: u8) :: u16) = b"
  by (rule bit_word_eqI) (simp add: bit_ucast_iff)

lemma be_bytes_4: "be_bytes 4 x = [of_nat (x div 16777216), of_nat (x div 65536), of_nat (x div 256), of_nat x]"
proof -
  have "(4::nat) = Suc (Suc (Suc (Suc 0)))" by simp
  then show ?thesis by (simp only: be_bytes.simps) simp
qed

lemma be_nat_4: "be_nat [a,b,c,d] = 16777216 * unat a + 65536 * unat b + be_nat [c,d]"
  by (simp add: be_nat_def)

lemma of_nat_be_nat_u16 [simp]: "of_nat (be_nat (be_bytes 2 (unat (w :: u16)))) = w"
  using unat_less [of w] by (simp add: be_nat_be_bytes)

lemma of_nat_be_nat_u32 [simp]: "of_nat (be_nat (be_bytes 4 (unat (w :: u32)))) = w"
  using unat_less [of w] by (simp add: be_nat_be_bytes)

lemma of_nat_be_nat_u128 [simp]: "of_nat (be_nat (be_bytes 16 (unat (w :: u128)))) = w"
  using unat_less [of w] by (simp add: be_nat_be_bytes)

section \<open>Results\<close>

text \<open>
  Rust's \<open>Result\<close>.  \<open>rbind r f\<close> is \<open>f(r?)\<close>: an \<open>Err\<close> leaves the function at once,
  an \<open>Ok\<close> value is passed on.  \<open>map_err\<close> is the method of that name.
\<close>

datatype (plugins only: code) ('v, 'e) result = Ok 'v | Err 'e

primrec rbind :: "('v, 'e) result \<Rightarrow> ('v \<Rightarrow> ('w, 'e) result) \<Rightarrow> ('w, 'e) result" where
  "rbind (Ok v) f = f v"
| "rbind (Err e) f = Err e"

primrec map_err :: "('e \<Rightarrow> 'f) \<Rightarrow> ('v, 'e) result \<Rightarrow> ('v, 'f) result" where
  "map_err f (Ok v) = Ok v"
| "map_err f (Err e) = Err (f e)"

primrec is_ok :: "('v, 'e) result \<Rightarrow> bool" where
  "is_ok (Ok v) = True"
| "is_ok (Err e) = False"

lemma rbind_eq_Ok [result_simps]:
  "rbind r f = Ok w \<longleftrightarrow> (\<exists>v. r = Ok v \<and> f v = Ok w)"
  by (cases r) auto

lemma rbind_eq_Err [result_simps]:
  "rbind r f = Err e \<longleftrightarrow> r = Err e \<or> (\<exists>v. r = Ok v \<and> f v = Err e)"
  by (cases r) auto

lemma map_err_eq_Ok [result_simps, simp]: "map_err f r = Ok v \<longleftrightarrow> r = Ok v"
  by (cases r) auto

lemma map_err_eq_Err [result_simps]: "map_err f r = Err e \<longleftrightarrow> (\<exists>e'. r = Err e' \<and> e = f e')"
  by (cases r) auto

lemma case_result_eq_Ok [result_simps]:
  "(case r of Ok v \<Rightarrow> f v | Err e \<Rightarrow> Err (g e)) = Ok w \<longleftrightarrow> (\<exists>v. r = Ok v \<and> f v = Ok w)"
  by (cases r) auto

lemma case_result_eq_Some_Ok [result_simps]:
  "(case r of Ok v \<Rightarrow> f v | Err e \<Rightarrow> Some (Err (g e))) = Some (Ok w) \<longleftrightarrow> (\<exists>v. r = Ok v \<and> f v = Some (Ok w))"
  by (cases r) auto

lemma guard_eq_Ok [result_simps]: "(if P then Err e else r) = Ok v \<longleftrightarrow> \<not> P \<and> r = Ok v"
  by simp

lemma rbind_cong [fundef_cong]:
  "r = r' \<Longrightarrow> (\<And>v. r' = Ok v \<Longrightarrow> f v = f' v) \<Longrightarrow> rbind r f = rbind r' f'"
  by (cases r') auto

lemma not_Ok_iff_Err: "(\<forall>v. r \<noteq> Ok v) \<longleftrightarrow> (\<exists>e. r = Err e)"
  by (cases r) auto

text \<open>
  The same for a computation that may not return: \<open>None\<close> stays, an error leaves the function.
\<close>

definition orbind ::
  "('v, 'e) result option \<Rightarrow> ('v \<Rightarrow> ('w, 'e) result option) \<Rightarrow> ('w, 'e) result option" where
  "orbind m f = (case m of None \<Rightarrow> None | Some (Err e) \<Rightarrow> Some (Err e) | Some (Ok v) \<Rightarrow> f v)"

lemma orbind_simps [result_simps, simp]:
  "orbind None f = None" "orbind (Some (Err e)) f = Some (Err e)" "orbind (Some (Ok v)) f = f v"
  by (simp_all add: orbind_def)

lemma orbind_eq_Ok [result_simps]:
  "orbind m f = Some (Ok w) \<longleftrightarrow> (\<exists>v. m = Some (Ok v) \<and> f v = Some (Ok w))"
  by (auto simp: orbind_def split: option.splits result.splits)

lemma orbind_returns:
  "m = Some r \<Longrightarrow> (\<And>v. r = Ok v \<Longrightarrow> \<exists>r'. f v = Some r') \<Longrightarrow> \<exists>r'. orbind m f = Some r'"
  by (cases r) auto

section \<open>Writing into a buffer\<close>

text \<open>
  A serializer appends to a buffer and either finishes or leaves early with an error;
  the bytes it wrote before leaving stay in the buffer.  \<open>'e writing\<close> is the bytes
  appended together with the outcome.
\<close>

type_synonym 'e writing = "bytes \<times> (unit, 'e) result"

definition wput :: "bytes \<Rightarrow> 'e writing" where
  "wput bs = (bs, Ok ())"

definition wfail :: "'e \<Rightarrow> 'e writing" where
  "wfail e = ([], Err e)"

definition wseq :: "'e writing \<Rightarrow> 'e writing \<Rightarrow> 'e writing" where
  "wseq p q = (case snd p of Err e \<Rightarrow> p | Ok _ \<Rightarrow> (fst p @ fst q, snd q))"

primrec wseqs :: "'e writing list \<Rightarrow> 'e writing" where
  "wseqs [] = wput []"
| "wseqs (p # ps) = wseq p (wseqs ps)"

definition wmap_err :: "('e \<Rightarrow> 'f) \<Rightarrow> 'e writing \<Rightarrow> 'f writing" where
  "wmap_err f p = (fst p, map_err f (snd p))"

lemma wseq_put [wire_simps, simp]: "wseq (wput bs) q = (bs @ fst q, snd q)"
  by (simp add: wseq_def wput_def)

lemma wseq_ok [wire_simps, simp]: "wseq (bs, Ok u) q = (bs @ fst q, snd q)"
  by (simp add: wseq_def)

lemma wseq_fail [wire_simps, simp]: "wseq (bs, Err e) q = (bs, Err e)"
  by (simp add: wseq_def)

lemma wput_sel [wire_simps, simp]: "fst (wput bs) = bs" "snd (wput bs) = Ok ()"
  by (simp_all add: wput_def)

lemma wfail_sel [wire_simps, simp]: "fst (wfail e) = []" "snd (wfail e) = Err e"
  by (simp_all add: wfail_def)

lemma wseqs_puts [wire_simps]: "wseqs (map (\<lambda>x. wput (f x)) xs) = wput (concat (map f xs))"
  by (induction xs) (simp_all add: wput_def)

lemma wseqs_ok [wire_simps]:
  "(\<And>x. snd (w x) = Ok ()) \<Longrightarrow> wseqs (map w xs) = (concat (map (\<lambda>x. fst (w x)) xs), Ok ())"
  by (induction xs) (simp_all add: wseq_def wput_def)

lemma wmap_err_fst_snd: "fst (wmap_err f p) = fst p" "snd (wmap_err f p) = map_err f (snd p)"
  by (simp_all add: wmap_err_def)

lemma wmap_err_put [wire_simps, simp]: "wmap_err f (wput bs) = wput bs"
  by (simp add: wmap_err_def wput_def)

section \<open>Lists\<close>

lemma sum_list_map_length_concat: "sum_list (map (\<lambda>x. length (f x)) xs) = length (concat (map f xs))"
  by (induction xs) auto

lemma sum_list_map_subset:
  "distinct xs \<Longrightarrow> set xs \<subseteq> set ys \<Longrightarrow> sum_list (map f xs) \<le> (sum_list (map f ys) :: nat)"
proof (induction xs arbitrary: ys)
  case (Cons x xs)
  then have "set xs \<subseteq> set (remove1 x ys)" by (metis distinct.simps(2) in_set_remove1 set_subset_Cons subset_code(1))
  with Cons have "sum_list (map f xs) \<le> sum_list (map f (remove1 x ys))" by simp
  with Cons.prems show ?case by (simp add: sum_list_map_remove1 [of x ys])
qed simp

lemma list4: "12 \<le> length xs \<Longrightarrow> \<exists>a b c d zs. xs = a # b # c # d # zs \<and> 8 \<le> length zs"
  by (cases xs; cases "tl xs"; cases "tl (tl xs)"; cases "tl (tl (tl xs))") auto

lemma map_of_Cons_add:
  "fst kv \<notin> dom (map_of kvs) \<Longrightarrow> f(fst kv \<mapsto> snd kv) ++ map_of kvs = f ++ map_of (kv # kvs)"
  by (simp only: map_of.simps map_add_upd map_add_upd_left not_False_eq_True)

lemma map_of_filter_distinct:
  "distinct (map fst al) \<Longrightarrow> map_of (filter P al) k =
    (case map_of al k of Some v \<Rightarrow> if P (k, v) then Some v else None | None \<Rightarrow> None)"
proof (induction al)
  case (Cons e al)
  show ?case
  proof (cases "k = fst e")
    case True
    then have "map_of al k = None" using Cons.prems by (simp add: map_of_eq_None_iff)
    with True Cons show ?thesis by (cases e) auto
  next
    case False
    with Cons show ?thesis by (cases e) auto
  qed
qed simp

lemma sorted_distinct_eq_upt:
  assumes "sorted ns" "distinct ns" "set ns = {0..<length ns}"
  shows "ns = [0..<length ns]"
  using assms by (intro sorted_distinct_set_unique) auto

section \<open>Enumerations with discriminants\<close>

text \<open>
  A field-less enum whose variants have distinct discriminants: \<open>as\<close> yields the discriminant
  and the derived \<open>from_repr\<close> searches the variant with a given one.
\<close>

locale repr_enum =
  fixes disc :: "'e \<Rightarrow> 'w" and variants :: "'e list"
  assumes complete: "e \<in> set variants"
    and distinct_disc: "distinct (map disc variants)"
begin

lemma disc_inject: "disc e = disc e' \<longleftrightarrow> e = e'"
  using distinct_disc complete [of e] complete [of e'] by (auto simp: distinct_map inj_on_def)

lemma ex_variants: "(\<exists>e. P e) \<longleftrightarrow> list_ex P variants"
  using complete by (auto simp: list_ex_iff)

lemma find_disc_iff: "List.find (\<lambda>e. disc e = v) variants = Some e \<longleftrightarrow> disc e = v"
proof
  assume "List.find (\<lambda>e. disc e = v) variants = Some e"
  then show "disc e = v" by (auto simp: find_Some_iff)
next
  assume v: "disc e = v"
  have "List.find (\<lambda>e. disc e = v) variants \<noteq> None"
    using v complete [of e] by (auto simp: find_None_iff)
  then obtain e' where e': "List.find (\<lambda>e. disc e = v) variants = Some e'" by blast
  then have "disc e' = v" by (auto simp: find_Some_iff)
  with v e' show "List.find (\<lambda>e. disc e = v) variants = Some e" by (simp add: disc_inject [symmetric])
qed

lemma find_disc: "List.find (\<lambda>e'. disc e' = disc e) variants = Some e"
  by (simp add: find_disc_iff)

lemma find_disc_None: "List.find (\<lambda>e. disc e = v) variants = None \<longleftrightarrow> v \<notin> range disc"
  using complete by (auto simp: find_None_iff)

end

end
