(* ===== verification/NC_Wire.thy ===== *)
theory NC_Wire
  imports NC_Prelude
begin

text \<open>
  The reading side shared by every protocol crate: the located byte span of
  \<open>crates/locate\<close>, the located errors that the derive macro of \<open>crates/serde-macros\<close>
  generates, the error conversion and the repeat-until-empty loops of
  \<open>crates/parse-utils\<close>.

  The primitive readers come from the crate \<open>nom\<close> and the big-endian writers from the
  crate \<open>byteorder\<close>.  Neither is part of the repository: a \<open>wire_lib\<close> record is an
  argument of every definition that uses them, and the locale \<open>wire_lib_laws\<close> states
  their documented behaviour.
\<close>

section \<open>Spans\<close>

record span =
  offset :: nat
  fragment :: bytes

definition span_new :: "bytes \<Rightarrow> span" where
  "span_new bs = \<lparr>offset = 0, fragment = bs\<rparr>"

definition location_offset :: "span \<Rightarrow> nat" where
  "location_offset s = offset s"

definition span_len :: "span \<Rightarrow> nat" where
  "span_len s = length (fragment s)"

definition span_is_empty :: "span \<Rightarrow> bool" where
  "span_is_empty s \<longleftrightarrow> fragment s = []"

text \<open>
  \<open>slice (n..)\<close> and \<open>slice (..n)\<close>: the offset moves by the distance between the old and the
  new fragment, which is \<open>n\<close> for a suffix and \<open>0\<close> for a prefix.
\<close>

definition span_slice_from :: "nat \<Rightarrow> span \<Rightarrow> span" where
  "span_slice_from n s =
     (let next_fragment = drop n (fragment s); consumed_len = n
      in if consumed_len = 0 then \<lparr>offset = offset s, fragment = next_fragment\<rparr>
         else \<lparr>offset = offset s + consumed_len, fragment = next_fragment\<rparr>)"

definition span_slice_to :: "nat \<Rightarrow> span \<Rightarrow> span" where
  "span_slice_to n s =
     (let next_fragment = take n (fragment s); consumed_len = (0::nat)
      in if consumed_len = 0 then \<lparr>offset = offset s, fragment = next_fragment\<rparr>
         else \<lparr>offset = offset s + consumed_len, fragment = next_fragment\<rparr>)"

definition span_take_split :: "nat \<Rightarrow> span \<Rightarrow> span \<times> span" where
  "span_take_split n s = (span_slice_from n s, span_slice_to n s)"

lemma span_new_sel [simp]: "offset (span_new bs) = 0" "fragment (span_new bs) = bs"
  by (simp_all add: span_new_def)

lemma span_slice_from_sel [simp]:
  "offset (span_slice_from n s) = offset s + n" "fragment (span_slice_from n s) = drop n (fragment s)"
  by (simp_all add: span_slice_from_def Let_def)

lemma span_slice_to_sel [simp]:
  "offset (span_slice_to n s) = offset s" "fragment (span_slice_to n s) = take n (fragment s)"
  by (simp_all add: span_slice_to_def Let_def)

lemma span_eqI: "offset s = offset t \<Longrightarrow> fragment s = fragment t \<Longrightarrow> s = (t :: span)"
  by simp

lemma span_slice_from_0 [simp]: "span_slice_from 0 s = s"
  by (simp add: span_slice_from_def)

lemma span_slice_from_slice_from [simp]:
  "span_slice_from m (span_slice_from n s) = span_slice_from (n + m) s"
  by (rule span_eqI) (simp_all add: ac_simps)

text \<open>A span that a reader left: a suffix of its input.\<close>

definition suffix_span :: "span \<Rightarrow> span \<Rightarrow> bool" where
  "suffix_span s s' \<longleftrightarrow> (\<exists>n \<le> length (fragment s). s' = span_slice_from n s)"

lemma suffix_spanI [simp]: "n \<le> length (fragment s) \<Longrightarrow> suffix_span s (span_slice_from n s)"
  by (auto simp: suffix_span_def)

lemma suffix_span_refl [simp]: "suffix_span s s"
  using suffix_spanI [of 0 s] by simp

lemma suffix_span_trans: "suffix_span s t \<Longrightarrow> suffix_span t u \<Longrightarrow> suffix_span s u"
  unfolding suffix_span_def
proof (elim exE conjE)
  fix n m assume "n \<le> length (fragment s)" "t = span_slice_from n s"
    "m \<le> length (fragment t)" "u = span_slice_from m t"
  then show "\<exists>n\<le>length (fragment s). u = span_slice_from n s" by (intro exI [of _ "n + m"]) simp
qed

lemma suffix_span_length: "suffix_span s t \<Longrightarrow> length (fragment t) \<le> length (fragment s)"
  by (auto simp: suffix_span_def)

section \<open>Parser errors\<close>

datatype (plugins only: code) ErrorKind =
    Tag | MapRes | MapOpt | Alt | IsNot | IsA | SeparatedList | SeparatedNonEmptyList
  | Many0 | Many1 | ManyTill | Count | TakeUntil | LengthValue | TagClosure | Alpha
  | Digit | HexDigit | OctDigit | AlphaNumeric | Space | MultiSpace | LengthValueFn | Eof
  | Switch | TagBits | OneOf | NoneOf | Char | CrLf | RegexpMatch | RegexpMatches
  | RegexpFind | RegexpCapture | RegexpCaptures | TakeWhile1 | Complete | Fix | Escaped
  | EscapedTransform | NonEmpty | ManyMN | Not | Permutation | Verify | TakeTill1
  | TakeWhileMN | TooLarge | Many0Count | Many1Count | Float | Satisfy | Fail

text \<open>
  \<open>nom::Err\<close>, and the located error: every \<open>Located...Error\<close> struct the derive macro
  generates is a span with an error of the module.
\<close>

datatype (plugins only: code) 'e nom_err = NIncomplete "nat option" | NError 'e | NFailure 'e

record 'e located =
  lspan :: span
  lerror :: 'e

definition Located :: "span \<Rightarrow> 'e \<Rightarrow> 'e located" where
  "Located s e = \<lparr>lspan = s, lerror = e\<rparr>"

lemma Located_inject [simp]: "Located s e = Located s' e' \<longleftrightarrow> s = s' \<and> e = e'"
  by (simp add: Located_def)

lemma Located_sel [simp]: "lspan (Located s e) = s" "lerror (Located s e) = e"
  by (simp_all add: Located_def)

type_synonym ('v, 'e) iresult = "(span \<times> 'v, 'e located nom_err) result"

text \<open>
  \<open>from_error_kind\<close> of the generated \<open>ParseError\<close> instance: \<open>nom_variant\<close> is the variant
  marked \<open>#[from_nom]\<close>.  \<open>from_located\<close> is the generated conversion of an inner located
  error: the span is kept, the error is wrapped in the variant marked
  \<open>#[from_located]\<close>.
\<close>

definition from_error_kind :: "(ErrorKind \<Rightarrow> 'e) \<Rightarrow> span \<times> ErrorKind \<Rightarrow> 'e located" where
  "from_error_kind nom_variant = (\<lambda>(input, kind). Located input (nom_variant kind))"

definition from_located :: "('e \<Rightarrow> 'f) \<Rightarrow> 'e located \<Rightarrow> 'f located" where
  "from_located variant l = Located (lspan l) (variant (lerror l))"

primrec map_nom_err_into :: "('e \<Rightarrow> 'f) \<Rightarrow> 'e nom_err \<Rightarrow> 'f nom_err" where
  "map_nom_err_into into (NIncomplete needed) = NIncomplete needed"
| "map_nom_err_into into (NError e) = NError (into e)"
| "map_nom_err_into into (NFailure e) = NFailure (into e)"

definition parse_into_located ::
  "('e \<Rightarrow> 'f) \<Rightarrow> (span \<Rightarrow> ('v, 'e) iresult) \<Rightarrow> span \<Rightarrow> ('v, 'f) iresult" where
  "parse_into_located variant from_wire buf =
     (case from_wire buf of
        Ok (buf', v) \<Rightarrow> Ok (buf', v)
      | Err err \<Rightarrow> Err (map_nom_err_into (from_located variant) err))"

section \<open>Primitive readers and writers\<close>

type_synonym 'v prim = "(span \<times> 'v, (span \<times> ErrorKind) nom_err) result"

record wire_lib =
  nom_be_u8 :: "span \<Rightarrow> u8 prim"
  nom_be_u16 :: "span \<Rightarrow> u16 prim"
  nom_be_u32 :: "span \<Rightarrow> u32 prim"
  nom_be_u64 :: "span \<Rightarrow> u64 prim"
  nom_be_u128 :: "span \<Rightarrow> u128 prim"
  nom_take :: "nat \<Rightarrow> span \<Rightarrow> span prim"
  nom_length_data_u8 :: "span \<Rightarrow> span prim"
  nom_length_data_u16 :: "span \<Rightarrow> span prim"
  nom_length_count_u8 :: "span \<Rightarrow> bytes prim"
  nom_many_u16 :: "nat \<Rightarrow> span \<Rightarrow> u16 list prim"
  nom_many_u32 :: "nat \<Rightarrow> span \<Rightarrow> u32 list prim"
  bo_read_u16 :: "bytes \<Rightarrow> u16"
  bo_write_u16 :: "u16 \<Rightarrow> bytes"
  bo_write_u32 :: "u32 \<Rightarrow> bytes"
  bo_write_u64 :: "u64 \<Rightarrow> bytes"

definition prim_spec :: "nat \<Rightarrow> (span \<Rightarrow> 'v prim) \<Rightarrow> (bytes \<Rightarrow> 'v) \<Rightarrow> bool" where
  "prim_spec n p value \<longleftrightarrow>
     (\<forall>s. p s = (if n \<le> length (fragment s)
                 then Ok (span_slice_from n s, value (take n (fragment s)))
                 else Err (NError (s, Eof))))"

text \<open>The first \<open>n\<close> big-endian numbers of \<open>k\<close> bytes each.\<close>

primrec be_words :: "nat \<Rightarrow> nat \<Rightarrow> bytes \<Rightarrow> 'a::len word list" where
  "be_words k 0 bs = []"
| "be_words k (Suc n) bs = of_nat (be_nat (take k bs)) # be_words k n (drop k bs)"

text \<open>
  The documented behaviour of the primitives: a big-endian reader of \<open>n\<close> bytes takes the
  first \<open>n\<close> bytes or fails with \<open>Eof\<close> at its input; \<open>take\<close> splits the span;
  \<open>length_data(be_u8)\<close> and \<open>length_data(be_u16)\<close> take as many bytes as the length field says and
  report how many are missing; \<open>many_m_n(n, n, ...)\<close> reads \<open>n\<close> numbers when there are as many; \<open>length_count(be_u8, be_u8)\<close> reads as many octets and fails where the
  input ends; the writers append the big-endian bytes of the number.
\<close>

locale wire_lib_laws =
  fixes L :: wire_lib
  assumes be_u8_law: "prim_spec 1 (nom_be_u8 L) (\<lambda>bs. hd bs)"
    and be_u16_law: "prim_spec 2 (nom_be_u16 L) (\<lambda>bs. of_nat (be_nat bs))"
    and be_u32_law: "prim_spec 4 (nom_be_u32 L) (\<lambda>bs. of_nat (be_nat bs))"
    and be_u64_law: "prim_spec 8 (nom_be_u64 L) (\<lambda>bs. of_nat (be_nat bs))"
    and be_u128_law: "prim_spec 16 (nom_be_u128 L) (\<lambda>bs. of_nat (be_nat bs))"
    and take_law: "nom_take L n s =
          (if n \<le> length (fragment s) then Ok (span_take_split n s) else Err (NError (s, Eof)))"
    and length_data_law: "nom_length_data_u8 L s = (case fragment s of
            [] \<Rightarrow> Err (NError (s, Eof))
          | b # bs \<Rightarrow> if unat b \<le> length bs
              then Ok (span_slice_from (1 + unat b) s, span_slice_to (unat b) (span_slice_from 1 s))
              else Err (NIncomplete (Some (unat b - length bs))))"
    and length_data_u16_law: "nom_length_data_u16 L s =
          (if length (fragment s) < 2 then Err (NError (s, Eof))
           else let n = be_nat (take 2 (fragment s)) in
             if n + 2 \<le> length (fragment s)
             then Ok (span_slice_from (2 + n) s, span_slice_to n (span_slice_from 2 s))
             else Err (NIncomplete (Some (n + 2 - length (fragment s)))))"
    and many_u16_law: "2 * m \<le> length (fragment s) \<Longrightarrow>
          nom_many_u16 L m s = Ok (span_slice_from (2 * m) s, be_words 2 m (fragment s))"
    and many_u32_law: "4 * m \<le> length (fragment s) \<Longrightarrow>
          nom_many_u32 L m s = Ok (span_slice_from (4 * m) s, be_words 4 m (fragment s))"
    and length_count_law: "nom_length_count_u8 L s = (case fragment s of
            [] \<Rightarrow> Err (NError (s, Eof))
          | b # bs \<Rightarrow> if unat b \<le> length bs
              then Ok (span_slice_from (1 + unat b) s, take (unat b) bs)
              else Err (NError (span_slice_from (length (fragment s)) s, Eof)))"
    and read_u16_law: "2 \<le> length bs \<Longrightarrow> bo_read_u16 L bs = of_nat (be_nat (take 2 bs))"
    and write_u16_law: "bo_write_u16 L v = be_bytes 2 (unat v)"
    and write_u32_law: "bo_write_u32 L w = be_bytes 4 (unat w)"
    and write_u64_law: "bo_write_u64 L x = be_bytes 8 (unat x)"

definition lift_prim :: "(ErrorKind \<Rightarrow> 'e) \<Rightarrow> 'v prim \<Rightarrow> ('v, 'e) iresult" where
  "lift_prim nom_variant r = map_err (map_nom_err_into (from_error_kind nom_variant)) r"

definition be_u8 :: "wire_lib \<Rightarrow> (ErrorKind \<Rightarrow> 'e) \<Rightarrow> span \<Rightarrow> (u8, 'e) iresult" where
  "be_u8 L nv buf = lift_prim nv (nom_be_u8 L buf)"

definition be_u16 :: "wire_lib \<Rightarrow> (ErrorKind \<Rightarrow> 'e) \<Rightarrow> span \<Rightarrow> (u16, 'e) iresult" where
  "be_u16 L nv buf = lift_prim nv (nom_be_u16 L buf)"

definition be_u32 :: "wire_lib \<Rightarrow> (ErrorKind \<Rightarrow> 'e) \<Rightarrow> span \<Rightarrow> (u32, 'e) iresult" where
  "be_u32 L nv buf = lift_prim nv (nom_be_u32 L buf)"

definition be_u64 :: "wire_lib \<Rightarrow> (ErrorKind \<Rightarrow> 'e) \<Rightarrow> span \<Rightarrow> (u64, 'e) iresult" where
  "be_u64 L nv buf = lift_prim nv (nom_be_u64 L buf)"

definition be_u128 :: "wire_lib \<Rightarrow> (ErrorKind \<Rightarrow> 'e) \<Rightarrow> span \<Rightarrow> (u128, 'e) iresult" where
  "be_u128 L nv buf = lift_prim nv (nom_be_u128 L buf)"

definition take_span :: "wire_lib \<Rightarrow> (ErrorKind \<Rightarrow> 'e) \<Rightarrow> nat \<Rightarrow> span \<Rightarrow> (span, 'e) iresult" where
  "take_span L nv n buf = lift_prim nv (nom_take L n buf)"

definition length_data :: "wire_lib \<Rightarrow> (ErrorKind \<Rightarrow> 'e) \<Rightarrow> span \<Rightarrow> (span, 'e) iresult" where
  "length_data L nv buf = lift_prim nv (nom_length_data_u8 L buf)"

definition length_data_u16 :: "wire_lib \<Rightarrow> (ErrorKind \<Rightarrow> 'e) \<Rightarrow> span \<Rightarrow> (span, 'e) iresult" where
  "length_data_u16 L nv buf = lift_prim nv (nom_length_data_u16 L buf)"

definition many_u16 :: "wire_lib \<Rightarrow> (ErrorKind \<Rightarrow> 'e) \<Rightarrow> nat \<Rightarrow> span \<Rightarrow> (u16 list, 'e) iresult" where
  "many_u16 L nv n buf = lift_prim nv (nom_many_u16 L n buf)"

definition many_u32 :: "wire_lib \<Rightarrow> (ErrorKind \<Rightarrow> 'e) \<Rightarrow> nat \<Rightarrow> span \<Rightarrow> (u32 list, 'e) iresult" where
  "many_u32 L nv n buf = lift_prim nv (nom_many_u32 L n buf)"

definition length_count :: "wire_lib \<Rightarrow> (ErrorKind \<Rightarrow> 'e) \<Rightarrow> span \<Rightarrow> (bytes, 'e) iresult" where
  "length_count L nv buf = lift_prim nv (nom_length_count_u8 L buf)"

text \<open>
  \<open>nom::combinator::map_res\<close> is a higher-order combinator of the crate \<open>nom\<close>; like the question
  mark operator it only routes results, so it is given by its documented equation: the
  conversion \<open>f\<close> is applied to what \<open>p\<close> read, and its error is located at the input of
  \<open>p\<close> by the generated \<open>from_external_error\<close>, in the variant marked
  \<open>#[from_external]\<close>.
\<close>

definition from_external_error :: "('x \<Rightarrow> 'e) \<Rightarrow> span \<Rightarrow> 'x \<Rightarrow> 'e located" where
  "from_external_error variant input error = Located input (variant error)"

definition map_res ::
  "(span \<Rightarrow> ('v, 'e) iresult) \<Rightarrow> ('v \<Rightarrow> ('u, 'x) result) \<Rightarrow> ('x \<Rightarrow> 'e) \<Rightarrow> span \<Rightarrow> ('u, 'e) iresult" where
  "map_res p f external buf =
     rbind (p buf) (\<lambda>(buf', v).
       case f v of Ok u \<Rightarrow> Ok (buf', u)
         | Err x \<Rightarrow> Err (NError (from_external_error external buf x)))"

section \<open>Repeating a parser until the span is empty\<close>

text \<open>
  The loop \<open>while !buf.is_empty()\<close> of \<open>parse_till_empty\<close>.  The source has no guard against an
  element parser that consumes nothing, so the loop need not end: it is a partial
  function, and \<open>None\<close> is a run that never returns.
\<close>

partial_function (option) parse_till_empty ::
  "(span \<Rightarrow> ('v, 'e) iresult) \<Rightarrow> span \<Rightarrow> 'v list \<Rightarrow> ('v list, 'e) iresult option" where
  "parse_till_empty from_wire buf ret =
     (if span_is_empty buf then Some (Ok (buf, ret))
      else (case from_wire buf of
              Err e \<Rightarrow> Some (Err e)
            | Ok r \<Rightarrow> parse_till_empty from_wire (fst r) (ret @ [snd r])))"

lemma parse_into_located_Ok [simp]: "read s = Ok r \<Longrightarrow> parse_into_located variant read s = Ok r"
  by (cases r) (auto simp: parse_into_located_def split: result.splits)

lemma parse_into_located_eq_Ok [result_simps]: "parse_into_located variant read s = Ok r \<longleftrightarrow> read s = Ok r"
  by (cases r) (auto simp: parse_into_located_def split: result.splits)

section \<open>Laws of the primitives in the form the parsers use\<close>

lemma lift_prim_simps [simp]:
  "lift_prim nv (Ok r) = Ok r"
  "lift_prim nv (Err (NError (s, k))) = Err (NError (Located s (nv k)))"
  "lift_prim nv (Err (NIncomplete needed)) = Err (NIncomplete needed)"
  by (simp_all add: lift_prim_def from_error_kind_def)

context wire_lib_laws
begin

lemma be_u8_eq:
  "be_u8 L nv s = (case fragment s of
      [] \<Rightarrow> Err (NError (Located s (nv Eof)))
    | b # _ \<Rightarrow> Ok (span_slice_from 1 s, b))"
  using be_u8_law by (auto simp: be_u8_def prim_spec_def split: list.splits)

lemma be_u16_eq:
  "be_u16 L nv s = (if 2 \<le> length (fragment s)
     then Ok (span_slice_from 2 s, of_nat (be_nat (take 2 (fragment s))))
     else Err (NError (Located s (nv Eof))))"
  using be_u16_law by (simp add: be_u16_def prim_spec_def)

lemma be_u32_eq:
  "be_u32 L nv s = (if 4 \<le> length (fragment s)
     then Ok (span_slice_from 4 s, of_nat (be_nat (take 4 (fragment s))))
     else Err (NError (Located s (nv Eof))))"
  using be_u32_law by (simp add: be_u32_def prim_spec_def)

lemma be_u64_eq:
  "be_u64 L nv s = (if 8 \<le> length (fragment s)
     then Ok (span_slice_from 8 s, of_nat (be_nat (take 8 (fragment s))))
     else Err (NError (Located s (nv Eof))))"
  using be_u64_law by (simp add: be_u64_def prim_spec_def)

lemma be_u128_eq:
  "be_u128 L nv s = (if 16 \<le> length (fragment s)
     then Ok (span_slice_from 16 s, of_nat (be_nat (take 16 (fragment s))))
     else Err (NError (Located s (nv Eof))))"
  using be_u128_law by (simp add: be_u128_def prim_spec_def)

lemma take_span_eq:
  "take_span L nv n s = (if n \<le> length (fragment s)
     then Ok (span_slice_from n s, span_slice_to n s)
     else Err (NError (Located s (nv Eof))))"
  by (simp add: take_span_def take_law span_take_split_def)

lemma length_data_eq:
  "length_data L nv s = (case fragment s of
      [] \<Rightarrow> Err (NError (Located s (nv Eof)))
    | b # bs \<Rightarrow> if unat b \<le> length bs
        then Ok (span_slice_from (1 + unat b) s, span_slice_to (unat b) (span_slice_from 1 s))
        else Err (NIncomplete (Some (unat b - length bs))))"
  by (simp add: length_data_def length_data_law split: list.splits)

lemma length_data_u16_eq:
  "length_data_u16 L nv s =
     (if length (fragment s) < 2 then Err (NError (Located s (nv Eof)))
      else let n = be_nat (take 2 (fragment s)) in
        if n + 2 \<le> length (fragment s)
        then Ok (span_slice_from (2 + n) s, span_slice_to n (span_slice_from 2 s))
        else Err (NIncomplete (Some (n + 2 - length (fragment s)))))"
  by (simp add: length_data_u16_def length_data_u16_law Let_def)

lemma many_u16_eq:
  "2 * n \<le> length (fragment s) \<Longrightarrow> many_u16 L nv n s = Ok (span_slice_from (2 * n) s, be_words 2 n (fragment s))"
  by (simp add: many_u16_def many_u16_law)

lemma many_u32_eq:
  "4 * n \<le> length (fragment s) \<Longrightarrow> many_u32 L nv n s = Ok (span_slice_from (4 * n) s, be_words 4 n (fragment s))"
  by (simp add: many_u32_def many_u32_law)

lemma length_count_eq:
  "length_count L nv s = (case fragment s of
      [] \<Rightarrow> Err (NError (Located s (nv Eof)))
    | b # bs \<Rightarrow> if unat b \<le> length bs
        then Ok (span_slice_from (1 + unat b) s, take (unat b) bs)
        else Err (NError (Located (span_slice_from (length (fragment s)) s) (nv Eof))))"
  by (simp add: length_count_def length_count_law split: list.splits)

lemma write_u16_eq: "bo_write_u16 L v = [of_nat (unat v div 256), of_nat (unat v)]"
  by (simp add: write_u16_law be_bytes_2)

lemmas reads = be_u8_eq be_u16_eq be_u32_eq be_u128_eq take_span_eq length_data_eq length_count_eq

text \<open>Reading back what the writers wrote.\<close>

lemma be_u8_Cons: "fragment s = b # bs \<Longrightarrow> be_u8 L nv s = Ok (span_slice_from 1 s, b)"
  by (simp add: be_u8_eq)

lemma be_u16_write:
  assumes "fragment s = bo_write_u16 L v @ rest"
  shows "be_u16 L nv s = Ok (span_slice_from 2 s, v)"
  using assms of_nat_be_nat_u16 [of v] by (simp add: be_u16_eq write_u16_law)

lemma be_u32_write:
  assumes "fragment s = bo_write_u32 L v @ rest"
  shows "be_u32 L nv s = Ok (span_slice_from 4 s, v)"
  using assms of_nat_be_nat_u32 [of v] by (simp add: be_u32_eq write_u32_law)

lemma length_write [simp]:
  "length (bo_write_u16 L v) = 2" "length (bo_write_u32 L w) = 4"
  by (simp_all add: write_u16_law write_u32_law)

text \<open>Successful reads, as equivalences.\<close>

lemma be_u8_Ok_iff:
  "be_u8 L nv s = Ok (s', b) \<longleftrightarrow> (\<exists>bs. fragment s = b # bs) \<and> s' = span_slice_from 1 s"
  by (auto simp: be_u8_eq split: list.splits)

lemma be_u16_Ok_iff:
  "be_u16 L nv s = Ok (s', v) \<longleftrightarrow>
    (\<exists>bs. fragment s = bo_write_u16 L v @ bs) \<and> s' = span_slice_from 2 s"
proof
  assume ok: "be_u16 L nv s = Ok (s', v)"
  then have len: "2 \<le> length (fragment s)" and v: "v = of_nat (be_nat (take 2 (fragment s)))"
    and s': "s' = span_slice_from 2 s"
    by (auto simp: be_u16_eq split: if_splits)
  have "bo_write_u16 L v = take 2 (fragment s)"
    using len v be_nat_bound [of "take 2 (fragment s)"]
    by (simp add: write_u16_law unat_of_nat_u16_id be_bytes_be_nat)
  then show "(\<exists>bs. fragment s = bo_write_u16 L v @ bs) \<and> s' = span_slice_from 2 s"
    using s' append_take_drop_id [of 2 "fragment s"] by (metis (full_types))
next
  assume "(\<exists>bs. fragment s = bo_write_u16 L v @ bs) \<and> s' = span_slice_from 2 s"
  then show "be_u16 L nv s = Ok (s', v)" using be_u16_write by blast
qed

lemma be_u32_Ok_iff:
  "be_u32 L nv s = Ok (s', v) \<longleftrightarrow>
    (\<exists>bs. fragment s = bo_write_u32 L v @ bs) \<and> s' = span_slice_from 4 s"
proof
  assume ok: "be_u32 L nv s = Ok (s', v)"
  then have len: "4 \<le> length (fragment s)" and v: "v = of_nat (be_nat (take 4 (fragment s)))"
    and s': "s' = span_slice_from 4 s"
    by (auto simp: be_u32_eq split: if_splits)
  have "bo_write_u32 L v = take 4 (fragment s)"
    using len v be_nat_bound [of "take 4 (fragment s)"]
    by (simp add: write_u32_law unat_of_nat_u32_id be_bytes_be_nat)
  then show "(\<exists>bs. fragment s = bo_write_u32 L v @ bs) \<and> s' = span_slice_from 4 s"
    using s' append_take_drop_id [of 4 "fragment s"] by (metis (full_types))
next
  assume "(\<exists>bs. fragment s = bo_write_u32 L v @ bs) \<and> s' = span_slice_from 4 s"
  then show "be_u32 L nv s = Ok (s', v)" using be_u32_write by blast
qed

lemma be_nat_write [simp]:
  "word_of_nat (be_nat (bo_write_u16 L v)) = (v :: u16)"
  "word_of_nat (be_nat (bo_write_u32 L w)) = (w :: u32)"
  by (simp_all add: write_u16_law write_u32_law)

lemma length_data_Ok:
  assumes "fragment s = b # data @ rest" "unat b = length data"
  shows "length_data L nv s =
    Ok (span_slice_from (Suc (length data)) s, \<lparr>offset = Suc (offset s), fragment = data\<rparr>)"
  using assms by (simp add: length_data_eq span_eqI)

lemma length_count_Ok:
  assumes "fragment s = b # data @ rest" "unat b = length data"
  shows "length_count L nv s = Ok (span_slice_from (Suc (length data)) s, data)"
  using assms by (simp add: length_count_eq)

lemma length_data_OkD:
  assumes "length_data L nv s = Ok (s', d)"
  shows "\<exists>n. 0 < n \<and> n \<le> length (fragment s) \<and> s' = span_slice_from n s \<and> length (fragment d) < n
    \<and> length (fragment d) \<le> 255"
proof -
  from assms obtain b bs where "fragment s = b # bs" "unat b \<le> length bs"
    "s' = span_slice_from (Suc (unat b)) s" "d = span_slice_to (unat b) (span_slice_from 1 s)"
    by (auto simp: length_data_eq split: list.splits if_splits)
  then show ?thesis by (intro exI [of _ "Suc (unat b)"]) simp
qed

lemma length_data_size:
  "length_data L nv s = Ok (s', d) \<Longrightarrow> s' = span_slice_from (Suc (length (fragment d))) s"
  by (auto simp: length_data_eq split: list.splits if_splits)

lemma length_count_size:
  "length_count L nv s = Ok (s', bs) \<Longrightarrow> s' = span_slice_from (Suc (length bs)) s"
  by (auto simp: length_count_eq split: list.splits if_splits)

lemma length_count_OkD:
  assumes "length_count L nv s = Ok (s', bs)"
  shows "\<exists>n. 0 < n \<and> n \<le> length (fragment s) \<and> s' = span_slice_from n s \<and> length bs \<le> 255"
proof -
  from assms obtain b rest where "fragment s = b # rest" "unat b \<le> length rest"
    "s' = span_slice_from (Suc (unat b)) s" "bs = take (unat b) rest"
    by (auto simp: length_count_eq split: list.splits if_splits)
  then show ?thesis by (intro exI [of _ "Suc (unat b)"]) simp
qed

lemma take_all:
  "take_span L nv (span_len s) s =
    Ok (span_slice_from (length (fragment s)) s, span_slice_to (length (fragment s)) s)"
  by (simp add: take_span_eq span_len_def)

end

lemma map_res_Ok_iff:
  "map_res p f external s = Ok (s', u) \<longleftrightarrow> (\<exists>v. p s = Ok (s', v) \<and> f v = Ok u)"
  by (cases "p s") (auto simp: map_res_def split: result.splits)

context wire_lib_laws
begin

text \<open>A tag octet, converted, alone and with the rest of the span.\<close>

lemma tag_iff:
  "rbind (map_res (be_u8 L nv) f external s) (\<lambda>(buf, tag). g tag buf) = Ok r \<longleftrightarrow>
   (\<exists>b bs tag. fragment s = b # bs \<and> f b = Ok tag \<and> g tag (span_slice_from 1 s) = Ok r)"
  by (cases "fragment s") (auto simp: map_res_def be_u8_eq split: result.splits)

lemma tag_rest_iff:
  "rbind (map_res (be_u8 L nv) f external s) (\<lambda>(buf, tag).
     rbind (take_span L nv' (span_len buf) buf) (\<lambda>(buf, rest). g tag buf rest)) = Ok (s', v) \<longleftrightarrow>
   (\<exists>b bs tag. fragment s = b # bs \<and> f b = Ok tag \<and>
     g tag (span_slice_from (length (fragment s)) s) \<lparr>offset = offset s + 1, fragment = bs\<rparr> = Ok (s', v))"
proof (cases "fragment s")
  case Nil
  then show ?thesis by (simp add: map_res_def be_u8_eq)
next
  case (Cons b bs)
  have eq: "span_slice_to (length bs) (span_slice_from (Suc 0) s) = \<lparr>offset = Suc (offset s), fragment = bs\<rparr>"
    by (rule span_eqI) (simp_all add: Cons)
  from Cons show ?thesis
    by (cases "f b") (simp_all add: map_res_def be_u8_eq take_all eq)
qed

end

section \<open>Readers that make progress, and codecs\<close>

text \<open>
  A reader that always consumes at least one byte of its span when it succeeds: the
  loop over it ends, and what it leaves is a suffix of its input.
\<close>

locale progressing_reader =
  fixes read :: "span \<Rightarrow> ('v, 'e) iresult"
  assumes progress: "read s = Ok (s', v) \<Longrightarrow>
    \<exists>n. 0 < n \<and> n \<le> length (fragment s) \<and> s' = span_slice_from n s"
begin

lemma shrinks: "read s = Ok (s', v) \<Longrightarrow> length (fragment s') < length (fragment s)"
  using progress by fastforce

lemma till_empty_returns: "\<exists>r. parse_till_empty read s acc = Some r"
proof (induction "length (fragment s)" arbitrary: s acc rule: less_induct)
  case less
  show ?case
  proof (cases "span_is_empty s")
    case True
    then show ?thesis by (simp add: parse_till_empty.simps)
  next
    case False
    show ?thesis
    proof (cases "read s")
      case (Ok r)
      then have "length (fragment (fst r)) < length (fragment s)"
        using shrinks [of s "fst r" "snd r"] by simp
      from less [OF this] show ?thesis
        using False Ok by (simp add: parse_till_empty.simps [of read s])
    next
      case (Err e)
      with False show ?thesis by (simp add: parse_till_empty.simps)
    qed
  qed
qed

lemma till_empty_not_None: "parse_till_empty read s acc \<noteq> None"
  using till_empty_returns [of s acc] by auto

lemma till_empty_size:
  assumes k: "\<And>s s' v. read s = Ok (s', v) \<Longrightarrow> length (fragment s') + k = length (fragment s)"
  shows "parse_till_empty read s acc = Some (Ok (s', vs)) \<Longrightarrow>
    k * length vs = k * length acc + length (fragment s)"
proof (induction "length (fragment s)" arbitrary: s acc rule: less_induct)
  case less
  show ?case
  proof (cases "span_is_empty s")
    case True
    with less.prems show ?thesis by (simp add: parse_till_empty.simps [of read s] span_is_empty_def)
  next
    case False
    with less.prems obtain r where r: "read s = Ok r"
      and rec: "parse_till_empty read (fst r) (acc @ [snd r]) = Some (Ok (s', vs))"
      by (cases "read s") (auto simp: parse_till_empty.simps [of read s])
    have "length (fragment (fst r)) < length (fragment s)" "length (fragment (fst r)) + k = length (fragment s)"
      using shrinks [of s "fst r" "snd r"] k [of s "fst r" "snd r"] r by simp_all
    with less.hyps [OF _ rec] show ?thesis by simp
  qed
qed

lemma located_progressing: "progressing_reader (parse_into_located variant read)"
proof
  fix s s' v assume "parse_into_located variant read s = Ok (s', v)"
  then have "read s = Ok (s', v)" by (auto simp: parse_into_located_def split: result.splits)
  then show "\<exists>n>0. n \<le> length (fragment s) \<and> s' = span_slice_from n s" by (rule progress)
qed

lemma till_empty_consumes:
  "parse_till_empty read s acc = Some (Ok (s', vs)) \<Longrightarrow> fragment s' = []"
proof (induction "length (fragment s)" arbitrary: s acc rule: less_induct)
  case less
  show ?case
  proof (cases "span_is_empty s")
    case True
    with less.prems show ?thesis
      by (simp add: parse_till_empty.simps [of read s] span_is_empty_def)
  next
    case False
    with less.prems obtain r where r: "read s = Ok r"
      and rec: "parse_till_empty read (fst r) (acc @ [snd r]) = Some (Ok (s', vs))"
      by (cases "read s") (auto simp: parse_till_empty.simps [of read s])
    have "length (fragment (fst r)) < length (fragment s)"
      using shrinks [of s "fst r" "snd r"] r by simp
    from less.hyps [OF this rec] show ?thesis .
  qed
qed

end

text \<open>
  A codec: an encoder and a reader that inverts it on every value the encoder is meant
  for, whatever bytes follow.
\<close>

locale pdu_codec = progressing_reader read
  for read :: "span \<Rightarrow> ('v, 'e) iresult" +
  fixes enc :: "'v \<Rightarrow> bytes" and wf :: "'v \<Rightarrow> bool"
  assumes read_enc: "wf v \<Longrightarrow> fragment s = enc v @ rest \<Longrightarrow>
    read s = Ok (span_slice_from (length (enc v)) s, v)"
begin

lemma enc_nonempty:
  assumes "wf v" shows "enc v \<noteq> []"
proof
  assume "enc v = []"
  with read_enc [OF assms, of "span_new []" "[]"]
  have "read (span_new []) = Ok (span_slice_from 0 (span_new []), v)" by simp
  from progress [OF this] show False by simp
qed

lemma located_codec: "pdu_codec (parse_into_located variant read) enc wf"
  by (intro pdu_codec.intro pdu_codec_axioms.intro located_progressing)
    (simp add: parse_into_located_def read_enc)

lemma till_empty_enc:
  assumes "\<forall>v \<in> set vs. wf v" "fragment s = concat (map enc vs)"
  shows "parse_till_empty read s acc =
    Some (Ok (span_slice_from (length (concat (map enc vs))) s, acc @ vs))"
  using assms
proof (induction vs arbitrary: s acc)
  case Nil
  then show ?case
    by (simp add: parse_till_empty.simps span_is_empty_def)
next
  case (Cons v vs)
  have ne: "\<not> span_is_empty s"
    using Cons.prems enc_nonempty [of v] by (simp add: span_is_empty_def)
  have rd: "read s = Ok (span_slice_from (length (enc v)) s, v)"
    using Cons.prems by (intro read_enc [where rest = "concat (map enc vs)"]) auto
  have "parse_till_empty read (span_slice_from (length (enc v)) s) (acc @ [v]) =
    Some (Ok (span_slice_from (length (concat (map enc vs))) (span_slice_from (length (enc v)) s),
      (acc @ [v]) @ vs))"
    using Cons.prems by (intro Cons.IH) auto
  then show ?case
    using ne rd by (simp add: parse_till_empty.simps [of read s])
qed

end

text \<open>The same contracts for readers whose loops are written as partial functions.\<close>

locale returning_codec =
  fixes read :: "span \<Rightarrow> ('v, 'e) iresult option" and enc :: "'v \<Rightarrow> bytes" and wf :: "'v \<Rightarrow> bool"
  assumes returns: "\<exists>r. read s = Some r"
    and progress: "read s = Some (Ok (s', v)) \<Longrightarrow>
      \<exists>n. 0 < n \<and> n \<le> length (fragment s) \<and> s' = span_slice_from n s"
    and read_enc: "wf v \<Longrightarrow> fragment s = enc v @ rest \<Longrightarrow>
      read s = Some (Ok (span_slice_from (length (enc v)) s, v))"
begin

sublocale total: pdu_codec "\<lambda>s. the (read s)" enc wf
proof
  fix s s' v assume "the (read s) = Ok (s', v)"
  then have "read s = Some (Ok (s', v))" using returns [of s] by auto
  then show "\<exists>n>0. n \<le> length (fragment s) \<and> s' = span_slice_from n s" by (rule progress)
qed (simp add: read_enc)

lemma read_shrinks: "read s = Some (Ok (s', v)) \<Longrightarrow> length (fragment s') < length (fragment s)"
  using total.shrinks [of s s' v] by simp

end

text \<open>
  A codec for a value that takes the rest of its span: exactly the encodings are accepted.
\<close>

locale tail_codec =
  fixes read :: "span \<Rightarrow> ('v, 'e) iresult" and enc :: "'v \<Rightarrow> bytes"
  assumes read_iff: "read s = Ok (s', v) \<longleftrightarrow>
    fragment s = enc v \<and> s' = span_slice_from (length (fragment s)) s"
begin

lemma tail_read_enc: "fragment s = enc v \<Longrightarrow> read s = Ok (span_slice_from (length (fragment s)) s, v)"
  by (simp add: read_iff)

lemma enc_inject: "enc v = enc w \<longleftrightarrow> v = w"
proof
  assume eq: "enc v = enc w"
  have "read (span_new (enc v)) = Ok (span_slice_from (length (enc v)) (span_new (enc v)), v)"
    using tail_read_enc [of "span_new (enc v)" v] by simp
  moreover have "read (span_new (enc v)) = Ok (span_slice_from (length (enc v)) (span_new (enc v)), w)"
    using tail_read_enc [of "span_new (enc v)" w] eq by simp
  ultimately show "v = w" by simp
qed simp

lemma located_iff:
  "parse_into_located variant read s = Ok (s', v) \<longleftrightarrow>
    fragment s = enc v \<and> s' = span_slice_from (length (fragment s)) s"
  by (simp add: parse_into_located_eq_Ok read_iff)

end

section \<open>A concrete instance of the primitives\<close>

text \<open>
  An instance that satisfies the laws, used where a statement is evaluated on a concrete
  datagram.
\<close>

definition prim_of :: "nat \<Rightarrow> (bytes \<Rightarrow> 'v) \<Rightarrow> span \<Rightarrow> 'v prim" where
  "prim_of n value s =
     (if n \<le> length (fragment s) then Ok (span_slice_from n s, value (take n (fragment s)))
      else Err (NError (s, Eof)))"

definition net_lib :: wire_lib where
  "net_lib = \<lparr>nom_be_u8 = prim_of 1 hd,
     nom_be_u16 = prim_of 2 (\<lambda>bs. of_nat (be_nat bs)),
     nom_be_u32 = prim_of 4 (\<lambda>bs. of_nat (be_nat bs)),
     nom_be_u64 = prim_of 8 (\<lambda>bs. of_nat (be_nat bs)),
     nom_be_u128 = prim_of 16 (\<lambda>bs. of_nat (be_nat bs)),
     nom_take = (\<lambda>n s. if n \<le> length (fragment s) then Ok (span_take_split n s)
                        else Err (NError (s, Eof))),
     nom_length_data_u8 = (\<lambda>s. case fragment s of [] \<Rightarrow> Err (NError (s, Eof))
       | b # bs \<Rightarrow> if unat b \<le> length bs
           then Ok (span_slice_from (1 + unat b) s, span_slice_to (unat b) (span_slice_from 1 s))
           else Err (NIncomplete (Some (unat b - length bs)))),
     nom_length_data_u16 = (\<lambda>s. if length (fragment s) < 2 then Err (NError (s, Eof))
       else let n = be_nat (take 2 (fragment s)) in
         if n + 2 \<le> length (fragment s)
         then Ok (span_slice_from (2 + n) s, span_slice_to n (span_slice_from 2 s))
         else Err (NIncomplete (Some (n + 2 - length (fragment s))))),
     nom_length_count_u8 = (\<lambda>s. case fragment s of [] \<Rightarrow> Err (NError (s, Eof))
       | b # bs \<Rightarrow> if unat b \<le> length bs then Ok (span_slice_from (1 + unat b) s, take (unat b) bs)
           else Err (NError (span_slice_from (length (fragment s)) s, Eof))),
     nom_many_u16 = (\<lambda>n s. if 2 * n \<le> length (fragment s)
       then Ok (span_slice_from (2 * n) s, be_words 2 n (fragment s)) else Err (NError (s, ManyMN))),
     nom_many_u32 = (\<lambda>n s. if 4 * n \<le> length (fragment s)
       then Ok (span_slice_from (4 * n) s, be_words 4 n (fragment s)) else Err (NError (s, ManyMN))),
     bo_read_u16 = (\<lambda>bs. of_nat (be_nat (take 2 bs))),
     bo_write_u16 = (\<lambda>v. be_bytes 2 (unat v)),
     bo_write_u32 = (\<lambda>v. be_bytes 4 (unat v)),
     bo_write_u64 = (\<lambda>v. be_bytes 8 (unat v))\<rparr>"

interpretation net: wire_lib_laws net_lib
  by unfold_locales (simp_all add: net_lib_def prim_spec_def prim_of_def)

end
