(* ===== verification/NC_BTreeMap.thy ===== *)
theory NC_BTreeMap
  imports NC_Prelude
begin

text \<open>
  Rust's \<open>BTreeMap\<close> as the sources use it: an association list kept in ascending key order.
  The interface \<open>ordered_map\<close> is what its clients rely on (what a lookup returns after an
  insertion, and that iteration is in key order); the lemmas proved from it are the ones the
  reassembly buffer uses.
\<close>

section \<open>The sorted association list\<close>

type_synonym ('k, 'v) btree_map = "('k \<times> 'v) list"

definition bt_new :: "('k, 'v) btree_map" where
  "bt_new = []"

primrec bt_insert :: "'k::linorder \<Rightarrow> 'v \<Rightarrow> ('k, 'v) btree_map \<Rightarrow> ('k, 'v) btree_map" where
  "bt_insert k v [] = [(k, v)]"
| "bt_insert k v (e # es) =
     (if k < fst e then (k, v) # e # es
      else if k = fst e then (k, v) # es
      else e # bt_insert k v es)"

definition bt_get :: "('k, 'v) btree_map \<Rightarrow> 'k \<rightharpoonup> 'v" where
  "bt_get m = map_of m"

definition bt_contains_key :: "('k, 'v) btree_map \<Rightarrow> 'k \<Rightarrow> bool" where
  "bt_contains_key m k \<longleftrightarrow> bt_get m k \<noteq> None"

definition bt_len :: "('k, 'v) btree_map \<Rightarrow> nat" where
  "bt_len m = length m"

definition bt_iter :: "('k, 'v) btree_map \<Rightarrow> ('k \<times> 'v) list" where
  "bt_iter m = m"

definition bt_into_values :: "('k, 'v) btree_map \<Rightarrow> 'v list" where
  "bt_into_values m = map snd m"

definition bt_ok :: "('k::linorder, 'v) btree_map \<Rightarrow> bool" where
  "bt_ok m \<longleftrightarrow> sorted (map fst m) \<and> distinct (map fst m)"

section \<open>The interface\<close>

locale ordered_map =
  fixes empty :: "'m" and insert :: "'k::linorder \<Rightarrow> 'v \<Rightarrow> 'm \<Rightarrow> 'm"
    and lookup :: "'m \<Rightarrow> 'k \<rightharpoonup> 'v" and entries :: "'m \<Rightarrow> ('k \<times> 'v) list" and ok :: "'m \<Rightarrow> bool"
  assumes ok_empty: "ok empty"
    and lookup_empty: "lookup empty = Map.empty"
    and ok_insert: "ok m \<Longrightarrow> ok (insert k v m)"
    and lookup_insert: "ok m \<Longrightarrow> lookup (insert k v m) = (lookup m)(k \<mapsto> v)"
    and entries_lookup: "ok m \<Longrightarrow> map_of (entries m) = lookup m"
    and entries_sorted: "ok m \<Longrightarrow> sorted (map fst (entries m))"
    and entries_distinct: "ok m \<Longrightarrow> distinct (map fst (entries m))"
begin

text \<open>The entries are determined by the lookup function: the order of insertions does not show.\<close>

lemma entries_unique:
  assumes "ok m" "ok m'" "lookup m = lookup m'"
  shows "entries m = entries m'"
proof -
  have eq: "map_of (entries m) = map_of (entries m')"
    using assms by (simp add: entries_lookup)
  then have "set (entries m) = set (entries m')"
    using assms map_of_inject_set [of "entries m" "entries m'"] by (simp add: entries_distinct)
  moreover have "distinct (entries m)" "distinct (entries m')"
    using assms entries_distinct distinct_map by blast+
  moreover have "map fst (entries m) = map fst (entries m')"
    using calculation assms
    by (intro sorted_distinct_set_unique) (auto simp: entries_sorted entries_distinct dest: arg_cong [of _ _ "image fst"])
  moreover have "inj_on fst (set (entries m) \<union> set (entries m'))"
    using assms calculation(1) by (simp add: entries_distinct distinct_map [symmetric] eq_key_imp_eq_value
        inj_on_def) (metis entries_distinct eq_key_imp_eq_value prod.collapse)
  ultimately show ?thesis by (metis inj_on_map_eq_map)
qed

lemma ok_fold: "ok m \<Longrightarrow> ok (fold (\<lambda>(k, v). insert k v) kvs m)"
  by (induction kvs arbitrary: m) (auto simp: ok_insert)

lemma lookup_fold:
  "ok m \<Longrightarrow> distinct (map fst kvs) \<Longrightarrow> lookup (fold (\<lambda>(k, v). insert k v) kvs m) = lookup m ++ map_of kvs"
proof (induction kvs arbitrary: m)
  case (Cons kv kvs)
  then have "fst kv \<notin> dom (map_of kvs)" by (simp add: dom_map_of_conv_image_fst)
  then have "lookup (insert (fst kv) (snd kv) m) ++ map_of kvs = lookup m ++ map_of (kv # kvs)"
    using Cons.prems(1) by (simp only: lookup_insert map_of_Cons_add not_False_eq_True)
  moreover have "lookup (fold (\<lambda>(k, v). insert k v) kvs (insert (fst kv) (snd kv) m)) =
      lookup (insert (fst kv) (snd kv) m) ++ map_of kvs"
    using Cons by (simp add: ok_insert)
  ultimately show ?case by (cases kv) (simp only: fold_simps prod.case fst_conv snd_conv)
qed simp

lemma keys_eq_dom: "ok m \<Longrightarrow> set (map fst (entries m)) = dom (lookup m)"
  by (simp add: dom_map_of_conv_image_fst flip: entries_lookup)

text \<open>Inserting distinct keys in any order yields the entries in key order.\<close>

lemma entries_fold_sorted:
  assumes "distinct (map fst kvs)" "sorted (map fst es)" "set es = set kvs" "distinct es"
  shows "entries (fold (\<lambda>(k, v). insert k v) kvs empty) = es"
proof -
  let ?m = "fold (\<lambda>(k, v). insert k v) kvs empty"
  have ok: "ok ?m" by (simp add: ok_fold ok_empty)
  have l: "lookup ?m = map_of kvs"
    using assms(1) by (simp add: lookup_fold ok_empty lookup_empty)
  have inj: "inj_on fst (set es)" using assms(1,3) by (simp add: distinct_map)
  have des: "distinct (map fst es)" using assms(4) inj by (simp add: distinct_map)
  have s: "set (entries ?m) = set es"
    using l map_of_inject_set [of "entries ?m" kvs] assms(1,3) ok
    by (simp add: entries_lookup entries_distinct)
  have "map fst (entries ?m) = map fst es"
    using s des assms(2) ok
    by (intro sorted_distinct_set_unique) (auto simp: entries_sorted entries_distinct dest: arg_cong [of _ _ "image fst"])
  then show ?thesis using s inj by (metis inj_on_map_eq_map sup.idem)
qed

end

section \<open>The sorted association list implements the interface\<close>

lemma bt_insert_keys: "set (map fst (bt_insert k v m)) = Set.insert k (set (map fst m))"
  by (induction m) auto

lemma bt_ok_insert: "bt_ok m \<Longrightarrow> bt_ok (bt_insert k v m)"
proof (induction m)
  case (Cons e m)
  then have "bt_ok (bt_insert k v m)" by (simp add: bt_ok_def)
  with Cons show ?case using bt_insert_keys [of k v m] by (auto simp: bt_ok_def)
qed (simp add: bt_ok_def)

lemma bt_get_insert: "bt_get (bt_insert k v m) = (bt_get m)(k \<mapsto> v)"
  by (induction m) (auto simp: bt_get_def fun_eq_iff)

lemma bt_len_insert:
  "bt_ok m \<Longrightarrow> bt_len (bt_insert k v m) = (if bt_contains_key m k then bt_len m else Suc (bt_len m))"
proof (induction m)
  case (Cons e m)
  have "map_of m k = None" if "k < fst e"
    using that Cons.prems by (force simp: bt_ok_def map_of_eq_None_iff)
  with Cons show ?case by (auto simp: bt_len_def bt_contains_key_def bt_get_def bt_ok_def)
qed (simp add: bt_len_def bt_contains_key_def bt_get_def)

interpretation bt: ordered_map bt_new bt_insert bt_get bt_iter bt_ok
  by unfold_locales
    (simp_all add: bt_new_def bt_ok_insert bt_get_insert bt_iter_def, simp_all add: bt_ok_def bt_get_def)

end
