(* ===== verification/Udp_Notif_Wire.thy ===== *)
theory Udp_Notif_Wire
  imports NC_Wire
begin

unbundle bit_operations_syntax

text \<open>
  UDP-Notif messages: the packet of \<open>crates/udp-notif-pkt/src/raw.rs\<close>, its parser
  (\<open>wire/deserialize.rs\<close>) and its serializer (\<open>wire/serialize.rs\<close>).  The option map of a
  packet is a Rust \<open>HashMap\<close>: it is a HOL map, and the order in which the serializer meets its
  entries is an argument, because the standard library leaves it open.
\<close>

section \<open>Data\<close>

datatype (plugins only: code) MediaType = Reserved | YangDataJson | YangDataXml | YangDataCbor | Unknown u8

definition MediaType_from_u8 :: "u8 \<Rightarrow> MediaType" where
  "MediaType_from_u8 value =
     (if value = 0 then Reserved
      else if value = 1 then YangDataJson
      else if value = 2 then YangDataXml
      else if value = 3 then YangDataCbor
      else MediaType.Unknown value)"

fun u8_from_MediaType :: "MediaType \<Rightarrow> u8" where
  "u8_from_MediaType Reserved = 0"
| "u8_from_MediaType YangDataJson = 1"
| "u8_from_MediaType YangDataXml = 2"
| "u8_from_MediaType YangDataCbor = 3"
| "u8_from_MediaType (MediaType.Unknown value) = value"

text \<open>\<open>MediaTypeNames::from(mt) == MediaTypeNames::Unknown\<close>.\<close>

fun media_type_is_unknown :: "MediaType \<Rightarrow> bool" where
  "media_type_is_unknown (MediaType.Unknown value) = True"
| "media_type_is_unknown mt = False"

datatype (plugins only: code) UdpNotifOptionCode = Segment | PrivateEncoding | Unknown u8

definition UdpNotifOptionCode_from_u8 :: "u8 \<Rightarrow> UdpNotifOptionCode" where
  "UdpNotifOptionCode_from_u8 value =
     (if value = 1 then UdpNotifOptionCode.Segment
      else if value = 2 then UdpNotifOptionCode.PrivateEncoding
      else UdpNotifOptionCode.Unknown value)"

datatype (plugins only: code) UdpNotifOption =
    Segment u16 bool
  | PrivateEncoding bytes
  | Unknown u8 bytes

fun option_code :: "UdpNotifOption \<Rightarrow> UdpNotifOptionCode" where
  "option_code (UdpNotifOption.Segment number lst) = UdpNotifOptionCode.Segment"
| "option_code (UdpNotifOption.PrivateEncoding value) = UdpNotifOptionCode.PrivateEncoding"
| "option_code (UdpNotifOption.Unknown typ value) = UdpNotifOptionCode.Unknown typ"

type_synonym option_map = "UdpNotifOptionCode \<rightharpoonup> UdpNotifOption"

record UdpNotifPacket =
  media_type :: MediaType
  publisher_id :: u32
  message_id :: u32
  options :: option_map
  payload :: bytes

definition UdpNotifPacket_new ::
  "MediaType \<Rightarrow> u32 \<Rightarrow> u32 \<Rightarrow> option_map \<Rightarrow> bytes \<Rightarrow> UdpNotifPacket" where
  "UdpNotifPacket_new mt pub msg opts pl =
     \<lparr>media_type = mt, publisher_id = pub, message_id = msg, options = opts, payload = pl\<rparr>"

section \<open>Parsing\<close>

datatype (plugins only: code) UdpNotifOptionParsingError =
    NomError ErrorKind
  | InvalidOptionLength u8

definition UdpNotifOption_from_wire ::
  "wire_lib \<Rightarrow> span \<Rightarrow> (UdpNotifOption, UdpNotifOptionParsingError) iresult" where
  "UdpNotifOption_from_wire L buf =
     rbind (be_u8 L UdpNotifOptionParsingError.NomError buf) (\<lambda>(buf, typ).
     let input = buf in
     rbind (be_u8 L UdpNotifOptionParsingError.NomError buf) (\<lambda>(buf, option_len).
     if option_len < 2
     then Err (NError (Located input (InvalidOptionLength option_len)))
     else rbind (take_span L UdpNotifOptionParsingError.NomError (unat (option_len - 2)) buf) (\<lambda>(buf, value_buf).
       if typ = 1
       then rbind (be_u8 L UdpNotifOptionParsingError.NomError value_buf) (\<lambda>(value_buf, high).
            rbind (be_u8 L UdpNotifOptionParsingError.NomError value_buf) (\<lambda>(_, low).
            let number = push_bit 7 (ucast high :: u16) OR drop_bit 1 (ucast low :: u16);
                lst = (low AND 1 \<noteq> 0)
            in Ok (buf, UdpNotifOption.Segment number lst)))
       else if typ = 2
       then Ok (buf, UdpNotifOption.PrivateEncoding (fragment value_buf))
       else Ok (buf, UdpNotifOption.Unknown typ (fragment value_buf)))))"

datatype (plugins only: code) UdpNotifPacketParsingError =
    NomError ErrorKind
  | InvalidVersion u8
  | InvalidSFlag
  | UdpNotifOptionError UdpNotifOptionParsingError
  | InvalidHeaderLength u8
  | InvalidMessageLength u16
  | PrivateEncodingOptionIsNotPresent

text \<open>
  The parser up to the option loop: the lengths of the first word, the version, the S
  flag and media type, the header bounds and the fixed header fields.
\<close>

record udp_header =
  h_payload_len :: nat
  h_s_flag :: bool
  h_media_type :: MediaType
  h_header_buf_input :: span
  h_publisher_id :: u32
  h_message_id :: u32
  h_options_buf :: span

definition UdpNotifPacket_header ::
  "wire_lib \<Rightarrow> span \<Rightarrow> (udp_header, UdpNotifPacketParsingError) iresult" where
  "UdpNotifPacket_header L buf =
    (let nom = UdpNotifPacketParsingError.NomError;
         fail = (\<lambda>at e. Err (NError (Located at e))) in
     if span_len buf < 12 then fail buf (nom Eof)
     else rbind (be_u32 L nom buf) (\<lambda>(_, first_word).
     let message_len = (ucast (first_word AND 0x0000ffff) :: u16);
         header_len = (ucast (drop_bit 16 (first_word AND 0x00ff0000)) :: u8) in
     if (ucast header_len :: u16) > message_len
     then fail buf (UdpNotifPacketParsingError.InvalidHeaderLength header_len)
     else
     let payload_len = unat message_len - unat header_len;
         input = buf in
     rbind (be_u8 L nom buf) (\<lambda>(buf, first_octet).
     let version = drop_bit 5 first_octet AND 0b111 in
     if version \<noteq> 1 then fail input (InvalidVersion version)
     else
     let s_flag = (first_octet AND 0b00010000 \<noteq> 0);
         mt = MediaType_from_u8 (first_octet AND 0b00001111) in
     if s_flag \<and> \<not> media_type_is_unknown mt then fail input InvalidSFlag
     else rbind (be_u8 L nom buf) (\<lambda>(buf, header_len).
     if header_len < 2
     then fail input (UdpNotifPacketParsingError.InvalidHeaderLength header_len)
     else if span_len buf < unat (header_len - 2)
     then fail input (UdpNotifPacketParsingError.InvalidHeaderLength header_len)
     else
     let header_buf_input = buf in
     rbind (take_span L nom (unat (header_len - 2)) buf) (\<lambda>(buf, header_buf).
     rbind (be_u16 L nom header_buf) (\<lambda>(header_buf, _).
     rbind (be_u32 L nom header_buf) (\<lambda>(header_buf, pub).
     rbind (be_u32 L nom header_buf) (\<lambda>(header_buf, msg).
     Ok (buf, \<lparr>h_payload_len = payload_len, h_s_flag = s_flag, h_media_type = mt,
               h_header_buf_input = header_buf_input, h_publisher_id = pub,
               h_message_id = msg, h_options_buf = header_buf\<rparr>)))))))))"

definition insert_option :: "option_map \<Rightarrow> UdpNotifOption \<Rightarrow> option_map" where
  "insert_option opts opt = opts(option_code opt \<mapsto> opt)"

text \<open>
  The option loop.  It runs until the header is used up; \<open>None\<close> would be a run that never
  ends.
\<close>

partial_function (option) UdpNotifPacket_options ::
  "wire_lib \<Rightarrow> bool \<Rightarrow> span \<Rightarrow> option_map \<Rightarrow> bool \<Rightarrow>
     (option_map \<times> bool, UdpNotifPacketParsingError located nom_err) result option" where
  "UdpNotifPacket_options L s_flag header_buf opts private_is_correct =
     (if span_is_empty header_buf then Some (Ok (opts, private_is_correct))
      else (case parse_into_located UdpNotifOptionError (UdpNotifOption_from_wire L) header_buf of
          Err e \<Rightarrow> Some (Err e)
        | Ok (t, opt) \<Rightarrow>
            UdpNotifPacket_options L s_flag t (insert_option opts opt)
              (if s_flag \<and> option_code opt = UdpNotifOptionCode.PrivateEncoding then True
               else private_is_correct)))"

definition UdpNotifPacket_from_wire ::
  "wire_lib \<Rightarrow> span \<Rightarrow> (UdpNotifPacket, UdpNotifPacketParsingError) iresult option" where
  "UdpNotifPacket_from_wire L buf =
     (case UdpNotifPacket_header L buf of
        Err e \<Rightarrow> Some (Err e)
      | Ok (buf, h) \<Rightarrow>
         (case UdpNotifPacket_options L (h_s_flag h) (h_options_buf h) Map.empty (\<not> h_s_flag h) of
            None \<Rightarrow> None
          | Some (Err e) \<Rightarrow> Some (Err e)
          | Some (Ok (opts, private_is_correct)) \<Rightarrow>
              if \<not> private_is_correct
              then Some (Err (NError (Located (h_header_buf_input h) PrivateEncodingOptionIsNotPresent)))
              else Some (rbind (take_span L UdpNotifPacketParsingError.NomError (h_payload_len h) buf)
                (\<lambda>(buf, pl). Ok (buf, UdpNotifPacket_new (h_media_type h) (h_publisher_id h)
                   (h_message_id h) opts (fragment pl))))))"

section \<open>Serializing\<close>

datatype (plugins only: code) UdpNotifOptionWritingError = StdIOError string

fun UdpNotifOption_len :: "UdpNotifOption \<Rightarrow> nat" where
  "UdpNotifOption_len (UdpNotifOption.Segment number lst) = 2 + 2"
| "UdpNotifOption_len (UdpNotifOption.PrivateEncoding value) = 2 + length value"
| "UdpNotifOption_len (UdpNotifOption.Unknown typ value) = 2 + length value"

fun UdpNotifOption_write :: "wire_lib \<Rightarrow> UdpNotifOption \<Rightarrow> UdpNotifOptionWritingError writing" where
  "UdpNotifOption_write L (UdpNotifOption.Segment number lst) =
     wseq (wput [1]) (wseq (wput [4])
       (wput (bo_write_u16 L (push_bit 1 number OR (if lst then 1 else 0)))))"
| "UdpNotifOption_write L (UdpNotifOption.PrivateEncoding value) =
     wseq (wput [2]) (wseq (wput [of_nat (length value) + 2]) (wput value))"
| "UdpNotifOption_write L (UdpNotifOption.Unknown typ value) =
     wseq (wput [typ]) (wseq (wput [of_nat (length value) + 2]) (wput value))"

datatype (plugins only: code) UdpNotifPacketWritingError =
    StdIOError string
  | InvalidHeaderLength nat
  | InvalidMessageLength nat
  | OptionError UdpNotifOptionWritingError

text \<open>
  \<open>es\<close> lists the entries of the option map in the order the iteration of the \<open>HashMap\<close> yields
  them.
\<close>

definition UdpNotifPacket_len :: "UdpNotifPacket \<Rightarrow> UdpNotifOption list \<Rightarrow> nat" where
  "UdpNotifPacket_len p es = 12 + sum_list (map UdpNotifOption_len es) + length (payload p)"

definition first_byte :: "MediaType \<Rightarrow> u8" where
  "first_byte mt =
     (let version = (0x01 :: u8); b = push_bit 5 version;
          b = (if media_type_is_unknown mt then b OR 0x10 else b)
      in b OR u8_from_MediaType mt)"

definition UdpNotifPacket_write ::
  "wire_lib \<Rightarrow> UdpNotifPacket \<Rightarrow> UdpNotifOption list \<Rightarrow> UdpNotifPacketWritingError writing" where
  "UdpNotifPacket_write L p es =
     wseq (wput [first_byte (media_type p)])
     (let header_len = 12 + sum_list (map UdpNotifOption_len es) in
      if header_len > 255 then wfail (UdpNotifPacketWritingError.InvalidHeaderLength header_len)
      else wseq (wput [of_nat header_len])
      (let message_len = header_len + length (payload p) in
       if message_len > 65535
       then wfail (UdpNotifPacketWritingError.InvalidMessageLength message_len)
       else wseq (wput (bo_write_u16 L (of_nat message_len)))
           (wseq (wput (bo_write_u32 L (publisher_id p)))
           (wseq (wput (bo_write_u32 L (message_id p)))
           (wseq (wseqs (map (\<lambda>opt. wmap_err OptionError (UdpNotifOption_write L opt)) es))
                 (wput (payload p)))))))"

section \<open>Well-formedness\<close>

text \<open>
  The options the format can carry: a segment number has 15 bits, a value fits the length
  octet, and the type octets 1 and 2 are taken.
\<close>

fun option_wf :: "UdpNotifOption \<Rightarrow> bool" where
  "option_wf (UdpNotifOption.Segment number lst) \<longleftrightarrow> unat number < 2 ^ 15"
| "option_wf (UdpNotifOption.PrivateEncoding value) \<longleftrightarrow> length value \<le> 253"
| "option_wf (UdpNotifOption.Unknown typ value) \<longleftrightarrow> typ \<noteq> 1 \<and> typ \<noteq> 2 \<and> length value \<le> 253"

text \<open>
  A media type the first octet can carry next to the S flag, which the serializer derives
  from the media type: an unknown one needs the private encoding option.
\<close>

fun media_type_wf :: "MediaType \<Rightarrow> option_map \<Rightarrow> bool" where
  "media_type_wf (MediaType.Unknown v) opts \<longleftrightarrow>
     4 \<le> v \<and> v \<le> 15 \<and> UdpNotifOptionCode.PrivateEncoding \<in> dom opts"
| "media_type_wf mt opts \<longleftrightarrow> True"

text \<open>
  The list an iteration of the option map yields: its entries, each once, in some order.
\<close>

definition enumerates :: "UdpNotifOption list \<Rightarrow> option_map \<Rightarrow> bool" where
  "enumerates es m \<longleftrightarrow>
     distinct (map option_code es) \<and> m = map_of (map (\<lambda>opt. (option_code opt, opt)) es)"

text \<open>The length octets of a datagram are consistent with each other and with its size.\<close>

definition udp_length_ok :: "bytes \<Rightarrow> bool" where
  "udp_length_ok fr \<longleftrightarrow> 12 \<le> unat (fr ! 1) \<and> unat (fr ! 1) \<le> length fr \<and>
     unat (fr ! 1) \<le> be_nat [fr ! 2, fr ! 3]"

abbreviation option_bytes :: "wire_lib \<Rightarrow> UdpNotifOption \<Rightarrow> bytes" where
  "option_bytes L opt \<equiv> fst (UdpNotifOption_write L opt)"

section \<open>Bit fields\<close>

lemma u16_high: "(of_nat (unat (w::u16) div 256) :: u8) = ucast (drop_bit 8 w)"
proof -
  have "unat (drop_bit 8 w) = unat w div 256"
    by (simp add: unat_drop_bit_eq drop_bit_eq_div unat_div_distrib)
  then show ?thesis by (metis of_nat_unat)
qed

lemma seg_last: "(ucast (push_bit 1 n OR (if l then 1 else 0) :: u16) :: u8) AND 1 \<noteq> 0 \<longleftrightarrow> l"
proof -
  have "(ucast (push_bit 1 n OR (if l then 1 else 0) :: u16) :: u8) AND 1 = (if l then 1 else 0)"
    by (rule bit_word_eqI) (auto simp: bit_simps bit_0 intro!: gr0I)
  then show ?thesis by simp
qed

lemma first_word_low: "ucast ((w::u32) AND 0x0000ffff) = (of_nat (unat w mod 65536) :: u16)"
proof -
  have "w AND 0xffff = take_bit 16 w" by (simp add: take_bit_eq_mask mask_eq_exp_minus_1)
  then have "ucast (w AND 0xffff) = (ucast (take_bit 16 w) :: u16)" by simp
  also have "\<dots> = of_nat (unat (take_bit 16 w))" by simp
  also have "unat (take_bit 16 w) = unat w mod 65536" by (simp add: unsigned_take_bit_eq take_bit_eq_mod unat_mod_distrib)
  finally show ?thesis .
qed

lemma first_word_mid: "ucast (drop_bit 16 ((w::u32) AND 0x00ff0000)) = (of_nat (unat w div 65536 mod 256) :: u8)"
proof -
  have e: "(0x00ff0000::u32) = push_bit 16 (mask 8)" by (simp add: mask_eq_exp_minus_1)
  have "drop_bit 16 (w AND 0x00ff0000) = take_bit 8 (drop_bit 16 w)"
    unfolding e by (rule bit_word_eqI) (auto simp: bit_simps)
  then have "(ucast (drop_bit 16 (w AND 0x00ff0000)) :: u8) = of_nat (unat (take_bit 8 (drop_bit 16 w)))" by simp
  also have "unat (take_bit 8 (drop_bit 16 w)) = unat w div 65536 mod 256"
    by (simp add: unsigned_take_bit_eq take_bit_eq_mod unat_drop_bit_eq drop_bit_eq_div unat_mod_distrib unat_div_distrib)
  finally show ?thesis .
qed
lemma seg_bit: "bit ((n::u16) * 2) (Suc k) \<longleftrightarrow> k < 15 \<and> bit n k"
proof -
  have "n * 2 = push_bit 1 n" by simp
  then have "bit (n * 2) (Suc k) = bit (push_bit 1 n) (Suc k)" by (rule arg_cong)
  also have "\<dots> \<longleftrightarrow> k < 15 \<and> bit n k" unfolding bit_push_bit_iff by auto
  finally show ?thesis .
qed

lemma not_bit_15: assumes "unat (n::u16) < 2^15" shows "\<not> bit n 15"
proof -
  have "bit n 15 = bit (unat n) 15" by (simp add: bit_unsigned_iff)
  also have "\<dots> = odd (unat n div 2^15)" by (rule bit_iff_odd)
  finally show ?thesis using assms by simp
qed

lemma seg_num: assumes "unat (n::u16) < 2^15"
  shows "push_bit 7 (ucast (ucast (drop_bit 8 (push_bit 1 n OR (if l then 1 else 0)))::u8)) OR drop_bit 1 (ucast (ucast (push_bit 1 n OR (if l then 1 else 0)::u16) ::u8) :: u16) = n" (is "?l = n")
proof (rule bit_word_eqI)
  fix k assume k: "k < LENGTH(16)"
  have e: "8 + (k - 7) = Suc k" if "7 \<le> k" using that by simp
  show "bit ?l k = bit n k"
    using k not_bit_15 [OF assms] by (cases "k = 15"; cases "7 \<le> k") (auto simp: bit_simps seg_bit e)
qed

lemma seg_num_bound: "unat (push_bit 7 (ucast (h::u8) :: u16) OR drop_bit 1 (ucast (l::u8))) < 2^15"
proof -
  let ?w = "push_bit 7 (ucast (h::u8) :: u16) OR drop_bit 1 (ucast (l::u8))"
  have "?w = take_bit 15 ?w" by (rule bit_word_eqI) (auto simp: bit_simps dest: bit_imp_le_length)
  then have "unat ?w = unat (take_bit 15 ?w)" by (rule arg_cong)
  also have "\<dots> = take_bit 15 (unat ?w)" by (rule unsigned_take_bit_eq)
  also have "\<dots> < 2^15" by (rule take_bit_nat_less_exp)
  finally show ?thesis .
qed

lemma first_word_message_len:
  "ucast ((of_nat (be_nat [a,b,c,d]) :: u32) AND 0xffff) = (of_nat (be_nat [c,d]) :: u16)"
proof -
  have "be_nat [c,d] < 65536" using be_nat_bound [of "[c,d]"] by simp
  moreover have "be_nat [a,b,c,d] < 4294967296" using be_nat_bound [of "[a,b,c,d]"] by simp
  moreover have "(16777216 * x + 65536 * y + z) mod 65536 = z" if "z < 65536" for x y z :: nat
  proof -
    have "16777216 * x + 65536 * y + z = z + (256 * x + y) * 65536" by simp
    then show ?thesis using that by (simp only: mod_mult_self1) simp
  qed
  ultimately show ?thesis unfolding first_word_low by (simp only: unat_of_nat_u32_id) (simp add: be_nat_4)
qed

lemma first_word_header_len:
  "ucast (drop_bit 16 ((of_nat (be_nat [a,b,c,d]) :: u32) AND 0x00ff0000)) = b"
proof -
  have "be_nat [c,d] < 65536" using be_nat_bound [of "[c,d]"] by simp
  moreover have "unat b < 256" by simp
  moreover have "be_nat [a,b,c,d] < 4294967296" using be_nat_bound [of "[a,b,c,d]"] by simp
  moreover have "(16777216 * unat a + 65536 * unat b + be_nat [c,d]) div 65536 = 256 * unat a + unat b" using \<open>be_nat [c,d] < 65536\<close> by simp
  ultimately show ?thesis unfolding first_word_mid by (simp only: unat_of_nat_u32_id) (simp add: be_nat_4)
qed

lemma first_word_header_len':
  "ucast (drop_bit 16 (of_nat (be_nat [a,b,c,d]) :: u32) AND 0xff) = b"
  using first_word_header_len [of a b c d] by simp

lemma unat_msg_len: "unat (of_nat (be_nat [c,d]) :: u16) = be_nat [c,d]"
  using be_nat_bound [of "[c,d]"] by (simp add: unat_of_nat)

section \<open>Options\<close>

lemma tlv_len: "n \<le> 253 \<Longrightarrow> unat (of_nat n + 2 :: u8) = n + 2"
proof -
  assume "n \<le> 253"
  then have "unat (of_nat (n + 2) :: u8) = n + 2" unfolding unat_of_nat by simp
  then show ?thesis by (simp add: add.commute)
qed
lemma tlv_ge: "n \<le> 253 \<Longrightarrow> \<not> (of_nat n + 2 :: u8) < 2" 
  using tlv_len [of n] by (simp add: word_less_nat_alt)
lemma tlv_sub: "n \<le> 253 \<Longrightarrow> unat (of_nat n :: u8) = n"
  unfolding unat_of_nat by simp

context wire_lib_laws
begin

lemma option_from_wire_write:
  assumes wf: "option_wf opt" and fr: "fragment s = fst (UdpNotifOption_write L opt) @ rest"
  shows "UdpNotifOption_from_wire L s =
    Ok (span_slice_from (length (fst (UdpNotifOption_write L opt))) s, opt)"
proof (cases opt)
  case (Segment n l)
  define w where "w = push_bit 1 n OR (if l then 1 else 0)"
  have "fragment s = 1 # 4 # ucast (drop_bit 8 w) # ucast w # rest"
    using fr Segment by (simp add: write_u16_eq u16_high w_def del: push_bit_of_1)
  moreover have "push_bit 7 (ucast (ucast (drop_bit 8 w) :: u8)) OR drop_bit 1 (ucast (ucast w :: u8)) = n"
    using seg_num [of n l] wf Segment by (simp only: w_def option_wf.simps)
  moreover have "(ucast w :: u8) AND 1 \<noteq> 0 \<longleftrightarrow> l"
    unfolding w_def by (rule seg_last)
  ultimately show ?thesis using Segment
    by (simp add: UdpNotifOption_from_wire_def reads)
qed (use wf fr in \<open>auto simp: UdpNotifOption_from_wire_def reads tlv_ge tlv_sub\<close>)

lemma option_from_wire_OkD:
  assumes "UdpNotifOption_from_wire L s = Ok (s', opt)"
  obtains t len rest where "fragment s = t # len # rest"
    and "2 \<le> unat len" and "unat len - 2 \<le> length rest" and "s' = span_slice_from (unat len) s"
    and "option_wf opt" and "UdpNotifOption_len opt \<le> unat len"
proof -
  obtain t len rest where fr: "fragment s = t # len # rest"
    using assms by (auto simp: UdpNotifOption_from_wire_def reads split: list.splits)
  have len: "\<not> len < 2"
    using assms fr by (auto simp: UdpNotifOption_from_wire_def reads)
  then have sub: "unat (len - 2) = unat len - 2" "2 \<le> unat len"
    by (simp_all add: unat_sub word_le_nat_alt word_less_nat_alt)
  then have ss: "Suc (Suc (unat len - 2)) = unat len" by simp
  have bound: "unat len - 2 \<le> 253" using unat_u8_less [of len] by linarith
  have four: "4 \<le> unat len" if "take (unat len - 2) rest = x # y # zs" for x y zs
    using arg_cong [OF that, of length] sub(2) by simp
  show ?thesis
  proof (rule that [OF fr sub(2)])
    show "unat len - 2 \<le> length rest" "s' = span_slice_from (unat len) s"
      using assms fr len sub ss
      by (auto simp: UdpNotifOption_from_wire_def reads result_simps Let_def split: if_splits list.splits)
    show "option_wf opt" "UdpNotifOption_len opt \<le> unat len"
      using assms fr len sub bound seg_num_bound
      by (auto dest: four simp: UdpNotifOption_from_wire_def reads result_simps Let_def split: if_splits list.splits)
  qed
qed
end

lemma write_ok [simp]: "snd (UdpNotifOption_write L opt) = Ok ()"
  by (cases opt) simp_all

lemma write_options: "wseqs (map (\<lambda>opt. wmap_err OptionError (UdpNotifOption_write L opt)) es) =
   wput (concat (map (option_bytes L) es))"
proof -
  have "wmap_err OptionError (UdpNotifOption_write L opt) = wput (option_bytes L opt)" for opt
    by (simp add: wmap_err_def wput_def)
  then show ?thesis by (simp add: wseqs_puts)
qed

context wire_lib_laws
begin
lemma option_write_len: "length (option_bytes L opt) = UdpNotifOption_len opt"
  by (cases opt) simp_all
end

sublocale wire_lib_laws \<subseteq> opt: pdu_codec "UdpNotifOption_from_wire L"
  "option_bytes L" option_wf
proof
  fix s s' v assume "UdpNotifOption_from_wire L s = Ok (s', v)"
  then show "\<exists>n>0. n \<le> length (fragment s) \<and> s' = span_slice_from n s"
    by (rule option_from_wire_OkD) (auto intro!: exI [of _ "unat _"])
qed (rule option_from_wire_write)

section \<open>Packets\<close>

lemma u8_4_15: assumes "4 \<le> v" "v \<le> (15::u8)" shows "v \<in> {4,5,6,7,8,9,10,11,12,13,14,15}"
proof -
  have "4 \<le> unat v" "unat v \<le> 15" using assms by (simp_all add: word_le_nat_alt)
  then have "unat v \<in> {4,5,6,7,8,9,10,11,12,13,14,15}" unfolding insert_iff empty_iff by presburger
  then have "of_nat (unat v) \<in> (of_nat ` {4,5,6,7,8,9,10,11,12,13,14,15} :: u8 set)" by (rule imageI)
  then show ?thesis by simp
qed

lemma first_byte_fields:
  assumes "media_type_wf mt opts"
  shows "drop_bit 5 (first_byte mt) AND 7 = 1"
    and "first_byte mt AND 16 \<noteq> 0 \<longleftrightarrow> media_type_is_unknown mt"
    and "MediaType_from_u8 (first_byte mt AND 15) = mt"
proof -
  have "drop_bit 5 (first_byte mt) AND 7 = 1 \<and> (first_byte mt AND 16 \<noteq> 0 \<longleftrightarrow> media_type_is_unknown mt) \<and>
    MediaType_from_u8 (first_byte mt AND 15) = mt"
  proof (cases mt)
    case (Unknown v)
    then have "v \<in> {4,5,6,7,8,9,10,11,12,13,14,15}" using assms by (intro u8_4_15) auto
    then show ?thesis unfolding Unknown by (elim insertE) (simp_all add: first_byte_def MediaType_from_u8_def)
  qed (simp_all add: first_byte_def MediaType_from_u8_def)
  then show "drop_bit 5 (first_byte mt) AND 7 = 1"
    and "first_byte mt AND 16 \<noteq> 0 \<longleftrightarrow> media_type_is_unknown mt"
    and "MediaType_from_u8 (first_byte mt AND 15) = mt" by simp_all
qed

lemma foldl_insert_option:
  "distinct (map option_code es) \<Longrightarrow>
   foldl insert_option m es = m ++ map_of (map (\<lambda>opt. (option_code opt, opt)) es)"
proof (induction es arbitrary: m)
  case (Cons opt es)
  then have "option_code opt \<notin> dom (map_of (map (\<lambda>opt. (option_code opt, opt)) es))"
    by (auto simp: dom_map_of_conv_image_fst)
  moreover have "foldl insert_option (insert_option m opt) es =
    insert_option m opt ++ map_of (map (\<lambda>opt. (option_code opt, opt)) es)"
    using Cons by simp
  ultimately show ?case
    by (simp only: foldl.simps list.map map_of.simps fst_conv snd_conv insert_option_def [of m opt]
        map_add_upd map_add_upd_left not_False_eq_True)
qed simp

lemma enumerates_foldl: "enumerates es m \<Longrightarrow> foldl insert_option Map.empty es = m"
  by (simp add: enumerates_def foldl_insert_option)

lemma foldl_insert_option_range:
  "foldl insert_option m os c = Some opt \<Longrightarrow> opt \<in> set os \<and> option_code opt = c \<or> m c = Some opt"
  by (induction os rule: rev_induct) (auto simp: insert_option_def split: if_splits)

lemma MediaType_from_u8_wf:
  assumes "media_type_is_unknown (MediaType_from_u8 (b AND 15)) \<Longrightarrow> UdpNotifOptionCode.PrivateEncoding \<in> dom opts"
  shows "media_type_wf (MediaType_from_u8 (b AND 15)) opts"
proof -
  have le: "b AND 15 \<le> 15" by (rule word_and_le1)
  have ge: "4 \<le> v" if "v \<noteq> 0" "v \<noteq> 1" "v \<noteq> 2" "v \<noteq> 3" for v :: u8
  proof (rule ccontr)
    assume "\<not> 4 \<le> v"
    then have "unat v < 4" by (simp add: word_le_nat_alt)
    then have "unat v = 0 \<or> unat v = 1 \<or> unat v = 2 \<or> unat v = 3" by linarith
    moreover have "v = of_nat n" if "unat v = n" for n using that by auto
    ultimately have "v = of_nat 0 \<or> v = of_nat 1 \<or> v = of_nat 2 \<or> v = of_nat 3" by blast
    then have "v = 0 \<or> v = 1 \<or> v = 2 \<or> v = 3" by simp
    with that show False by simp
  qed
  show ?thesis using assms le ge [of "b AND 15"] by (simp add: MediaType_from_u8_def)
qed

lemma enumerates_subset:
  assumes "enumerates es m" "m = foldl insert_option Map.empty os"
  shows "set es \<subseteq> set os" "distinct es"
proof -
  show "distinct es" using assms(1) by (auto simp: enumerates_def distinct_map)
  show "set es \<subseteq> set os"
  proof
    fix opt assume "opt \<in> set es"
    then have "m (option_code opt) = Some opt"
      using assms(1) by (auto simp: enumerates_def comp_def intro!: map_of_is_SomeI)
    then show "opt \<in> set os" using assms(2) foldl_insert_option_range by fastforce
  qed
qed

context wire_lib_laws
begin

lemma header_Ok_iff:
  assumes fr: "fragment s = b0 # hl # c # d # zs" "8 \<le> length zs"
  shows "UdpNotifPacket_header L s = Ok (s', h) \<longleftrightarrow>
     (udp_length_ok (fragment s) \<and> drop_bit 5 b0 AND 7 = 1 \<and>
     (b0 AND 16 \<noteq> 0 \<longrightarrow> media_type_is_unknown (MediaType_from_u8 (b0 AND 15)))) \<and>
     s' = span_slice_from (unat hl) s \<and>
     h = \<lparr>h_payload_len = be_nat [c, d] - unat hl, h_s_flag = (b0 AND 16 \<noteq> 0),
          h_media_type = MediaType_from_u8 (b0 AND 15),
          h_header_buf_input = span_slice_from 2 s,
          h_publisher_id = of_nat (be_nat (take 4 zs)),
          h_message_id = of_nat (be_nat (take 4 (drop 4 zs))),
          h_options_buf = span_slice_from 10 (span_slice_to (unat hl - 2) (span_slice_from 2 s))\<rparr>"
  (is "_ \<longleftrightarrow> ?ok \<and> _ \<and> _ = ?h")
proof -
  have gt: "(of_nat (be_nat [c,d]) :: u16) < ucast hl \<longleftrightarrow> be_nat [c,d] < unat hl"
    by (simp add: word_less_nat_alt unat_msg_len unat_ucast_u8_u16)
  have sub: "unat (hl - 2) = unat hl - 2" if "\<not> hl < 2"
    using that by (simp add: unat_sub word_le_nat_alt word_less_nat_alt)
  have lt: "hl < 2 \<longleftrightarrow> unat hl < 2" by (simp add: word_less_nat_alt)
  have fw: "take 4 (fragment s) = [b0, hl, c, d]" using fr by simp
  note simps = UdpNotifPacket_header_def reads Let_def span_len_def first_word_message_len
    first_word_header_len' gt drop_take unat_msg_len lt
  have *: "UdpNotifPacket_header L s = Ok (span_slice_from (unat hl) s, ?h)" if ?ok
  proof -
    have c: "12 \<le> unat hl" "unat hl - 2 \<le> length zs + 2" "\<not> be_nat [c,d] < unat hl" "\<not> unat hl < 2"
      "\<not> length zs + 2 < unat hl - 2"
      using that fr by (auto simp: udp_length_ok_def)
    have m: "Suc (Suc (unat hl - 2)) = unat hl" using c by simp
    have t: "4 \<le> unat hl - 8" "4 \<le> unat hl - 4" "min 4 (unat hl - 4) = 4" "min 4 (unat hl - 8) = 4"
      using c by auto
    show ?thesis using that fr c sub m t by (simp add: simps) blast
  qed
  have **: "\<exists>e. UdpNotifPacket_header L s = Err e" if "\<not> ?ok"
    using that fr sub by (auto simp: simps udp_length_ok_def)
  show ?thesis using * ** by (cases ?ok) auto
qed

lemma options_returns: "\<exists>r. UdpNotifPacket_options L sf s m pc = Some r"
proof (induction "length (fragment s)" arbitrary: s m pc rule: less_induct)
  case less
  let ?r = "parse_into_located UdpNotifOptionError (UdpNotifOption_from_wire L) s"
  show ?case
  proof (cases "\<exists>t opt. \<not> span_is_empty s \<and> ?r = Ok (t, opt)")
    case True
    then obtain t opt where r: "\<not> span_is_empty s" "?r = Ok (t, opt)" by blast
    then have "length (fragment t) < length (fragment s)" using opt.shrinks by (simp add: result_simps)
    from less [OF this] r show ?thesis by (simp add: UdpNotifPacket_options.simps [of L sf s])
  next
    case False
    then show ?thesis
      by (auto simp: UdpNotifPacket_options.simps [of L sf s] split: result.splits)
  qed
qed

lemma options_OkD:
  "UdpNotifPacket_options L sf s m pc = Some (Ok (m', pc')) \<Longrightarrow>
   \<exists>os. m' = foldl insert_option m os \<and> (\<forall>opt \<in> set os. option_wf opt) \<and>
     sum_list (map UdpNotifOption_len os) \<le> length (fragment s) \<and>
     (pc' \<longleftrightarrow> pc \<or> sf \<and> UdpNotifOptionCode.PrivateEncoding \<in> option_code ` set os)"
proof (induction "length (fragment s)" arbitrary: s m pc rule: less_induct)
  case less
  show ?case
  proof (cases "span_is_empty s")
    case True
    with less.prems show ?thesis
      by (intro exI [of _ "[]"]) (simp add: UdpNotifPacket_options.simps [of L sf s])
  next
    case False
    with less.prems obtain t opt where r: "UdpNotifOption_from_wire L s = Ok (t, opt)"
      and rec: "UdpNotifPacket_options L sf t (insert_option m opt)
         (if sf \<and> option_code opt = UdpNotifOptionCode.PrivateEncoding then True else pc) = Some (Ok (m', pc'))"
      by (auto simp: UdpNotifPacket_options.simps [of L sf s] result_simps split: result.splits)
    obtain os where os: "m' = foldl insert_option (insert_option m opt) os" "\<forall>opt \<in> set os. option_wf opt"
      "sum_list (map UdpNotifOption_len os) \<le> length (fragment t)"
      "pc' \<longleftrightarrow> (if sf \<and> option_code opt = UdpNotifOptionCode.PrivateEncoding then True else pc) \<or>
         sf \<and> UdpNotifOptionCode.PrivateEncoding \<in> option_code ` set os"
      using less.hyps [OF opt.shrinks [OF r] rec] by blast
    have "option_wf opt \<and> UdpNotifOption_len opt + length (fragment t) \<le> length (fragment s)"
      using r by (rule option_from_wire_OkD) simp
    with os show ?thesis by (intro exI [of _ "opt # os"]) auto
  qed
qed

lemma options_write:
  assumes "\<forall>opt \<in> set es. option_wf opt" "fragment s = concat (map (option_bytes L) es)"
  shows "UdpNotifPacket_options L sf s m pc = Some (Ok (foldl insert_option m es,
      pc \<or> sf \<and> UdpNotifOptionCode.PrivateEncoding \<in> option_code ` set es))"
  using assms
proof (induction es arbitrary: s m pc)
  case Nil
  then show ?case by (simp add: UdpNotifPacket_options.simps [of L sf s] span_is_empty_def)
next
  case (Cons opt es)
  have "parse_into_located UdpNotifOptionError (UdpNotifOption_from_wire L) s =
      Ok (span_slice_from (length (option_bytes L opt)) s, opt)"
    using Cons.prems opt.read_enc [of opt s "concat (map (option_bytes L) es)"] by simp
  moreover have "\<not> span_is_empty s"
    using Cons.prems opt.enc_nonempty [of opt] by (simp add: span_is_empty_def)
  ultimately show ?case
    using Cons.prems Cons.IH [of "span_slice_from (length (option_bytes L opt)) s"]
    by (auto simp: UdpNotifPacket_options.simps [of L sf s])
qed

lemma packet_from_wire_returns: "\<exists>r. UdpNotifPacket_from_wire L s = Some r"
proof (cases "UdpNotifPacket_header L s")
  case (Ok r)
  then show ?thesis
    using options_returns [of "h_s_flag (snd r)" "h_options_buf (snd r)" Map.empty "\<not> h_s_flag (snd r)"]
    by (auto simp: UdpNotifPacket_from_wire_def split: result.splits prod.splits)
qed (simp add: UdpNotifPacket_from_wire_def)

lemma packet_bytes:
  assumes "snd (UdpNotifPacket_write L p es) = Ok ()"
  defines "hl \<equiv> 12 + sum_list (map UdpNotifOption_len es)"
  shows "hl \<le> 255" "hl + length (payload p) \<le> 65535"
    "fst (UdpNotifPacket_write L p es) = first_byte (media_type p) # of_nat hl #
      bo_write_u16 L (of_nat (hl + length (payload p))) @ bo_write_u32 L (publisher_id p) @
      bo_write_u32 L (message_id p) @ concat (map (option_bytes L) es) @ payload p"
  using assms by (auto simp: UdpNotifPacket_write_def Let_def write_options split: if_splits)

lemma packet_from_wire_write:
  assumes en: "enumerates es (options p)" and wf: "\<forall>opt \<in> set es. option_wf opt"
    and mt: "media_type_wf (media_type p) (options p)"
    and ok: "snd (UdpNotifPacket_write L p es) = Ok ()"
    and fr: "fragment s = fst (UdpNotifPacket_write L p es) @ rest"
  shows "UdpNotifPacket_from_wire L s =
    Some (Ok (span_slice_from (length (fst (UdpNotifPacket_write L p es))) s, p))"
proof -
  define hl where "hl = 12 + sum_list (map UdpNotifOption_len es)"
  define ml where "ml = hl + length (payload p)"
  define os where "os = concat (map (option_bytes L) es)"
  note bytes = packet_bytes [OF ok, folded hl_def, folded ml_def os_def]
  have os: "length os = hl - 12"
    by (simp add: os_def hl_def length_concat comp_def option_write_len)
  obtain c d where cd: "bo_write_u16 L (of_nat ml) = [c, d]" by (simp add: write_u16_eq)
  have hl: "unat (of_nat hl :: u8) = hl" "12 \<le> hl"
    using bytes(1) by (simp add: unat_of_nat_u8_id, simp add: hl_def)
  have "unat (of_nat ml :: u16) = ml"
    using bytes(2) by (simp add: unat_of_nat_u16_id)
  then have ml: "be_nat [c, d] = ml"
    using cd bytes(2) be_nat_be_bytes [of 2 ml] by (simp add: write_u16_law)
  let ?zs = "bo_write_u32 L (publisher_id p) @ bo_write_u32 L (message_id p) @ os @ payload p @ rest"
  have fr': "fragment s = first_byte (media_type p) # of_nat hl # c # d # ?zs"
    unfolding fr bytes(3) cd by simp
  have frl: "8 \<le> length ?zs" by simp
  have "udp_length_ok (fragment s)"
    using hl ml os by (simp add: udp_length_ok_def fr' ml_def)
  note hd = iffD2 [OF header_Ok_iff [OF fr' frl], OF conjI, OF _ conjI, OF conjI, OF this conjI, OF first_byte_fields(1) [OF mt] _ refl refl]
  have pub: "of_nat (be_nat (take 4 ?zs)) = publisher_id p" "of_nat (be_nat (take 4 (drop 4 ?zs))) = message_id p"
    by (simp_all add: write_u32_law)
  have ob: "fragment (span_slice_from 10 (span_slice_to (hl - 2) (span_slice_from 2 s))) = os" using hl os by (simp add: fr' drop_take)
  have pr: "UdpNotifOptionCode.PrivateEncoding \<in> option_code ` set es" if "media_type_is_unknown (media_type p)"
    using that mt en by (cases "media_type p") (auto simp: enumerates_def dom_map_of_conv_image_fst image_image)
  have len: "length (fst (UdpNotifPacket_write L p es)) = ml" using os hl by (simp add: bytes(3) ml_def)
  have pl: "drop hl (fragment s) = payload p @ rest"
  proof -
    have "hl = Suc (Suc (Suc (Suc (8 + length os))))" using hl(2) os by simp
    then show ?thesis by (simp only: fr' drop_Suc_Cons) simp
  qed
  show ?thesis
    using hd [unfolded pub hl(1) ml] first_byte_fields [OF mt] 
    by (simp add: UdpNotifPacket_from_wire_def pub options_write [OF wf ob [unfolded os_def]] enumerates_foldl [OF en] pr len ml_def reads pl UdpNotifPacket_new_def)
qed

lemma packet_from_wire_OkD:
  assumes "UdpNotifPacket_from_wire L s = Some (Ok (s', p))"
  obtains os where "udp_length_ok (fragment s)" and "12 \<le> length (fragment s)"
    and "be_nat [fragment s ! 2, fragment s ! 3] \<le> length (fragment s)"
    and "s' = span_slice_from (be_nat [fragment s ! 2, fragment s ! 3]) s"
    and "length (payload p) = be_nat [fragment s ! 2, fragment s ! 3] - unat (fragment s ! 1)"
    and "media_type p = MediaType_from_u8 (fragment s ! 0 AND 15)"
    and "options p = foldl insert_option Map.empty os" and "\<forall>opt \<in> set os. option_wf opt"
    and "12 + sum_list (map UdpNotifOption_len os) \<le> unat (fragment s ! 1)"
proof -
  have "12 \<le> length (fragment s)"
    using assms by (auto simp: UdpNotifPacket_from_wire_def UdpNotifPacket_header_def Let_def span_len_def
        split: if_splits)
  then obtain b0 hl c d zs where fr: "fragment s = b0 # hl # c # d # zs" "8 \<le> length zs"
    using list4 by blast
  obtain t h m pc where hd: "UdpNotifPacket_header L s = Ok (t, h)"
    and os: "UdpNotifPacket_options L (h_s_flag h) (h_options_buf h) Map.empty (\<not> h_s_flag h) = Some (Ok (m, pc))"
    and pl: "h_payload_len h \<le> length (fragment t)" "s' = span_slice_from (h_payload_len h) t"
      "p = UdpNotifPacket_new (h_media_type h) (h_publisher_id h) (h_message_id h) m
             (take (h_payload_len h) (fragment t))"
    using assms by (auto simp: UdpNotifPacket_from_wire_def reads
        split: result.splits prod.splits option.splits if_splits)
  note h = iffD1 [OF header_Ok_iff [OF fr] hd]
  from options_OkD [OF os] obtain os where os: "m = foldl insert_option Map.empty os"
    "\<forall>opt \<in> set os. option_wf opt" "sum_list (map UdpNotifOption_len os) \<le> length (fragment (h_options_buf h))"
    by blast
  show ?thesis
  proof (rule that [of os])
    have hl: "12 \<le> unat hl" "unat hl \<le> be_nat [c, d]" "unat hl \<le> Suc (Suc (Suc (Suc (length zs))))"
      using h by (simp_all add: udp_length_ok_def fr)
    have "length (fragment (h_options_buf h)) \<le> unat hl - 12" using h by (simp add: fr)
    then show "12 + sum_list (map UdpNotifOption_len os) \<le> unat (fragment s ! 1)"
      using os(3) hl(1) fr by simp
    have "be_nat [c, d] - unat hl \<le> Suc (Suc (Suc (Suc (length zs)))) - unat hl"
      using h pl(1) by (simp add: fr)
    then show "be_nat [fragment s ! 2, fragment s ! 3] \<le> length (fragment s)"
      using hl fr by simp
    show "length (payload p) = be_nat [fragment s ! 2, fragment s ! 3] - unat (fragment s ! 1)"
      using h pl fr by (simp add: UdpNotifPacket_new_def)
  qed (use h os pl fr in \<open>simp_all add: udp_length_ok_def UdpNotifPacket_new_def\<close>)
qed

lemma packet_reparse:
  assumes p: "UdpNotifPacket_from_wire L s = Some (Ok (s', p))" and en: "enumerates es (options p)"
    and priv: "media_type_is_unknown (media_type p) \<Longrightarrow> UdpNotifOptionCode.PrivateEncoding \<in> dom (options p)"
  shows "snd (UdpNotifPacket_write L p es) = Ok ()"
    and "fragment t = fst (UdpNotifPacket_write L p es) @ rest \<Longrightarrow> UdpNotifPacket_from_wire L t =
      Some (Ok (span_slice_from (length (fst (UdpNotifPacket_write L p es))) t, p))"
proof -
  obtain os where os: "udp_length_ok (fragment s)"
    "length (payload p) = be_nat [fragment s ! 2, fragment s ! 3] - unat (fragment s ! 1)"
    "media_type p = MediaType_from_u8 (fragment s ! 0 AND 15)"
    "options p = foldl insert_option Map.empty os" "\<forall>opt \<in> set os. option_wf opt"
    "12 + sum_list (map UdpNotifOption_len os) \<le> unat (fragment s ! 1)"
    using p by (rule packet_from_wire_OkD)
  note sub = enumerates_subset [OF en os(4)]
  have "sum_list (map UdpNotifOption_len es) \<le> sum_list (map UdpNotifOption_len os)"
    using sub by (intro sum_list_map_subset) auto
  then have hl: "12 + sum_list (map UdpNotifOption_len es) \<le> unat (fragment s ! 1)" using os(6) by simp
  moreover have "unat (fragment s ! 1) \<le> 255" using unat_u8_less [of "fragment s ! 1"] by linarith
  moreover have "be_nat [fragment s ! 2, fragment s ! 3] < 65536"
    using be_nat_bound [of "[fragment s ! 2, fragment s ! 3]"] by simp
  ultimately have "12 + sum_list (map UdpNotifOption_len es) \<le> 255"
    "12 + sum_list (map UdpNotifOption_len es) + length (payload p) \<le> 65535"
    using os(1,2) unfolding udp_length_ok_def by linarith+
  then show ok: "snd (UdpNotifPacket_write L p es) = Ok ()"
    by (simp add: UdpNotifPacket_write_def Let_def write_options)
  assume "fragment t = fst (UdpNotifPacket_write L p es) @ rest"
  moreover have "media_type_wf (media_type p) (options p)"
    using priv os(3) by (auto intro: MediaType_from_u8_wf)
  ultimately show "UdpNotifPacket_from_wire L t =
      Some (Ok (span_slice_from (length (fst (UdpNotifPacket_write L p es))) t, p))"
    using packet_from_wire_write [OF en _ _ ok] sub os(5) by auto
qed

end

lemmas udp_eval = UdpNotifPacket_from_wire_def UdpNotifPacket_header_def UdpNotifPacket_options.simps
  UdpNotifOption_from_wire_def UdpNotifPacket_write_def UdpNotifPacket_new_def
  net.reads net.write_u16_law net.write_u32_law be_nat_def span_len_def span_is_empty_def
  MediaType_from_u8_def first_byte_def Let_def

section \<open>Properties\<close>

text \<open>
  C40: a UDP-Notif option that the format can carry (15-bit segment number, value of at most 253
  bytes, type octet not taken) is read back exactly from the bytes the serializer wrote for
  it, whatever follows, and the reader stops right behind them.
\<close>

theorem udp_option_roundtrip:
  assumes "wire_lib_laws L" and "option_wf opt"
    and "fragment s = fst (UdpNotifOption_write L opt) @ rest"
  shows "UdpNotifOption_from_wire L s = Ok (span_slice_from (UdpNotifOption_len opt) s, opt)"
  using wire_lib_laws.option_from_wire_write [OF assms]
  by (simp only: wire_lib_laws.option_write_len [OF assms(1)])

text \<open>The round trip at a last segment with the largest segment number.\<close>

theorem udp_option_roundtrip_witness:
  "wire_lib_laws net_lib \<and> option_wf (UdpNotifOption.Segment 32767 True) \<and>
   UdpNotifOption_from_wire net_lib (span_new [1, 4, 255, 255, 9]) =
     Ok (span_slice_from 4 (span_new [1, 4, 255, 255, 9]), UdpNotifOption.Segment 32767 True)"
  using udp_option_roundtrip [of net_lib "UdpNotifOption.Segment 32767 True"
      "span_new [1, 4, 255, 255, 9]" "[9]"]
  by (simp add: net.wire_lib_laws_axioms net.write_u16_law be_bytes_2)

text \<open>
  C6: parsing inverts serializing for UDP-Notif packets.  When the serializer accepts the packet
  (its header fits one length octet and the message two), every option is one the format can
  carry and the media type is one the first octet can carry, then the parser returns exactly the
  packet from the written bytes, for every order in which the option map is iterated and
  whatever follows the message.
\<close>

theorem udp_packet_roundtrip:
  assumes "wire_lib_laws L" and "enumerates es (options p)" and "\<forall>opt \<in> set es. option_wf opt"
    and "media_type_wf (media_type p) (options p)"
    and "snd (UdpNotifPacket_write L p es) = Ok ()"
    and "fragment s = fst (UdpNotifPacket_write L p es) @ rest"
  shows "UdpNotifPacket_from_wire L s =
    Some (Ok (span_slice_from (length (fst (UdpNotifPacket_write L p es))) s, p))"
  using assms by (rule wire_lib_laws.packet_from_wire_write)

theorem udp_packet_roundtrip_witness:
  "let p = UdpNotifPacket_new (MediaType.Unknown 9) 7 8
         (map_of [(UdpNotifOptionCode.PrivateEncoding, UdpNotifOption.PrivateEncoding [42])]) [1, 2]
   in UdpNotifPacket_from_wire net_lib
        (span_new (fst (UdpNotifPacket_write net_lib p [UdpNotifOption.PrivateEncoding [42]]) @ [5])) =
      Some (Ok (span_slice_from 17
        (span_new (fst (UdpNotifPacket_write net_lib p [UdpNotifOption.PrivateEncoding [42]]) @ [5])), p))"
  using udp_packet_roundtrip [of net_lib "[UdpNotifOption.PrivateEncoding [42]]"
      "UdpNotifPacket_new (MediaType.Unknown 9) 7 8
         (map_of [(UdpNotifOptionCode.PrivateEncoding, UdpNotifOption.PrivateEncoding [42])]) [1, 2]"
      _ "[5]"]
  by (simp add: net.wire_lib_laws_axioms enumerates_def UdpNotifPacket_write_def UdpNotifPacket_new_def
      wmap_err_def first_byte_def net.write_u16_law net.write_u32_law be_bytes_2 be_bytes_4)

text \<open>
  C21: whatever the parser accepts can be serialized again, and the result parses to the same
  packet, provided a packet with an unknown media type carries the private encoding option
  (the serializer sets the S flag for it, and the parser then requires the option).
\<close>

theorem udp_packet_reparse:
  assumes "wire_lib_laws L" and "UdpNotifPacket_from_wire L s = Some (Ok (s', p))"
    and "enumerates es (options p)"
    and "media_type_is_unknown (media_type p) \<longrightarrow> UdpNotifOptionCode.PrivateEncoding \<in> dom (options p)"
  shows "\<exists>t. snd (UdpNotifPacket_write L p es) = Ok () \<and>
    UdpNotifPacket_from_wire L (span_new (fst (UdpNotifPacket_write L p es))) = Some (Ok (t, p)) \<and>
    fragment t = []"
  using wire_lib_laws.packet_reparse(1) [OF assms(1-3)]
    wire_lib_laws.packet_reparse(2) [OF assms(1-3), where rest = "[]"] assms(4)
  by (simp add: span_slice_from_def Let_def)

theorem udp_packet_reparse_witness:
  "\<exists>t. UdpNotifPacket_from_wire net_lib
     (span_new (fst (UdpNotifPacket_write net_lib (UdpNotifPacket_new YangDataCbor 1 2 Map.empty [3]) []))) =
     Some (Ok (t, UdpNotifPacket_new YangDataCbor 1 2 Map.empty [3])) \<and> fragment t = []"
  using udp_packet_reparse [of net_lib "span_new [0x23, 12, 0, 13, 0, 0, 0, 1, 0, 0, 0, 2, 3, 99]" _
      "UdpNotifPacket_new YangDataCbor 1 2 Map.empty [3]" "[]"]
  by (simp add: net.wire_lib_laws_axioms enumerates_def udp_eval)

text \<open>
  C22: the packet parser returns on every input: its option loop never runs forever.  When it
  succeeds, it consumed exactly the bytes announced in the message length field, the payload is
  the message length minus the header length, and every option it stored is well formed and
  stored under its own code; in particular a segment number is below 2^15.
\<close>

theorem udp_packet_parse_total:
  assumes "wire_lib_laws L"
  shows "\<exists>r. UdpNotifPacket_from_wire L s = Some r \<and>
    (\<forall>s' p. r = Ok (s', p) \<longrightarrow>
       12 \<le> length (fragment s) \<and>
       s' = span_slice_from (be_nat [fragment s ! 2, fragment s ! 3]) s \<and>
       be_nat [fragment s ! 2, fragment s ! 3] \<le> length (fragment s) \<and>
       unat (fragment s ! 1) + length (payload p) = be_nat [fragment s ! 2, fragment s ! 3] \<and>
       (\<forall>c opt. options p c = Some opt \<longrightarrow> option_code opt = c \<and> option_wf opt))"
proof -
  obtain r where r: "UdpNotifPacket_from_wire L s = Some r"
    using wire_lib_laws.packet_from_wire_returns [OF assms] by blast
  show ?thesis
  proof (intro exI conjI allI impI, rule r)
    fix s' p assume "r = Ok (s', p)"
    with r have "UdpNotifPacket_from_wire L s = Some (Ok (s', p))" by simp
    then show "12 \<le> length (fragment s)"
      "s' = span_slice_from (be_nat [fragment s ! 2, fragment s ! 3]) s"
      "be_nat [fragment s ! 2, fragment s ! 3] \<le> length (fragment s)"
      "unat (fragment s ! 1) + length (payload p) = be_nat [fragment s ! 2, fragment s ! 3]"
      "\<And>c opt. options p c = Some opt \<Longrightarrow> option_code opt = c"
      "\<And>c opt. options p c = Some opt \<Longrightarrow> option_wf opt"
      by (rule wire_lib_laws.packet_from_wire_OkD [OF assms];
          (auto simp: udp_length_ok_def dest!: foldl_insert_option_range)[1])+
  qed
qed

theorem udp_packet_parse_total_witness:
  "\<exists>r. UdpNotifPacket_from_wire net_lib (span_new [0x21, 14, 0, 14, 0, 0, 0, 1, 0, 0, 0, 2, 1, 2]) = Some r"
  using udp_packet_parse_total [OF net.wire_lib_laws_axioms] by blast


end
