(* ===== verification/Udp_Notif_Codec.thy ===== *)
theory Udp_Notif_Codec
  imports Udp_Notif_Wire NC_BTreeMap
begin

text \<open>
  The UDP-Notif datagram codec of \<open>crates/udp-notif-pkt/src/codec.rs\<close>: length checks, parsing of
  one datagram, and the reassembly of segmented messages with its duplicate, size and
  timeout rules.

  The \<open>HashMap\<close> of reassembly buffers is an association list with distinct keys.  The clock is
  an argument: \<open>decode\<close> reads it once for the eviction and once more when it creates a
  buffer.  An operation that can panic (an \<open>unreachable!()\<close>, an addition that overflows)
  returns an option, and \<open>None\<close> is a call that does not return.
\<close>

section \<open>Data\<close>

definition MIN_HEADER_LENGTH :: u8 where
  "MIN_HEADER_LENGTH = 12"

definition DEFAULT_MAX_SEGMENTS :: u16 where
  "DEFAULT_MAX_SEGMENTS = 64"

text \<open>Instants and durations are counted in seconds.\<close>

definition DEFAULT_REASSEMBLY_TIMEOUT :: nat where
  "DEFAULT_REASSEMBLY_TIMEOUT = 10"

record ReassemblyEventCounts =
  timeout_evictions :: u64
  duplicate_drops :: u64
  max_segments_exceeded :: u64

definition ReassemblyEventCounts_default :: ReassemblyEventCounts where
  "ReassemblyEventCounts_default =
     \<lparr>timeout_evictions = 0, duplicate_drops = 0, max_segments_exceeded = 0\<rparr>"

datatype (plugins only: code) ReassemblyBufferError =
    LastSegmentIsNotReceived MediaType u32 u32 nat
  | IncompleteSegments MediaType u32 u32 u16 u16
  | MissingSegment MediaType u32 u32 nat u16
  | MaxSegmentsExceeded u32 u32 u16

record ReassemblyBuffer =
  timestamp :: nat
  has_last :: bool
  expected_count :: u16
  segments :: "(u16, UdpNotifPacket) btree_map"

section \<open>The reassembly buffer\<close>

definition ReassemblyBuffer_default :: "nat \<Rightarrow> ReassemblyBuffer" where
  "ReassemblyBuffer_default now =
     \<lparr>timestamp = now, has_last = False, expected_count = 1, segments = bt_new\<rparr>"

text \<open>\<open>duration_since\<close> saturates at zero, as subtraction of natural numbers does.\<close>

definition is_timed_out :: "ReassemblyBuffer \<Rightarrow> nat \<Rightarrow> nat \<Rightarrow> bool" where
  "is_timed_out b now timeout_duration \<longleftrightarrow> now - timestamp b > timeout_duration"

definition add_segment ::
  "ReassemblyBuffer \<Rightarrow> u16 \<Rightarrow> UdpNotifPacket \<Rightarrow> bool \<Rightarrow> ReassemblyBuffer option" where
  "add_segment b segment_number packet is_last =
     (if is_last then
        (if segment_number = - 1 then None
         else Some (b\<lparr>expected_count := segment_number + 1, has_last := True,
                      segments := bt_insert segment_number packet (segments b)\<rparr>))
      else Some (b\<lparr>segments := bt_insert segment_number packet (segments b)\<rparr>))"

definition ready_to_reassemble :: "ReassemblyBuffer \<Rightarrow> bool" where
  "ready_to_reassemble b \<longleftrightarrow> has_last b \<and> bt_len (segments b) = unat (expected_count b)"

text \<open>The position of the first entry whose key is not its position.\<close>

primrec first_gap :: "nat \<Rightarrow> (u16 \<times> UdpNotifPacket) list \<Rightarrow> nat option" where
  "first_gap expected_number [] = None"
| "first_gap expected_number (e # es) =
     (if expected_number \<noteq> unat (fst e) then Some expected_number
      else first_gap (Suc expected_number) es)"

definition reassemble ::
  "ReassemblyBuffer \<Rightarrow> MediaType \<Rightarrow> u32 \<Rightarrow> u32 \<Rightarrow> (UdpNotifPacket, ReassemblyBufferError) result" where
  "reassemble b mt pub msg =
     (if \<not> has_last b then Err (LastSegmentIsNotReceived mt pub msg (bt_len (segments b)))
      else if unat (expected_count b) \<noteq> bt_len (segments b)
      then Err (IncompleteSegments mt pub msg (expected_count b) (of_nat (bt_len (segments b))))
      else (case first_gap 0 (bt_iter (segments b)) of
          Some n \<Rightarrow> Err (MissingSegment mt pub msg (bt_len (segments b)) (of_nat n))
        | None \<Rightarrow>
           (case bt_into_values (segments b) of
              [] \<Rightarrow> Err (IncompleteSegments mt pub msg (expected_count b) 0)
            | first_segment # rest \<Rightarrow>
                Ok (UdpNotifPacket_new (media_type first_segment) (publisher_id first_segment)
                      (message_id first_segment)
                      ((options first_segment)(UdpNotifOptionCode.Segment := None))
                      (fold (\<lambda>pkt assembled. assembled @ payload pkt) rest (payload first_segment))))))"

section \<open>The codec\<close>

datatype (plugins only: code) UdpPacketCodecError =
    IoError string
  | TruncatedHeader nat
  | InvalidHeaderLength u8
  | InvalidMessageLength u16
  | UdpNotifError UdpNotifPacketParsingError
  | ReassemblyError ReassemblyBufferError
  | WritingError UdpNotifPacketWritingError
  | InternalError string

fun codec_error_from_nom :: "UdpNotifPacketParsingError located nom_err \<Rightarrow> UdpPacketCodecError" where
  "codec_error_from_nom (NIncomplete needed) = UdpNotifError (UdpNotifPacketParsingError.NomError Eof)"
| "codec_error_from_nom (NError err) = UdpNotifError (lerror err)"
| "codec_error_from_nom (NFailure err) = UdpNotifError (lerror err)"

record UdpPacketCodec =
  incomplete_messages :: "((u32 \<times> u32) \<times> ReassemblyBuffer) list"
  max_segments :: u16
  reassembly_timeout :: nat
  reassembly_events :: ReassemblyEventCounts

definition UdpPacketCodec_new :: "u16 \<Rightarrow> nat \<Rightarrow> UdpPacketCodec" where
  "UdpPacketCodec_new max_segs timeout =
     \<lparr>incomplete_messages = [], max_segments = max_segs, reassembly_timeout = timeout,
      reassembly_events = ReassemblyEventCounts_default\<rparr>"

definition UdpPacketCodec_default :: UdpPacketCodec where
  "UdpPacketCodec_default =
     \<lparr>incomplete_messages = [], max_segments = DEFAULT_MAX_SEGMENTS,
      reassembly_timeout = DEFAULT_REASSEMBLY_TIMEOUT,
      reassembly_events = ReassemblyEventCounts_default\<rparr>"

definition take_reassembly_events :: "UdpPacketCodec \<Rightarrow> ReassemblyEventCounts \<times> UdpPacketCodec" where
  "take_reassembly_events c =
     (reassembly_events c, c\<lparr>reassembly_events := ReassemblyEventCounts_default\<rparr>)"

definition incomplete_messages_count :: "UdpPacketCodec \<Rightarrow> nat" where
  "incomplete_messages_count c = length (incomplete_messages c)"

definition check_len :: "wire_lib \<Rightarrow> bytes \<Rightarrow> (u8 \<times> u16, UdpPacketCodecError) result" where
  "check_len L buf =
     (if length buf < unat MIN_HEADER_LENGTH then Err (TruncatedHeader (length buf))
      else let header_len = buf ! 1 in
        if header_len < MIN_HEADER_LENGTH \<or> length buf < unat header_len
        then Err (UdpPacketCodecError.InvalidHeaderLength header_len)
        else let message_length = bo_read_u16 L (take 2 (drop 2 buf)) in
          if message_length < ucast header_len \<or> length buf \<noteq> unat message_length
          then Err (UdpPacketCodecError.InvalidMessageLength message_length)
          else Ok (header_len, message_length))"

definition extract_segment_info :: "option_map \<Rightarrow> (u16 \<times> bool) option" where
  "extract_segment_info opts =
     (case opts UdpNotifOptionCode.Segment of
        Some (UdpNotifOption.Segment number lst) \<Rightarrow> Some (number, lst)
      | Some _ \<Rightarrow> None
      | None \<Rightarrow> Some (0, True))"

definition message_key :: "UdpNotifPacket \<Rightarrow> u32 \<times> u32" where
  "message_key pkt = (publisher_id pkt, message_id pkt)"

type_synonym decode_result = "(UdpNotifPacket option, UdpPacketCodecError) result"

text \<open>The tail of \<open>try_reassemble_segments\<close>: store the segment, and reassemble when it was the missing one.\<close>

definition store_segment ::
  "nat \<Rightarrow> UdpPacketCodec \<Rightarrow> UdpNotifPacket \<Rightarrow> u16 \<Rightarrow> bool \<Rightarrow> (decode_result \<times> UdpPacketCodec) option" where
  "store_segment now c pkt seg_no is_last =
     (let key = message_key pkt;
          reassembly_buf = (case map_of (incomplete_messages c) key of
             Some b \<Rightarrow> b | None \<Rightarrow> ReassemblyBuffer_default now) in
      case add_segment reassembly_buf seg_no pkt is_last of
        None \<Rightarrow> None
      | Some b \<Rightarrow>
         let c = c\<lparr>incomplete_messages := AList.update key b (incomplete_messages c)\<rparr> in
         if \<not> ready_to_reassemble b then Some (Ok None, c)
         else (case map_of (incomplete_messages c) key of
             Some reassembled \<Rightarrow>
               Some (rbind (map_err ReassemblyError
                       (reassemble reassembled (media_type pkt) (publisher_id pkt) (message_id pkt)))
                       (\<lambda>p. Ok (Some p)),
                     c\<lparr>incomplete_messages := AList.delete key (incomplete_messages c)\<rparr>)
           | None \<Rightarrow> Some (Err (InternalError
               ''reassembly buffer vanished after ready_to_reassemble returned true''), c)))"

definition try_reassemble_segments ::
  "nat \<Rightarrow> UdpPacketCodec \<Rightarrow> UdpNotifPacket \<Rightarrow> (decode_result \<times> UdpPacketCodec) option" where
  "try_reassemble_segments now c pkt =
     (case extract_segment_info (options pkt) of
        None \<Rightarrow> None
      | Some (seg_no, is_last) \<Rightarrow>
         if seg_no = 0 \<and> is_last then Some (Ok (Some pkt), c)
         else
         let key = message_key pkt;
             is_duplicate = (case map_of (incomplete_messages c) key of
                Some buf \<Rightarrow> bt_contains_key (segments buf) seg_no | None \<Rightarrow> False) in
         if is_duplicate
         then Some (Ok None, c\<lparr>reassembly_events := (reassembly_events c)
                \<lparr>duplicate_drops := duplicate_drops (reassembly_events c) + 1\<rparr>\<rparr>)
         else if (case map_of (incomplete_messages c) key of
                    Some b \<Rightarrow> bt_len (segments b) \<ge> unat (max_segments c) | None \<Rightarrow> False)
         then Some (Err (ReassemblyError (MaxSegmentsExceeded (publisher_id pkt) (message_id pkt)
                      (max_segments c))),
                c\<lparr>incomplete_messages := AList.delete key (incomplete_messages c),
                  reassembly_events := (reassembly_events c)
                   \<lparr>max_segments_exceeded := max_segments_exceeded (reassembly_events c) + 1\<rparr>\<rparr>)
         else store_segment now c pkt seg_no is_last)"

definition evict :: "nat \<Rightarrow> UdpPacketCodec \<Rightarrow> UdpPacketCodec" where
  "evict now c =
     (let before = length (incomplete_messages c);
          kept = filter (\<lambda>(_, b). \<not> is_timed_out b now (reassembly_timeout c)) (incomplete_messages c)
      in c\<lparr>incomplete_messages := kept,
           reassembly_events := (reassembly_events c)
             \<lparr>timeout_evictions := timeout_evictions (reassembly_events c) + of_nat (before - length kept)\<rparr>\<rparr>)"

definition decode ::
  "wire_lib \<Rightarrow> nat \<Rightarrow> nat \<Rightarrow> UdpPacketCodec \<Rightarrow> bytes \<Rightarrow> (decode_result \<times> UdpPacketCodec \<times> bytes) option" where
  "decode L now now' c buf =
     (let c = evict now c in
      if buf = [] then Some (Ok None, c, buf)
      else case check_len L buf of
          Err e \<Rightarrow> Some (Err e, c, buf)
        | Ok (_, msg_len) \<Rightarrow>
           (case UdpNotifPacket_from_wire L (span_new buf) of
              None \<Rightarrow> None
            | Some (Err err) \<Rightarrow> Some (Err (codec_error_from_nom err), c, [])
            | Some (Ok (span, pkt)) \<Rightarrow>
               if location_offset span \<noteq> unat msg_len \<or> \<not> span_is_empty span
               then Some (Err (UdpPacketCodecError.InvalidMessageLength msg_len), c, [])
               else (case try_reassemble_segments now' c pkt of
                  None \<Rightarrow> None
                | Some (r, c) \<Rightarrow> Some (r, c, []))))"

definition encode ::
  "wire_lib \<Rightarrow> UdpPacketCodec \<Rightarrow> UdpNotifPacket \<Rightarrow> UdpNotifOption list \<Rightarrow> bytes \<Rightarrow>
     (unit, UdpPacketCodecError) result \<times> bytes" where
  "encode L c pkt es dst =
     (map_err WritingError (snd (UdpNotifPacket_write L pkt es)), dst @ fst (UdpNotifPacket_write L pkt es))"

text \<open>A run of the reassembly over the packets of a sequence of datagrams, each with its arrival time.\<close>

primrec reassemble_all ::
  "UdpPacketCodec \<Rightarrow> (nat \<times> UdpNotifPacket) list \<Rightarrow> (decode_result list \<times> UdpPacketCodec) option" where
  "reassemble_all c [] = Some ([], c)"
| "reassemble_all c (tp # tps) =
     (case try_reassemble_segments (fst tp) c (snd tp) of
        None \<Rightarrow> None
      | Some (r, c') \<Rightarrow> (case reassemble_all c' tps of
           None \<Rightarrow> None | Some (rs, c'') \<Rightarrow> Some (r # rs, c'')))"

section \<open>Invariants\<close>

text \<open>
  A stored segment: parsed options only, with the key and the segment number it is stored
  under.
\<close>

definition segment_ok :: "u32 \<times> u32 \<Rightarrow> u16 \<Rightarrow> UdpNotifPacket \<Rightarrow> bool" where
  "segment_ok key n p \<longleftrightarrow> message_key p = key \<and> unat n < 2 ^ 15 \<and>
     (\<exists>l. options p UdpNotifOptionCode.Segment = Some (UdpNotifOption.Segment n l))"

definition buffer_ok :: "u16 \<Rightarrow> u32 \<times> u32 \<Rightarrow> ReassemblyBuffer \<Rightarrow> bool" where
  "buffer_ok max_segs key b \<longleftrightarrow>
     bt_ok (segments b) \<and> segments b \<noteq> [] \<and>
     bt_len (segments b) \<le> max 1 (unat max_segs) \<and>
     (\<forall>n p. bt_get (segments b) n = Some p \<longrightarrow> segment_ok key n p) \<and>
     0 < unat (expected_count b) \<and> \<not> ready_to_reassemble b"

definition codec_ok :: "UdpPacketCodec \<Rightarrow> bool" where
  "codec_ok c \<longleftrightarrow> distinct (map fst (incomplete_messages c)) \<and>
     (\<forall>key b. map_of (incomplete_messages c) key = Some b \<longrightarrow> buffer_ok (max_segments c) key b)"

text \<open>Packets as the parser returns them.\<close>

definition parsed_packet :: "UdpNotifPacket \<Rightarrow> bool" where
  "parsed_packet p \<longleftrightarrow> (\<forall>code opt. options p code = Some opt \<longrightarrow> option_code opt = code \<and> option_wf opt)"

section \<open>Vocabulary of the statements\<close>

text \<open>
  The buffer a segment goes into, and that buffer with the segment added; the segments of a
  message in order, what they reassemble to, and the results of the packets of one message
  within a run.
\<close>

definition new_buffer :: "nat \<Rightarrow> UdpPacketCodec \<Rightarrow> u32 \<times> u32 \<Rightarrow> ReassemblyBuffer" where
  "new_buffer now c key = (case map_of (incomplete_messages c) key of
             Some b \<Rightarrow> b | None \<Rightarrow> ReassemblyBuffer_default now)"

definition with_segment :: "ReassemblyBuffer \<Rightarrow> u16 \<Rightarrow> UdpNotifPacket \<Rightarrow> bool \<Rightarrow> ReassemblyBuffer" where
  "with_segment b n p l = b\<lparr>expected_count := (if l then n + 1 else expected_count b),
     has_last := (l \<or> has_last b), segments := bt_insert n p (segments b)\<rparr>"

definition seg_no :: "UdpNotifPacket \<Rightarrow> u16" where
  "seg_no p = fst (the (extract_segment_info (options p)))"

definition segmented :: "u32 \<times> u32 \<Rightarrow> UdpNotifPacket list \<Rightarrow> bool" where
  "segmented key segs \<longleftrightarrow> 2 \<le> length segs \<and> length segs \<le> 2 ^ 15 \<and>
     (\<forall>i < length segs. message_key (segs ! i) = key \<and>
        extract_segment_info (options (segs ! i)) = Some (of_nat i, Suc i = length segs))"

definition assembled :: "UdpNotifPacket list \<Rightarrow> UdpNotifPacket" where
  "assembled segs = UdpNotifPacket_new (media_type (hd segs)) (publisher_id (hd segs)) (message_id (hd segs))
     ((options (hd segs))(UdpNotifOptionCode.Segment := None)) (concat (map payload segs))"

definition key_results :: "u32 \<times> u32 \<Rightarrow> (nat \<times> UdpNotifPacket) list \<Rightarrow> decode_result list \<Rightarrow> decode_result list" where
  "key_results key tps rs = map snd (filter (\<lambda>(tp, r). message_key (snd tp) = key) (zip tps rs))"

text \<open>The buffer content after storing the given segments, and the state a partly received message is in.\<close>

definition collected :: "UdpNotifPacket list \<Rightarrow> (u16, UdpNotifPacket) btree_map" where
  "collected ps = fold (\<lambda>(k, v). bt_insert k v) (map (\<lambda>p. (seg_no p, p)) ps) bt_new"

definition progress_of :: "u32 \<times> u32 \<Rightarrow> UdpNotifPacket list \<Rightarrow> UdpPacketCodec \<Rightarrow> UdpNotifPacket list \<Rightarrow> bool" where
  "progress_of key segs c ps \<longleftrightarrow>
     (if ps = [] \<or> length ps = length segs then map_of (incomplete_messages c) key = None
      else \<exists>b. map_of (incomplete_messages c) key = Some b \<and> segments b = collected ps \<and>
        has_last b = (last segs \<in> set ps) \<and> (has_last b \<longrightarrow> expected_count b = of_nat (length segs)))"

text \<open>The outcomes a packet can have.\<close>

definition benign :: "decode_result \<Rightarrow> bool" where
  "benign r = (case r of Ok _ \<Rightarrow> True
     | Err (ReassemblyError (MissingSegment mt pub msg k n)) \<Rightarrow> True
     | Err (ReassemblyError (MaxSegmentsExceeded pub msg m)) \<Rightarrow> True
     | Err _ \<Rightarrow> False)"

text \<open>The errors \<open>decode\<close> can return.\<close>

definition decode_failure_allowed :: "UdpPacketCodecError \<Rightarrow> bool" where
  "decode_failure_allowed e = (case e of
       TruncatedHeader n \<Rightarrow> True
     | UdpPacketCodecError.InvalidHeaderLength h \<Rightarrow> True
     | UdpPacketCodecError.InvalidMessageLength m \<Rightarrow> True
     | UdpNotifError pe \<Rightarrow> True
     | ReassemblyError (MissingSegment mt pub msg k n) \<Rightarrow> True
     | ReassemblyError (MaxSegmentsExceeded pub msg m) \<Rightarrow> True
     | _ \<Rightarrow> False)"

definition is_dup :: "UdpPacketCodec \<Rightarrow> UdpNotifPacket \<Rightarrow> u16 \<Rightarrow> bool" where
  "is_dup c p n = (case map_of (incomplete_messages c) (message_key p) of
                Some buf \<Rightarrow> bt_contains_key (segments buf) n | None \<Rightarrow> False)"

section \<open>Eviction and stored segments\<close>

lemma evict_sel [simp]:
  "max_segments (evict now c) = max_segments c"
  "reassembly_timeout (evict now c) = reassembly_timeout c"
  by (simp_all add: evict_def Let_def)

lemma map_of_evict:
  "distinct (map fst (incomplete_messages c)) \<Longrightarrow> map_of (incomplete_messages (evict now c)) key =
    (case map_of (incomplete_messages c) key of
       Some b \<Rightarrow> if is_timed_out b now (reassembly_timeout c) then None else Some b | None \<Rightarrow> None)"
  by (simp add: evict_def Let_def map_of_filter_distinct split: option.splits)

lemma evict_ok: "codec_ok c \<Longrightarrow> codec_ok (evict now c)"
  unfolding codec_ok_def
proof (intro conjI allI impI)
  assume c: "distinct (map fst (incomplete_messages c)) \<and>
    (\<forall>key b. map_of (incomplete_messages c) key = Some b \<longrightarrow> buffer_ok (max_segments c) key b)"
  then show "distinct (map fst (incomplete_messages (evict now c)))"
    by (simp add: evict_def Let_def distinct_map_filter)
  fix key b assume "map_of (incomplete_messages (evict now c)) key = Some b"
  with c have "map_of (incomplete_messages c) key = Some b"
    by (simp only: map_of_evict) (simp split: option.splits if_splits)
  with c show "buffer_ok (max_segments (evict now c)) key b" unfolding evict_sel by blast
qed

lemma parsed_segment_info:
  assumes "parsed_packet p"
  obtains n l where "extract_segment_info (options p) = Some (n, l)"
    and "n = 0 \<and> l \<or> segment_ok (message_key p) n p"
proof (cases "options p UdpNotifOptionCode.Segment")
  case None
  then show ?thesis by (intro that [of 0 True]) (simp_all add: extract_segment_info_def)
next
  case (Some opt)
  with assms have "option_code opt = UdpNotifOptionCode.Segment" "option_wf opt"
    by (auto simp: parsed_packet_def)
  then obtain n l where "opt = UdpNotifOption.Segment n l" "unat n < 2 ^ 15" by (cases opt) auto
  with Some show ?thesis
    by (intro that [of n l]) (simp_all add: extract_segment_info_def segment_ok_def)
qed

lemma segment_number_no_overflow:
  assumes "unat (n :: u16) < 2 ^ 15"
  shows "n \<noteq> - 1" "unat (n + 1) = unat n + 1"
proof -
  show n: "n \<noteq> - 1"
  proof
    assume "n = - 1"
    then have "unat n = 65535" by (simp add: unsigned_minus_1_eq_mask mask_eq_exp_minus_1)
    with assms show False by simp
  qed
  have "unat n + 1 < 65536" using assms by simp
  then show "unat (n + 1) = unat n + 1" by (simp add: unat_word_ariths)
qed

lemma add_segment_eq: "unat n < 2 ^ 15 \<Longrightarrow> add_segment b n p l = Some (with_segment b n p l)"
  using segment_number_no_overflow(1) [of n] by (simp add: add_segment_def with_segment_def)

lemma with_segment_sel [simp]:
  "timestamp (with_segment b n p l) = timestamp b"
  "segments (with_segment b n p l) = bt_insert n p (segments b)"
  by (simp_all add: with_segment_def)

lemma store_segment_eq:
  assumes "unat n < 2 ^ 15" and "b = with_segment (new_buffer now c (message_key p)) n p l"
  shows "store_segment now c p n l =
    (if ready_to_reassemble b
     then Some (rbind (map_err ReassemblyError (reassemble b (media_type p) (publisher_id p) (message_id p)))
             (\<lambda>p. Ok (Some p)),
           c\<lparr>incomplete_messages := AList.delete (message_key p)
               (AList.update (message_key p) b (incomplete_messages c))\<rparr>)
     else Some (Ok None, c\<lparr>incomplete_messages := AList.update (message_key p) b (incomplete_messages c)\<rparr>))"
  using assms add_segment_eq [of n "new_buffer now c (message_key p)" p l]
  by (simp add: store_segment_def Let_def new_buffer_def update_conv')

lemma reassemble_ready:
  assumes "ready_to_reassemble b" "segments b \<noteq> []"
  shows "(\<exists>p. reassemble b mt pub msg = Ok p) \<or>
    (\<exists>n. reassemble b mt pub msg = Err (MissingSegment mt pub msg (bt_len (segments b)) n))"
  using assms by (auto simp: ready_to_reassemble_def reassemble_def bt_into_values_def split: option.splits list.splits)

lemma with_segment_ok:
  assumes old: "b = ReassemblyBuffer_default now \<or>
      buffer_ok mx key b \<and> bt_len (segments b) < unat mx \<and> \<not> bt_contains_key (segments b) n"
    and seg: "segment_ok key n p" and nr: "\<not> ready_to_reassemble (with_segment b n p l)"
  shows "buffer_ok mx key (with_segment b n p l)"
proof -
  have ok: "bt_ok (segments b)"
    using old by (auto simp: ReassemblyBuffer_default_def buffer_ok_def bt.ok_empty)
  have len: "bt_len (bt_insert n p (segments b)) \<le> max 1 (unat mx)"
    using old bt_len_insert [OF ok, of n p]
    by (auto simp: ReassemblyBuffer_default_def bt_len_def bt_new_def)
  have segs: "segment_ok key m q" if "bt_get (bt_insert n p (segments b)) m = Some q" for m q
    using that old seg
    by (auto simp: bt_get_insert ReassemblyBuffer_default_def buffer_ok_def bt.lookup_empty split: if_splits)
  have "0 < unat (if l then n + 1 else expected_count b)"
    using old seg segment_number_no_overflow(2) [of n]
    by (auto simp: segment_ok_def ReassemblyBuffer_default_def buffer_ok_def)
  moreover have "bt_insert n p (segments b) \<noteq> []" by (cases "segments b") auto
  ultimately show ?thesis
    using nr len segs ok by (simp add: buffer_ok_def with_segment_def bt_ok_insert)
qed


lemma codec_ok_buffer: "codec_ok c \<Longrightarrow> map_of (incomplete_messages c) key = Some b \<Longrightarrow> buffer_ok (max_segments c) key b"
  unfolding codec_ok_def by blast

lemma codec_ok_distinct: "codec_ok c \<Longrightarrow> distinct (map fst (incomplete_messages c))"
  unfolding codec_ok_def by blast

lemma codec_ok_update:
  assumes "codec_ok c" "buffer_ok (max_segments c) key b"
  shows "codec_ok (c\<lparr>incomplete_messages := AList.update key b (incomplete_messages c)\<rparr>)"
proof -
  have "buffer_ok (max_segments c) k b'" if "((map_of (incomplete_messages c))(key \<mapsto> b)) k = Some b'" for k b'
    using that assms codec_ok_buffer [of c k b'] by (cases "k = key") simp_all
  then show ?thesis
    using assms unfolding codec_ok_def by (simp add: update_conv' distinct_update)
qed

lemma codec_ok_delete:
  assumes "distinct (map fst al)" "\<And>k b. k \<noteq> key \<Longrightarrow> map_of al k = Some b \<Longrightarrow> buffer_ok (max_segments c) k b"
  shows "codec_ok (c\<lparr>incomplete_messages := AList.delete key al\<rparr>)"
proof -
  have "buffer_ok (max_segments c) k b'" if "((map_of al)(key := None)) k = Some b'" for k b'
    using that assms(2) by (cases "k = key") auto
  then show ?thesis
    using assms(1) unfolding codec_ok_def by (simp add: delete_conv' distinct_delete)
qed

lemma codec_ok_events [simp]: "codec_ok (c\<lparr>reassembly_events := e\<rparr>) = codec_ok c"
  by (simp add: codec_ok_def)

lemma store_segment_ok:
  assumes c: "codec_ok c" and seg: "segment_ok (message_key p) n p"
    and dup: "\<And>b. map_of (incomplete_messages c) (message_key p) = Some b \<Longrightarrow>
       \<not> bt_contains_key (segments b) n \<and> bt_len (segments b) < unat (max_segments c)"
  shows "\<exists>r c'. store_segment now c p n l = Some (r, c') \<and> codec_ok c' \<and> benign r"
proof -
  define b where "b = with_segment (new_buffer now c (message_key p)) n p l"
  have n: "unat n < 2 ^ 15" using seg by (simp add: segment_ok_def)
  have old: "new_buffer now c (message_key p) = ReassemblyBuffer_default now \<or>
     buffer_ok (max_segments c) (message_key p) (new_buffer now c (message_key p)) \<and>
     bt_len (segments (new_buffer now c (message_key p))) < unat (max_segments c) \<and>
     \<not> bt_contains_key (segments (new_buffer now c (message_key p))) n"
    using codec_ok_buffer [OF c] dup
    by (cases "map_of (incomplete_messages c) (message_key p)") (simp_all add: new_buffer_def)
  show ?thesis
  proof (cases "ready_to_reassemble b")
    case True
    have ne: "segments b \<noteq> []" by (cases "segments (new_buffer now c (message_key p))") (auto simp: b_def with_segment_def)
    have "codec_ok (c\<lparr>incomplete_messages := AList.delete (message_key p)
               (AList.update (message_key p) b (incomplete_messages c))\<rparr>)"
      using codec_ok_buffer [OF c] codec_ok_distinct [OF c]
      by (intro codec_ok_delete) (simp_all add: distinct_update update_conv')
    then show ?thesis
      using reassemble_ready [OF True ne, of "media_type p" "publisher_id p" "message_id p"] True
      by (auto simp: store_segment_eq [OF n b_def] benign_def)
  next
    case False
    then have "buffer_ok (max_segments c) (message_key p) b"
      unfolding b_def using with_segment_ok [OF old seg] by blast
    with False show ?thesis
      using codec_ok_update [OF c] by (simp add: store_segment_eq [OF n b_def] benign_def)
  qed
qed

lemma try_reassemble_ok:
  assumes c: "codec_ok c" and p: "parsed_packet p"
  shows "\<exists>r c'. try_reassemble_segments now c p = Some (r, c') \<and> codec_ok c' \<and> benign r"
proof -
  obtain n l where nl: "extract_segment_info (options p) = Some (n, l)" "n = 0 \<and> l \<or> segment_ok (message_key p) n p"
    using p by (rule parsed_segment_info)
  have del: "codec_ok (c\<lparr>incomplete_messages := AList.delete key (incomplete_messages c), reassembly_events := e\<rparr>)" for key e
    using codec_ok_delete [OF codec_ok_distinct [OF c], of key c] codec_ok_buffer [OF c]
    by (simp add: codec_ok_def)
  note eqs = try_reassemble_segments_def nl(1) Let_def
  consider "n = 0 \<and> l" | b where "\<not> (n = 0 \<and> l)" "map_of (incomplete_messages c) (message_key p) = Some b"
      "bt_contains_key (segments b) n \<or> bt_len (segments b) \<ge> unat (max_segments c)"
    | "\<not> (n = 0 \<and> l)" "\<And>b. map_of (incomplete_messages c) (message_key p) = Some b \<Longrightarrow>
       \<not> bt_contains_key (segments b) n \<and> bt_len (segments b) < unat (max_segments c)"
    by (meson not_le)
  then show ?thesis
  proof cases
    case 1
    then show ?thesis using c by (simp add: eqs benign_def)
  next
    case 2
    then show ?thesis using c del by (auto simp: eqs benign_def)
  next
    case 3
    with nl(2) have "segment_ok (message_key p) n p" by blast
    from store_segment_ok [OF c this 3(2)] 3 show ?thesis
      by (force simp: eqs split: option.splits)
  qed
qed

section \<open>Reassembly of one message\<close>

lemma segmented_nth:
  assumes "segmented key segs" "p \<in> set segs"
  obtains i where "i < length segs" "p = segs ! i" "unat (seg_no p) = i" "message_key p = key"
    "extract_segment_info (options p) = Some (seg_no p, Suc i = length segs)" "unat (seg_no p) < 2 ^ 15"
proof -
  obtain i where i: "i < length segs" "p = segs ! i" using assms(2) by (metis in_set_conv_nth)
  then have e: "extract_segment_info (options p) = Some (of_nat i, Suc i = length segs)" "message_key p = key"
    and n: "length segs \<le> 2 ^ 15"
    using assms(1) by (auto simp: segmented_def)
  have "unat (of_nat i :: u16) = i" using i n by (intro unat_of_nat_u16_id) simp
  with e i n show ?thesis by (intro that [of i]) (simp_all add: seg_no_def)
qed

lemma segmented_seg_nos:
  assumes "segmented key segs"
  shows "map (unat \<circ> seg_no) segs = [0..<length segs]" "inj_on seg_no (set segs)" "distinct segs"
proof -
  show m: "map (unat \<circ> seg_no) segs = [0..<length segs]"
  proof (rule nth_equalityI)
    fix i assume i: "i < length (map (unat \<circ> seg_no) segs)"
    then have "unat (seg_no (segs ! i)) = i"
      using assms unat_of_nat_u16_id [of i] by (auto simp: segmented_def seg_no_def)
    then show "map (unat \<circ> seg_no) segs ! i = [0..<length segs] ! i" using i by simp
  qed simp
  then have d: "distinct (map (unat \<circ> seg_no) segs)" by simp
  then show "distinct segs" by (simp add: distinct_map)
  from d have "inj_on (unat \<circ> seg_no) (set segs)" by (simp add: distinct_map)
  then show "inj_on seg_no (set segs)" by (auto simp: inj_on_def)
qed

lemma collected_snoc: "collected (ps @ [p]) = bt_insert (seg_no p) p (collected ps)"
  by (simp add: collected_def)

lemma collected_laws:
  assumes "segmented key segs" "set ps \<subseteq> set segs" "distinct ps"
  shows "bt_ok (collected ps)" "bt_get (collected ps) k = map_of (map (\<lambda>p. (seg_no p, p)) ps) k"
    "bt_len (collected ps) = length ps"
proof -
  have "inj_on seg_no (set ps)" using segmented_seg_nos(2) [OF assms(1)] assms(2) by (rule inj_on_subset)
  then have d: "distinct (map fst (map (\<lambda>p. (seg_no p, p)) ps))"
    using assms(3) by (simp add: comp_def distinct_map)
  show ok: "bt_ok (collected ps)"
    unfolding collected_def by (rule bt.ok_fold) (rule bt.ok_empty)
  have get: "bt_get (collected ps) = map_of (map (\<lambda>p. (seg_no p, p)) ps)"
    unfolding collected_def using bt.lookup_fold [OF bt.ok_empty d] by (simp add: bt.lookup_empty)
  then show "bt_get (collected ps) k = map_of (map (\<lambda>p. (seg_no p, p)) ps) k" by simp
  have "length (collected ps) = card (set (map fst (collected ps)))"
    using ok distinct_card [of "map fst (collected ps)"] by (simp add: bt_ok_def)
  also have "set (map fst (collected ps)) = set (map fst (map (\<lambda>p. (seg_no p, p)) ps))"
    using bt.keys_eq_dom [OF ok] get by (simp add: bt_iter_def dom_map_of_conv_image_fst image_image)
  also have "card \<dots> = length ps" using distinct_card [OF d] by simp
  finally show "bt_len (collected ps) = length ps" by (simp add: bt_len_def)
qed

lemma first_gap_None: "map (unat \<circ> fst) es = [k..<k + length es] \<Longrightarrow> first_gap k es = None"
proof (induction es arbitrary: k)
  case (Cons e es)
  then show ?case by (simp add: upt_conv_Cons del: upt_Suc)
qed simp

lemma fold_append_payload: "fold (\<lambda>pkt a. a @ payload pkt) ps b = b @ concat (map payload ps)"
  by (induction ps arbitrary: b) auto

lemma reassemble_collected:
  assumes segs: "segmented key segs" and ps: "set ps = set segs" "distinct ps"
    and b: "has_last b" "expected_count b = of_nat (length segs)" "segments b = collected ps"
  shows "reassemble b mt pub msg = Ok (assembled segs)"
proof -
  have len: "length ps = length segs"
    using ps segmented_seg_nos(3) [OF segs] by (metis distinct_card)
  have inj: "inj_on seg_no (set segs)" by (rule segmented_seg_nos(2) [OF segs])
  have sorted: "sorted (map fst (map (\<lambda>p. (seg_no p, p)) segs))"
  proof -
    have "sorted (map (unat \<circ> seg_no) segs)" using segmented_seg_nos(1) [OF segs] by simp
    then show ?thesis by (simp add: sorted_map comp_def word_le_nat_alt)
  qed
  have "bt_iter (collected ps) = map (\<lambda>p. (seg_no p, p)) segs"
    unfolding collected_def
    using ps inj segmented_seg_nos(3) [OF segs]
    by (intro bt.entries_fold_sorted sorted) (auto simp: distinct_map comp_def inj_on_def)
  then have col: "collected ps = map (\<lambda>p. (seg_no p, p)) segs" by (simp add: bt_iter_def)
  have "unat (of_nat (length segs) :: u16) = length segs"
    using segs by (intro unat_of_nat_u16_id) (simp add: segmented_def)
  moreover have "first_gap 0 (collected ps) = None"
    using segmented_seg_nos(1) [OF segs] by (intro first_gap_None) (simp add: col comp_def)
  moreover obtain s ss where "segs = s # ss" using segs by (cases segs) (auto simp: segmented_def)
  ultimately show ?thesis
    using b by (simp add: reassemble_def bt_iter_def bt_len_def bt_into_values_def col comp_def
        assembled_def fold_append_payload)
qed

lemma last_flag:
  assumes "segmented key segs" "p \<in> set segs"
  shows "extract_segment_info (options p) = Some (seg_no p, p = last segs)"
    and "p = last segs \<Longrightarrow> seg_no p + 1 = of_nat (length segs)"
proof -
  obtain i where i: "i < length segs" "p = segs ! i" "unat (seg_no p) = i"
      "extract_segment_info (options p) = Some (seg_no p, Suc i = length segs)"
    using assms by (rule segmented_nth)
  have ne: "segs \<noteq> []" using assms by auto
  have "p = last segs \<longleftrightarrow> Suc i = length segs"
    using i ne segmented_seg_nos(3) [OF assms(1)]
    by (auto simp: last_conv_nth nth_eq_iff_index_eq)
  with i show "extract_segment_info (options p) = Some (seg_no p, p = last segs)" by simp
  assume "p = last segs"
  with \<open>p = last segs \<longleftrightarrow> Suc i = length segs\<close> have "Suc i = length segs" by simp
  moreover have "seg_no p = of_nat (unat (seg_no p))" by simp
  then have "seg_no p = of_nat i" unfolding i(3) .
  ultimately show "seg_no p + 1 = of_nat (length segs)"
    by (metis of_nat_Suc add.commute)
qed

lemma segment_step:
  assumes segs: "segmented key segs" and mx: "length segs \<le> unat (max_segments c)"
    and st: "progress_of key segs c ps" and ps: "set ps \<subseteq> set segs" "distinct ps"
    and p: "p \<in> set segs" "p \<notin> set ps"
  shows "\<exists>c'. try_reassemble_segments now c p =
      Some (Ok (if length ps + 1 = length segs then Some (assembled segs) else None), c') \<and>
    progress_of key segs c' (ps @ [p])"
proof -
  obtain i where i: "i < length segs" "unat (seg_no p) = i" "message_key p = key" "unat (seg_no p) < 2 ^ 15"
    using segs p(1) by (rule segmented_nth)
  have n2: "2 \<le> length segs" using segs by (simp add: segmented_def)
  have dps: "distinct (ps @ [p])" "set (ps @ [p]) \<subseteq> set segs" using ps p by auto
  have lt: "length ps < length segs"
    using dps by (metis card_mono distinct_card finite_set length_append_singleton less_eq_Suc_le segmented_seg_nos(3) [OF segs])
  define b where "b = with_segment (new_buffer now c (message_key p)) (seg_no p) p (p = last segs)"
  have old: "segments (new_buffer now c key) = collected ps" "has_last (new_buffer now c key) = (last segs \<in> set ps)"
    "has_last (new_buffer now c key) \<longrightarrow> expected_count (new_buffer now c key) = of_nat (length segs)"
    using st lt by (auto simp: progress_of_def new_buffer_def ReassemblyBuffer_default_def collected_def split: if_splits)
  have b: "segments b = collected (ps @ [p])" "has_last b = (last segs \<in> set (ps @ [p]))"
    "has_last b \<longrightarrow> expected_count b = of_nat (length segs)"
    using old last_flag(2) [OF segs p(1)] by (auto simp: b_def i(3) with_segment_def collected_snoc)
  have nlen: "unat (of_nat (length segs) :: u16) = length segs"
    using segs by (intro unat_of_nat_u16_id) (simp add: segmented_def)
  have all: "set (ps @ [p]) = set segs" if "length ps + 1 = length segs"
    using that dps segmented_seg_nos(3) [OF segs]
    by (intro card_subset_eq) (auto simp: distinct_card)
  have blen: "bt_len (collected (ps @ [p])) = length ps + 1"
    using collected_laws(3) [OF segs dps(2,1)] by simp
  have ready: "ready_to_reassemble b \<longleftrightarrow> length ps + 1 = length segs"
  proof
    assume "ready_to_reassemble b"
    then show "length ps + 1 = length segs"
      using b nlen blen by (simp add: ready_to_reassemble_def)
  next
    assume len: "length ps + 1 = length segs"
    have "last segs \<in> set segs" using n2 by (intro last_in_set) auto
    then have "has_last b" using b(2) all [OF len] by blast
    with b(1,3) nlen blen len show "ready_to_reassemble b" by (simp add: ready_to_reassemble_def)
  qed
  have nodup: "\<not> bt_contains_key (segments b') (seg_no p) \<and> bt_len (segments b') < unat (max_segments c)"
    if "map_of (incomplete_messages c) key = Some b'" for b'
  proof -
    have "segments b' = collected ps" using old(1) that by (simp add: new_buffer_def)
    moreover have "seg_no p \<notin> seg_no ` set ps"
      using segmented_seg_nos(2) [OF segs] p ps by (auto simp: inj_on_def)
    ultimately show ?thesis using collected_laws [OF segs ps] lt mx
      by (auto simp: bt_contains_key_def map_of_eq_None_iff)
  qed
  have "\<not> (seg_no p = 0 \<and> p = last segs)"
    using last_flag(2) [OF segs p(1)] n2 nlen by auto
  then have "try_reassemble_segments now c p = store_segment now c p (seg_no p) (p = last segs)"
    using nodup i(3) by (auto simp: try_reassemble_segments_def last_flag(1) [OF segs p(1)] Let_def split: option.splits)
  then have step: "try_reassemble_segments now c p = store_segment now c p (seg_no p) (p = last segs)" .
  show ?thesis
  proof (cases "length ps + 1 = length segs")
    case True
    then have "has_last b" using ready by (simp add: ready_to_reassemble_def)
    then have "reassemble b mt pub msg = Ok (assembled segs)" for mt pub msg
      using b by (intro reassemble_collected [OF segs all [OF True] dps(1)]) simp_all
    then show ?thesis
      using True ready i(3) by (simp add: step store_segment_eq [OF i(4) b_def] progress_of_def delete_conv')
  next
    case False
    then show ?thesis
      using ready b i(3) by (simp add: step store_segment_eq [OF i(4) b_def] progress_of_def update_conv')
  qed
qed

lemma other_key_frame:
  assumes "try_reassemble_segments now c q = Some (r, c')"
  shows "max_segments c' = max_segments c"
    and "message_key q \<noteq> key \<Longrightarrow> map_of (incomplete_messages c') key = map_of (incomplete_messages c) key"
  using assms by (auto simp: try_reassemble_segments_def store_segment_def Let_def delete_conv' update_conv'
      split: option.splits if_splits prod.splits)

lemma reassemble_interleaved:
  assumes segs: "segmented key segs" and "\<forall>tp \<in> set tps. parsed_packet (snd tp)"
    and "codec_ok c" and "length segs \<le> unat (max_segments c)" and "progress_of key segs c ps"
    and "distinct (ps @ filter (\<lambda>p. message_key p = key) (map snd tps))"
    and "set (ps @ filter (\<lambda>p. message_key p = key) (map snd tps)) = set segs"
  shows "\<exists>rs c'. reassemble_all c tps = Some (rs, c') \<and> length rs = length tps \<and>
    key_results key tps rs = (let k = length segs - length ps in
       if k = 0 then [] else replicate (k - 1) (Ok None) @ [Ok (Some (assembled segs))]) \<and>
    codec_ok c' \<and> map_of (incomplete_messages c') key = None"
  using assms(2-)
proof (induction tps arbitrary: c ps)
  case Nil
  then have "length ps = length segs" using segmented_seg_nos(3) [OF segs]
    by (metis append_Nil2 distinct_card filter.simps(1) list.simps(8))
  with Nil show ?case by (simp add: key_results_def progress_of_def)
next
  case (Cons tp tps)
  obtain r c' where r: "try_reassemble_segments (fst tp) c (snd tp) = Some (r, c')" "codec_ok c'"
    using try_reassemble_ok [of c "snd tp" "fst tp"] Cons.prems by auto
  have mx: "length segs \<le> unat (max_segments c')" using other_key_frame(1) [OF r(1)] Cons.prems(3) by simp
  show ?case
  proof (cases "message_key (snd tp) = key")
    case False
    have "progress_of key segs c' ps"
      using Cons.prems(4) other_key_frame(2) [OF r(1) False] by (simp add: progress_of_def)
    from Cons.IH [OF _ r(2) mx this] Cons.prems False r(1) show ?thesis
      by (auto simp: key_results_def)
  next
    case True
    have p: "snd tp \<in> set segs" "snd tp \<notin> set ps" "set ps \<subseteq> set segs" "distinct ps"
      using Cons.prems(5,6) True by auto
    from segment_step [OF segs Cons.prems(3,4) p(3,4,1,2), of "fst tp"] r(1)
    have st: "r = Ok (if length ps + 1 = length segs then Some (assembled segs) else None)"
      "progress_of key segs c' (ps @ [snd tp])" by auto
    have le: "length ps + 1 \<le> length segs"
      using p segmented_seg_nos(3) [OF segs] card_mono [of "set segs" "set (ps @ [snd tp])"]
      by (simp add: distinct_card)
    have "distinct ((ps @ [snd tp]) @ filter (\<lambda>p. message_key p = key) (map snd tps))"
      "set ((ps @ [snd tp]) @ filter (\<lambda>p. message_key p = key) (map snd tps)) = set segs"
      using Cons.prems(5,6) True by auto
    from Cons.IH [OF _ r(2) mx st(2) this] Cons.prems(1) obtain rs c'' where
      IH: "reassemble_all c' tps = Some (rs, c'')" "length rs = length tps"
      "key_results key tps rs = (let k = length segs - length (ps @ [snd tp]) in
         if k = 0 then [] else replicate (k - 1) (Ok None) @ [Ok (Some (assembled segs))])"
      "codec_ok c''" "map_of (incomplete_messages c'') key = None" by auto
    have kr: "key_results key (tp # tps) (x # rs) = x # key_results key tps rs" for x
      using True by (simp add: key_results_def)
    obtain m where "length segs = length ps + 1 + m" using le by (metis le_Suc_ex)
    then have "key_results key (tp # tps) (r # rs) = (let k = length segs - length ps in
       if k = 0 then [] else replicate (k - 1) (Ok None) @ [Ok (Some (assembled segs))])"
      using st(1) IH(3) by (cases m) (simp_all add: kr)
    then show ?thesis using IH r(1) by simp
  qed
qed

section \<open>Decoding a datagram\<close>

lemma check_len_Ok:
  assumes "wire_lib_laws L"
  shows "check_len L buf = Ok (h, m) \<longleftrightarrow>
    udp_length_ok buf \<and> h = buf ! 1 \<and> unat m = length buf \<and> be_nat [buf ! 2, buf ! 3] = length buf"
proof (cases "12 \<le> length buf")
  case True
  then obtain a b c d zs where buf: "buf = a # b # c # d # zs" "8 \<le> length zs" using list4 by blast
  have u: "bo_read_u16 L [c, d] = of_nat (be_nat [c, d])"
    using wire_lib_laws.read_u16_law [OF assms, of "[c, d]"] by simp
  have v: "unat (of_nat (be_nat [c, d]) :: u16) = be_nat [c, d]" by (rule unat_msg_len)
  have m: "unat m = be_nat [c, d] \<longleftrightarrow> m = of_nat (be_nat [c, d])"
    by (simp only: word_unat_eq_iff v)
  show ?thesis using buf
    by (auto simp: check_len_def MIN_HEADER_LENGTH_def Let_def u v m word_less_nat_alt unat_ucast_u8_u16 udp_length_ok_def split: if_splits)
next
  case False
  then show ?thesis by (auto simp: check_len_def MIN_HEADER_LENGTH_def udp_length_ok_def)
qed

lemma decode_cases:
  assumes L: "wire_lib_laws L" and c: "codec_ok c"
  obtains
    (skip) "buf = []" "decode L now now' c buf = Some (Ok None, evict now c, [])"
  | (length) e where "buf \<noteq> []" "check_len L buf = Err e" "decode L now now' c buf = Some (Err e, evict now c, buf)"
  | (parse) e where "buf \<noteq> []" "is_ok (check_len L buf)" "UdpNotifPacket_from_wire L (span_new buf) = Some (Err e)"
      "decode L now now' c buf = Some (Err (codec_error_from_nom e), evict now c, [])"
  | (packet) s p r c' where "buf \<noteq> []" "is_ok (check_len L buf)"
      "UdpNotifPacket_from_wire L (span_new buf) = Some (Ok (s, p))" "parsed_packet p"
      "try_reassemble_segments now' (evict now c) p = Some (r, c')" "codec_ok c'" "benign r"
      "decode L now now' c buf = Some (r, c', [])"
proof -
  consider "buf = []" | e where "buf \<noteq> []" "check_len L buf = Err e"
    | h m where "buf \<noteq> []" "check_len L buf = Ok (h, m)" by (cases "check_len L buf") auto
  then show ?thesis
  proof cases
    case 1 then show ?thesis by (intro skip) (simp_all add: decode_def)
  next
    case 2 then show ?thesis by (intro length) (simp_all add: decode_def)
  next
    case 3
    obtain r where r: "UdpNotifPacket_from_wire L (span_new buf) = Some r"
      using wire_lib_laws.packet_from_wire_returns [OF L] by blast
    show ?thesis
    proof (cases r)
      case (Err e)
      with 3 r show ?thesis by (intro parse [of e]) (simp_all add: decode_def Let_def)
    next
      case (Ok sp)
      obtain s p where sp: "sp = (s, p)" by (cases sp)
      note r = r [unfolded Ok sp]
      obtain os where os: "s = span_slice_from (be_nat [buf ! 2, buf ! 3]) (span_new buf)"
        "options p = foldl insert_option Map.empty os" "\<forall>opt \<in> set os. option_wf opt"
        using r by (rule wire_lib_laws.packet_from_wire_OkD [OF L]) simp
      then have p: "parsed_packet p"
        by (auto simp: parsed_packet_def dest!: foldl_insert_option_range)
      have s: "s = span_slice_from (length buf) (span_new buf)"
        using os(1) check_len_Ok [OF L, of buf h m] 3 by simp
      obtain r' c' where "try_reassemble_segments now' (evict now c) p = Some (r', c')" "codec_ok c'" "benign r'"
        using try_reassemble_ok [OF evict_ok [OF c] p] by blast
      with 3 r s p show ?thesis
        using check_len_Ok [OF L, of buf h m]
        by (intro packet [of s p r' c']) (simp_all add: decode_def Let_def location_offset_def span_is_empty_def)
    qed
  qed
qed

lemma check_len_allowed: "check_len L buf = Err e \<Longrightarrow> decode_failure_allowed e"
  unfolding check_len_def Let_def
  by (simp only: result.distinct result.inject split: if_splits)
    (auto simp only: decode_failure_allowed_def UdpPacketCodecError.case)

lemma benign_allowed: "benign (Err e) \<Longrightarrow> decode_failure_allowed e \<and> (\<forall>m. e \<noteq> UdpPacketCodecError.InvalidMessageLength m)"
  by (cases e) (auto simp: benign_def decode_failure_allowed_def split: ReassemblyBufferError.splits)

lemma codec_error_from_nom_allowed:
  "decode_failure_allowed (codec_error_from_nom e) \<and> codec_error_from_nom e \<noteq> UdpPacketCodecError.InvalidMessageLength m"
  by (cases e) (simp_all add: decode_failure_allowed_def)

lemma try_reassemble_timestamps:
  assumes p: "parsed_packet p" and t: "try_reassemble_segments now c p = Some (r, c')"
    and k: "map_of (incomplete_messages c') key = Some b"
  shows "timestamp b = now \<or> (\<exists>b'. map_of (incomplete_messages c) key = Some b' \<and> timestamp b' = timestamp b)"
proof (cases "map_of (incomplete_messages c) key = Some b")
  case False
  obtain n l where nl: "extract_segment_info (options p) = Some (n, l)" "n = 0 \<and> l \<or> segment_ok (message_key p) n p"
    using p by (rule parsed_segment_info)
  have n0: "\<not> (n = 0 \<and> l)" using t k False nl by (auto simp: try_reassemble_segments_def)
  with nl have n: "unat n < 2 ^ 15" by (auto simp: segment_ok_def)
  have key: "message_key p = key" using other_key_frame(2) [OF t, of key] k False by auto
  have "store_segment now c p n l = Some (r, c')"
    using t k False n0 key
    by (auto simp: try_reassemble_segments_def nl Let_def delete_conv' split: option.splits if_splits)
  then have "b = with_segment (new_buffer now c key) n p l"
    using k key by (auto simp: store_segment_eq [OF n refl] update_conv' delete_conv' split: if_splits)
  then show ?thesis
    by (cases "map_of (incomplete_messages c) key") (auto simp: new_buffer_def ReassemblyBuffer_default_def)
qed simp

lemma try_reassemble_evictions:
  assumes "try_reassemble_segments now c p = Some (r, c')"
  shows "timeout_evictions (reassembly_events c') = timeout_evictions (reassembly_events c)"
  using assms by (auto simp: try_reassemble_segments_def store_segment_def Let_def
      split: option.splits if_splits prod.splits)

lemma evict_counts:
  "timeout_evictions (reassembly_events (evict now c)) = timeout_evictions (reassembly_events c) +
      of_nat (length (filter (\<lambda>(key, b). is_timed_out b now (reassembly_timeout c)) (incomplete_messages c)))"
proof -
  let ?P = "\<lambda>(key, b). is_timed_out b now (reassembly_timeout c)"
  have "length (incomplete_messages c) - length (filter (\<lambda>(_, b). \<not> is_timed_out b now (reassembly_timeout c))
      (incomplete_messages c)) = length (filter ?P (incomplete_messages c))"
    using sum_length_filter_compl [of ?P "incomplete_messages c"] by (simp add: split_def)
  then show ?thesis by (simp add: evict_def Let_def)
qed

section \<open>Properties\<close>

text \<open>
  C1: segmented messages are reassembled whatever the order of arrival.  Take the segments
  \<open>0, ..., n - 1\<close> of one message, with \<open>2 \<le> n\<close> and \<open>n\<close> within the configured maximum, delivered in any
  order and interleaved with any parsed packets of other messages.  Every segment but the one
  that arrives last yields no packet, that one yields a packet with the payloads concatenated in
  segment order and the options of segment 0 without the segment option, no error occurs,
  and the buffer of the message is gone afterwards.
\<close>

theorem udp_reassembly:
  assumes "segmented key segs" and "length segs \<le> unat (max_segments c)"
    and "codec_ok c" and "map_of (incomplete_messages c) key = None"
    and "\<forall>tp \<in> set tps. parsed_packet (snd tp)"
    and "distinct (filter (\<lambda>p. message_key p = key) (map snd tps))"
    and "set (filter (\<lambda>p. message_key p = key) (map snd tps)) = set segs"
  shows "\<exists>rs c'. reassemble_all c tps = Some (rs, c') \<and> length rs = length tps \<and>
    key_results key tps rs =
      replicate (length segs - 1) (Ok None) @ [Ok (Some (assembled segs))] \<and>
    codec_ok c' \<and> map_of (incomplete_messages c') key = None"
proof -
  have "length segs \<noteq> 0" using assms(1) by (auto simp: segmented_def)
  moreover have "progress_of key segs c []" using assms(4) by (simp add: progress_of_def)
  ultimately show ?thesis
    using reassemble_interleaved [OF assms(1,5,3,2), of "[]"] assms(6,7) by simp
qed

definition example_segment :: "u16 \<Rightarrow> bool \<Rightarrow> bytes \<Rightarrow> UdpNotifPacket" where
  "example_segment n l pl = UdpNotifPacket_new YangDataJson 1 2
     [UdpNotifOptionCode.Segment \<mapsto> UdpNotifOption.Segment n l] pl"

lemma example_segment_simps:
  "parsed_packet (example_segment n l pl) \<longleftrightarrow> unat n < 2 ^ 15"
  "message_key (example_segment n l pl) = (1, 2)"
  "extract_segment_info (options (example_segment n l pl)) = Some (n, l)"
  "example_segment n l pl = example_segment n' l' pl' \<longleftrightarrow> n = n' \<and> l = l' \<and> pl = pl'"
  by (auto simp: example_segment_def parsed_packet_def UdpNotifPacket_new_def message_key_def
      extract_segment_info_def dest: map_upd_eqD1)

text \<open>Three segments, delivered last one first.\<close>

theorem udp_reassembly_witness:
  "\<exists>rs c'. reassemble_all UdpPacketCodec_default
       [(0, example_segment 2 True [30]), (1, example_segment 0 False [10]), (2, example_segment 1 False [20])] =
     Some (rs, c') \<and>
     rs = [Ok None, Ok None, Ok (Some (UdpNotifPacket_new YangDataJson 1 2 Map.empty [10, 20, 30]))]"
proof -
  let ?segs = "[example_segment 0 False [10], example_segment 1 False [20], example_segment 2 True [30]]"
  have seg: "segmented (1, 2) ?segs"
    by (auto simp: segmented_def example_segment_simps less_Suc_eq numeral_3_eq_3)
  have as: "assembled ?segs = UdpNotifPacket_new YangDataJson 1 2 Map.empty [10, 20, 30]"
    by (simp add: assembled_def example_segment_def UdpNotifPacket_new_def)
  have def: "codec_ok UdpPacketCodec_default" "map_of (incomplete_messages UdpPacketCodec_default) (1, 2) = None"
    "length ?segs \<le> unat (max_segments UdpPacketCodec_default)"
    by (simp_all add: codec_ok_def UdpPacketCodec_default_def DEFAULT_MAX_SEGMENTS_def)
  let ?tps = "[(0, example_segment 2 True [30]), (1, example_segment 0 False [10]), (2, example_segment 1 False [20])]"
  have "distinct (filter (\<lambda>p. message_key p = (1, 2)) (map snd ?tps))"
    "set (filter (\<lambda>p. message_key p = (1, 2)) (map snd ?tps)) = set ?segs"
    "\<forall>tp \<in> set ?tps. parsed_packet (snd tp)"
    by (auto simp: example_segment_simps)
  from udp_reassembly [OF seg def(3,1,2) this(3,1,2)] obtain rs c' where
    r: "reassemble_all UdpPacketCodec_default ?tps = Some (rs, c')" "length rs = length ?tps"
      "key_results (1, 2) ?tps rs = [Ok None, Ok None, Ok (Some (assembled ?segs))]"
    by (auto simp del: reassemble_all.simps)
  from r(2) obtain r1 r2 r3 where "rs = [r1, r2, r3]" by (auto simp: length_Suc_conv)
  with r(3) have "rs = [Ok None, Ok None, Ok (Some (assembled ?segs))]"
    by (simp add: key_results_def example_segment_simps)
  with r(1) show ?thesis by (simp add: as del: reassemble_all.simps)
qed

text \<open>
  C13: decoding a datagram never panics and never hangs, and it keeps the invariant of the codec:
  every reassembly buffer holds distinct, well-formed segments of its own message, in order, at
  most the configured maximum of them (at least one), and is not complete.  The datagram is
  consumed unless its length fields are rejected.  The errors it can return exclude the internal
  error, the missing-last-segment and the incomplete-segments errors, and once the length fields
  are accepted the later length check never fires.
\<close>

theorem udp_decode_safe:
  assumes "wire_lib_laws L" and "codec_ok c"
  shows "\<exists>r c' buf'. decode L now now' c buf = Some (r, c', buf') \<and> codec_ok c' \<and>
    buf' = (if is_ok (check_len L buf) then [] else buf) \<and>
    (\<forall>e. r = Err e \<longrightarrow> decode_failure_allowed e \<and>
       (is_ok (check_len L buf) \<longrightarrow> (\<forall>m. e \<noteq> UdpPacketCodecError.InvalidMessageLength m)))"
  using assms
proof (cases rule: decode_cases [of L c buf now now'])
  case skip
  then show ?thesis using evict_ok [OF assms(2)] by (simp add: check_len_def MIN_HEADER_LENGTH_def)
next
  case (length e)
  then show ?thesis using evict_ok [OF assms(2)] check_len_allowed by simp
next
  case (parse e)
  then show ?thesis using evict_ok [OF assms(2)] codec_error_from_nom_allowed by simp
next
  case (packet s p r c')
  then show ?thesis using benign_allowed by (cases r) auto
qed

theorem udp_decode_safe_witness:
  "wire_lib_laws net_lib \<and> codec_ok UdpPacketCodec_default \<and>
   (\<exists>r c' buf'. decode net_lib 0 0 UdpPacketCodec_default [0x21, 12, 0] = Some (r, c', buf') \<and> codec_ok c')"
  using udp_decode_safe [of net_lib UdpPacketCodec_default 0 0 "[0x21, 12, 0]"]
  by (auto simp: net.wire_lib_laws_axioms codec_ok_def UdpPacketCodec_default_def)

text \<open>
  C18: after decoding at time \<open>now\<close> no reassembly buffer older than the configured timeout is left,
  and the eviction counter has grown by exactly the number of buffers that were.
\<close>

theorem udp_decode_evicts:
  assumes "wire_lib_laws L" and "codec_ok c" and "now \<le> now'"
    and "decode L now now' c buf = Some (r, c', buf')"
  shows "timeout_evictions (reassembly_events c') = timeout_evictions (reassembly_events c) +
      of_nat (length (filter (\<lambda>(key, b). is_timed_out b now (reassembly_timeout c)) (incomplete_messages c))) \<and>
    (\<forall>key b. map_of (incomplete_messages c') key = Some b \<longrightarrow> \<not> is_timed_out b now (reassembly_timeout c))"
proof -
  have ev: "\<not> is_timed_out b now (reassembly_timeout c)"
    if "map_of (incomplete_messages (evict now c)) key = Some b" for key b
    using that by (simp add: map_of_evict [OF codec_ok_distinct [OF assms(2)]] split: option.splits if_splits)
  show ?thesis
    using assms(1,2)
  proof (cases rule: decode_cases [of L c buf now now'])
    case (packet s p r c'')
    have "\<not> is_timed_out b now (reassembly_timeout c)"
      if "map_of (incomplete_messages c'') key = Some b" for key b
      using try_reassemble_timestamps [OF packet(4,5) that] ev [of key] assms(3)
      by (auto simp: is_timed_out_def)
    then show ?thesis
      using packet assms(4) try_reassemble_evictions [OF packet(5)] evict_counts by auto
  qed (use assms(4) ev evict_counts in auto)
qed

theorem udp_decode_evicts_witness:
  "let b = \<lparr>timestamp = 0, has_last = False, expected_count = 1, segments = [(1, example_segment 1 False [])]\<rparr>;
       c = UdpPacketCodec_default\<lparr>incomplete_messages := [((1, 2), b)]\<rparr>
   in decode net_lib 11 11 c [] = Some (Ok None, evict 11 c, []) \<and>
      timeout_evictions (reassembly_events (evict 11 c)) = 1"
proof -
  let ?b = "\<lparr>timestamp = 0, has_last = False, expected_count = 1, segments = [(1, example_segment 1 False [])]\<rparr>"
  let ?c = "UdpPacketCodec_default\<lparr>incomplete_messages := [((1, 2), ?b)]\<rparr>"
  have "segment_ok (1, 2) 1 (example_segment 1 False [])"
    by (simp add: segment_ok_def example_segment_simps)
      (simp add: example_segment_def UdpNotifPacket_new_def exI [of _ False])
  then have "buffer_ok (max_segments ?c) (1, 2) ?b"
    by (simp add: buffer_ok_def bt_ok_def bt_len_def bt_get_def ready_to_reassemble_def
        UdpPacketCodec_default_def DEFAULT_MAX_SEGMENTS_def)
  then have "codec_ok ?c" by (simp add: codec_ok_def)
  moreover have dec: "decode net_lib 11 11 ?c [] = Some (Ok None, evict 11 ?c, [])" by (simp add: decode_def)
  ultimately show ?thesis
    using udp_decode_evicts [of net_lib ?c 11 11 "[]" "Ok None" "evict 11 ?c" "[]"]
    by (simp add: net.wire_lib_laws_axioms is_timed_out_def UdpPacketCodec_default_def
        DEFAULT_REASSEMBLY_TIMEOUT_def ReassemblyEventCounts_default_def)
qed

text \<open>
  C19: a retransmitted segment changes nothing.  When a packet was taken and did not complete its
  message, the same packet arriving again yields no packet, leaves every buffer as it is and
  only increments the duplicate counter.
\<close>

theorem udp_retransmission:
  assumes "codec_ok c" and "parsed_packet p"
    and "try_reassemble_segments now c p = Some (Ok None, c')"
  shows "try_reassemble_segments now' c' p = Some (Ok None, c'\<lparr>reassembly_events := (reassembly_events c')
      \<lparr>duplicate_drops := duplicate_drops (reassembly_events c') + 1\<rparr>\<rparr>)"
proof -
  obtain n l where nl: "extract_segment_info (options p) = Some (n, l)" "n = 0 \<and> l \<or> segment_ok (message_key p) n p"
    using assms(2) by (rule parsed_segment_info)
  have n0: "\<not> (n = 0 \<and> l)" using assms(3) nl by (auto simp: try_reassemble_segments_def)
  with nl have n: "unat n < 2 ^ 15" by (auto simp: segment_ok_def)
  obtain b where "map_of (incomplete_messages c') (message_key p) = Some b" "bt_contains_key (segments b) n"
  proof (cases "is_dup c p n")
    case True
    then show ?thesis using assms(3) n0 that
      by (auto simp: try_reassemble_segments_def nl Let_def is_dup_def split: option.splits)
  next
    case False
    with assms(3) n0 have "store_segment now c p n l = Some (Ok None, c')"
      by (auto simp: try_reassemble_segments_def nl Let_def is_dup_def split: option.splits if_splits)
    then have "c' = c\<lparr>incomplete_messages := AList.update (message_key p)
        (with_segment (new_buffer now c (message_key p)) n p l) (incomplete_messages c)\<rparr>"
      by (simp add: store_segment_eq [OF n refl] result_simps split: if_splits)
    then show ?thesis
      by (intro that [of "with_segment (new_buffer now c (message_key p)) n p l"])
        (simp_all add: update_conv' bt_contains_key_def bt_get_insert)
  qed
  then show ?thesis using n0 by (simp add: try_reassemble_segments_def nl Let_def)
qed

theorem udp_retransmission_witness:
  "\<exists>c'. try_reassemble_segments 0 UdpPacketCodec_default (example_segment 1 False [7]) = Some (Ok None, c') \<and>
     (\<exists>c''. try_reassemble_segments 5 c' (example_segment 1 False [7]) = Some (Ok None, c'') \<and>
        incomplete_messages c'' = incomplete_messages c')"
proof -
  have "\<exists>c'. try_reassemble_segments 0 UdpPacketCodec_default (example_segment 1 False [7]) = Some (Ok None, c')"
    by (simp add: try_reassemble_segments_def example_segment_simps store_segment_eq UdpPacketCodec_default_def
        new_buffer_def ready_to_reassemble_def with_segment_def ReassemblyBuffer_default_def)
  moreover have "codec_ok UdpPacketCodec_default"
    by (simp add: codec_ok_def UdpPacketCodec_default_def)
  ultimately show ?thesis
    using udp_retransmission [of UdpPacketCodec_default "example_segment 1 False [7]" 0 _ 5]
    by (fastforce simp: example_segment_simps)
qed

text \<open>
  C20: decoding inverts encoding.  The datagram the encoder produces for a packet that is not
  segmented, whose options and media type the format can carry, decodes in one step to exactly
  that packet, for every state of the codec and every order of its option map, and uses up the
  datagram.
\<close>

theorem udp_encode_decode:
  assumes L: "wire_lib_laws L" and "enumerates es (options p)" and "\<forall>opt \<in> set es. option_wf opt"
    and "media_type_wf (media_type p) (options p)" and "extract_segment_info (options p) = Some (0, True)"
    and "encode L c p es [] = (Ok (), buf)"
  shows "decode L now now' c buf = Some (Ok (Some p), evict now c, [])"
proof -
  have w: "snd (UdpNotifPacket_write L p es) = Ok ()" "fst (UdpNotifPacket_write L p es) = buf"
    using assms(6) by (auto simp: encode_def)
  note parse = wire_lib_laws.packet_from_wire_write [OF assms(1-4) w(1), where rest = "[]"]
  have p: "UdpNotifPacket_from_wire L (span_new buf) = Some (Ok (span_slice_from (length buf) (span_new buf), p))"
    using parse [of "span_new buf"] w(2) by simp
  obtain os where os: "udp_length_ok buf" "be_nat [buf ! 2, buf ! 3] \<le> length buf"
    "span_slice_from (length buf) (span_new buf) = span_slice_from (be_nat [buf ! 2, buf ! 3]) (span_new buf)"
    using p by (rule wire_lib_laws.packet_from_wire_OkD [OF L]) simp
  have "length buf = be_nat [buf ! 2, buf ! 3]"
    using arg_cong [OF os(3), of offset] by simp
  moreover from this have "unat (of_nat (length buf) :: u16) = length buf" using unat_msg_len by metis
  ultimately have "check_len L buf = Ok (buf ! 1, of_nat (length buf))"
    using os check_len_Ok [OF L] by simp
  moreover have "buf \<noteq> []" using os(1) by (auto simp: udp_length_ok_def)
  ultimately show ?thesis
    using p assms(5) \<open>unat (of_nat (length buf) :: u16) = length buf\<close>
    by (simp add: decode_def Let_def location_offset_def span_is_empty_def try_reassemble_segments_def)
qed

theorem udp_encode_decode_witness:
  "let p = UdpNotifPacket_new YangDataXml 3 4 Map.empty [9, 9];
       buf = snd (encode net_lib UdpPacketCodec_default p [] [])
   in buf = [0x22, 12, 0, 14, 0, 0, 0, 3, 0, 0, 0, 4, 9, 9] \<and>
      decode net_lib 0 0 UdpPacketCodec_default buf = Some (Ok (Some p), evict 0 UdpPacketCodec_default, [])"
  using udp_encode_decode [of net_lib "[]" "UdpNotifPacket_new YangDataXml 3 4 Map.empty [9, 9]"
      UdpPacketCodec_default "[0x22, 12, 0, 14, 0, 0, 0, 3, 0, 0, 0, 4, 9, 9]" 0 0]
  by (simp add: net.wire_lib_laws_axioms enumerates_def extract_segment_info_def UdpNotifPacket_new_def
      encode_def UdpNotifPacket_write_def first_byte_def net.write_u16_law net.write_u32_law be_bytes_2 be_bytes_4)

end
