(* ===== verification/Iana_Address_Family.thy ===== *)
theory Iana_Address_Family
  imports NC_Prelude
begin

text \<open>
  Address families, subsequent address families and the valid combinations of the two
  (\<open>crates/iana/src/address_family.rs\<close>).  \<open>from_repr\<close> is the search for the variant with a given
  discriminant.
\<close>

section \<open>Data\<close>

datatype (plugins only: code) AddressFamily =
    IPv4 | IPv6 | Nsap | Hdlc | BBN1822 | IEEE802 | E163 | E164 | F69 | FrameRelay | IPX
  | AppleTalk | DecnetIv | BanyanVines | E164Nsap | DNS | DistinguishedName | ASNumber
  | XtpIpv4 | XtpIpv6 | XTPNative | FiberPortName | FiberNodeName | Gwid | L2vpn
  | MplsTpSectionEndpointId | MplsTpLspEndpointId | MplsTpPseudowireEndpointId | MpIpv4
  | MpIpv6 | BgpSfc | EigrpCommonServiceFamily | EigrpIpv4 | EigrpIpv6
  | LispCanonicalAddressFormat | BgpLs | Mac48Bit | Mac64Bit | OUI | MacSlash24 | MacSlash40
  | Ipv6Slash64 | RBridgePortID | TrillNickname | Uuid | RoutingPolicyAfi | MplsNamespaces

primrec u16_from_AddressFamily :: "AddressFamily \<Rightarrow> u16" where
  "u16_from_AddressFamily AddressFamily.IPv4 = 1"
| "u16_from_AddressFamily AddressFamily.IPv6 = 2"
| "u16_from_AddressFamily AddressFamily.Nsap = 3"
| "u16_from_AddressFamily AddressFamily.Hdlc = 4"
| "u16_from_AddressFamily AddressFamily.BBN1822 = 5"
| "u16_from_AddressFamily AddressFamily.IEEE802 = 6"
| "u16_from_AddressFamily AddressFamily.E163 = 7"
| "u16_from_AddressFamily AddressFamily.E164 = 8"
| "u16_from_AddressFamily AddressFamily.F69 = 9"
| "u16_from_AddressFamily AddressFamily.FrameRelay = 10"
| "u16_from_AddressFamily AddressFamily.IPX = 11"
| "u16_from_AddressFamily AddressFamily.AppleTalk = 12"
| "u16_from_AddressFamily AddressFamily.DecnetIv = 13"
| "u16_from_AddressFamily AddressFamily.BanyanVines = 14"
| "u16_from_AddressFamily AddressFamily.E164Nsap = 15"
| "u16_from_AddressFamily AddressFamily.DNS = 16"
| "u16_from_AddressFamily AddressFamily.DistinguishedName = 17"
| "u16_from_AddressFamily AddressFamily.ASNumber = 18"
| "u16_from_AddressFamily AddressFamily.XtpIpv4 = 19"
| "u16_from_AddressFamily AddressFamily.XtpIpv6 = 20"
| "u16_from_AddressFamily AddressFamily.XTPNative = 21"
| "u16_from_AddressFamily AddressFamily.FiberPortName = 22"
| "u16_from_AddressFamily AddressFamily.FiberNodeName = 23"
| "u16_from_AddressFamily AddressFamily.Gwid = 24"
| "u16_from_AddressFamily AddressFamily.L2vpn = 25"
| "u16_from_AddressFamily AddressFamily.MplsTpSectionEndpointId = 26"
| "u16_from_AddressFamily AddressFamily.MplsTpLspEndpointId = 27"
| "u16_from_AddressFamily AddressFamily.MplsTpPseudowireEndpointId = 28"
| "u16_from_AddressFamily AddressFamily.MpIpv4 = 29"
| "u16_from_AddressFamily AddressFamily.MpIpv6 = 30"
| "u16_from_AddressFamily AddressFamily.BgpSfc = 31"
| "u16_from_AddressFamily AddressFamily.EigrpCommonServiceFamily = 16384"
| "u16_from_AddressFamily AddressFamily.EigrpIpv4 = 16385"
| "u16_from_AddressFamily AddressFamily.EigrpIpv6 = 16386"
| "u16_from_AddressFamily AddressFamily.LispCanonicalAddressFormat = 16387"
| "u16_from_AddressFamily AddressFamily.BgpLs = 16388"
| "u16_from_AddressFamily AddressFamily.Mac48Bit = 16389"
| "u16_from_AddressFamily AddressFamily.Mac64Bit = 16390"
| "u16_from_AddressFamily AddressFamily.OUI = 16391"
| "u16_from_AddressFamily AddressFamily.MacSlash24 = 16392"
| "u16_from_AddressFamily AddressFamily.MacSlash40 = 16393"
| "u16_from_AddressFamily AddressFamily.Ipv6Slash64 = 16394"
| "u16_from_AddressFamily AddressFamily.RBridgePortID = 16395"
| "u16_from_AddressFamily AddressFamily.TrillNickname = 16396"
| "u16_from_AddressFamily AddressFamily.Uuid = 16397"
| "u16_from_AddressFamily AddressFamily.RoutingPolicyAfi = 16398"
| "u16_from_AddressFamily AddressFamily.MplsNamespaces = 16399"

definition AddressFamily_variants :: "AddressFamily list" where
  "AddressFamily_variants =
    [AddressFamily.IPv4, AddressFamily.IPv6, AddressFamily.Nsap, AddressFamily.Hdlc,
     AddressFamily.BBN1822, AddressFamily.IEEE802, AddressFamily.E163, AddressFamily.E164,
     AddressFamily.F69, AddressFamily.FrameRelay, AddressFamily.IPX, AddressFamily.AppleTalk,
     AddressFamily.DecnetIv, AddressFamily.BanyanVines, AddressFamily.E164Nsap,
     AddressFamily.DNS, AddressFamily.DistinguishedName, AddressFamily.ASNumber,
     AddressFamily.XtpIpv4, AddressFamily.XtpIpv6, AddressFamily.XTPNative,
     AddressFamily.FiberPortName, AddressFamily.FiberNodeName, AddressFamily.Gwid,
     AddressFamily.L2vpn, AddressFamily.MplsTpSectionEndpointId,
     AddressFamily.MplsTpLspEndpointId, AddressFamily.MplsTpPseudowireEndpointId,
     AddressFamily.MpIpv4, AddressFamily.MpIpv6, AddressFamily.BgpSfc,
     AddressFamily.EigrpCommonServiceFamily, AddressFamily.EigrpIpv4, AddressFamily.EigrpIpv6,
     AddressFamily.LispCanonicalAddressFormat, AddressFamily.BgpLs, AddressFamily.Mac48Bit,
     AddressFamily.Mac64Bit, AddressFamily.OUI, AddressFamily.MacSlash24,
     AddressFamily.MacSlash40, AddressFamily.Ipv6Slash64, AddressFamily.RBridgePortID,
     AddressFamily.TrillNickname, AddressFamily.Uuid, AddressFamily.RoutingPolicyAfi,
     AddressFamily.MplsNamespaces]"

definition AddressFamily_from_repr :: "u16 \<Rightarrow> AddressFamily option" where
  "AddressFamily_from_repr value = List.find (\<lambda>afi. u16_from_AddressFamily afi = value) AddressFamily_variants"

datatype (plugins only: code) UndefinedAddressFamily = UndefinedAddressFamily u16

definition AddressFamily_try_from :: "u16 \<Rightarrow> (AddressFamily, UndefinedAddressFamily) result" where
  "AddressFamily_try_from value =
     (case AddressFamily_from_repr value of
        Some val \<Rightarrow> Ok val | None \<Rightarrow> Err (UndefinedAddressFamily value))"

datatype (plugins only: code) SubsequentAddressFamily =
    Unicast | Multicast | NlriMplsLabels | McastVpn | NlriMsp | McastVpls | BgpSfc | Tunnel
  | VPLS | BgpMdtSafi | Bgp4over6 | Bgp6over4 | Layer1Vpn | BgpEvpn | BgpLs | BgpLsVpn
  | SrTePolicy | SdnWan | RoutingPolicy | ClassfulTransport | TunneledTrafficFlowSpec
  | McastTree | BgpDps | MplsVpn | MulticastBgpMplsVpn | RouteTargetConstrains
  | FlowSpecFilter | FlowSpecFilterL3Vpn | VpnAutoDiscovery | PrivateUse241 | PrivateUse242
  | PrivateUse243 | PrivateUse244 | PrivateUse245 | PrivateUse246 | PrivateUse247
  | PrivateUse248 | PrivateUse249 | PrivateUse250 | PrivateUse251 | PrivateUse252
  | PrivateUse253 | PrivateUse254

primrec u8_from_SubsequentAddressFamily :: "SubsequentAddressFamily \<Rightarrow> u8" where
  "u8_from_SubsequentAddressFamily SubsequentAddressFamily.Unicast = 1"
| "u8_from_SubsequentAddressFamily SubsequentAddressFamily.Multicast = 2"
| "u8_from_SubsequentAddressFamily SubsequentAddressFamily.NlriMplsLabels = 4"
| "u8_from_SubsequentAddressFamily SubsequentAddressFamily.McastVpn = 5"
| "u8_from_SubsequentAddressFamily SubsequentAddressFamily.NlriMsp = 6"
| "u8_from_SubsequentAddressFamily SubsequentAddressFamily.McastVpls = 8"
| "u8_from_SubsequentAddressFamily SubsequentAddressFamily.BgpSfc = 9"
| "u8_from_SubsequentAddressFamily SubsequentAddressFamily.Tunnel = 64"
| "u8_from_SubsequentAddressFamily SubsequentAddressFamily.VPLS = 65"
| "u8_from_SubsequentAddressFamily SubsequentAddressFamily.BgpMdtSafi = 66"
| "u8_from_SubsequentAddressFamily SubsequentAddressFamily.Bgp4over6 = 67"
| "u8_from_SubsequentAddressFamily SubsequentAddressFamily.Bgp6over4 = 68"
| "u8_from_SubsequentAddressFamily SubsequentAddressFamily.Layer1Vpn = 69"
| "u8_from_SubsequentAddressFamily SubsequentAddressFamily.BgpEvpn = 70"
| "u8_from_SubsequentAddressFamily SubsequentAddressFamily.BgpLs = 71"
| "u8_from_SubsequentAddressFamily SubsequentAddressFamily.BgpLsVpn = 72"
| "u8_from_SubsequentAddressFamily SubsequentAddressFamily.SrTePolicy = 73"
| "u8_from_SubsequentAddressFamily SubsequentAddressFamily.SdnWan = 74"
| "u8_from_SubsequentAddressFamily SubsequentAddressFamily.RoutingPolicy = 75"
| "u8_from_SubsequentAddressFamily SubsequentAddressFamily.ClassfulTransport = 76"
| "u8_from_SubsequentAddressFamily SubsequentAddressFamily.TunneledTrafficFlowSpec = 77"
| "u8_from_SubsequentAddressFamily SubsequentAddressFamily.McastTree = 78"
| "u8_from_SubsequentAddressFamily SubsequentAddressFamily.BgpDps = 79"
| "u8_from_SubsequentAddressFamily SubsequentAddressFamily.MplsVpn = 128"
| "u8_from_SubsequentAddressFamily SubsequentAddressFamily.MulticastBgpMplsVpn = 129"
| "u8_from_SubsequentAddressFamily SubsequentAddressFamily.RouteTargetConstrains = 132"
| "u8_from_SubsequentAddressFamily SubsequentAddressFamily.FlowSpecFilter = 133"
| "u8_from_SubsequentAddressFamily SubsequentAddressFamily.FlowSpecFilterL3Vpn = 134"
| "u8_from_SubsequentAddressFamily SubsequentAddressFamily.VpnAutoDiscovery = 140"
| "u8_from_SubsequentAddressFamily SubsequentAddressFamily.PrivateUse241 = 241"
| "u8_from_SubsequentAddressFamily SubsequentAddressFamily.PrivateUse242 = 242"
| "u8_from_SubsequentAddressFamily SubsequentAddressFamily.PrivateUse243 = 243"
| "u8_from_SubsequentAddressFamily SubsequentAddressFamily.PrivateUse244 = 244"
| "u8_from_SubsequentAddressFamily SubsequentAddressFamily.PrivateUse245 = 245"
| "u8_from_SubsequentAddressFamily SubsequentAddressFamily.PrivateUse246 = 246"
| "u8_from_SubsequentAddressFamily SubsequentAddressFamily.PrivateUse247 = 247"
| "u8_from_SubsequentAddressFamily SubsequentAddressFamily.PrivateUse248 = 248"
| "u8_from_SubsequentAddressFamily SubsequentAddressFamily.PrivateUse249 = 249"
| "u8_from_SubsequentAddressFamily SubsequentAddressFamily.PrivateUse250 = 250"
| "u8_from_SubsequentAddressFamily SubsequentAddressFamily.PrivateUse251 = 251"
| "u8_from_SubsequentAddressFamily SubsequentAddressFamily.PrivateUse252 = 252"
| "u8_from_SubsequentAddressFamily SubsequentAddressFamily.PrivateUse253 = 253"
| "u8_from_SubsequentAddressFamily SubsequentAddressFamily.PrivateUse254 = 254"

definition SubsequentAddressFamily_variants :: "SubsequentAddressFamily list" where
  "SubsequentAddressFamily_variants =
    [SubsequentAddressFamily.Unicast, SubsequentAddressFamily.Multicast,
     SubsequentAddressFamily.NlriMplsLabels, SubsequentAddressFamily.McastVpn,
     SubsequentAddressFamily.NlriMsp, SubsequentAddressFamily.McastVpls,
     SubsequentAddressFamily.BgpSfc, SubsequentAddressFamily.Tunnel,
     SubsequentAddressFamily.VPLS, SubsequentAddressFamily.BgpMdtSafi,
     SubsequentAddressFamily.Bgp4over6, SubsequentAddressFamily.Bgp6over4,
     SubsequentAddressFamily.Layer1Vpn, SubsequentAddressFamily.BgpEvpn,
     SubsequentAddressFamily.BgpLs, SubsequentAddressFamily.BgpLsVpn,
     SubsequentAddressFamily.SrTePolicy, SubsequentAddressFamily.SdnWan,
     SubsequentAddressFamily.RoutingPolicy, SubsequentAddressFamily.ClassfulTransport,
     SubsequentAddressFamily.TunneledTrafficFlowSpec, SubsequentAddressFamily.McastTree,
     SubsequentAddressFamily.BgpDps, SubsequentAddressFamily.MplsVpn,
     SubsequentAddressFamily.MulticastBgpMplsVpn,
     SubsequentAddressFamily.RouteTargetConstrains, SubsequentAddressFamily.FlowSpecFilter,
     SubsequentAddressFamily.FlowSpecFilterL3Vpn, SubsequentAddressFamily.VpnAutoDiscovery,
     SubsequentAddressFamily.PrivateUse241, SubsequentAddressFamily.PrivateUse242,
     SubsequentAddressFamily.PrivateUse243, SubsequentAddressFamily.PrivateUse244,
     SubsequentAddressFamily.PrivateUse245, SubsequentAddressFamily.PrivateUse246,
     SubsequentAddressFamily.PrivateUse247, SubsequentAddressFamily.PrivateUse248,
     SubsequentAddressFamily.PrivateUse249, SubsequentAddressFamily.PrivateUse250,
     SubsequentAddressFamily.PrivateUse251, SubsequentAddressFamily.PrivateUse252,
     SubsequentAddressFamily.PrivateUse253, SubsequentAddressFamily.PrivateUse254]"

definition SubsequentAddressFamily_from_repr :: "u8 \<Rightarrow> SubsequentAddressFamily option" where
  "SubsequentAddressFamily_from_repr value =
     List.find (\<lambda>safi. u8_from_SubsequentAddressFamily safi = value) SubsequentAddressFamily_variants"

datatype (plugins only: code) UndefinedSubsequentAddressFamily = UndefinedSubsequentAddressFamily u8

definition SubsequentAddressFamily_try_from ::
  "u8 \<Rightarrow> (SubsequentAddressFamily, UndefinedSubsequentAddressFamily) result" where
  "SubsequentAddressFamily_try_from value =
     (case SubsequentAddressFamily_from_repr value of
        Some val \<Rightarrow> Ok val | None \<Rightarrow> Err (UndefinedSubsequentAddressFamily value))"

datatype (plugins only: code) AddressType =
    Ipv4Unicast | Ipv4Multicast | Ipv4MplsLabeledVpn | Ipv4MulticastBgpMplsVpn
  | Ipv4Bgp4over6 | Ipv4FlowSpec | Ipv4FlowSpecL3Vpn | Ipv4NlriMplsLabels | Ipv6Unicast
  | Ipv6Multicast | Ipv6MplsLabeledVpn | Ipv6MulticastBgpMplsVpn | Ipv6Bgp6over4
  | Ipv6FlowSpec | Ipv6FlowSpecL3Vpn | Ipv6NlriMplsLabels | L2VpnBgpEvpn | L2VpnVpls | BgpLs
  | BgpLsVpn | RouteTargetConstrains

datatype (plugins only: code) InvalidAddressType = InvalidAddressType AddressFamily SubsequentAddressFamily

primrec address_family :: "AddressType \<Rightarrow> AddressFamily" where
  "address_family AddressType.Ipv4Unicast = AddressFamily.IPv4"
| "address_family AddressType.Ipv4Multicast = AddressFamily.IPv4"
| "address_family AddressType.Ipv4MplsLabeledVpn = AddressFamily.IPv4"
| "address_family AddressType.Ipv4MulticastBgpMplsVpn = AddressFamily.IPv4"
| "address_family AddressType.Ipv4Bgp4over6 = AddressFamily.IPv4"
| "address_family AddressType.Ipv4FlowSpec = AddressFamily.IPv4"
| "address_family AddressType.Ipv4FlowSpecL3Vpn = AddressFamily.IPv4"
| "address_family AddressType.Ipv4NlriMplsLabels = AddressFamily.IPv4"
| "address_family AddressType.Ipv6Unicast = AddressFamily.IPv6"
| "address_family AddressType.Ipv6Multicast = AddressFamily.IPv6"
| "address_family AddressType.Ipv6MplsLabeledVpn = AddressFamily.IPv6"
| "address_family AddressType.Ipv6MulticastBgpMplsVpn = AddressFamily.IPv6"
| "address_family AddressType.Ipv6Bgp6over4 = AddressFamily.IPv6"
| "address_family AddressType.Ipv6FlowSpec = AddressFamily.IPv6"
| "address_family AddressType.Ipv6FlowSpecL3Vpn = AddressFamily.IPv6"
| "address_family AddressType.Ipv6NlriMplsLabels = AddressFamily.IPv6"
| "address_family AddressType.L2VpnBgpEvpn = AddressFamily.L2vpn"
| "address_family AddressType.L2VpnVpls = AddressFamily.L2vpn"
| "address_family AddressType.BgpLs = AddressFamily.BgpLs"
| "address_family AddressType.BgpLsVpn = AddressFamily.BgpLs"
| "address_family AddressType.RouteTargetConstrains = AddressFamily.IPv4"

primrec subsequent_address_family :: "AddressType \<Rightarrow> SubsequentAddressFamily" where
  "subsequent_address_family AddressType.Ipv4Unicast = SubsequentAddressFamily.Unicast"
| "subsequent_address_family AddressType.Ipv4Multicast = SubsequentAddressFamily.Multicast"
| "subsequent_address_family AddressType.Ipv4MplsLabeledVpn = SubsequentAddressFamily.MplsVpn"
| "subsequent_address_family AddressType.Ipv4MulticastBgpMplsVpn = SubsequentAddressFamily.MulticastBgpMplsVpn"
| "subsequent_address_family AddressType.Ipv4Bgp4over6 = SubsequentAddressFamily.Bgp4over6"
| "subsequent_address_family AddressType.Ipv4FlowSpec = SubsequentAddressFamily.FlowSpecFilter"
| "subsequent_address_family AddressType.Ipv4FlowSpecL3Vpn = SubsequentAddressFamily.FlowSpecFilterL3Vpn"
| "subsequent_address_family AddressType.Ipv4NlriMplsLabels = SubsequentAddressFamily.NlriMplsLabels"
| "subsequent_address_family AddressType.Ipv6Unicast = SubsequentAddressFamily.Unicast"
| "subsequent_address_family AddressType.Ipv6Multicast = SubsequentAddressFamily.Multicast"
| "subsequent_address_family AddressType.Ipv6MplsLabeledVpn = SubsequentAddressFamily.MplsVpn"
| "subsequent_address_family AddressType.Ipv6MulticastBgpMplsVpn = SubsequentAddressFamily.MulticastBgpMplsVpn"
| "subsequent_address_family AddressType.Ipv6Bgp6over4 = SubsequentAddressFamily.Bgp6over4"
| "subsequent_address_family AddressType.Ipv6FlowSpec = SubsequentAddressFamily.FlowSpecFilter"
| "subsequent_address_family AddressType.Ipv6FlowSpecL3Vpn = SubsequentAddressFamily.FlowSpecFilterL3Vpn"
| "subsequent_address_family AddressType.Ipv6NlriMplsLabels = SubsequentAddressFamily.NlriMplsLabels"
| "subsequent_address_family AddressType.L2VpnBgpEvpn = SubsequentAddressFamily.BgpEvpn"
| "subsequent_address_family AddressType.L2VpnVpls = SubsequentAddressFamily.VPLS"
| "subsequent_address_family AddressType.BgpLs = SubsequentAddressFamily.BgpLs"
| "subsequent_address_family AddressType.BgpLsVpn = SubsequentAddressFamily.BgpLsVpn"
| "subsequent_address_family AddressType.RouteTargetConstrains = SubsequentAddressFamily.RouteTargetConstrains"

definition from_afi_safi ::
  "AddressFamily \<Rightarrow> SubsequentAddressFamily \<Rightarrow> (AddressType, InvalidAddressType) result" where
  "from_afi_safi afi safi =
     (case (afi, safi) of
        (AddressFamily.IPv4, SubsequentAddressFamily.Unicast) \<Rightarrow> Ok AddressType.Ipv4Unicast
      | (AddressFamily.IPv4, SubsequentAddressFamily.Multicast) \<Rightarrow> Ok AddressType.Ipv4Multicast
      | (AddressFamily.IPv4, SubsequentAddressFamily.MplsVpn) \<Rightarrow> Ok AddressType.Ipv4MplsLabeledVpn
      | (AddressFamily.IPv4, SubsequentAddressFamily.MulticastBgpMplsVpn) \<Rightarrow> Ok AddressType.Ipv4MulticastBgpMplsVpn
      | (AddressFamily.IPv4, SubsequentAddressFamily.Bgp4over6) \<Rightarrow> Ok AddressType.Ipv4Bgp4over6
      | (AddressFamily.IPv4, SubsequentAddressFamily.FlowSpecFilter) \<Rightarrow> Ok AddressType.Ipv4FlowSpec
      | (AddressFamily.IPv4, SubsequentAddressFamily.FlowSpecFilterL3Vpn) \<Rightarrow> Ok AddressType.Ipv4FlowSpecL3Vpn
      | (AddressFamily.IPv4, SubsequentAddressFamily.NlriMplsLabels) \<Rightarrow> Ok AddressType.Ipv4NlriMplsLabels
      | (AddressFamily.IPv6, SubsequentAddressFamily.Unicast) \<Rightarrow> Ok AddressType.Ipv6Unicast
      | (AddressFamily.IPv6, SubsequentAddressFamily.Multicast) \<Rightarrow> Ok AddressType.Ipv6Multicast
      | (AddressFamily.IPv6, SubsequentAddressFamily.MplsVpn) \<Rightarrow> Ok AddressType.Ipv6MplsLabeledVpn
      | (AddressFamily.IPv6, SubsequentAddressFamily.MulticastBgpMplsVpn) \<Rightarrow> Ok AddressType.Ipv6MulticastBgpMplsVpn
      | (AddressFamily.IPv6, SubsequentAddressFamily.Bgp6over4) \<Rightarrow> Ok AddressType.Ipv6Bgp6over4
      | (AddressFamily.IPv6, SubsequentAddressFamily.FlowSpecFilter) \<Rightarrow> Ok AddressType.Ipv6FlowSpec
      | (AddressFamily.IPv6, SubsequentAddressFamily.FlowSpecFilterL3Vpn) \<Rightarrow> Ok AddressType.Ipv6FlowSpecL3Vpn
      | (AddressFamily.IPv6, SubsequentAddressFamily.NlriMplsLabels) \<Rightarrow> Ok AddressType.Ipv6NlriMplsLabels
      | (AddressFamily.L2vpn, SubsequentAddressFamily.BgpEvpn) \<Rightarrow> Ok AddressType.L2VpnBgpEvpn
      | (AddressFamily.L2vpn, SubsequentAddressFamily.VPLS) \<Rightarrow> Ok AddressType.L2VpnVpls
      | (AddressFamily.BgpLs, SubsequentAddressFamily.BgpLs) \<Rightarrow> Ok AddressType.BgpLs
      | (AddressFamily.BgpLs, SubsequentAddressFamily.BgpLsVpn) \<Rightarrow> Ok AddressType.BgpLsVpn
      | (AddressFamily.IPv4, SubsequentAddressFamily.RouteTargetConstrains) \<Rightarrow> Ok AddressType.RouteTargetConstrains
      | _ \<Rightarrow> Err (InvalidAddressType afi safi))"

section \<open>Discriminants\<close>

interpretation afi: repr_enum u16_from_AddressFamily AddressFamily_variants
proof
  show "e \<in> set AddressFamily_variants" for e
    by (cases e) (simp_all add: AddressFamily_variants_def)
  show "distinct (map u16_from_AddressFamily AddressFamily_variants)"
    by (simp add: AddressFamily_variants_def)
qed

interpretation safi: repr_enum u8_from_SubsequentAddressFamily SubsequentAddressFamily_variants
proof
  show "e \<in> set SubsequentAddressFamily_variants" for e
    by (cases e) (simp_all add: SubsequentAddressFamily_variants_def)
  show "distinct (map u8_from_SubsequentAddressFamily SubsequentAddressFamily_variants)"
    by (simp add: SubsequentAddressFamily_variants_def)
qed

lemma AddressFamily_try_from_into [wire_simps, simp]:
  "AddressFamily_try_from (u16_from_AddressFamily afi) = Ok afi"
  by (simp add: AddressFamily_try_from_def AddressFamily_from_repr_def afi.find_disc)

lemma SubsequentAddressFamily_try_from_into [wire_simps, simp]:
  "SubsequentAddressFamily_try_from (u8_from_SubsequentAddressFamily safi) = Ok safi"
  by (simp add: SubsequentAddressFamily_try_from_def SubsequentAddressFamily_from_repr_def safi.find_disc)

lemma AddressFamily_try_from_Ok:
  "AddressFamily_try_from v = Ok afi \<longleftrightarrow> u16_from_AddressFamily afi = v"
  by (auto simp: AddressFamily_try_from_def AddressFamily_from_repr_def afi.find_disc_iff
      afi.find_disc_None afi.disc_inject split: option.splits)

lemma SubsequentAddressFamily_try_from_Ok:
  "SubsequentAddressFamily_try_from v = Ok safi \<longleftrightarrow> u8_from_SubsequentAddressFamily safi = v"
  by (auto simp: SubsequentAddressFamily_try_from_def SubsequentAddressFamily_from_repr_def
      safi.find_disc_iff safi.find_disc_None safi.disc_inject split: option.splits)

lemma from_afi_safi_inverse [wire_simps, simp]:
  "from_afi_safi (address_family t) (subsequent_address_family t) = Ok t"
  by (cases t) (simp_all add: from_afi_safi_def)

lemma from_afi_safi_OkD:
  "from_afi_safi afi safi = Ok t \<Longrightarrow> address_family t = afi \<and> subsequent_address_family t = safi"
  by (cases afi) (auto simp: from_afi_safi_def split: SubsequentAddressFamily.splits)

text \<open>
  C38: the registries are faithful to the wire.  A pair of numbers denotes an address type exactly
  when it is the pair of codes of that type: no two address types share their codes, and
  undefined codes and unsupported combinations are rejected.
\<close>

theorem address_type_codes:
  "(\<exists>afi safi. AddressFamily_try_from a = Ok afi \<and> SubsequentAddressFamily_try_from b = Ok safi \<and>
      from_afi_safi afi safi = Ok t) \<longleftrightarrow>
   a = u16_from_AddressFamily (address_family t) \<and>
   b = u8_from_SubsequentAddressFamily (subsequent_address_family t)"
  using from_afi_safi_OkD [of _ _ t] from_afi_safi_inverse [of t]
  unfolding AddressFamily_try_from_Ok SubsequentAddressFamily_try_from_Ok by blast

end
