(* ===== verification/Bgp_Iana.thy ===== *)
theory Bgp_Iana
  imports NC_Prelude
begin

text \<open>
  The BGP registries of \<open>crates/bgp-pkt/src/iana.rs\<close> that the message formats and the session
  use: every enum with its discriminants, the conversion to \<open>u8\<close> and the checked conversion
  back.  Each pair of conversions is an instance of \<open>repr_enum\<close>.
\<close>

section \<open>Enumerations\<close>

datatype (plugins only: code) BgpMessageType =
    Open | Update | Notification | KeepAlive | RouteRefresh

primrec u8_from_BgpMessageType :: "BgpMessageType \<Rightarrow> u8" where
  "u8_from_BgpMessageType BgpMessageType.Open = 1"
| "u8_from_BgpMessageType BgpMessageType.Update = 2"
| "u8_from_BgpMessageType BgpMessageType.Notification = 3"
| "u8_from_BgpMessageType BgpMessageType.KeepAlive = 4"
| "u8_from_BgpMessageType BgpMessageType.RouteRefresh = 5"

definition BgpMessageType_variants :: "BgpMessageType list" where
  "BgpMessageType_variants =
     [BgpMessageType.Open, BgpMessageType.Update, BgpMessageType.Notification,
      BgpMessageType.KeepAlive, BgpMessageType.RouteRefresh]"

definition BgpMessageType_from_repr :: "u8 \<Rightarrow> BgpMessageType option" where
  "BgpMessageType_from_repr value =
     List.find (\<lambda>v. u8_from_BgpMessageType v = value) BgpMessageType_variants"

datatype (plugins only: code) UndefinedBgpMessageType = UndefinedBgpMessageType u8

definition BgpMessageType_try_from :: "u8 \<Rightarrow> (BgpMessageType, UndefinedBgpMessageType) result" where
  "BgpMessageType_try_from value =
     (case BgpMessageType_from_repr value of Some val \<Rightarrow> Ok val | None \<Rightarrow> Err (UndefinedBgpMessageType value))"

datatype (plugins only: code) PathAttributeType =
    Origin | AsPath | NextHop | MultiExitDiscriminator | LocalPreference | AtomicAggregate
   | Aggregator | Communities | OriginatorId | ClusterList | MpReachNlri | MpUnreachNlri
   | ExtendedCommunities | As4Path | As4Aggregator | PmsiTunnel | TunnelEncapsulation
   | TrafficEngineering | ExtendedCommunitiesIpv6 | AccumulatedIgp | PeDistinguisherLabels
   | BgpLsAttribute | LargeCommunities | BgpPSecPath | OnlyToCustomer | BgpDomainPath
   | SfpAttribute | BfdDiscriminator | BgpPrefixSid | AttributesSet | Development

primrec u8_from_PathAttributeType :: "PathAttributeType \<Rightarrow> u8" where
  "u8_from_PathAttributeType PathAttributeType.Origin = 1"
| "u8_from_PathAttributeType PathAttributeType.AsPath = 2"
| "u8_from_PathAttributeType PathAttributeType.NextHop = 3"
| "u8_from_PathAttributeType PathAttributeType.MultiExitDiscriminator = 4"
| "u8_from_PathAttributeType PathAttributeType.LocalPreference = 5"
| "u8_from_PathAttributeType PathAttributeType.AtomicAggregate = 6"
| "u8_from_PathAttributeType PathAttributeType.Aggregator = 7"
| "u8_from_PathAttributeType PathAttributeType.Communities = 8"
| "u8_from_PathAttributeType PathAttributeType.OriginatorId = 9"
| "u8_from_PathAttributeType PathAttributeType.ClusterList = 10"
| "u8_from_PathAttributeType PathAttributeType.MpReachNlri = 14"
| "u8_from_PathAttributeType PathAttributeType.MpUnreachNlri = 15"
| "u8_from_PathAttributeType PathAttributeType.ExtendedCommunities = 16"
| "u8_from_PathAttributeType PathAttributeType.As4Path = 17"
| "u8_from_PathAttributeType PathAttributeType.As4Aggregator = 18"
| "u8_from_PathAttributeType PathAttributeType.PmsiTunnel = 22"
| "u8_from_PathAttributeType PathAttributeType.TunnelEncapsulation = 23"
| "u8_from_PathAttributeType PathAttributeType.TrafficEngineering = 24"
| "u8_from_PathAttributeType PathAttributeType.ExtendedCommunitiesIpv6 = 25"
| "u8_from_PathAttributeType PathAttributeType.AccumulatedIgp = 26"
| "u8_from_PathAttributeType PathAttributeType.PeDistinguisherLabels = 27"
| "u8_from_PathAttributeType PathAttributeType.BgpLsAttribute = 29"
| "u8_from_PathAttributeType PathAttributeType.LargeCommunities = 32"
| "u8_from_PathAttributeType PathAttributeType.BgpPSecPath = 33"
| "u8_from_PathAttributeType PathAttributeType.OnlyToCustomer = 35"
| "u8_from_PathAttributeType PathAttributeType.BgpDomainPath = 36"
| "u8_from_PathAttributeType PathAttributeType.SfpAttribute = 37"
| "u8_from_PathAttributeType PathAttributeType.BfdDiscriminator = 38"
| "u8_from_PathAttributeType PathAttributeType.BgpPrefixSid = 40"
| "u8_from_PathAttributeType PathAttributeType.AttributesSet = 128"
| "u8_from_PathAttributeType PathAttributeType.Development = 255"

definition PathAttributeType_variants :: "PathAttributeType list" where
  "PathAttributeType_variants =
     [PathAttributeType.Origin, PathAttributeType.AsPath, PathAttributeType.NextHop,
      PathAttributeType.MultiExitDiscriminator, PathAttributeType.LocalPreference,
      PathAttributeType.AtomicAggregate, PathAttributeType.Aggregator,
      PathAttributeType.Communities, PathAttributeType.OriginatorId,
      PathAttributeType.ClusterList, PathAttributeType.MpReachNlri,
      PathAttributeType.MpUnreachNlri, PathAttributeType.ExtendedCommunities,
      PathAttributeType.As4Path, PathAttributeType.As4Aggregator, PathAttributeType.PmsiTunnel,
      PathAttributeType.TunnelEncapsulation, PathAttributeType.TrafficEngineering,
      PathAttributeType.ExtendedCommunitiesIpv6, PathAttributeType.AccumulatedIgp,
      PathAttributeType.PeDistinguisherLabels, PathAttributeType.BgpLsAttribute,
      PathAttributeType.LargeCommunities, PathAttributeType.BgpPSecPath,
      PathAttributeType.OnlyToCustomer, PathAttributeType.BgpDomainPath,
      PathAttributeType.SfpAttribute, PathAttributeType.BfdDiscriminator,
      PathAttributeType.BgpPrefixSid, PathAttributeType.AttributesSet,
      PathAttributeType.Development]"

definition PathAttributeType_from_repr :: "u8 \<Rightarrow> PathAttributeType option" where
  "PathAttributeType_from_repr value =
     List.find (\<lambda>v. u8_from_PathAttributeType v = value) PathAttributeType_variants"

datatype (plugins only: code) UndefinedPathAttributeType = UndefinedPathAttributeType u8

definition PathAttributeType_try_from :: "u8 \<Rightarrow> (PathAttributeType, UndefinedPathAttributeType) result" where
  "PathAttributeType_try_from value =
     (case PathAttributeType_from_repr value of Some val \<Rightarrow> Ok val | None \<Rightarrow> Err (UndefinedPathAttributeType value))"

datatype (plugins only: code) BgpErrorNotificationCode =
    MessageHeaderError | OpenMessageError | UpdateMessageError | HoldTimerExpired
   | FiniteStateMachineError | Cease | RouteRefreshMessageError

primrec u8_from_BgpErrorNotificationCode :: "BgpErrorNotificationCode \<Rightarrow> u8" where
  "u8_from_BgpErrorNotificationCode BgpErrorNotificationCode.MessageHeaderError = 1"
| "u8_from_BgpErrorNotificationCode BgpErrorNotificationCode.OpenMessageError = 2"
| "u8_from_BgpErrorNotificationCode BgpErrorNotificationCode.UpdateMessageError = 3"
| "u8_from_BgpErrorNotificationCode BgpErrorNotificationCode.HoldTimerExpired = 4"
| "u8_from_BgpErrorNotificationCode BgpErrorNotificationCode.FiniteStateMachineError = 5"
| "u8_from_BgpErrorNotificationCode BgpErrorNotificationCode.Cease = 6"
| "u8_from_BgpErrorNotificationCode BgpErrorNotificationCode.RouteRefreshMessageError = 7"

definition BgpErrorNotificationCode_variants :: "BgpErrorNotificationCode list" where
  "BgpErrorNotificationCode_variants =
     [BgpErrorNotificationCode.MessageHeaderError, BgpErrorNotificationCode.OpenMessageError,
      BgpErrorNotificationCode.UpdateMessageError, BgpErrorNotificationCode.HoldTimerExpired,
      BgpErrorNotificationCode.FiniteStateMachineError, BgpErrorNotificationCode.Cease,
      BgpErrorNotificationCode.RouteRefreshMessageError]"

definition BgpErrorNotificationCode_from_repr :: "u8 \<Rightarrow> BgpErrorNotificationCode option" where
  "BgpErrorNotificationCode_from_repr value =
     List.find (\<lambda>v. u8_from_BgpErrorNotificationCode v = value) BgpErrorNotificationCode_variants"

datatype (plugins only: code) UndefinedBgpErrorNotificationCode = UndefinedBgpErrorNotificationCode u8

definition BgpErrorNotificationCode_try_from :: "u8 \<Rightarrow> (BgpErrorNotificationCode, UndefinedBgpErrorNotificationCode) result" where
  "BgpErrorNotificationCode_try_from value =
     (case BgpErrorNotificationCode_from_repr value of Some val \<Rightarrow> Ok val | None \<Rightarrow> Err (UndefinedBgpErrorNotificationCode value))"

datatype (plugins only: code) MessageHeaderErrorSubCode =
    Unspecific | ConnectionNotSynchronized | BadMessageLength | BadMessageType

primrec u8_from_MessageHeaderErrorSubCode :: "MessageHeaderErrorSubCode \<Rightarrow> u8" where
  "u8_from_MessageHeaderErrorSubCode MessageHeaderErrorSubCode.Unspecific = 0"
| "u8_from_MessageHeaderErrorSubCode MessageHeaderErrorSubCode.ConnectionNotSynchronized = 1"
| "u8_from_MessageHeaderErrorSubCode MessageHeaderErrorSubCode.BadMessageLength = 2"
| "u8_from_MessageHeaderErrorSubCode MessageHeaderErrorSubCode.BadMessageType = 3"

definition MessageHeaderErrorSubCode_variants :: "MessageHeaderErrorSubCode list" where
  "MessageHeaderErrorSubCode_variants =
     [MessageHeaderErrorSubCode.Unspecific, MessageHeaderErrorSubCode.ConnectionNotSynchronized,
      MessageHeaderErrorSubCode.BadMessageLength, MessageHeaderErrorSubCode.BadMessageType]"

definition MessageHeaderErrorSubCode_from_repr :: "u8 \<Rightarrow> MessageHeaderErrorSubCode option" where
  "MessageHeaderErrorSubCode_from_repr value =
     List.find (\<lambda>v. u8_from_MessageHeaderErrorSubCode v = value) MessageHeaderErrorSubCode_variants"

datatype (plugins only: code) UndefinedMessageHeaderErrorSubCode = UndefinedMessageHeaderErrorSubCode u8

definition MessageHeaderErrorSubCode_try_from :: "u8 \<Rightarrow> (MessageHeaderErrorSubCode, UndefinedMessageHeaderErrorSubCode) result" where
  "MessageHeaderErrorSubCode_try_from value =
     (case MessageHeaderErrorSubCode_from_repr value of Some val \<Rightarrow> Ok val | None \<Rightarrow> Err (UndefinedMessageHeaderErrorSubCode value))"

datatype (plugins only: code) OpenMessageErrorSubCode =
    Unspecific | UnsupportedVersionNumber | BadPeerAs | BadBgpIdentifier
   | UnsupportedOptionalParameter | UnacceptableHoldTime | UnsupportedCapability | RoleMismatch

primrec u8_from_OpenMessageErrorSubCode :: "OpenMessageErrorSubCode \<Rightarrow> u8" where
  "u8_from_OpenMessageErrorSubCode OpenMessageErrorSubCode.Unspecific = 0"
| "u8_from_OpenMessageErrorSubCode OpenMessageErrorSubCode.UnsupportedVersionNumber = 1"
| "u8_from_OpenMessageErrorSubCode OpenMessageErrorSubCode.BadPeerAs = 2"
| "u8_from_OpenMessageErrorSubCode OpenMessageErrorSubCode.BadBgpIdentifier = 3"
| "u8_from_OpenMessageErrorSubCode OpenMessageErrorSubCode.UnsupportedOptionalParameter = 4"
| "u8_from_OpenMessageErrorSubCode OpenMessageErrorSubCode.UnacceptableHoldTime = 6"
| "u8_from_OpenMessageErrorSubCode OpenMessageErrorSubCode.UnsupportedCapability = 7"
| "u8_from_OpenMessageErrorSubCode OpenMessageErrorSubCode.RoleMismatch = 11"

definition OpenMessageErrorSubCode_variants :: "OpenMessageErrorSubCode list" where
  "OpenMessageErrorSubCode_variants =
     [OpenMessageErrorSubCode.Unspecific, OpenMessageErrorSubCode.UnsupportedVersionNumber,
      OpenMessageErrorSubCode.BadPeerAs, OpenMessageErrorSubCode.BadBgpIdentifier,
      OpenMessageErrorSubCode.UnsupportedOptionalParameter,
      OpenMessageErrorSubCode.UnacceptableHoldTime,
      OpenMessageErrorSubCode.UnsupportedCapability, OpenMessageErrorSubCode.RoleMismatch]"

definition OpenMessageErrorSubCode_from_repr :: "u8 \<Rightarrow> OpenMessageErrorSubCode option" where
  "OpenMessageErrorSubCode_from_repr value =
     List.find (\<lambda>v. u8_from_OpenMessageErrorSubCode v = value) OpenMessageErrorSubCode_variants"

datatype (plugins only: code) UndefinedOpenMessageErrorSubCode = UndefinedOpenMessageErrorSubCode u8

definition OpenMessageErrorSubCode_try_from :: "u8 \<Rightarrow> (OpenMessageErrorSubCode, UndefinedOpenMessageErrorSubCode) result" where
  "OpenMessageErrorSubCode_try_from value =
     (case OpenMessageErrorSubCode_from_repr value of Some val \<Rightarrow> Ok val | None \<Rightarrow> Err (UndefinedOpenMessageErrorSubCode value))"

datatype (plugins only: code) UpdateMessageErrorSubCode =
    Unspecific | MalformedAttributeList | UnrecognizedWellKnownAttribute
   | MissingWellKnownAttribute | AttributeFlagsError | AttributeLengthError
   | InvalidOriginAttribute | InvalidNextHopAttribute | OptionalAttributeError
   | InvalidNetworkField | MalformedAsPath

primrec u8_from_UpdateMessageErrorSubCode :: "UpdateMessageErrorSubCode \<Rightarrow> u8" where
  "u8_from_UpdateMessageErrorSubCode UpdateMessageErrorSubCode.Unspecific = 0"
| "u8_from_UpdateMessageErrorSubCode UpdateMessageErrorSubCode.MalformedAttributeList = 1"
| "u8_from_UpdateMessageErrorSubCode UpdateMessageErrorSubCode.UnrecognizedWellKnownAttribute = 2"
| "u8_from_UpdateMessageErrorSubCode UpdateMessageErrorSubCode.MissingWellKnownAttribute = 3"
| "u8_from_UpdateMessageErrorSubCode UpdateMessageErrorSubCode.AttributeFlagsError = 4"
| "u8_from_UpdateMessageErrorSubCode UpdateMessageErrorSubCode.AttributeLengthError = 5"
| "u8_from_UpdateMessageErrorSubCode UpdateMessageErrorSubCode.InvalidOriginAttribute = 6"
| "u8_from_UpdateMessageErrorSubCode UpdateMessageErrorSubCode.InvalidNextHopAttribute = 8"
| "u8_from_UpdateMessageErrorSubCode UpdateMessageErrorSubCode.OptionalAttributeError = 9"
| "u8_from_UpdateMessageErrorSubCode UpdateMessageErrorSubCode.InvalidNetworkField = 10"
| "u8_from_UpdateMessageErrorSubCode UpdateMessageErrorSubCode.MalformedAsPath = 11"

definition UpdateMessageErrorSubCode_variants :: "UpdateMessageErrorSubCode list" where
  "UpdateMessageErrorSubCode_variants =
     [UpdateMessageErrorSubCode.Unspecific, UpdateMessageErrorSubCode.MalformedAttributeList,
      UpdateMessageErrorSubCode.UnrecognizedWellKnownAttribute,
      UpdateMessageErrorSubCode.MissingWellKnownAttribute,
      UpdateMessageErrorSubCode.AttributeFlagsError,
      UpdateMessageErrorSubCode.AttributeLengthError,
      UpdateMessageErrorSubCode.InvalidOriginAttribute,
      UpdateMessageErrorSubCode.InvalidNextHopAttribute,
      UpdateMessageErrorSubCode.OptionalAttributeError,
      UpdateMessageErrorSubCode.InvalidNetworkField, UpdateMessageErrorSubCode.MalformedAsPath]"

definition UpdateMessageErrorSubCode_from_repr :: "u8 \<Rightarrow> UpdateMessageErrorSubCode option" where
  "UpdateMessageErrorSubCode_from_repr value =
     List.find (\<lambda>v. u8_from_UpdateMessageErrorSubCode v = value) UpdateMessageErrorSubCode_variants"

datatype (plugins only: code) UndefinedUpdateMessageErrorSubCode = UndefinedUpdateMessageErrorSubCode u8

definition UpdateMessageErrorSubCode_try_from :: "u8 \<Rightarrow> (UpdateMessageErrorSubCode, UndefinedUpdateMessageErrorSubCode) result" where
  "UpdateMessageErrorSubCode_try_from value =
     (case UpdateMessageErrorSubCode_from_repr value of Some val \<Rightarrow> Ok val | None \<Rightarrow> Err (UndefinedUpdateMessageErrorSubCode value))"

datatype (plugins only: code) FiniteStateMachineErrorSubCode =
    UnspecifiedError | ReceiveUnexpectedMessageInOpenSentState
   | ReceiveUnexpectedMessageInOpenConfirmState | ReceiveUnexpectedMessageInEstablishedState

primrec u8_from_FiniteStateMachineErrorSubCode :: "FiniteStateMachineErrorSubCode \<Rightarrow> u8" where
  "u8_from_FiniteStateMachineErrorSubCode FiniteStateMachineErrorSubCode.UnspecifiedError = 0"
| "u8_from_FiniteStateMachineErrorSubCode FiniteStateMachineErrorSubCode.ReceiveUnexpectedMessageInOpenSentState = 1"
| "u8_from_FiniteStateMachineErrorSubCode FiniteStateMachineErrorSubCode.ReceiveUnexpectedMessageInOpenConfirmState = 2"
| "u8_from_FiniteStateMachineErrorSubCode FiniteStateMachineErrorSubCode.ReceiveUnexpectedMessageInEstablishedState = 3"

definition FiniteStateMachineErrorSubCode_variants :: "FiniteStateMachineErrorSubCode list" where
  "FiniteStateMachineErrorSubCode_variants =
     [FiniteStateMachineErrorSubCode.UnspecifiedError,
      FiniteStateMachineErrorSubCode.ReceiveUnexpectedMessageInOpenSentState,
      FiniteStateMachineErrorSubCode.ReceiveUnexpectedMessageInOpenConfirmState,
      FiniteStateMachineErrorSubCode.ReceiveUnexpectedMessageInEstablishedState]"

definition FiniteStateMachineErrorSubCode_from_repr :: "u8 \<Rightarrow> FiniteStateMachineErrorSubCode option" where
  "FiniteStateMachineErrorSubCode_from_repr value =
     List.find (\<lambda>v. u8_from_FiniteStateMachineErrorSubCode v = value) FiniteStateMachineErrorSubCode_variants"

datatype (plugins only: code) UndefinedFiniteStateMachineErrorSubCode = UndefinedFiniteStateMachineErrorSubCode u8

definition FiniteStateMachineErrorSubCode_try_from :: "u8 \<Rightarrow> (FiniteStateMachineErrorSubCode, UndefinedFiniteStateMachineErrorSubCode) result" where
  "FiniteStateMachineErrorSubCode_try_from value =
     (case FiniteStateMachineErrorSubCode_from_repr value of Some val \<Rightarrow> Ok val | None \<Rightarrow> Err (UndefinedFiniteStateMachineErrorSubCode value))"

datatype (plugins only: code) CeaseErrorSubCode =
    MaximumNumberOfPrefixesReached | AdministrativeShutdown | PeerDeConfigured
   | AdministrativeReset | ConnectionRejected | OtherConfigurationChange
   | ConnectionCollisionResolution | OutOfResources | HardReset | BfdDown

primrec u8_from_CeaseErrorSubCode :: "CeaseErrorSubCode \<Rightarrow> u8" where
  "u8_from_CeaseErrorSubCode CeaseErrorSubCode.MaximumNumberOfPrefixesReached = 1"
| "u8_from_CeaseErrorSubCode CeaseErrorSubCode.AdministrativeShutdown = 2"
| "u8_from_CeaseErrorSubCode CeaseErrorSubCode.PeerDeConfigured = 3"
| "u8_from_CeaseErrorSubCode CeaseErrorSubCode.AdministrativeReset = 4"
| "u8_from_CeaseErrorSubCode CeaseErrorSubCode.ConnectionRejected = 5"
| "u8_from_CeaseErrorSubCode CeaseErrorSubCode.OtherConfigurationChange = 6"
| "u8_from_CeaseErrorSubCode CeaseErrorSubCode.ConnectionCollisionResolution = 7"
| "u8_from_CeaseErrorSubCode CeaseErrorSubCode.OutOfResources = 8"
| "u8_from_CeaseErrorSubCode CeaseErrorSubCode.HardReset = 9"
| "u8_from_CeaseErrorSubCode CeaseErrorSubCode.BfdDown = 10"

definition CeaseErrorSubCode_variants :: "CeaseErrorSubCode list" where
  "CeaseErrorSubCode_variants =
     [CeaseErrorSubCode.MaximumNumberOfPrefixesReached,
      CeaseErrorSubCode.AdministrativeShutdown, CeaseErrorSubCode.PeerDeConfigured,
      CeaseErrorSubCode.AdministrativeReset, CeaseErrorSubCode.ConnectionRejected,
      CeaseErrorSubCode.OtherConfigurationChange,
      CeaseErrorSubCode.ConnectionCollisionResolution, CeaseErrorSubCode.OutOfResources,
      CeaseErrorSubCode.HardReset, CeaseErrorSubCode.BfdDown]"

definition CeaseErrorSubCode_from_repr :: "u8 \<Rightarrow> CeaseErrorSubCode option" where
  "CeaseErrorSubCode_from_repr value =
     List.find (\<lambda>v. u8_from_CeaseErrorSubCode v = value) CeaseErrorSubCode_variants"

datatype (plugins only: code) UndefinedCeaseErrorSubCode = UndefinedCeaseErrorSubCode u8

definition CeaseErrorSubCode_try_from :: "u8 \<Rightarrow> (CeaseErrorSubCode, UndefinedCeaseErrorSubCode) result" where
  "CeaseErrorSubCode_try_from value =
     (case CeaseErrorSubCode_from_repr value of Some val \<Rightarrow> Ok val | None \<Rightarrow> Err (UndefinedCeaseErrorSubCode value))"

datatype (plugins only: code) RouteRefreshMessageErrorSubCode =
    InvalidMessageLength

primrec u8_from_RouteRefreshMessageErrorSubCode :: "RouteRefreshMessageErrorSubCode \<Rightarrow> u8" where
  "u8_from_RouteRefreshMessageErrorSubCode RouteRefreshMessageErrorSubCode.InvalidMessageLength = 1"

definition RouteRefreshMessageErrorSubCode_variants :: "RouteRefreshMessageErrorSubCode list" where
  "RouteRefreshMessageErrorSubCode_variants =
     [RouteRefreshMessageErrorSubCode.InvalidMessageLength]"

definition RouteRefreshMessageErrorSubCode_from_repr :: "u8 \<Rightarrow> RouteRefreshMessageErrorSubCode option" where
  "RouteRefreshMessageErrorSubCode_from_repr value =
     List.find (\<lambda>v. u8_from_RouteRefreshMessageErrorSubCode v = value) RouteRefreshMessageErrorSubCode_variants"

datatype (plugins only: code) UndefinedRouteRefreshMessageError = UndefinedRouteRefreshMessageError u8

definition RouteRefreshMessageErrorSubCode_try_from :: "u8 \<Rightarrow> (RouteRefreshMessageErrorSubCode, UndefinedRouteRefreshMessageError) result" where
  "RouteRefreshMessageErrorSubCode_try_from value =
     (case RouteRefreshMessageErrorSubCode_from_repr value of Some val \<Rightarrow> Ok val | None \<Rightarrow> Err (UndefinedRouteRefreshMessageError value))"

datatype (plugins only: code) BgpOpenMessageParameterType =
    Capability | ExtendedLength

primrec u8_from_BgpOpenMessageParameterType :: "BgpOpenMessageParameterType \<Rightarrow> u8" where
  "u8_from_BgpOpenMessageParameterType BgpOpenMessageParameterType.Capability = 2"
| "u8_from_BgpOpenMessageParameterType BgpOpenMessageParameterType.ExtendedLength = 255"

definition BgpOpenMessageParameterType_variants :: "BgpOpenMessageParameterType list" where
  "BgpOpenMessageParameterType_variants =
     [BgpOpenMessageParameterType.Capability, BgpOpenMessageParameterType.ExtendedLength]"

definition BgpOpenMessageParameterType_from_repr :: "u8 \<Rightarrow> BgpOpenMessageParameterType option" where
  "BgpOpenMessageParameterType_from_repr value =
     List.find (\<lambda>v. u8_from_BgpOpenMessageParameterType v = value) BgpOpenMessageParameterType_variants"

datatype (plugins only: code) UndefinedBgpOpenMessageParameterType = UndefinedBgpOpenMessageParameterType u8

definition BgpOpenMessageParameterType_try_from :: "u8 \<Rightarrow> (BgpOpenMessageParameterType, UndefinedBgpOpenMessageParameterType) result" where
  "BgpOpenMessageParameterType_try_from value =
     (case BgpOpenMessageParameterType_from_repr value of Some val \<Rightarrow> Ok val | None \<Rightarrow> Err (UndefinedBgpOpenMessageParameterType value))"

datatype (plugins only: code) BgpCapabilityCode =
    MultiProtocolExtensions | RouteRefreshCapability | OutboundRouteFilteringCapability
   | ExtendedNextHopEncoding | BgpExtendedMessage | BgpSecCapability | MultipleLabelsCapability
   | BgpRole | GracefulRestartCapability | FourOctetAs | SupportForDynamicCapability
   | MultiSessionBgpCapability | AddPathCapability | EnhancedRouteRefresh
   | LongLivedGracefulRestartLLGRCapability | RoutingPolicyDistribution | FQDN
   | CiscoRouteRefresh | Experimental239 | Experimental240 | Experimental241 | Experimental242
   | Experimental243 | Experimental244 | Experimental245 | Experimental246 | Experimental247
   | Experimental248 | Experimental249 | Experimental250 | Experimental251 | Experimental252
   | Experimental253 | Experimental254

primrec u8_from_BgpCapabilityCode :: "BgpCapabilityCode \<Rightarrow> u8" where
  "u8_from_BgpCapabilityCode BgpCapabilityCode.MultiProtocolExtensions = 1"
| "u8_from_BgpCapabilityCode BgpCapabilityCode.RouteRefreshCapability = 2"
| "u8_from_BgpCapabilityCode BgpCapabilityCode.OutboundRouteFilteringCapability = 3"
| "u8_from_BgpCapabilityCode BgpCapabilityCode.ExtendedNextHopEncoding = 5"
| "u8_from_BgpCapabilityCode BgpCapabilityCode.BgpExtendedMessage = 6"
| "u8_from_BgpCapabilityCode BgpCapabilityCode.BgpSecCapability = 7"
| "u8_from_BgpCapabilityCode BgpCapabilityCode.MultipleLabelsCapability = 8"
| "u8_from_BgpCapabilityCode BgpCapabilityCode.BgpRole = 9"
| "u8_from_BgpCapabilityCode BgpCapabilityCode.GracefulRestartCapability = 64"
| "u8_from_BgpCapabilityCode BgpCapabilityCode.FourOctetAs = 65"
| "u8_from_BgpCapabilityCode BgpCapabilityCode.SupportForDynamicCapability = 67"
| "u8_from_BgpCapabilityCode BgpCapabilityCode.MultiSessionBgpCapability = 68"
| "u8_from_BgpCapabilityCode BgpCapabilityCode.AddPathCapability = 69"
| "u8_from_BgpCapabilityCode BgpCapabilityCode.EnhancedRouteRefresh = 70"
| "u8_from_BgpCapabilityCode BgpCapabilityCode.LongLivedGracefulRestartLLGRCapability = 71"
| "u8_from_BgpCapabilityCode BgpCapabilityCode.RoutingPolicyDistribution = 72"
| "u8_from_BgpCapabilityCode BgpCapabilityCode.FQDN = 73"
| "u8_from_BgpCapabilityCode BgpCapabilityCode.CiscoRouteRefresh = 128"
| "u8_from_BgpCapabilityCode BgpCapabilityCode.Experimental239 = 239"
| "u8_from_BgpCapabilityCode BgpCapabilityCode.Experimental240 = 240"
| "u8_from_BgpCapabilityCode BgpCapabilityCode.Experimental241 = 241"
| "u8_from_BgpCapabilityCode BgpCapabilityCode.Experimental242 = 242"
| "u8_from_BgpCapabilityCode BgpCapabilityCode.Experimental243 = 243"
| "u8_from_BgpCapabilityCode BgpCapabilityCode.Experimental244 = 244"
| "u8_from_BgpCapabilityCode BgpCapabilityCode.Experimental245 = 245"
| "u8_from_BgpCapabilityCode BgpCapabilityCode.Experimental246 = 246"
| "u8_from_BgpCapabilityCode BgpCapabilityCode.Experimental247 = 247"
| "u8_from_BgpCapabilityCode BgpCapabilityCode.Experimental248 = 248"
| "u8_from_BgpCapabilityCode BgpCapabilityCode.Experimental249 = 249"
| "u8_from_BgpCapabilityCode BgpCapabilityCode.Experimental250 = 250"
| "u8_from_BgpCapabilityCode BgpCapabilityCode.Experimental251 = 251"
| "u8_from_BgpCapabilityCode BgpCapabilityCode.Experimental252 = 252"
| "u8_from_BgpCapabilityCode BgpCapabilityCode.Experimental253 = 253"
| "u8_from_BgpCapabilityCode BgpCapabilityCode.Experimental254 = 254"

definition BgpCapabilityCode_variants :: "BgpCapabilityCode list" where
  "BgpCapabilityCode_variants =
     [BgpCapabilityCode.MultiProtocolExtensions, BgpCapabilityCode.RouteRefreshCapability,
      BgpCapabilityCode.OutboundRouteFilteringCapability,
      BgpCapabilityCode.ExtendedNextHopEncoding, BgpCapabilityCode.BgpExtendedMessage,
      BgpCapabilityCode.BgpSecCapability, BgpCapabilityCode.MultipleLabelsCapability,
      BgpCapabilityCode.BgpRole, BgpCapabilityCode.GracefulRestartCapability,
      BgpCapabilityCode.FourOctetAs, BgpCapabilityCode.SupportForDynamicCapability,
      BgpCapabilityCode.MultiSessionBgpCapability, BgpCapabilityCode.AddPathCapability,
      BgpCapabilityCode.EnhancedRouteRefresh,
      BgpCapabilityCode.LongLivedGracefulRestartLLGRCapability,
      BgpCapabilityCode.RoutingPolicyDistribution, BgpCapabilityCode.FQDN,
      BgpCapabilityCode.CiscoRouteRefresh, BgpCapabilityCode.Experimental239,
      BgpCapabilityCode.Experimental240, BgpCapabilityCode.Experimental241,
      BgpCapabilityCode.Experimental242, BgpCapabilityCode.Experimental243,
      BgpCapabilityCode.Experimental244, BgpCapabilityCode.Experimental245,
      BgpCapabilityCode.Experimental246, BgpCapabilityCode.Experimental247,
      BgpCapabilityCode.Experimental248, BgpCapabilityCode.Experimental249,
      BgpCapabilityCode.Experimental250, BgpCapabilityCode.Experimental251,
      BgpCapabilityCode.Experimental252, BgpCapabilityCode.Experimental253,
      BgpCapabilityCode.Experimental254]"

definition BgpCapabilityCode_from_repr :: "u8 \<Rightarrow> BgpCapabilityCode option" where
  "BgpCapabilityCode_from_repr value =
     List.find (\<lambda>v. u8_from_BgpCapabilityCode v = value) BgpCapabilityCode_variants"

datatype (plugins only: code) UndefinedBgpCapabilityCode = UndefinedBgpCapabilityCode u8

definition BgpCapabilityCode_try_from :: "u8 \<Rightarrow> (BgpCapabilityCode, UndefinedBgpCapabilityCode) result" where
  "BgpCapabilityCode_try_from value =
     (case BgpCapabilityCode_from_repr value of Some val \<Rightarrow> Ok val | None \<Rightarrow> Err (UndefinedBgpCapabilityCode value))"

datatype (plugins only: code) RouteRefreshSubcode =
    NormalRequest | BeginningOfRouteRefresh | EndOfRouteRefresh

primrec u8_from_RouteRefreshSubcode :: "RouteRefreshSubcode \<Rightarrow> u8" where
  "u8_from_RouteRefreshSubcode RouteRefreshSubcode.NormalRequest = 0"
| "u8_from_RouteRefreshSubcode RouteRefreshSubcode.BeginningOfRouteRefresh = 1"
| "u8_from_RouteRefreshSubcode RouteRefreshSubcode.EndOfRouteRefresh = 2"

definition RouteRefreshSubcode_variants :: "RouteRefreshSubcode list" where
  "RouteRefreshSubcode_variants =
     [RouteRefreshSubcode.NormalRequest, RouteRefreshSubcode.BeginningOfRouteRefresh,
      RouteRefreshSubcode.EndOfRouteRefresh]"

definition RouteRefreshSubcode_from_repr :: "u8 \<Rightarrow> RouteRefreshSubcode option" where
  "RouteRefreshSubcode_from_repr value =
     List.find (\<lambda>v. u8_from_RouteRefreshSubcode v = value) RouteRefreshSubcode_variants"

datatype (plugins only: code) UndefinedRouteRefreshSubcode = UndefinedRouteRefreshSubcode u8

definition RouteRefreshSubcode_try_from :: "u8 \<Rightarrow> (RouteRefreshSubcode, UndefinedRouteRefreshSubcode) result" where
  "RouteRefreshSubcode_try_from value =
     (case RouteRefreshSubcode_from_repr value of Some val \<Rightarrow> Ok val | None \<Rightarrow> Err (UndefinedRouteRefreshSubcode value))"

datatype (plugins only: code) BgpRoleValue =
    Provider | Customer | RS | RsClient | Peer

primrec u8_from_BgpRoleValue :: "BgpRoleValue \<Rightarrow> u8" where
  "u8_from_BgpRoleValue BgpRoleValue.Provider = 0"
| "u8_from_BgpRoleValue BgpRoleValue.Customer = 1"
| "u8_from_BgpRoleValue BgpRoleValue.RS = 2"
| "u8_from_BgpRoleValue BgpRoleValue.RsClient = 3"
| "u8_from_BgpRoleValue BgpRoleValue.Peer = 4"

definition BgpRoleValue_variants :: "BgpRoleValue list" where
  "BgpRoleValue_variants =
     [BgpRoleValue.Provider, BgpRoleValue.Customer, BgpRoleValue.RS, BgpRoleValue.RsClient,
      BgpRoleValue.Peer]"

definition BgpRoleValue_from_repr :: "u8 \<Rightarrow> BgpRoleValue option" where
  "BgpRoleValue_from_repr value =
     List.find (\<lambda>v. u8_from_BgpRoleValue v = value) BgpRoleValue_variants"

datatype (plugins only: code) UndefinedBgpRoleValue = UndefinedBgpRoleValue u8

definition BgpRoleValue_try_from :: "u8 \<Rightarrow> (BgpRoleValue, UndefinedBgpRoleValue) result" where
  "BgpRoleValue_try_from value =
     (case BgpRoleValue_from_repr value of Some val \<Rightarrow> Ok val | None \<Rightarrow> Err (UndefinedBgpRoleValue value))"

section \<open>Discriminants\<close>

interpretation mty: repr_enum u8_from_BgpMessageType BgpMessageType_variants
proof
  show "e \<in> set BgpMessageType_variants" for e
    by (cases e) (simp_all add: BgpMessageType_variants_def)
  show "distinct (map u8_from_BgpMessageType BgpMessageType_variants)"
    by (simp add: BgpMessageType_variants_def)
qed

lemma BgpMessageType_try_from_Ok [wire_simps]: "BgpMessageType_try_from v = Ok e \<longleftrightarrow> v = u8_from_BgpMessageType e"
  by (auto simp: BgpMessageType_try_from_def BgpMessageType_from_repr_def mty.find_disc_iff mty.find_disc_None
      mty.disc_inject split: option.splits)

interpretation pat: repr_enum u8_from_PathAttributeType PathAttributeType_variants
proof
  show "e \<in> set PathAttributeType_variants" for e
    by (cases e) (simp_all add: PathAttributeType_variants_def)
  show "distinct (map u8_from_PathAttributeType PathAttributeType_variants)"
    by (simp add: PathAttributeType_variants_def)
qed

lemma PathAttributeType_try_from_Ok [wire_simps]: "PathAttributeType_try_from v = Ok e \<longleftrightarrow> v = u8_from_PathAttributeType e"
  by (auto simp: PathAttributeType_try_from_def PathAttributeType_from_repr_def pat.find_disc_iff pat.find_disc_None
      pat.disc_inject split: option.splits)

interpretation code: repr_enum u8_from_BgpErrorNotificationCode BgpErrorNotificationCode_variants
proof
  show "e \<in> set BgpErrorNotificationCode_variants" for e
    by (cases e) (simp_all add: BgpErrorNotificationCode_variants_def)
  show "distinct (map u8_from_BgpErrorNotificationCode BgpErrorNotificationCode_variants)"
    by (simp add: BgpErrorNotificationCode_variants_def)
qed

lemma BgpErrorNotificationCode_try_from_Ok [wire_simps]: "BgpErrorNotificationCode_try_from v = Ok e \<longleftrightarrow> v = u8_from_BgpErrorNotificationCode e"
  by (auto simp: BgpErrorNotificationCode_try_from_def BgpErrorNotificationCode_from_repr_def code.find_disc_iff code.find_disc_None
      code.disc_inject split: option.splits)

interpretation mhs: repr_enum u8_from_MessageHeaderErrorSubCode MessageHeaderErrorSubCode_variants
proof
  show "e \<in> set MessageHeaderErrorSubCode_variants" for e
    by (cases e) (simp_all add: MessageHeaderErrorSubCode_variants_def)
  show "distinct (map u8_from_MessageHeaderErrorSubCode MessageHeaderErrorSubCode_variants)"
    by (simp add: MessageHeaderErrorSubCode_variants_def)
qed

lemma MessageHeaderErrorSubCode_try_from_Ok [wire_simps]: "MessageHeaderErrorSubCode_try_from v = Ok e \<longleftrightarrow> v = u8_from_MessageHeaderErrorSubCode e"
  by (auto simp: MessageHeaderErrorSubCode_try_from_def MessageHeaderErrorSubCode_from_repr_def mhs.find_disc_iff mhs.find_disc_None
      mhs.disc_inject split: option.splits)

interpretation oms: repr_enum u8_from_OpenMessageErrorSubCode OpenMessageErrorSubCode_variants
proof
  show "e \<in> set OpenMessageErrorSubCode_variants" for e
    by (cases e) (simp_all add: OpenMessageErrorSubCode_variants_def)
  show "distinct (map u8_from_OpenMessageErrorSubCode OpenMessageErrorSubCode_variants)"
    by (simp add: OpenMessageErrorSubCode_variants_def)
qed

lemma OpenMessageErrorSubCode_try_from_Ok [wire_simps]: "OpenMessageErrorSubCode_try_from v = Ok e \<longleftrightarrow> v = u8_from_OpenMessageErrorSubCode e"
  by (auto simp: OpenMessageErrorSubCode_try_from_def OpenMessageErrorSubCode_from_repr_def oms.find_disc_iff oms.find_disc_None
      oms.disc_inject split: option.splits)

interpretation ums: repr_enum u8_from_UpdateMessageErrorSubCode UpdateMessageErrorSubCode_variants
proof
  show "e \<in> set UpdateMessageErrorSubCode_variants" for e
    by (cases e) (simp_all add: UpdateMessageErrorSubCode_variants_def)
  show "distinct (map u8_from_UpdateMessageErrorSubCode UpdateMessageErrorSubCode_variants)"
    by (simp add: UpdateMessageErrorSubCode_variants_def)
qed

lemma UpdateMessageErrorSubCode_try_from_Ok [wire_simps]: "UpdateMessageErrorSubCode_try_from v = Ok e \<longleftrightarrow> v = u8_from_UpdateMessageErrorSubCode e"
  by (auto simp: UpdateMessageErrorSubCode_try_from_def UpdateMessageErrorSubCode_from_repr_def ums.find_disc_iff ums.find_disc_None
      ums.disc_inject split: option.splits)

interpretation fss: repr_enum u8_from_FiniteStateMachineErrorSubCode FiniteStateMachineErrorSubCode_variants
proof
  show "e \<in> set FiniteStateMachineErrorSubCode_variants" for e
    by (cases e) (simp_all add: FiniteStateMachineErrorSubCode_variants_def)
  show "distinct (map u8_from_FiniteStateMachineErrorSubCode FiniteStateMachineErrorSubCode_variants)"
    by (simp add: FiniteStateMachineErrorSubCode_variants_def)
qed

lemma FiniteStateMachineErrorSubCode_try_from_Ok [wire_simps]: "FiniteStateMachineErrorSubCode_try_from v = Ok e \<longleftrightarrow> v = u8_from_FiniteStateMachineErrorSubCode e"
  by (auto simp: FiniteStateMachineErrorSubCode_try_from_def FiniteStateMachineErrorSubCode_from_repr_def fss.find_disc_iff fss.find_disc_None
      fss.disc_inject split: option.splits)

interpretation ces: repr_enum u8_from_CeaseErrorSubCode CeaseErrorSubCode_variants
proof
  show "e \<in> set CeaseErrorSubCode_variants" for e
    by (cases e) (simp_all add: CeaseErrorSubCode_variants_def)
  show "distinct (map u8_from_CeaseErrorSubCode CeaseErrorSubCode_variants)"
    by (simp add: CeaseErrorSubCode_variants_def)
qed

lemma CeaseErrorSubCode_try_from_Ok [wire_simps]: "CeaseErrorSubCode_try_from v = Ok e \<longleftrightarrow> v = u8_from_CeaseErrorSubCode e"
  by (auto simp: CeaseErrorSubCode_try_from_def CeaseErrorSubCode_from_repr_def ces.find_disc_iff ces.find_disc_None
      ces.disc_inject split: option.splits)

interpretation rrs: repr_enum u8_from_RouteRefreshMessageErrorSubCode RouteRefreshMessageErrorSubCode_variants
proof
  show "e \<in> set RouteRefreshMessageErrorSubCode_variants" for e
    by (cases e) (simp_all add: RouteRefreshMessageErrorSubCode_variants_def)
  show "distinct (map u8_from_RouteRefreshMessageErrorSubCode RouteRefreshMessageErrorSubCode_variants)"
    by (simp add: RouteRefreshMessageErrorSubCode_variants_def)
qed

lemma RouteRefreshMessageErrorSubCode_try_from_Ok [wire_simps]: "RouteRefreshMessageErrorSubCode_try_from v = Ok e \<longleftrightarrow> v = u8_from_RouteRefreshMessageErrorSubCode e"
  by (auto simp: RouteRefreshMessageErrorSubCode_try_from_def RouteRefreshMessageErrorSubCode_from_repr_def rrs.find_disc_iff rrs.find_disc_None
      rrs.disc_inject split: option.splits)

interpretation opt: repr_enum u8_from_BgpOpenMessageParameterType BgpOpenMessageParameterType_variants
proof
  show "e \<in> set BgpOpenMessageParameterType_variants" for e
    by (cases e) (simp_all add: BgpOpenMessageParameterType_variants_def)
  show "distinct (map u8_from_BgpOpenMessageParameterType BgpOpenMessageParameterType_variants)"
    by (simp add: BgpOpenMessageParameterType_variants_def)
qed

lemma BgpOpenMessageParameterType_try_from_Ok [wire_simps]: "BgpOpenMessageParameterType_try_from v = Ok e \<longleftrightarrow> v = u8_from_BgpOpenMessageParameterType e"
  by (auto simp: BgpOpenMessageParameterType_try_from_def BgpOpenMessageParameterType_from_repr_def opt.find_disc_iff opt.find_disc_None
      opt.disc_inject split: option.splits)

interpretation cap: repr_enum u8_from_BgpCapabilityCode BgpCapabilityCode_variants
proof
  show "e \<in> set BgpCapabilityCode_variants" for e
    by (cases e) (simp_all add: BgpCapabilityCode_variants_def)
  show "distinct (map u8_from_BgpCapabilityCode BgpCapabilityCode_variants)"
    by (simp add: BgpCapabilityCode_variants_def)
qed

lemma BgpCapabilityCode_try_from_Ok [wire_simps]: "BgpCapabilityCode_try_from v = Ok e \<longleftrightarrow> v = u8_from_BgpCapabilityCode e"
  by (auto simp: BgpCapabilityCode_try_from_def BgpCapabilityCode_from_repr_def cap.find_disc_iff cap.find_disc_None
      cap.disc_inject split: option.splits)

interpretation rrc: repr_enum u8_from_RouteRefreshSubcode RouteRefreshSubcode_variants
proof
  show "e \<in> set RouteRefreshSubcode_variants" for e
    by (cases e) (simp_all add: RouteRefreshSubcode_variants_def)
  show "distinct (map u8_from_RouteRefreshSubcode RouteRefreshSubcode_variants)"
    by (simp add: RouteRefreshSubcode_variants_def)
qed

lemma RouteRefreshSubcode_try_from_Ok [wire_simps]: "RouteRefreshSubcode_try_from v = Ok e \<longleftrightarrow> v = u8_from_RouteRefreshSubcode e"
  by (auto simp: RouteRefreshSubcode_try_from_def RouteRefreshSubcode_from_repr_def rrc.find_disc_iff rrc.find_disc_None
      rrc.disc_inject split: option.splits)

interpretation rol: repr_enum u8_from_BgpRoleValue BgpRoleValue_variants
proof
  show "e \<in> set BgpRoleValue_variants" for e
    by (cases e) (simp_all add: BgpRoleValue_variants_def)
  show "distinct (map u8_from_BgpRoleValue BgpRoleValue_variants)"
    by (simp add: BgpRoleValue_variants_def)
qed

lemma BgpRoleValue_try_from_Ok [wire_simps]: "BgpRoleValue_try_from v = Ok e \<longleftrightarrow> v = u8_from_BgpRoleValue e"
  by (auto simp: BgpRoleValue_try_from_def BgpRoleValue_from_repr_def rol.find_disc_iff rol.find_disc_None
      rol.disc_inject split: option.splits)

end
