(* ===== verification/Bgp_Notification.thy ===== *)
theory Bgp_Notification
  imports NC_Wire Bgp_Iana
begin

text \<open>
  The BGP NOTIFICATION message: \<open>crates/bgp-pkt/src/notification.rs\<close>, its parser
  \<open>wire/deserializer/notification.rs\<close> and its serializer \<open>wire/serializer/notification.rs\<close>.
  A notification takes the rest of the message, so reading and writing are inverse to each
  other in both directions.
\<close>

section \<open>Data\<close>

datatype (plugins only: code) MessageHeaderError =
    Unspecific bytes
  | ConnectionNotSynchronized bytes
  | BadMessageLength bytes
  | BadMessageType bytes

datatype (plugins only: code) OpenMessageError =
    Unspecific bytes
  | UnsupportedVersionNumber bytes
  | BadPeerAs bytes
  | BadBgpIdentifier bytes
  | UnsupportedOptionalParameter bytes
  | UnacceptableHoldTime bytes
  | UnsupportedCapability bytes
  | RoleMismatch bytes

datatype (plugins only: code) UpdateMessageError =
    Unspecific bytes
  | MalformedAttributeList bytes
  | UnrecognizedWellKnownAttribute bytes
  | MissingWellKnownAttribute bytes
  | AttributeFlagsError bytes
  | AttributeLengthError bytes
  | InvalidOriginAttribute bytes
  | InvalidNextHopAttribute bytes
  | OptionalAttributeError bytes
  | InvalidNetworkField bytes
  | MalformedAsPath bytes

datatype (plugins only: code) HoldTimerExpiredError = Unspecific u8 bytes

datatype (plugins only: code) FiniteStateMachineError =
    Unspecific bytes
  | ReceiveUnexpectedMessageInOpenSentState bytes
  | ReceiveUnexpectedMessageInOpenConfirmState bytes
  | ReceiveUnexpectedMessageInEstablishedState bytes

datatype (plugins only: code) CeaseError =
    MaximumNumberOfPrefixesReached bytes
  | AdministrativeShutdown bytes
  | PeerDeConfigured bytes
  | AdministrativeReset bytes
  | ConnectionRejected bytes
  | OtherConfigurationChange bytes
  | ConnectionCollisionResolution bytes
  | OutOfResources bytes
  | HardReset bytes
  | BfdDown bytes

datatype (plugins only: code) RouteRefreshError =
    InvalidMessageLength bytes

datatype (plugins only: code) BgpNotificationMessage =
    MessageHeaderError MessageHeaderError
  | OpenMessageError OpenMessageError
  | UpdateMessageError UpdateMessageError
  | HoldTimerExpiredError HoldTimerExpiredError
  | FiniteStateMachineError FiniteStateMachineError
  | CeaseError CeaseError
  | RouteRefreshError RouteRefreshError

section \<open>Parsing\<close>

datatype (plugins only: code) MessageHeaderErrorParsingError =
    NomError ErrorKind
  | UndefinedMessageHeaderErrorType UndefinedMessageHeaderErrorSubCode

definition MessageHeaderError_from_wire ::
  "wire_lib \<Rightarrow> span \<Rightarrow> (MessageHeaderError, MessageHeaderErrorParsingError) iresult" where
  "MessageHeaderError_from_wire L buf =
     rbind (map_res (be_u8 L MessageHeaderErrorParsingError.NomError) MessageHeaderErrorSubCode_try_from
       MessageHeaderErrorParsingError.UndefinedMessageHeaderErrorType buf) (\<lambda>(buf, sub_code).
     rbind (take_span L MessageHeaderErrorParsingError.NomError (span_len buf) buf) (\<lambda>(buf, value).
     case sub_code of
       MessageHeaderErrorSubCode.Unspecific \<Rightarrow>
         Ok (buf, MessageHeaderError.Unspecific (fragment value))
     | MessageHeaderErrorSubCode.ConnectionNotSynchronized \<Rightarrow>
         Ok (buf, MessageHeaderError.ConnectionNotSynchronized (fragment value))
     | MessageHeaderErrorSubCode.BadMessageLength \<Rightarrow>
         Ok (buf, MessageHeaderError.BadMessageLength (fragment value))
     | MessageHeaderErrorSubCode.BadMessageType \<Rightarrow>
         Ok (buf, MessageHeaderError.BadMessageType (fragment value))))"

datatype (plugins only: code) OpenMessageErrorParsingError =
    NomError ErrorKind
  | UndefinedOpenMessageErrorSubCode UndefinedOpenMessageErrorSubCode

definition OpenMessageError_from_wire ::
  "wire_lib \<Rightarrow> span \<Rightarrow> (OpenMessageError, OpenMessageErrorParsingError) iresult" where
  "OpenMessageError_from_wire L buf =
     rbind (map_res (be_u8 L OpenMessageErrorParsingError.NomError) OpenMessageErrorSubCode_try_from
       OpenMessageErrorParsingError.UndefinedOpenMessageErrorSubCode buf) (\<lambda>(buf, sub_code).
     rbind (take_span L OpenMessageErrorParsingError.NomError (span_len buf) buf) (\<lambda>(buf, value).
     case sub_code of
       OpenMessageErrorSubCode.Unspecific \<Rightarrow>
         Ok (buf, OpenMessageError.Unspecific (fragment value))
     | OpenMessageErrorSubCode.UnsupportedVersionNumber \<Rightarrow>
         Ok (buf, OpenMessageError.UnsupportedVersionNumber (fragment value))
     | OpenMessageErrorSubCode.BadPeerAs \<Rightarrow>
         Ok (buf, OpenMessageError.BadPeerAs (fragment value))
     | OpenMessageErrorSubCode.BadBgpIdentifier \<Rightarrow>
         Ok (buf, OpenMessageError.BadBgpIdentifier (fragment value))
     | OpenMessageErrorSubCode.UnsupportedOptionalParameter \<Rightarrow>
         Ok (buf, OpenMessageError.UnsupportedOptionalParameter (fragment value))
     | OpenMessageErrorSubCode.UnacceptableHoldTime \<Rightarrow>
         Ok (buf, OpenMessageError.UnacceptableHoldTime (fragment value))
     | OpenMessageErrorSubCode.UnsupportedCapability \<Rightarrow>
         Ok (buf, OpenMessageError.UnsupportedCapability (fragment value))
     | OpenMessageErrorSubCode.RoleMismatch \<Rightarrow>
         Ok (buf, OpenMessageError.RoleMismatch (fragment value))))"

datatype (plugins only: code) UpdateMessageErrorParsingError =
    NomError ErrorKind
  | UndefinedUpdateMessageErrorSubCode UndefinedUpdateMessageErrorSubCode

definition UpdateMessageError_from_wire ::
  "wire_lib \<Rightarrow> span \<Rightarrow> (UpdateMessageError, UpdateMessageErrorParsingError) iresult" where
  "UpdateMessageError_from_wire L buf =
     rbind (map_res (be_u8 L UpdateMessageErrorParsingError.NomError) UpdateMessageErrorSubCode_try_from
       UpdateMessageErrorParsingError.UndefinedUpdateMessageErrorSubCode buf) (\<lambda>(buf, sub_code).
     rbind (take_span L UpdateMessageErrorParsingError.NomError (span_len buf) buf) (\<lambda>(buf, value).
     case sub_code of
       UpdateMessageErrorSubCode.Unspecific \<Rightarrow>
         Ok (buf, UpdateMessageError.Unspecific (fragment value))
     | UpdateMessageErrorSubCode.MalformedAttributeList \<Rightarrow>
         Ok (buf, UpdateMessageError.MalformedAttributeList (fragment value))
     | UpdateMessageErrorSubCode.UnrecognizedWellKnownAttribute \<Rightarrow>
         Ok (buf, UpdateMessageError.UnrecognizedWellKnownAttribute (fragment value))
     | UpdateMessageErrorSubCode.MissingWellKnownAttribute \<Rightarrow>
         Ok (buf, UpdateMessageError.MissingWellKnownAttribute (fragment value))
     | UpdateMessageErrorSubCode.AttributeFlagsError \<Rightarrow>
         Ok (buf, UpdateMessageError.AttributeFlagsError (fragment value))
     | UpdateMessageErrorSubCode.AttributeLengthError \<Rightarrow>
         Ok (buf, UpdateMessageError.AttributeLengthError (fragment value))
     | UpdateMessageErrorSubCode.InvalidOriginAttribute \<Rightarrow>
         Ok (buf, UpdateMessageError.InvalidOriginAttribute (fragment value))
     | UpdateMessageErrorSubCode.InvalidNextHopAttribute \<Rightarrow>
         Ok (buf, UpdateMessageError.InvalidNextHopAttribute (fragment value))
     | UpdateMessageErrorSubCode.OptionalAttributeError \<Rightarrow>
         Ok (buf, UpdateMessageError.OptionalAttributeError (fragment value))
     | UpdateMessageErrorSubCode.InvalidNetworkField \<Rightarrow>
         Ok (buf, UpdateMessageError.InvalidNetworkField (fragment value))
     | UpdateMessageErrorSubCode.MalformedAsPath \<Rightarrow>
         Ok (buf, UpdateMessageError.MalformedAsPath (fragment value))))"

datatype (plugins only: code) HoldTimerExpiredErrorParsingError = NomError ErrorKind

definition HoldTimerExpiredError_from_wire ::
  "wire_lib \<Rightarrow> span \<Rightarrow> (HoldTimerExpiredError, HoldTimerExpiredErrorParsingError) iresult" where
  "HoldTimerExpiredError_from_wire L buf =
     rbind (be_u8 L HoldTimerExpiredErrorParsingError.NomError buf) (\<lambda>(buf, sub_code).
     rbind (take_span L HoldTimerExpiredErrorParsingError.NomError (span_len buf) buf) (\<lambda>(buf, value).
     Ok (buf, HoldTimerExpiredError.Unspecific sub_code (fragment value))))"

datatype (plugins only: code) FiniteStateMachineErrorParsingError =
    NomError ErrorKind
  | Undefined UndefinedFiniteStateMachineErrorSubCode

definition FiniteStateMachineError_from_wire ::
  "wire_lib \<Rightarrow> span \<Rightarrow> (FiniteStateMachineError, FiniteStateMachineErrorParsingError) iresult" where
  "FiniteStateMachineError_from_wire L buf =
     rbind (map_res (be_u8 L FiniteStateMachineErrorParsingError.NomError) FiniteStateMachineErrorSubCode_try_from
       FiniteStateMachineErrorParsingError.Undefined buf) (\<lambda>(buf, sub_code).
     rbind (take_span L FiniteStateMachineErrorParsingError.NomError (span_len buf) buf) (\<lambda>(buf, value).
     case sub_code of
       FiniteStateMachineErrorSubCode.UnspecifiedError \<Rightarrow>
         Ok (buf, FiniteStateMachineError.Unspecific (fragment value))
     | FiniteStateMachineErrorSubCode.ReceiveUnexpectedMessageInOpenSentState \<Rightarrow>
         Ok (buf, FiniteStateMachineError.ReceiveUnexpectedMessageInOpenSentState (fragment value))
     | FiniteStateMachineErrorSubCode.ReceiveUnexpectedMessageInOpenConfirmState \<Rightarrow>
         Ok (buf, FiniteStateMachineError.ReceiveUnexpectedMessageInOpenConfirmState (fragment value))
     | FiniteStateMachineErrorSubCode.ReceiveUnexpectedMessageInEstablishedState \<Rightarrow>
         Ok (buf, FiniteStateMachineError.ReceiveUnexpectedMessageInEstablishedState (fragment value))))"

datatype (plugins only: code) CeaseErrorParsingError =
    NomError ErrorKind
  | Undefined UndefinedCeaseErrorSubCode

definition CeaseError_from_wire ::
  "wire_lib \<Rightarrow> span \<Rightarrow> (CeaseError, CeaseErrorParsingError) iresult" where
  "CeaseError_from_wire L buf =
     rbind (map_res (be_u8 L CeaseErrorParsingError.NomError) CeaseErrorSubCode_try_from
       CeaseErrorParsingError.Undefined buf) (\<lambda>(buf, sub_code).
     rbind (take_span L CeaseErrorParsingError.NomError (span_len buf) buf) (\<lambda>(buf, value).
     case sub_code of
       CeaseErrorSubCode.MaximumNumberOfPrefixesReached \<Rightarrow>
         Ok (buf, CeaseError.MaximumNumberOfPrefixesReached (fragment value))
     | CeaseErrorSubCode.AdministrativeShutdown \<Rightarrow>
         Ok (buf, CeaseError.AdministrativeShutdown (fragment value))
     | CeaseErrorSubCode.PeerDeConfigured \<Rightarrow>
         Ok (buf, CeaseError.PeerDeConfigured (fragment value))
     | CeaseErrorSubCode.AdministrativeReset \<Rightarrow>
         Ok (buf, CeaseError.AdministrativeReset (fragment value))
     | CeaseErrorSubCode.ConnectionRejected \<Rightarrow>
         Ok (buf, CeaseError.ConnectionRejected (fragment value))
     | CeaseErrorSubCode.OtherConfigurationChange \<Rightarrow>
         Ok (buf, CeaseError.OtherConfigurationChange (fragment value))
     | CeaseErrorSubCode.ConnectionCollisionResolution \<Rightarrow>
         Ok (buf, CeaseError.ConnectionCollisionResolution (fragment value))
     | CeaseErrorSubCode.OutOfResources \<Rightarrow>
         Ok (buf, CeaseError.OutOfResources (fragment value))
     | CeaseErrorSubCode.HardReset \<Rightarrow>
         Ok (buf, CeaseError.HardReset (fragment value))
     | CeaseErrorSubCode.BfdDown \<Rightarrow>
         Ok (buf, CeaseError.BfdDown (fragment value))))"

datatype (plugins only: code) RouteRefreshErrorParsingError =
    NomError ErrorKind
  | Undefined UndefinedRouteRefreshMessageError

definition RouteRefreshError_from_wire ::
  "wire_lib \<Rightarrow> span \<Rightarrow> (RouteRefreshError, RouteRefreshErrorParsingError) iresult" where
  "RouteRefreshError_from_wire L buf =
     rbind (map_res (be_u8 L RouteRefreshErrorParsingError.NomError) RouteRefreshMessageErrorSubCode_try_from
       RouteRefreshErrorParsingError.Undefined buf) (\<lambda>(buf, sub_code).
     rbind (take_span L RouteRefreshErrorParsingError.NomError (span_len buf) buf) (\<lambda>(buf, value).
     case sub_code of
       RouteRefreshMessageErrorSubCode.InvalidMessageLength \<Rightarrow>
         Ok (buf, RouteRefreshError.InvalidMessageLength (fragment value))))"

datatype (plugins only: code) BgpNotificationMessageParsingError =
    NomError ErrorKind
  | UndefinedBgpErrorNotificationCode UndefinedBgpErrorNotificationCode
  | MessageHeaderError MessageHeaderErrorParsingError
  | OpenMessageError OpenMessageErrorParsingError
  | UpdateMessageError UpdateMessageErrorParsingError
  | HoldTimerExpiredError HoldTimerExpiredErrorParsingError
  | FiniteStateMachineError FiniteStateMachineErrorParsingError
  | CeaseError CeaseErrorParsingError
  | RouteRefreshError RouteRefreshErrorParsingError

definition BgpNotificationMessage_from_wire ::
  "wire_lib \<Rightarrow> span \<Rightarrow> (BgpNotificationMessage, BgpNotificationMessageParsingError) iresult" where
  "BgpNotificationMessage_from_wire L buf =
     rbind (map_res (be_u8 L BgpNotificationMessageParsingError.NomError) BgpErrorNotificationCode_try_from
       BgpNotificationMessageParsingError.UndefinedBgpErrorNotificationCode buf) (\<lambda>(buf, notification_type).
     case notification_type of
       BgpErrorNotificationCode.MessageHeaderError \<Rightarrow>
         rbind (parse_into_located BgpNotificationMessageParsingError.MessageHeaderError (MessageHeaderError_from_wire L) buf)
           (\<lambda>(buf, value). Ok (buf, BgpNotificationMessage.MessageHeaderError value))
     | BgpErrorNotificationCode.OpenMessageError \<Rightarrow>
         rbind (parse_into_located BgpNotificationMessageParsingError.OpenMessageError (OpenMessageError_from_wire L) buf)
           (\<lambda>(buf, value). Ok (buf, BgpNotificationMessage.OpenMessageError value))
     | BgpErrorNotificationCode.UpdateMessageError \<Rightarrow>
         rbind (parse_into_located BgpNotificationMessageParsingError.UpdateMessageError (UpdateMessageError_from_wire L) buf)
           (\<lambda>(buf, value). Ok (buf, BgpNotificationMessage.UpdateMessageError value))
     | BgpErrorNotificationCode.HoldTimerExpired \<Rightarrow>
         rbind (parse_into_located BgpNotificationMessageParsingError.HoldTimerExpiredError (HoldTimerExpiredError_from_wire L) buf)
           (\<lambda>(buf, value). Ok (buf, BgpNotificationMessage.HoldTimerExpiredError value))
     | BgpErrorNotificationCode.FiniteStateMachineError \<Rightarrow>
         rbind (parse_into_located BgpNotificationMessageParsingError.FiniteStateMachineError (FiniteStateMachineError_from_wire L) buf)
           (\<lambda>(buf, value). Ok (buf, BgpNotificationMessage.FiniteStateMachineError value))
     | BgpErrorNotificationCode.Cease \<Rightarrow>
         rbind (parse_into_located BgpNotificationMessageParsingError.CeaseError (CeaseError_from_wire L) buf)
           (\<lambda>(buf, value). Ok (buf, BgpNotificationMessage.CeaseError value))
     | BgpErrorNotificationCode.RouteRefreshMessageError \<Rightarrow>
         rbind (parse_into_located BgpNotificationMessageParsingError.RouteRefreshError (RouteRefreshError_from_wire L) buf)
           (\<lambda>(buf, value). Ok (buf, BgpNotificationMessage.RouteRefreshError value)))"

section \<open>Serializing\<close>

datatype (plugins only: code) MessageHeaderErrorWritingError = StdIOError string

primrec MessageHeaderError_len :: "MessageHeaderError \<Rightarrow> nat" where
  "MessageHeaderError_len (MessageHeaderError.Unspecific value) = 1 + length value"
| "MessageHeaderError_len (MessageHeaderError.ConnectionNotSynchronized value) = 1 + length value"
| "MessageHeaderError_len (MessageHeaderError.BadMessageLength value) = 1 + length value"
| "MessageHeaderError_len (MessageHeaderError.BadMessageType value) = 1 + length value"

primrec MessageHeaderError_write :: "MessageHeaderError \<Rightarrow> MessageHeaderErrorWritingError writing" where
  "MessageHeaderError_write (MessageHeaderError.Unspecific value) =
     wseq (wput [u8_from_MessageHeaderErrorSubCode MessageHeaderErrorSubCode.Unspecific]) (wput value)"
| "MessageHeaderError_write (MessageHeaderError.ConnectionNotSynchronized value) =
     wseq (wput [u8_from_MessageHeaderErrorSubCode MessageHeaderErrorSubCode.ConnectionNotSynchronized]) (wput value)"
| "MessageHeaderError_write (MessageHeaderError.BadMessageLength value) =
     wseq (wput [u8_from_MessageHeaderErrorSubCode MessageHeaderErrorSubCode.BadMessageLength]) (wput value)"
| "MessageHeaderError_write (MessageHeaderError.BadMessageType value) =
     wseq (wput [u8_from_MessageHeaderErrorSubCode MessageHeaderErrorSubCode.BadMessageType]) (wput value)"

datatype (plugins only: code) OpenMessageErrorWritingError = StdIOError string

primrec OpenMessageError_len :: "OpenMessageError \<Rightarrow> nat" where
  "OpenMessageError_len (OpenMessageError.Unspecific value) = 1 + length value"
| "OpenMessageError_len (OpenMessageError.UnsupportedVersionNumber value) = 1 + length value"
| "OpenMessageError_len (OpenMessageError.BadPeerAs value) = 1 + length value"
| "OpenMessageError_len (OpenMessageError.BadBgpIdentifier value) = 1 + length value"
| "OpenMessageError_len (OpenMessageError.UnsupportedOptionalParameter value) = 1 + length value"
| "OpenMessageError_len (OpenMessageError.UnacceptableHoldTime value) = 1 + length value"
| "OpenMessageError_len (OpenMessageError.UnsupportedCapability value) = 1 + length value"
| "OpenMessageError_len (OpenMessageError.RoleMismatch value) = 1 + length value"

primrec OpenMessageError_write :: "OpenMessageError \<Rightarrow> OpenMessageErrorWritingError writing" where
  "OpenMessageError_write (OpenMessageError.Unspecific value) =
     wseq (wput [u8_from_OpenMessageErrorSubCode OpenMessageErrorSubCode.Unspecific]) (wput value)"
| "OpenMessageError_write (OpenMessageError.UnsupportedVersionNumber value) =
     wseq (wput [u8_from_OpenMessageErrorSubCode OpenMessageErrorSubCode.UnsupportedVersionNumber]) (wput value)"
| "OpenMessageError_write (OpenMessageError.BadPeerAs value) =
     wseq (wput [u8_from_OpenMessageErrorSubCode OpenMessageErrorSubCode.BadPeerAs]) (wput value)"
| "OpenMessageError_write (OpenMessageError.BadBgpIdentifier value) =
     wseq (wput [u8_from_OpenMessageErrorSubCode OpenMessageErrorSubCode.BadBgpIdentifier]) (wput value)"
| "OpenMessageError_write (OpenMessageError.UnsupportedOptionalParameter value) =
     wseq (wput [u8_from_OpenMessageErrorSubCode OpenMessageErrorSubCode.UnsupportedOptionalParameter]) (wput value)"
| "OpenMessageError_write (OpenMessageError.UnacceptableHoldTime value) =
     wseq (wput [u8_from_OpenMessageErrorSubCode OpenMessageErrorSubCode.UnacceptableHoldTime]) (wput value)"
| "OpenMessageError_write (OpenMessageError.UnsupportedCapability value) =
     wseq (wput [u8_from_OpenMessageErrorSubCode OpenMessageErrorSubCode.UnsupportedCapability]) (wput value)"
| "OpenMessageError_write (OpenMessageError.RoleMismatch value) =
     wseq (wput [u8_from_OpenMessageErrorSubCode OpenMessageErrorSubCode.RoleMismatch]) (wput value)"

datatype (plugins only: code) UpdateMessageErrorWritingError = StdIOError string

primrec UpdateMessageError_len :: "UpdateMessageError \<Rightarrow> nat" where
  "UpdateMessageError_len (UpdateMessageError.Unspecific value) = 1 + length value"
| "UpdateMessageError_len (UpdateMessageError.MalformedAttributeList value) = 1 + length value"
| "UpdateMessageError_len (UpdateMessageError.UnrecognizedWellKnownAttribute value) = 1 + length value"
| "UpdateMessageError_len (UpdateMessageError.MissingWellKnownAttribute value) = 1 + length value"
| "UpdateMessageError_len (UpdateMessageError.AttributeFlagsError value) = 1 + length value"
| "UpdateMessageError_len (UpdateMessageError.AttributeLengthError value) = 1 + length value"
| "UpdateMessageError_len (UpdateMessageError.InvalidOriginAttribute value) = 1 + length value"
| "UpdateMessageError_len (UpdateMessageError.InvalidNextHopAttribute value) = 1 + length value"
| "UpdateMessageError_len (UpdateMessageError.OptionalAttributeError value) = 1 + length value"
| "UpdateMessageError_len (UpdateMessageError.InvalidNetworkField value) = 1 + length value"
| "UpdateMessageError_len (UpdateMessageError.MalformedAsPath value) = 1 + length value"

primrec UpdateMessageError_write :: "UpdateMessageError \<Rightarrow> UpdateMessageErrorWritingError writing" where
  "UpdateMessageError_write (UpdateMessageError.Unspecific value) =
     wseq (wput [u8_from_UpdateMessageErrorSubCode UpdateMessageErrorSubCode.Unspecific]) (wput value)"
| "UpdateMessageError_write (UpdateMessageError.MalformedAttributeList value) =
     wseq (wput [u8_from_UpdateMessageErrorSubCode UpdateMessageErrorSubCode.MalformedAttributeList]) (wput value)"
| "UpdateMessageError_write (UpdateMessageError.UnrecognizedWellKnownAttribute value) =
     wseq (wput [u8_from_UpdateMessageErrorSubCode UpdateMessageErrorSubCode.UnrecognizedWellKnownAttribute]) (wput value)"
| "UpdateMessageError_write (UpdateMessageError.MissingWellKnownAttribute value) =
     wseq (wput [u8_from_UpdateMessageErrorSubCode UpdateMessageErrorSubCode.MissingWellKnownAttribute]) (wput value)"
| "UpdateMessageError_write (UpdateMessageError.AttributeFlagsError value) =
     wseq (wput [u8_from_UpdateMessageErrorSubCode UpdateMessageErrorSubCode.AttributeFlagsError]) (wput value)"
| "UpdateMessageError_write (UpdateMessageError.AttributeLengthError value) =
     wseq (wput [u8_from_UpdateMessageErrorSubCode UpdateMessageErrorSubCode.AttributeLengthError]) (wput value)"
| "UpdateMessageError_write (UpdateMessageError.InvalidOriginAttribute value) =
     wseq (wput [u8_from_UpdateMessageErrorSubCode UpdateMessageErrorSubCode.InvalidOriginAttribute]) (wput value)"
| "UpdateMessageError_write (UpdateMessageError.InvalidNextHopAttribute value) =
     wseq (wput [u8_from_UpdateMessageErrorSubCode UpdateMessageErrorSubCode.InvalidNextHopAttribute]) (wput value)"
| "UpdateMessageError_write (UpdateMessageError.OptionalAttributeError value) =
     wseq (wput [u8_from_UpdateMessageErrorSubCode UpdateMessageErrorSubCode.OptionalAttributeError]) (wput value)"
| "UpdateMessageError_write (UpdateMessageError.InvalidNetworkField value) =
     wseq (wput [u8_from_UpdateMessageErrorSubCode UpdateMessageErrorSubCode.InvalidNetworkField]) (wput value)"
| "UpdateMessageError_write (UpdateMessageError.MalformedAsPath value) =
     wseq (wput [u8_from_UpdateMessageErrorSubCode UpdateMessageErrorSubCode.MalformedAsPath]) (wput value)"

datatype (plugins only: code) HoldTimerExpiredErrorWritingError = StdIOError string

primrec HoldTimerExpiredError_len :: "HoldTimerExpiredError \<Rightarrow> nat" where
  "HoldTimerExpiredError_len (HoldTimerExpiredError.Unspecific sub_code value) = 1 + length value"

primrec HoldTimerExpiredError_write :: "HoldTimerExpiredError \<Rightarrow> HoldTimerExpiredErrorWritingError writing" where
  "HoldTimerExpiredError_write (HoldTimerExpiredError.Unspecific sub_code value) =
     wseq (wput [sub_code]) (wput value)"

datatype (plugins only: code) FiniteStateMachineErrorWritingError = StdIOError string

primrec FiniteStateMachineError_len :: "FiniteStateMachineError \<Rightarrow> nat" where
  "FiniteStateMachineError_len (FiniteStateMachineError.Unspecific value) = 1 + length value"
| "FiniteStateMachineError_len (FiniteStateMachineError.ReceiveUnexpectedMessageInOpenSentState value) = 1 + length value"
| "FiniteStateMachineError_len (FiniteStateMachineError.ReceiveUnexpectedMessageInOpenConfirmState value) = 1 + length value"
| "FiniteStateMachineError_len (FiniteStateMachineError.ReceiveUnexpectedMessageInEstablishedState value) = 1 + length value"

primrec FiniteStateMachineError_write :: "FiniteStateMachineError \<Rightarrow> FiniteStateMachineErrorWritingError writing" where
  "FiniteStateMachineError_write (FiniteStateMachineError.Unspecific value) =
     wseq (wput [u8_from_FiniteStateMachineErrorSubCode FiniteStateMachineErrorSubCode.UnspecifiedError]) (wput value)"
| "FiniteStateMachineError_write (FiniteStateMachineError.ReceiveUnexpectedMessageInOpenSentState value) =
     wseq (wput [u8_from_FiniteStateMachineErrorSubCode FiniteStateMachineErrorSubCode.ReceiveUnexpectedMessageInOpenSentState]) (wput value)"
| "FiniteStateMachineError_write (FiniteStateMachineError.ReceiveUnexpectedMessageInOpenConfirmState value) =
     wseq (wput [u8_from_FiniteStateMachineErrorSubCode FiniteStateMachineErrorSubCode.ReceiveUnexpectedMessageInOpenConfirmState]) (wput value)"
| "FiniteStateMachineError_write (FiniteStateMachineError.ReceiveUnexpectedMessageInEstablishedState value) =
     wseq (wput [u8_from_FiniteStateMachineErrorSubCode FiniteStateMachineErrorSubCode.ReceiveUnexpectedMessageInEstablishedState]) (wput value)"

datatype (plugins only: code) CeaseErrorWritingError = StdIOError string

primrec CeaseError_len :: "CeaseError \<Rightarrow> nat" where
  "CeaseError_len (CeaseError.MaximumNumberOfPrefixesReached value) = 1 + length value"
| "CeaseError_len (CeaseError.AdministrativeShutdown value) = 1 + length value"
| "CeaseError_len (CeaseError.PeerDeConfigured value) = 1 + length value"
| "CeaseError_len (CeaseError.AdministrativeReset value) = 1 + length value"
| "CeaseError_len (CeaseError.ConnectionRejected value) = 1 + length value"
| "CeaseError_len (CeaseError.OtherConfigurationChange value) = 1 + length value"
| "CeaseError_len (CeaseError.ConnectionCollisionResolution value) = 1 + length value"
| "CeaseError_len (CeaseError.OutOfResources value) = 1 + length value"
| "CeaseError_len (CeaseError.HardReset value) = 1 + length value"
| "CeaseError_len (CeaseError.BfdDown value) = 1 + length value"

primrec CeaseError_write :: "CeaseError \<Rightarrow> CeaseErrorWritingError writing" where
  "CeaseError_write (CeaseError.MaximumNumberOfPrefixesReached value) =
     wseq (wput [u8_from_CeaseErrorSubCode CeaseErrorSubCode.MaximumNumberOfPrefixesReached]) (wput value)"
| "CeaseError_write (CeaseError.AdministrativeShutdown value) =
     wseq (wput [u8_from_CeaseErrorSubCode CeaseErrorSubCode.AdministrativeShutdown]) (wput value)"
| "CeaseError_write (CeaseError.PeerDeConfigured value) =
     wseq (wput [u8_from_CeaseErrorSubCode CeaseErrorSubCode.PeerDeConfigured]) (wput value)"
| "CeaseError_write (CeaseError.AdministrativeReset value) =
     wseq (wput [u8_from_CeaseErrorSubCode CeaseErrorSubCode.AdministrativeReset]) (wput value)"
| "CeaseError_write (CeaseError.ConnectionRejected value) =
     wseq (wput [u8_from_CeaseErrorSubCode CeaseErrorSubCode.ConnectionRejected]) (wput value)"
| "CeaseError_write (CeaseError.OtherConfigurationChange value) =
     wseq (wput [u8_from_CeaseErrorSubCode CeaseErrorSubCode.OtherConfigurationChange]) (wput value)"
| "CeaseError_write (CeaseError.ConnectionCollisionResolution value) =
     wseq (wput [u8_from_CeaseErrorSubCode CeaseErrorSubCode.ConnectionCollisionResolution]) (wput value)"
| "CeaseError_write (CeaseError.OutOfResources value) =
     wseq (wput [u8_from_CeaseErrorSubCode CeaseErrorSubCode.OutOfResources]) (wput value)"
| "CeaseError_write (CeaseError.HardReset value) =
     wseq (wput [u8_from_CeaseErrorSubCode CeaseErrorSubCode.HardReset]) (wput value)"
| "CeaseError_write (CeaseError.BfdDown value) =
     wseq (wput [u8_from_CeaseErrorSubCode CeaseErrorSubCode.BfdDown]) (wput value)"

datatype (plugins only: code) RouteRefreshErrorWritingError = StdIOError string

primrec RouteRefreshError_len :: "RouteRefreshError \<Rightarrow> nat" where
  "RouteRefreshError_len (RouteRefreshError.InvalidMessageLength value) = 1 + length value"

primrec RouteRefreshError_write :: "RouteRefreshError \<Rightarrow> RouteRefreshErrorWritingError writing" where
  "RouteRefreshError_write (RouteRefreshError.InvalidMessageLength value) =
     wseq (wput [u8_from_RouteRefreshMessageErrorSubCode RouteRefreshMessageErrorSubCode.InvalidMessageLength]) (wput value)"

datatype (plugins only: code) BgpNotificationMessageWritingError =
    StdIOError string
  | MessageHeaderError MessageHeaderErrorWritingError
  | OpenMessageError OpenMessageErrorWritingError
  | UpdateMessageError UpdateMessageErrorWritingError
  | HoldTimerExpiredError HoldTimerExpiredErrorWritingError
  | FiniteStateMachineError FiniteStateMachineErrorWritingError
  | CeaseError CeaseErrorWritingError
  | RouteRefreshError RouteRefreshErrorWritingError

primrec BgpNotificationMessage_len :: "BgpNotificationMessage \<Rightarrow> nat" where
  "BgpNotificationMessage_len (BgpNotificationMessage.MessageHeaderError value) = 1 + MessageHeaderError_len value"
| "BgpNotificationMessage_len (BgpNotificationMessage.OpenMessageError value) = 1 + OpenMessageError_len value"
| "BgpNotificationMessage_len (BgpNotificationMessage.UpdateMessageError value) = 1 + UpdateMessageError_len value"
| "BgpNotificationMessage_len (BgpNotificationMessage.HoldTimerExpiredError value) = 1 + HoldTimerExpiredError_len value"
| "BgpNotificationMessage_len (BgpNotificationMessage.FiniteStateMachineError value) = 1 + FiniteStateMachineError_len value"
| "BgpNotificationMessage_len (BgpNotificationMessage.CeaseError value) = 1 + CeaseError_len value"
| "BgpNotificationMessage_len (BgpNotificationMessage.RouteRefreshError value) = 1 + RouteRefreshError_len value"

primrec BgpNotificationMessage_write :: "BgpNotificationMessage \<Rightarrow> BgpNotificationMessageWritingError writing" where
  "BgpNotificationMessage_write (BgpNotificationMessage.MessageHeaderError value) =
     wseq (wput [u8_from_BgpErrorNotificationCode BgpErrorNotificationCode.MessageHeaderError])
       (wmap_err BgpNotificationMessageWritingError.MessageHeaderError (MessageHeaderError_write value))"
| "BgpNotificationMessage_write (BgpNotificationMessage.OpenMessageError value) =
     wseq (wput [u8_from_BgpErrorNotificationCode BgpErrorNotificationCode.OpenMessageError])
       (wmap_err BgpNotificationMessageWritingError.OpenMessageError (OpenMessageError_write value))"
| "BgpNotificationMessage_write (BgpNotificationMessage.UpdateMessageError value) =
     wseq (wput [u8_from_BgpErrorNotificationCode BgpErrorNotificationCode.UpdateMessageError])
       (wmap_err BgpNotificationMessageWritingError.UpdateMessageError (UpdateMessageError_write value))"
| "BgpNotificationMessage_write (BgpNotificationMessage.HoldTimerExpiredError value) =
     wseq (wput [u8_from_BgpErrorNotificationCode BgpErrorNotificationCode.HoldTimerExpired])
       (wmap_err BgpNotificationMessageWritingError.HoldTimerExpiredError (HoldTimerExpiredError_write value))"
| "BgpNotificationMessage_write (BgpNotificationMessage.FiniteStateMachineError value) =
     wseq (wput [u8_from_BgpErrorNotificationCode BgpErrorNotificationCode.FiniteStateMachineError])
       (wmap_err BgpNotificationMessageWritingError.FiniteStateMachineError (FiniteStateMachineError_write value))"
| "BgpNotificationMessage_write (BgpNotificationMessage.CeaseError value) =
     wseq (wput [u8_from_BgpErrorNotificationCode BgpErrorNotificationCode.Cease])
       (wmap_err BgpNotificationMessageWritingError.CeaseError (CeaseError_write value))"
| "BgpNotificationMessage_write (BgpNotificationMessage.RouteRefreshError value) =
     wseq (wput [u8_from_BgpErrorNotificationCode BgpErrorNotificationCode.RouteRefreshMessageError])
       (wmap_err BgpNotificationMessageWritingError.RouteRefreshError (RouteRefreshError_write value))"

section \<open>Both directions\<close>

lemma MessageHeaderError_write_ok [wire_simps, simp]: "snd (MessageHeaderError_write v) = Ok ()"
  by (cases v) simp_all

lemma MessageHeaderError_len_write [wire_simps, simp]: "length (fst (MessageHeaderError_write v)) = MessageHeaderError_len v"
  by (cases v) simp_all

lemma OpenMessageError_write_ok [wire_simps, simp]: "snd (OpenMessageError_write v) = Ok ()"
  by (cases v) simp_all

lemma OpenMessageError_len_write [wire_simps, simp]: "length (fst (OpenMessageError_write v)) = OpenMessageError_len v"
  by (cases v) simp_all

lemma UpdateMessageError_write_ok [wire_simps, simp]: "snd (UpdateMessageError_write v) = Ok ()"
  by (cases v) simp_all

lemma UpdateMessageError_len_write [wire_simps, simp]: "length (fst (UpdateMessageError_write v)) = UpdateMessageError_len v"
  by (cases v) simp_all

lemma HoldTimerExpiredError_write_ok [wire_simps, simp]: "snd (HoldTimerExpiredError_write v) = Ok ()"
  by (cases v) simp_all

lemma HoldTimerExpiredError_len_write [wire_simps, simp]: "length (fst (HoldTimerExpiredError_write v)) = HoldTimerExpiredError_len v"
  by (cases v) simp_all

lemma FiniteStateMachineError_write_ok [wire_simps, simp]: "snd (FiniteStateMachineError_write v) = Ok ()"
  by (cases v) simp_all

lemma FiniteStateMachineError_len_write [wire_simps, simp]: "length (fst (FiniteStateMachineError_write v)) = FiniteStateMachineError_len v"
  by (cases v) simp_all

lemma CeaseError_write_ok [wire_simps, simp]: "snd (CeaseError_write v) = Ok ()"
  by (cases v) simp_all

lemma CeaseError_len_write [wire_simps, simp]: "length (fst (CeaseError_write v)) = CeaseError_len v"
  by (cases v) simp_all

lemma RouteRefreshError_write_ok [wire_simps, simp]: "snd (RouteRefreshError_write v) = Ok ()"
  by (cases v) simp_all

lemma RouteRefreshError_len_write [wire_simps, simp]: "length (fst (RouteRefreshError_write v)) = RouteRefreshError_len v"
  by (cases v) simp_all

sublocale wire_lib_laws \<subseteq> mhe: tail_codec "MessageHeaderError_from_wire L" "\<lambda>v. fst (MessageHeaderError_write v)"
proof
  show "MessageHeaderError_from_wire L s = Ok (s', v) \<longleftrightarrow>
    fragment s = fst (MessageHeaderError_write v) \<and> s' = span_slice_from (length (fragment s)) s" for s s' v
    unfolding MessageHeaderError_from_wire_def tag_rest_iff MessageHeaderErrorSubCode_try_from_Ok
    by (cases v) (auto simp: mhs.ex_variants MessageHeaderErrorSubCode_variants_def)
qed

sublocale wire_lib_laws \<subseteq> ome: tail_codec "OpenMessageError_from_wire L" "\<lambda>v. fst (OpenMessageError_write v)"
proof
  show "OpenMessageError_from_wire L s = Ok (s', v) \<longleftrightarrow>
    fragment s = fst (OpenMessageError_write v) \<and> s' = span_slice_from (length (fragment s)) s" for s s' v
    unfolding OpenMessageError_from_wire_def tag_rest_iff OpenMessageErrorSubCode_try_from_Ok
    by (cases v) (auto simp: oms.ex_variants OpenMessageErrorSubCode_variants_def)
qed

sublocale wire_lib_laws \<subseteq> ume: tail_codec "UpdateMessageError_from_wire L" "\<lambda>v. fst (UpdateMessageError_write v)"
proof
  show "UpdateMessageError_from_wire L s = Ok (s', v) \<longleftrightarrow>
    fragment s = fst (UpdateMessageError_write v) \<and> s' = span_slice_from (length (fragment s)) s" for s s' v
    unfolding UpdateMessageError_from_wire_def tag_rest_iff UpdateMessageErrorSubCode_try_from_Ok
    by (cases v) (auto simp: ums.ex_variants UpdateMessageErrorSubCode_variants_def)
qed

sublocale wire_lib_laws \<subseteq> hte: tail_codec "HoldTimerExpiredError_from_wire L" "\<lambda>v. fst (HoldTimerExpiredError_write v)"
proof
  show "HoldTimerExpiredError_from_wire L s = Ok (s', v) \<longleftrightarrow>
    fragment s = fst (HoldTimerExpiredError_write v) \<and> s' = span_slice_from (length (fragment s)) s" for s s' v
    by (cases v) (auto simp: HoldTimerExpiredError_from_wire_def result_simps be_u8_Ok_iff take_all)
qed

sublocale wire_lib_laws \<subseteq> fsm: tail_codec "FiniteStateMachineError_from_wire L" "\<lambda>v. fst (FiniteStateMachineError_write v)"
proof
  show "FiniteStateMachineError_from_wire L s = Ok (s', v) \<longleftrightarrow>
    fragment s = fst (FiniteStateMachineError_write v) \<and> s' = span_slice_from (length (fragment s)) s" for s s' v
    unfolding FiniteStateMachineError_from_wire_def tag_rest_iff FiniteStateMachineErrorSubCode_try_from_Ok
    by (cases v) (auto simp: fss.ex_variants FiniteStateMachineErrorSubCode_variants_def)
qed

sublocale wire_lib_laws \<subseteq> cse: tail_codec "CeaseError_from_wire L" "\<lambda>v. fst (CeaseError_write v)"
proof
  show "CeaseError_from_wire L s = Ok (s', v) \<longleftrightarrow>
    fragment s = fst (CeaseError_write v) \<and> s' = span_slice_from (length (fragment s)) s" for s s' v
    unfolding CeaseError_from_wire_def tag_rest_iff CeaseErrorSubCode_try_from_Ok
    by (cases v) (auto simp: ces.ex_variants CeaseErrorSubCode_variants_def)
qed

sublocale wire_lib_laws \<subseteq> rre: tail_codec "RouteRefreshError_from_wire L" "\<lambda>v. fst (RouteRefreshError_write v)"
proof
  show "RouteRefreshError_from_wire L s = Ok (s', v) \<longleftrightarrow>
    fragment s = fst (RouteRefreshError_write v) \<and> s' = span_slice_from (length (fragment s)) s" for s s' v
    unfolding RouteRefreshError_from_wire_def tag_rest_iff RouteRefreshMessageErrorSubCode_try_from_Ok
    by (cases v) (auto simp: rrs.ex_variants RouteRefreshMessageErrorSubCode_variants_def)
qed

lemma BgpNotificationMessage_write_ok [wire_simps, simp]: "snd (BgpNotificationMessage_write n) = Ok ()"
  by (cases n) (simp_all add: wmap_err_def)

lemma BgpNotificationMessage_len_write [wire_simps, simp]:
  "length (fst (BgpNotificationMessage_write n)) = BgpNotificationMessage_len n"
  by (cases n) (simp_all add: wmap_err_def)

sublocale wire_lib_laws \<subseteq> ntf: tail_codec "BgpNotificationMessage_from_wire L" "\<lambda>n. fst (BgpNotificationMessage_write n)"
proof
  show "BgpNotificationMessage_from_wire L s = Ok (s', n) \<longleftrightarrow>
    fragment s = fst (BgpNotificationMessage_write n) \<and> s' = span_slice_from (length (fragment s)) s" for s s' n
    unfolding BgpNotificationMessage_from_wire_def tag_iff BgpErrorNotificationCode_try_from_Ok
    by (cases n) (auto simp: code.ex_variants BgpErrorNotificationCode_variants_def result_simps wmap_err_def
        mhe.read_iff ome.read_iff ume.read_iff hte.read_iff fsm.read_iff cse.read_iff rre.read_iff)
qed

context wire_lib_laws
begin

lemma notification_iff:
  "BgpNotificationMessage_from_wire L s = Ok (s', n) \<longleftrightarrow>
    fragment s = fst (BgpNotificationMessage_write n) \<and> s' = span_slice_from (length (fragment s)) s"
  by (rule ntf.read_iff)

end

text \<open>
  C16: a byte string is accepted as a NOTIFICATION exactly if it is the serialization of the
  message returned; the parser then consumes all of it.  So parsing after writing and writing
  after parsing are both the identity, the length the serializer announces is the number of bytes
  written, and different messages have different encodings.
\<close>

theorem notification_roundtrip:
  assumes "wire_lib_laws L"
  shows "BgpNotificationMessage_from_wire L (span_new bs) = Ok (s', n) \<longleftrightarrow>
      BgpNotificationMessage_write n = (bs, Ok ()) \<and> s' = span_slice_from (length bs) (span_new bs) \<and>
      length bs = BgpNotificationMessage_len n"
  using wire_lib_laws.notification_iff [OF assms, of "span_new bs" s' n]
  by (auto simp: prod_eq_iff)

theorem notification_roundtrip_witness:
  "wire_lib_laws net_lib \<and>
   BgpNotificationMessage_from_wire net_lib (span_new [6, 7, 42]) =
     Ok (span_slice_from 3 (span_new [6, 7, 42]),
       BgpNotificationMessage.CeaseError (CeaseError.ConnectionCollisionResolution [42]))"
  using notification_roundtrip [OF net.wire_lib_laws_axioms, of "[6, 7, 42]"
      "span_slice_from 3 (span_new [6, 7, 42])"
      "BgpNotificationMessage.CeaseError (CeaseError.ConnectionCollisionResolution [42])"]
    net.wire_lib_laws_axioms
  by (simp add: wmap_err_def)

end
