(* ===== verification/Bgp_Capabilities.thy ===== *)
theory Bgp_Capabilities
  imports NC_Wire Bgp_Iana Iana_Address_Family
begin

unbundle bit_operations_syntax

text \<open>
  BGP capabilities: \<open>crates/bgp-pkt/src/capabilities.rs\<close>, the parser
  \<open>wire/deserializer/capabilities.rs\<close> and the serializer \<open>wire/serializer/capabilities.rs\<close>.
  The parsers of list-valued capabilities loop until their value is used up; those loops
  are partial functions, so the capability parser has an optional result, and it is shown
  to return on every input.
\<close>

section \<open>Data\<close>

datatype (plugins only: code) UnrecognizedCapability = UnrecognizedCapability (unrec_code: u8) (unrec_value: bytes)

datatype (plugins only: code) ExperimentalCapabilityCode =
    Experimental239 | Experimental240 | Experimental241 | Experimental242
  | Experimental243 | Experimental244 | Experimental245 | Experimental246
  | Experimental247 | Experimental248 | Experimental249 | Experimental250
  | Experimental251 | Experimental252 | Experimental253 | Experimental254

primrec u8_from_ExperimentalCapabilityCode :: "ExperimentalCapabilityCode \<Rightarrow> u8" where
  "u8_from_ExperimentalCapabilityCode ExperimentalCapabilityCode.Experimental239 = 239"
| "u8_from_ExperimentalCapabilityCode ExperimentalCapabilityCode.Experimental240 = 240"
| "u8_from_ExperimentalCapabilityCode ExperimentalCapabilityCode.Experimental241 = 241"
| "u8_from_ExperimentalCapabilityCode ExperimentalCapabilityCode.Experimental242 = 242"
| "u8_from_ExperimentalCapabilityCode ExperimentalCapabilityCode.Experimental243 = 243"
| "u8_from_ExperimentalCapabilityCode ExperimentalCapabilityCode.Experimental244 = 244"
| "u8_from_ExperimentalCapabilityCode ExperimentalCapabilityCode.Experimental245 = 245"
| "u8_from_ExperimentalCapabilityCode ExperimentalCapabilityCode.Experimental246 = 246"
| "u8_from_ExperimentalCapabilityCode ExperimentalCapabilityCode.Experimental247 = 247"
| "u8_from_ExperimentalCapabilityCode ExperimentalCapabilityCode.Experimental248 = 248"
| "u8_from_ExperimentalCapabilityCode ExperimentalCapabilityCode.Experimental249 = 249"
| "u8_from_ExperimentalCapabilityCode ExperimentalCapabilityCode.Experimental250 = 250"
| "u8_from_ExperimentalCapabilityCode ExperimentalCapabilityCode.Experimental251 = 251"
| "u8_from_ExperimentalCapabilityCode ExperimentalCapabilityCode.Experimental252 = 252"
| "u8_from_ExperimentalCapabilityCode ExperimentalCapabilityCode.Experimental253 = 253"
| "u8_from_ExperimentalCapabilityCode ExperimentalCapabilityCode.Experimental254 = 254"

datatype (plugins only: code) ExperimentalCapability =
  ExperimentalCapability (exp_code: ExperimentalCapabilityCode) (exp_value: bytes)

datatype (plugins only: code) MultiProtocolExtensionsCapability =
  MultiProtocolExtensionsCapability (mpe_address_type: AddressType)

datatype (plugins only: code) FourOctetAsCapability = FourOctetAsCapability (asn4: u32)

datatype (plugins only: code) GracefulRestartAddressFamily =
  GracefulRestartAddressFamily (forwarding_state: bool) (gr_address_type: AddressType)

record GracefulRestartCapability =
  restart :: bool
  graceful_notification :: bool
  gr_time :: u16
  gr_address_families :: "GracefulRestartAddressFamily list"

definition GracefulRestartCapability_new ::
  "bool \<Rightarrow> bool \<Rightarrow> u16 \<Rightarrow> GracefulRestartAddressFamily list \<Rightarrow> GracefulRestartCapability" where
  "GracefulRestartCapability_new r g t afs =
     \<lparr>restart = r, graceful_notification = g, gr_time = t, gr_address_families = afs\<rparr>"

datatype (plugins only: code) AddPathAddressFamily =
  AddPathAddressFamily (ap_address_type: AddressType) (ap_send: bool) (ap_receive: bool)

datatype (plugins only: code) AddPathCapability = AddPathCapability (ap_address_families: "AddPathAddressFamily list")

datatype (plugins only: code) ExtendedNextHopEncoding =
  ExtendedNextHopEncoding (enh_address_type: AddressType) (next_hop_afi: AddressFamily)

datatype (plugins only: code) ExtendedNextHopEncodingCapability =
  ExtendedNextHopEncodingCapability (encodings: "ExtendedNextHopEncoding list")

definition MAX_MULTIPLE_LABELS :: nat where
  "MAX_MULTIPLE_LABELS = 63"

datatype (plugins only: code) MultipleLabel = MultipleLabel (ml_address_type: AddressType) (ml_count: u8)

datatype (plugins only: code) MultipleLabelsCapability = MultipleLabelsCapability (labels: "MultipleLabel list")

datatype (plugins only: code) TooManyMultipleLabelsError = TooManyMultipleLabelsError

definition MultipleLabelsCapability_new ::
  "MultipleLabel list \<Rightarrow> (MultipleLabelsCapability, TooManyMultipleLabelsError) result" where
  "MultipleLabelsCapability_new ls =
     (if length ls \<le> MAX_MULTIPLE_LABELS then Ok (MultipleLabelsCapability ls)
      else Err TooManyMultipleLabelsError)"

datatype (plugins only: code) BgpRoleCapability = BgpRoleCapability (role: BgpRoleValue)

datatype (plugins only: code) BgpCapability =
    MultiProtocolExtensions MultiProtocolExtensionsCapability
  | RouteRefresh
  | EnhancedRouteRefresh
  | CiscoRouteRefresh
  | GracefulRestartCapability GracefulRestartCapability
  | AddPath AddPathCapability
  | ExtendedMessage
  | MultipleLabels MultipleLabelsCapability
  | BgpRole BgpRoleCapability
  | FourOctetAs FourOctetAsCapability
  | ExtendedNextHopEncoding ExtendedNextHopEncodingCapability
  | Experimental ExperimentalCapability
  | Unrecognized UnrecognizedCapability

primrec code_from_Experimental :: "ExperimentalCapabilityCode \<Rightarrow> BgpCapabilityCode" where
  "code_from_Experimental ExperimentalCapabilityCode.Experimental239 = BgpCapabilityCode.Experimental239"
| "code_from_Experimental ExperimentalCapabilityCode.Experimental240 = BgpCapabilityCode.Experimental240"
| "code_from_Experimental ExperimentalCapabilityCode.Experimental241 = BgpCapabilityCode.Experimental241"
| "code_from_Experimental ExperimentalCapabilityCode.Experimental242 = BgpCapabilityCode.Experimental242"
| "code_from_Experimental ExperimentalCapabilityCode.Experimental243 = BgpCapabilityCode.Experimental243"
| "code_from_Experimental ExperimentalCapabilityCode.Experimental244 = BgpCapabilityCode.Experimental244"
| "code_from_Experimental ExperimentalCapabilityCode.Experimental245 = BgpCapabilityCode.Experimental245"
| "code_from_Experimental ExperimentalCapabilityCode.Experimental246 = BgpCapabilityCode.Experimental246"
| "code_from_Experimental ExperimentalCapabilityCode.Experimental247 = BgpCapabilityCode.Experimental247"
| "code_from_Experimental ExperimentalCapabilityCode.Experimental248 = BgpCapabilityCode.Experimental248"
| "code_from_Experimental ExperimentalCapabilityCode.Experimental249 = BgpCapabilityCode.Experimental249"
| "code_from_Experimental ExperimentalCapabilityCode.Experimental250 = BgpCapabilityCode.Experimental250"
| "code_from_Experimental ExperimentalCapabilityCode.Experimental251 = BgpCapabilityCode.Experimental251"
| "code_from_Experimental ExperimentalCapabilityCode.Experimental252 = BgpCapabilityCode.Experimental252"
| "code_from_Experimental ExperimentalCapabilityCode.Experimental253 = BgpCapabilityCode.Experimental253"
| "code_from_Experimental ExperimentalCapabilityCode.Experimental254 = BgpCapabilityCode.Experimental254"

primrec BgpCapability_code :: "BgpCapability \<Rightarrow> (BgpCapabilityCode, u8) result" where
  "BgpCapability_code (BgpCapability.MultiProtocolExtensions _) = Ok BgpCapabilityCode.MultiProtocolExtensions"
| "BgpCapability_code BgpCapability.RouteRefresh = Ok BgpCapabilityCode.RouteRefreshCapability"
| "BgpCapability_code BgpCapability.EnhancedRouteRefresh = Ok BgpCapabilityCode.EnhancedRouteRefresh"
| "BgpCapability_code BgpCapability.CiscoRouteRefresh = Ok BgpCapabilityCode.CiscoRouteRefresh"
| "BgpCapability_code (BgpCapability.GracefulRestartCapability _) = Ok BgpCapabilityCode.GracefulRestartCapability"
| "BgpCapability_code (BgpCapability.AddPath _) = Ok BgpCapabilityCode.AddPathCapability"
| "BgpCapability_code BgpCapability.ExtendedMessage = Ok BgpCapabilityCode.BgpExtendedMessage"
| "BgpCapability_code (BgpCapability.MultipleLabels _) = Ok BgpCapabilityCode.MultipleLabelsCapability"
| "BgpCapability_code (BgpCapability.BgpRole _) = Ok BgpCapabilityCode.BgpRole"
| "BgpCapability_code (BgpCapability.FourOctetAs _) = Ok BgpCapabilityCode.FourOctetAs"
| "BgpCapability_code (BgpCapability.ExtendedNextHopEncoding _) = Ok BgpCapabilityCode.ExtendedNextHopEncoding"
| "BgpCapability_code (BgpCapability.Experimental value) = Ok (code_from_Experimental (exp_code value))"
| "BgpCapability_code (BgpCapability.Unrecognized value) = Err (unrec_code value)"

section \<open>Parsing\<close>

definition ROUTE_REFRESH_CAPABILITY_LENGTH :: u8 where
  "ROUTE_REFRESH_CAPABILITY_LENGTH = 0"

definition ENHANCED_ROUTE_REFRESH_CAPABILITY_LENGTH :: u8 where
  "ENHANCED_ROUTE_REFRESH_CAPABILITY_LENGTH = 0"

definition MULTI_PROTOCOL_EXTENSIONS_CAPABILITY_LENGTH :: u8 where
  "MULTI_PROTOCOL_EXTENSIONS_CAPABILITY_LENGTH = 4"

definition FOUR_OCTET_AS_CAPABILITY_LENGTH :: u8 where
  "FOUR_OCTET_AS_CAPABILITY_LENGTH = 4"

definition EXTENDED_MESSAGE_CAPABILITY_LENGTH :: u8 where
  "EXTENDED_MESSAGE_CAPABILITY_LENGTH = 0"

definition EXTENDED_NEXT_HOP_ENCODING_LENGTH :: u8 where
  "EXTENDED_NEXT_HOP_ENCODING_LENGTH = 6"

definition GRACEFUL_RESTART_ADDRESS_FAMILY_LENGTH :: u8 where
  "GRACEFUL_RESTART_ADDRESS_FAMILY_LENGTH = 4"

definition BGP_ROLE_CAPABILITY_LENGTH :: u8 where
  "BGP_ROLE_CAPABILITY_LENGTH = 1"

lemmas capability_lengths [simp] =
  ROUTE_REFRESH_CAPABILITY_LENGTH_def ENHANCED_ROUTE_REFRESH_CAPABILITY_LENGTH_def
  MULTI_PROTOCOL_EXTENSIONS_CAPABILITY_LENGTH_def FOUR_OCTET_AS_CAPABILITY_LENGTH_def
  EXTENDED_MESSAGE_CAPABILITY_LENGTH_def EXTENDED_NEXT_HOP_ENCODING_LENGTH_def
  GRACEFUL_RESTART_ADDRESS_FAMILY_LENGTH_def BGP_ROLE_CAPABILITY_LENGTH_def

text \<open>
  \<open>check_capability_length\<close>: the error the closure builds is already an error of the caller,
  so it is located as it is.
\<close>

definition check_capability_length ::
  "wire_lib \<Rightarrow> (ErrorKind \<Rightarrow> 'e) \<Rightarrow> span \<Rightarrow> u8 \<Rightarrow> (u8 \<Rightarrow> 'e) \<Rightarrow> (u8, 'e) iresult" where
  "check_capability_length L nom buf expected err =
     rbind (map_res (be_u8 L nom)
       (\<lambda>len. if len \<noteq> expected then Err (err len) else Ok len) (\<lambda>e. e) buf)
     (\<lambda>(buf, len). Ok (buf, len))"

datatype (plugins only: code) FourOctetAsCapabilityParsingError =
    NomError ErrorKind
  | InvalidLength u8

definition FourOctetAsCapability_from_wire ::
  "wire_lib \<Rightarrow> span \<Rightarrow> (FourOctetAsCapability, FourOctetAsCapabilityParsingError) iresult" where
  "FourOctetAsCapability_from_wire L buf =
    (let nom = FourOctetAsCapabilityParsingError.NomError in
     rbind (check_capability_length L nom buf FOUR_OCTET_AS_CAPABILITY_LENGTH
       FourOctetAsCapabilityParsingError.InvalidLength) (\<lambda>(buf, _).
     rbind (be_u32 L nom buf) (\<lambda>(buf, asn).
     Ok (buf, FourOctetAsCapability asn))))"

datatype (plugins only: code) MultiProtocolExtensionsCapabilityParsingError =
    NomError ErrorKind
  | InvalidLength u8
  | AddressFamilyError UndefinedAddressFamily
  | SubsequentAddressFamilyError UndefinedSubsequentAddressFamily
  | AddressTypeError InvalidAddressType

definition MultiProtocolExtensionsCapability_from_wire ::
  "wire_lib \<Rightarrow> span \<Rightarrow>
     (MultiProtocolExtensionsCapability, MultiProtocolExtensionsCapabilityParsingError) iresult" where
  "MultiProtocolExtensionsCapability_from_wire L buf =
    (let nom = MultiProtocolExtensionsCapabilityParsingError.NomError in
     rbind (check_capability_length L nom buf MULTI_PROTOCOL_EXTENSIONS_CAPABILITY_LENGTH
       MultiProtocolExtensionsCapabilityParsingError.InvalidLength) (\<lambda>(buf, _).
     let input = buf in
     rbind (map_res (be_u16 L nom) AddressFamily_try_from
       MultiProtocolExtensionsCapabilityParsingError.AddressFamilyError buf) (\<lambda>(buf, afi).
     rbind (be_u8 L nom buf) (\<lambda>(buf, _).
     rbind (map_res (be_u8 L nom) SubsequentAddressFamily_try_from
       MultiProtocolExtensionsCapabilityParsingError.SubsequentAddressFamilyError buf) (\<lambda>(buf, safi).
     case from_afi_safi afi safi of
       Err err \<Rightarrow> Err (NError (Located input
         (MultiProtocolExtensionsCapabilityParsingError.AddressTypeError err)))
     | Ok t \<Rightarrow> Ok (buf, MultiProtocolExtensionsCapability t))))))"

datatype (plugins only: code) GracefulRestartCapabilityParsingError =
    NomError ErrorKind
  | AddressFamilyError UndefinedAddressFamily
  | SubsequentAddressFamilyError UndefinedSubsequentAddressFamily
  | AddressTypeError InvalidAddressType

definition GracefulRestartAddressFamily_from_wire ::
  "wire_lib \<Rightarrow> span \<Rightarrow> (GracefulRestartAddressFamily, GracefulRestartCapabilityParsingError) iresult" where
  "GracefulRestartAddressFamily_from_wire L buf =
    (let nom = GracefulRestartCapabilityParsingError.NomError; input = buf in
     rbind (take_span L nom (unat GRACEFUL_RESTART_ADDRESS_FAMILY_LENGTH) buf) (\<lambda>(buf, ehe_buf).
     rbind (map_res (be_u16 L nom) AddressFamily_try_from
       GracefulRestartCapabilityParsingError.AddressFamilyError ehe_buf) (\<lambda>(ehe_buf, nlri_afi).
     rbind (map_res (be_u8 L nom) SubsequentAddressFamily_try_from
       GracefulRestartCapabilityParsingError.SubsequentAddressFamilyError ehe_buf) (\<lambda>(ehe_buf, nlri_safi).
     case from_afi_safi nlri_afi nlri_safi of
       Err err \<Rightarrow> Err (NError (Located input
         (GracefulRestartCapabilityParsingError.AddressTypeError err)))
     | Ok t \<Rightarrow>
         rbind (be_u8 L nom ehe_buf) (\<lambda>(_, flags).
         let fwd = (flags AND 0x80 = 0x80) in
         Ok (buf, GracefulRestartAddressFamily fwd t))))))"

definition GracefulRestartCapability_from_wire ::
  "wire_lib \<Rightarrow> span \<Rightarrow> (GracefulRestartCapability, GracefulRestartCapabilityParsingError) iresult option" where
  "GracefulRestartCapability_from_wire L buf =
    (let nom = GracefulRestartCapabilityParsingError.NomError in
     orbind (Some (length_data L nom buf)) (\<lambda>(buf, params_buf).
     orbind (Some (be_u16 L nom params_buf)) (\<lambda>(params_buf, header).
     let r = (header AND 0x8000 = 0x8000);
         g = (header AND 0x4000 = 0x4000);
         t = header AND 0x0fff in
     orbind (parse_till_empty (GracefulRestartAddressFamily_from_wire L) params_buf []) (\<lambda>(_, afs).
     Some (Ok (buf, GracefulRestartCapability_new r g t afs))))))"

datatype (plugins only: code) AddPathCapabilityParsingError =
    NomError ErrorKind
  | AddressFamilyError UndefinedAddressFamily
  | SubsequentAddressFamilyError UndefinedSubsequentAddressFamily
  | AddressTypeError InvalidAddressType
  | InvalidAddPathSendReceiveValue u8

definition AddPathAddressFamily_from_wire ::
  "wire_lib \<Rightarrow> span \<Rightarrow> (AddPathAddressFamily, AddPathCapabilityParsingError) iresult" where
  "AddPathAddressFamily_from_wire L buf =
    (let nom = AddPathCapabilityParsingError.NomError; input = buf in
     rbind (map_res (be_u16 L nom) AddressFamily_try_from
       AddPathCapabilityParsingError.AddressFamilyError buf) (\<lambda>(buf, afi).
     rbind (map_res (be_u8 L nom) SubsequentAddressFamily_try_from
       AddPathCapabilityParsingError.SubsequentAddressFamilyError buf) (\<lambda>(buf, safi).
     case from_afi_safi afi safi of
       Err err \<Rightarrow> Err (NError (Located input (AddPathCapabilityParsingError.AddressTypeError err)))
     | Ok t \<Rightarrow>
         rbind (map_res (be_u8 L nom)
           (\<lambda>send_receive. if send_receive > 0x03 then Err (InvalidAddPathSendReceiveValue send_receive)
              else Ok (send_receive AND 0x01 = 0x01, send_receive AND 0x02 = 0x02))
           (\<lambda>e. e) buf) (\<lambda>(buf, (receive, send)).
         Ok (buf, AddPathAddressFamily t send receive)))))"

definition AddPathCapability_from_wire ::
  "wire_lib \<Rightarrow> span \<Rightarrow> (AddPathCapability, AddPathCapabilityParsingError) iresult option" where
  "AddPathCapability_from_wire L buf =
     orbind (Some (length_data L AddPathCapabilityParsingError.NomError buf)) (\<lambda>(buf, params_buf).
     orbind (parse_till_empty (AddPathAddressFamily_from_wire L) params_buf []) (\<lambda>(_, afs).
     Some (Ok (buf, AddPathCapability afs))))"

datatype (plugins only: code) ExtendedNextHopEncodingCapabilityParsingError =
    NomError ErrorKind
  | AddressFamilyError UndefinedAddressFamily
  | SubsequentAddressFamilyError UndefinedSubsequentAddressFamily
  | AddressTypeError InvalidAddressType

definition ExtendedNextHopEncoding_from_wire ::
  "wire_lib \<Rightarrow> span \<Rightarrow> (ExtendedNextHopEncoding, ExtendedNextHopEncodingCapabilityParsingError) iresult" where
  "ExtendedNextHopEncoding_from_wire L buf =
    (let nom = ExtendedNextHopEncodingCapabilityParsingError.NomError; input = buf in
     rbind (take_span L nom (unat EXTENDED_NEXT_HOP_ENCODING_LENGTH) buf) (\<lambda>(buf, ehe_buf).
     rbind (map_res (be_u16 L nom) AddressFamily_try_from
       ExtendedNextHopEncodingCapabilityParsingError.AddressFamilyError ehe_buf) (\<lambda>(ehe_buf, nlri_afi).
     rbind (map_res (be_u16 L nom) (\<lambda>x. SubsequentAddressFamily_try_from (ucast x))
       ExtendedNextHopEncodingCapabilityParsingError.SubsequentAddressFamilyError ehe_buf)
       (\<lambda>(ehe_buf, nlri_safi).
     case from_afi_safi nlri_afi nlri_safi of
       Err err \<Rightarrow> Err (NError (Located input
         (ExtendedNextHopEncodingCapabilityParsingError.AddressTypeError err)))
     | Ok t \<Rightarrow>
         rbind (map_res (be_u16 L nom) AddressFamily_try_from
           ExtendedNextHopEncodingCapabilityParsingError.AddressFamilyError ehe_buf) (\<lambda>(_, nh).
         Ok (buf, ExtendedNextHopEncoding.ExtendedNextHopEncoding t nh))))))"

definition ExtendedNextHopEncodingCapability_from_wire ::
  "wire_lib \<Rightarrow> span \<Rightarrow>
     (ExtendedNextHopEncodingCapability, ExtendedNextHopEncodingCapabilityParsingError) iresult option" where
  "ExtendedNextHopEncodingCapability_from_wire L buf =
     orbind (Some (length_data L ExtendedNextHopEncodingCapabilityParsingError.NomError buf))
       (\<lambda>(buf, encodings_buf).
     orbind (parse_till_empty (ExtendedNextHopEncoding_from_wire L) encodings_buf []) (\<lambda>(_, es).
     Some (Ok (buf, ExtendedNextHopEncodingCapability es))))"

datatype (plugins only: code) MultipleLabelParsingError =
    NomError ErrorKind
  | TooManyMultipleLabelsError TooManyMultipleLabelsError
  | AddressFamilyError UndefinedAddressFamily
  | SubsequentAddressFamilyError UndefinedSubsequentAddressFamily
  | AddressTypeError InvalidAddressType

definition MultipleLabel_from_wire ::
  "wire_lib \<Rightarrow> span \<Rightarrow> (MultipleLabel, MultipleLabelParsingError) iresult" where
  "MultipleLabel_from_wire L buf =
    (let nom = MultipleLabelParsingError.NomError; input = buf in
     rbind (map_res (be_u16 L nom) AddressFamily_try_from
       MultipleLabelParsingError.AddressFamilyError buf) (\<lambda>(buf, afi).
     rbind (map_res (be_u8 L nom) SubsequentAddressFamily_try_from
       MultipleLabelParsingError.SubsequentAddressFamilyError buf) (\<lambda>(buf, safi).
     case from_afi_safi afi safi of
       Err err \<Rightarrow> Err (NError (Located input (MultipleLabelParsingError.AddressTypeError err)))
     | Ok t \<Rightarrow>
         rbind (be_u8 L nom buf) (\<lambda>(buf, count).
         Ok (buf, MultipleLabel t count)))))"

datatype (plugins only: code) BgpRoleCapabilityParsingError =
    NomError ErrorKind
  | InvalidLength u8
  | UndefinedBgpRoleValue UndefinedBgpRoleValue

definition BgpRoleCapability_from_wire ::
  "wire_lib \<Rightarrow> span \<Rightarrow> (BgpRoleCapability, BgpRoleCapabilityParsingError) iresult" where
  "BgpRoleCapability_from_wire L buf =
    (let nom = BgpRoleCapabilityParsingError.NomError in
     rbind (check_capability_length L nom buf BGP_ROLE_CAPABILITY_LENGTH
       BgpRoleCapabilityParsingError.InvalidLength) (\<lambda>(buf, _).
     rbind (map_res (be_u8 L nom) BgpRoleValue_try_from
       BgpRoleCapabilityParsingError.UndefinedBgpRoleValue buf) (\<lambda>(buf, r).
     Ok (buf, BgpRoleCapability r))))"

datatype (plugins only: code) BgpCapabilityParsingError =
    NomError ErrorKind
  | UndefinedCapabilityCode UndefinedBgpCapabilityCode
  | InvalidRouteRefreshLength u8
  | InvalidEnhancedRouteRefreshLength u8
  | InvalidExtendedMessageLength u8
  | FourOctetAsCapabilityError FourOctetAsCapabilityParsingError
  | MultiProtocolExtensionsCapabilityError MultiProtocolExtensionsCapabilityParsingError
  | GracefulRestartCapabilityError GracefulRestartCapabilityParsingError
  | AddPathCapabilityError AddPathCapabilityParsingError
  | ExtendedNextHopEncodingCapabilityError ExtendedNextHopEncodingCapabilityParsingError
  | MultipleLabelError MultipleLabelParsingError
  | BgpRoleCapabilityError BgpRoleCapabilityParsingError

definition parse_experimental_capability ::
  "wire_lib \<Rightarrow> ExperimentalCapabilityCode \<Rightarrow> span \<Rightarrow> (BgpCapability, BgpCapabilityParsingError) iresult" where
  "parse_experimental_capability L c buf =
     rbind (length_count L BgpCapabilityParsingError.NomError buf) (\<lambda>(buf, value).
     Ok (buf, BgpCapability.Experimental (ExperimentalCapability c value)))"

definition parse_unrecognized_capability ::
  "wire_lib \<Rightarrow> u8 \<Rightarrow> span \<Rightarrow> (BgpCapability, BgpCapabilityParsingError) iresult" where
  "parse_unrecognized_capability L c buf =
     rbind (length_count L BgpCapabilityParsingError.NomError buf) (\<lambda>(buf, value).
     Ok (buf, BgpCapability.Unrecognized (UnrecognizedCapability c value)))"

definition parse_route_refresh_capability ::
  "wire_lib \<Rightarrow> span \<Rightarrow> (BgpCapability, BgpCapabilityParsingError) iresult" where
  "parse_route_refresh_capability L buf =
     rbind (check_capability_length L BgpCapabilityParsingError.NomError buf
       ROUTE_REFRESH_CAPABILITY_LENGTH InvalidRouteRefreshLength) (\<lambda>(buf, _).
     Ok (buf, BgpCapability.RouteRefresh))"

definition parse_enhanced_route_refresh_capability ::
  "wire_lib \<Rightarrow> span \<Rightarrow> (BgpCapability, BgpCapabilityParsingError) iresult" where
  "parse_enhanced_route_refresh_capability L buf =
     rbind (check_capability_length L BgpCapabilityParsingError.NomError buf
       ENHANCED_ROUTE_REFRESH_CAPABILITY_LENGTH InvalidEnhancedRouteRefreshLength) (\<lambda>(buf, _).
     Ok (buf, BgpCapability.EnhancedRouteRefresh))"

text \<open>
  \<open>parse_into_located\<close> with a constructor applied to the value read, for readers without and
  with loops, and the arm of the multiple labels capability.
\<close>

definition located_cap ::
  "('e \<Rightarrow> BgpCapabilityParsingError) \<Rightarrow> ('v \<Rightarrow> BgpCapability) \<Rightarrow> (span \<Rightarrow> ('v, 'e) iresult option) \<Rightarrow> span \<Rightarrow>
     (BgpCapability, BgpCapabilityParsingError) iresult option" where
  "located_cap variant mk from_wire buf =
     orbind (map_option (\<lambda>r. parse_into_located variant (\<lambda>_. r) buf) (from_wire buf))
       (\<lambda>(buf, cap). Some (Ok (buf, mk cap)))"

definition parse_multiple_labels_capability ::
  "wire_lib \<Rightarrow> span \<Rightarrow> (BgpCapability, BgpCapabilityParsingError) iresult option" where
  "parse_multiple_labels_capability L buf =
     orbind (Some (length_data L BgpCapabilityParsingError.NomError buf)) (\<lambda>(buf, data).
     orbind (parse_till_empty (parse_into_located MultipleLabelError (MultipleLabel_from_wire L)) data [])
       (\<lambda>(_, ls).
     case MultipleLabelsCapability_new ls of
       Err error \<Rightarrow> Some (Err (NError (Located data
         (MultipleLabelError (MultipleLabelParsingError.TooManyMultipleLabelsError error)))))
     | Ok cap \<Rightarrow> Some (Ok (buf, BgpCapability.MultipleLabels cap))))"

definition BgpCapability_value ::
  "wire_lib \<Rightarrow> BgpCapabilityCode \<Rightarrow> span \<Rightarrow> (BgpCapability, BgpCapabilityParsingError) iresult option" where
  "BgpCapability_value L code buf =
    (let unrecognized = Some (parse_unrecognized_capability L (u8_from_BgpCapabilityCode code) buf) in
     case code of
       BgpCapabilityCode.MultiProtocolExtensions \<Rightarrow>
         located_cap MultiProtocolExtensionsCapabilityError BgpCapability.MultiProtocolExtensions
           (\<lambda>b. Some (MultiProtocolExtensionsCapability_from_wire L b)) buf
     | BgpCapabilityCode.RouteRefreshCapability \<Rightarrow> Some (parse_route_refresh_capability L buf)
     | BgpCapabilityCode.OutboundRouteFilteringCapability \<Rightarrow> unrecognized
     | BgpCapabilityCode.ExtendedNextHopEncoding \<Rightarrow>
         located_cap ExtendedNextHopEncodingCapabilityError BgpCapability.ExtendedNextHopEncoding
           (ExtendedNextHopEncodingCapability_from_wire L) buf
     | BgpCapabilityCode.CiscoRouteRefresh \<Rightarrow>
         Some (rbind (check_capability_length L BgpCapabilityParsingError.NomError buf
           ROUTE_REFRESH_CAPABILITY_LENGTH InvalidRouteRefreshLength) (\<lambda>(buf, _).
           Ok (buf, BgpCapability.CiscoRouteRefresh)))
     | BgpCapabilityCode.BgpExtendedMessage \<Rightarrow>
         Some (rbind (check_capability_length L BgpCapabilityParsingError.NomError buf
           EXTENDED_MESSAGE_CAPABILITY_LENGTH InvalidExtendedMessageLength) (\<lambda>(buf, _).
           Ok (buf, BgpCapability.ExtendedMessage)))
     | BgpCapabilityCode.BgpSecCapability \<Rightarrow> unrecognized
     | BgpCapabilityCode.MultipleLabelsCapability \<Rightarrow> parse_multiple_labels_capability L buf
     | BgpCapabilityCode.BgpRole \<Rightarrow>
         located_cap BgpRoleCapabilityError BgpCapability.BgpRole
           (\<lambda>b. Some (BgpRoleCapability_from_wire L b)) buf
     | BgpCapabilityCode.GracefulRestartCapability \<Rightarrow>
         located_cap GracefulRestartCapabilityError BgpCapability.GracefulRestartCapability
           (GracefulRestartCapability_from_wire L) buf
     | BgpCapabilityCode.FourOctetAs \<Rightarrow>
         located_cap FourOctetAsCapabilityError BgpCapability.FourOctetAs
           (\<lambda>b. Some (FourOctetAsCapability_from_wire L b)) buf
     | BgpCapabilityCode.SupportForDynamicCapability \<Rightarrow> unrecognized
     | BgpCapabilityCode.MultiSessionBgpCapability \<Rightarrow> unrecognized
     | BgpCapabilityCode.AddPathCapability \<Rightarrow>
         located_cap AddPathCapabilityError BgpCapability.AddPath (AddPathCapability_from_wire L) buf
     | BgpCapabilityCode.EnhancedRouteRefresh \<Rightarrow> Some (parse_enhanced_route_refresh_capability L buf)
     | BgpCapabilityCode.LongLivedGracefulRestartLLGRCapability \<Rightarrow> unrecognized
     | BgpCapabilityCode.RoutingPolicyDistribution \<Rightarrow> unrecognized
     | BgpCapabilityCode.FQDN \<Rightarrow> unrecognized
     | BgpCapabilityCode.Experimental239 \<Rightarrow>
         Some (parse_experimental_capability L ExperimentalCapabilityCode.Experimental239 buf)
     | BgpCapabilityCode.Experimental240 \<Rightarrow>
         Some (parse_experimental_capability L ExperimentalCapabilityCode.Experimental240 buf)
     | BgpCapabilityCode.Experimental241 \<Rightarrow>
         Some (parse_experimental_capability L ExperimentalCapabilityCode.Experimental241 buf)
     | BgpCapabilityCode.Experimental242 \<Rightarrow>
         Some (parse_experimental_capability L ExperimentalCapabilityCode.Experimental242 buf)
     | BgpCapabilityCode.Experimental243 \<Rightarrow>
         Some (parse_experimental_capability L ExperimentalCapabilityCode.Experimental243 buf)
     | BgpCapabilityCode.Experimental244 \<Rightarrow>
         Some (parse_experimental_capability L ExperimentalCapabilityCode.Experimental244 buf)
     | BgpCapabilityCode.Experimental245 \<Rightarrow>
         Some (parse_experimental_capability L ExperimentalCapabilityCode.Experimental245 buf)
     | BgpCapabilityCode.Experimental246 \<Rightarrow>
         Some (parse_experimental_capability L ExperimentalCapabilityCode.Experimental246 buf)
     | BgpCapabilityCode.Experimental247 \<Rightarrow>
         Some (parse_experimental_capability L ExperimentalCapabilityCode.Experimental247 buf)
     | BgpCapabilityCode.Experimental248 \<Rightarrow>
         Some (parse_experimental_capability L ExperimentalCapabilityCode.Experimental248 buf)
     | BgpCapabilityCode.Experimental249 \<Rightarrow>
         Some (parse_experimental_capability L ExperimentalCapabilityCode.Experimental249 buf)
     | BgpCapabilityCode.Experimental250 \<Rightarrow>
         Some (parse_experimental_capability L ExperimentalCapabilityCode.Experimental250 buf)
     | BgpCapabilityCode.Experimental251 \<Rightarrow>
         Some (parse_experimental_capability L ExperimentalCapabilityCode.Experimental251 buf)
     | BgpCapabilityCode.Experimental252 \<Rightarrow>
         Some (parse_experimental_capability L ExperimentalCapabilityCode.Experimental252 buf)
     | BgpCapabilityCode.Experimental253 \<Rightarrow>
         Some (parse_experimental_capability L ExperimentalCapabilityCode.Experimental253 buf)
     | BgpCapabilityCode.Experimental254 \<Rightarrow>
         Some (parse_experimental_capability L ExperimentalCapabilityCode.Experimental254 buf))"

definition BgpCapability_from_wire ::
  "wire_lib \<Rightarrow> span \<Rightarrow> (BgpCapability, BgpCapabilityParsingError) iresult option" where
  "BgpCapability_from_wire L buf =
     (case map_res (be_u8 L BgpCapabilityParsingError.NomError) BgpCapabilityCode_try_from
        UndefinedCapabilityCode buf of
        Ok (buf, code) \<Rightarrow> BgpCapability_value L code buf
      | Err (NError l) \<Rightarrow>
          (case lerror l of
             UndefinedCapabilityCode _ \<Rightarrow>
               Some (rbind (be_u8 L BgpCapabilityParsingError.NomError (lspan l)) (\<lambda>(buf, code).
                 parse_unrecognized_capability L code buf))
           | _ \<Rightarrow> Some (Err (NError l)))
      | Err err \<Rightarrow> Some (Err err))"

section \<open>Serializing\<close>

datatype (plugins only: code) FourOctetAsCapabilityWritingError = StdIOError string
datatype (plugins only: code) MultiProtocolExtensionsCapabilityWritingError = StdIOError string
datatype (plugins only: code) GracefulRestartCapabilityWritingError = StdIOError string
datatype (plugins only: code) AddPathCapabilityWritingError = StdIOError string
datatype (plugins only: code) ExtendedNextHopEncodingCapabilityWritingError = StdIOError string
datatype (plugins only: code) MultipleLabelWritingError = StdIOError string
datatype (plugins only: code) BgpRoleCapabilityWritingError = StdIOError string

datatype (plugins only: code) BGPCapabilityWritingError =
    StdIOError string
  | FourOctetAsCapabilityError FourOctetAsCapabilityWritingError
  | MultiProtocolExtensionsCapabilityError MultiProtocolExtensionsCapabilityWritingError
  | GracefulRestartCapabilityError GracefulRestartCapabilityWritingError
  | AddPathCapabilityError AddPathCapabilityWritingError
  | ExtendedNextHopEncodingCapabilityError ExtendedNextHopEncodingCapabilityWritingError
  | MultipleLabelError MultipleLabelWritingError
  | BgpRoleCapabilityError BgpRoleCapabilityWritingError

definition FourOctetAsCapability_len :: "FourOctetAsCapability \<Rightarrow> nat" where
  "FourOctetAsCapability_len c = unat FOUR_OCTET_AS_CAPABILITY_LENGTH"

definition FourOctetAsCapability_write ::
  "wire_lib \<Rightarrow> FourOctetAsCapability \<Rightarrow> FourOctetAsCapabilityWritingError writing" where
  "FourOctetAsCapability_write L c = wput (bo_write_u32 L (asn4 c))"

definition MultiProtocolExtensionsCapability_len :: "MultiProtocolExtensionsCapability \<Rightarrow> nat" where
  "MultiProtocolExtensionsCapability_len c = unat MULTI_PROTOCOL_EXTENSIONS_CAPABILITY_LENGTH"

definition MultiProtocolExtensionsCapability_write ::
  "wire_lib \<Rightarrow> MultiProtocolExtensionsCapability \<Rightarrow> MultiProtocolExtensionsCapabilityWritingError writing" where
  "MultiProtocolExtensionsCapability_write L c =
     wseq (wput (bo_write_u16 L (u16_from_AddressFamily (address_family (mpe_address_type c)))))
     (wseq (wput [0])
       (wput [u8_from_SubsequentAddressFamily (subsequent_address_family (mpe_address_type c))]))"

definition GracefulRestartAddressFamily_len :: "GracefulRestartAddressFamily \<Rightarrow> nat" where
  "GracefulRestartAddressFamily_len af = 4"

definition GracefulRestartAddressFamily_write ::
  "wire_lib \<Rightarrow> GracefulRestartAddressFamily \<Rightarrow> GracefulRestartCapabilityWritingError writing" where
  "GracefulRestartAddressFamily_write L af =
     wseq (wput (bo_write_u16 L (u16_from_AddressFamily (address_family (gr_address_type af)))))
     (wseq (wput [u8_from_SubsequentAddressFamily (subsequent_address_family (gr_address_type af))])
       (wput [if forwarding_state af then 0x80 else 0x00]))"

definition GracefulRestartCapability_len :: "GracefulRestartCapability \<Rightarrow> nat" where
  "GracefulRestartCapability_len c =
     4 + sum_list (map GracefulRestartAddressFamily_len (gr_address_families c))"

definition GracefulRestartCapability_write ::
  "wire_lib \<Rightarrow> GracefulRestartCapability \<Rightarrow> GracefulRestartCapabilityWritingError writing" where
  "GracefulRestartCapability_write L c =
    (let flags = (0 :: u16);
         flags = flags OR (if restart c then 0x8000 else 0x0000);
         flags = flags OR (if graceful_notification c then 0x4000 else 0x0000);
         flags = flags OR gr_time c in
     wseq (wput (bo_write_u16 L flags))
       (wseqs (map (GracefulRestartAddressFamily_write L) (gr_address_families c))))"

definition AddPathAddressFamily_len :: "AddPathAddressFamily \<Rightarrow> nat" where
  "AddPathAddressFamily_len af = 4"

definition AddPathAddressFamily_write ::
  "wire_lib \<Rightarrow> AddPathAddressFamily \<Rightarrow> AddPathCapabilityWritingError writing" where
  "AddPathAddressFamily_write L af =
     wseq (wput (bo_write_u16 L (u16_from_AddressFamily (address_family (ap_address_type af)))))
     (wseq (wput [u8_from_SubsequentAddressFamily (subsequent_address_family (ap_address_type af))])
     (let send = (if ap_send af then 1 else 0) * 2;
          receive = (if ap_receive af then 1 else 0)
      in wput [send OR receive]))"

definition AddPathCapability_len :: "AddPathCapability \<Rightarrow> nat" where
  "AddPathCapability_len c = sum_list (map AddPathAddressFamily_len (ap_address_families c))"

definition AddPathCapability_write ::
  "wire_lib \<Rightarrow> AddPathCapability \<Rightarrow> AddPathCapabilityWritingError writing" where
  "AddPathCapability_write L c = wseqs (map (AddPathAddressFamily_write L) (ap_address_families c))"

definition ExtendedNextHopEncoding_len :: "ExtendedNextHopEncoding \<Rightarrow> nat" where
  "ExtendedNextHopEncoding_len e = unat EXTENDED_NEXT_HOP_ENCODING_LENGTH"

definition ExtendedNextHopEncoding_write ::
  "wire_lib \<Rightarrow> ExtendedNextHopEncoding \<Rightarrow> ExtendedNextHopEncodingCapabilityWritingError writing" where
  "ExtendedNextHopEncoding_write L e =
     wseq (wput (bo_write_u16 L (u16_from_AddressFamily (address_family (enh_address_type e)))))
     (wseq (wput (bo_write_u16 L
        (ucast (u8_from_SubsequentAddressFamily (subsequent_address_family (enh_address_type e))))))
       (wput (bo_write_u16 L (u16_from_AddressFamily (next_hop_afi e)))))"

definition ExtendedNextHopEncodingCapability_len :: "ExtendedNextHopEncodingCapability \<Rightarrow> nat" where
  "ExtendedNextHopEncodingCapability_len c =
     1 + sum_list (map ExtendedNextHopEncoding_len (encodings c))"

definition ExtendedNextHopEncodingCapability_write ::
  "wire_lib \<Rightarrow> ExtendedNextHopEncodingCapability \<Rightarrow> ExtendedNextHopEncodingCapabilityWritingError writing" where
  "ExtendedNextHopEncodingCapability_write L c =
     wseq (wput [of_nat (ExtendedNextHopEncodingCapability_len c) - 1])
       (wseqs (map (ExtendedNextHopEncoding_write L) (encodings c)))"

definition MultipleLabel_len :: "MultipleLabel \<Rightarrow> nat" where
  "MultipleLabel_len l = 4"

definition MultipleLabel_write :: "wire_lib \<Rightarrow> MultipleLabel \<Rightarrow> MultipleLabelWritingError writing" where
  "MultipleLabel_write L l =
     wseq (wput (bo_write_u16 L (u16_from_AddressFamily (address_family (ml_address_type l)))))
     (wseq (wput [u8_from_SubsequentAddressFamily (subsequent_address_family (ml_address_type l))])
       (wput [ml_count l]))"

definition BgpRoleCapability_len :: "BgpRoleCapability \<Rightarrow> nat" where
  "BgpRoleCapability_len c = unat BGP_ROLE_CAPABILITY_LENGTH"

definition BgpRoleCapability_write :: "BgpRoleCapability \<Rightarrow> BgpRoleCapabilityWritingError writing" where
  "BgpRoleCapability_write c = wput [u8_from_BgpRoleValue (role c)]"

primrec BgpCapability_value_len :: "BgpCapability \<Rightarrow> nat" where
  "BgpCapability_value_len (BgpCapability.MultiProtocolExtensions _) =
     unat MULTI_PROTOCOL_EXTENSIONS_CAPABILITY_LENGTH"
| "BgpCapability_value_len BgpCapability.RouteRefresh = unat ROUTE_REFRESH_CAPABILITY_LENGTH"
| "BgpCapability_value_len BgpCapability.EnhancedRouteRefresh =
     unat ENHANCED_ROUTE_REFRESH_CAPABILITY_LENGTH"
| "BgpCapability_value_len BgpCapability.CiscoRouteRefresh = unat ROUTE_REFRESH_CAPABILITY_LENGTH"
| "BgpCapability_value_len (BgpCapability.FourOctetAs value) = FourOctetAsCapability_len value"
| "BgpCapability_value_len (BgpCapability.GracefulRestartCapability value) =
     GracefulRestartCapability_len value - 2"
| "BgpCapability_value_len (BgpCapability.AddPath value) = AddPathCapability_len value"
| "BgpCapability_value_len (BgpCapability.ExtendedNextHopEncoding value) =
     ExtendedNextHopEncodingCapability_len value - 1"
| "BgpCapability_value_len BgpCapability.ExtendedMessage = unat EXTENDED_MESSAGE_CAPABILITY_LENGTH"
| "BgpCapability_value_len (BgpCapability.MultipleLabels value) =
     sum_list (map MultipleLabel_len (labels value))"
| "BgpCapability_value_len (BgpCapability.BgpRole value) = BgpRoleCapability_len value"
| "BgpCapability_value_len (BgpCapability.Experimental value) = length (exp_value value)"
| "BgpCapability_value_len (BgpCapability.Unrecognized value) = length (unrec_value value)"

definition BgpCapability_len :: "BgpCapability \<Rightarrow> nat" where
  "BgpCapability_len c = 2 + BgpCapability_value_len c"

text \<open>
  \<open>self.code().unwrap().into()\<close>: only reached on capabilities whose code is known.
\<close>

definition known_code :: "BgpCapability \<Rightarrow> u8" where
  "known_code c = (case BgpCapability_code c of Ok code \<Rightarrow> u8_from_BgpCapabilityCode code)"

definition BgpCapability_write :: "wire_lib \<Rightarrow> BgpCapability \<Rightarrow> BGPCapabilityWritingError writing" where
  "BgpCapability_write L c =
    (let len = (of_nat (BgpCapability_len c - 2) :: u8) in
     case c of
       BgpCapability.MultiProtocolExtensions value \<Rightarrow>
         wseq (wput [known_code c]) (wseq (wput [of_nat (MultiProtocolExtensionsCapability_len value)])
           (wmap_err BGPCapabilityWritingError.MultiProtocolExtensionsCapabilityError
             (MultiProtocolExtensionsCapability_write L value)))
     | BgpCapability.RouteRefresh \<Rightarrow> wseq (wput [known_code c]) (wput [len])
     | BgpCapability.EnhancedRouteRefresh \<Rightarrow> wseq (wput [known_code c]) (wput [len])
     | BgpCapability.CiscoRouteRefresh \<Rightarrow> wseq (wput [known_code c]) (wput [len])
     | BgpCapability.ExtendedMessage \<Rightarrow> wseq (wput [known_code c]) (wput [len])
     | BgpCapability.MultipleLabels value \<Rightarrow>
         wseq (wput [known_code c]) (wseq (wput [len])
           (wseqs (map (\<lambda>l. wmap_err BGPCapabilityWritingError.MultipleLabelError (MultipleLabel_write L l))
             (labels value))))
     | BgpCapability.BgpRole value \<Rightarrow>
         wseq (wput [known_code c]) (wseq (wput [len])
           (wmap_err BGPCapabilityWritingError.BgpRoleCapabilityError (BgpRoleCapability_write value)))
     | BgpCapability.GracefulRestartCapability value \<Rightarrow>
         wseq (wput [known_code c]) (wseq (wput [len])
           (wmap_err BGPCapabilityWritingError.GracefulRestartCapabilityError
             (GracefulRestartCapability_write L value)))
     | BgpCapability.AddPath value \<Rightarrow>
         wseq (wput [known_code c]) (wseq (wput [len])
           (wmap_err BGPCapabilityWritingError.AddPathCapabilityError (AddPathCapability_write L value)))
     | BgpCapability.FourOctetAs value \<Rightarrow>
         wseq (wput [known_code c]) (wseq (wput [of_nat (FourOctetAsCapability_len value)])
           (wmap_err BGPCapabilityWritingError.FourOctetAsCapabilityError
             (FourOctetAsCapability_write L value)))
     | BgpCapability.ExtendedNextHopEncoding value \<Rightarrow>
         wseq (wput [known_code c])
           (wmap_err BGPCapabilityWritingError.ExtendedNextHopEncodingCapabilityError
             (ExtendedNextHopEncodingCapability_write L value))
     | BgpCapability.Experimental value \<Rightarrow>
         wseq (wput [u8_from_ExperimentalCapabilityCode (exp_code value)]) (wseq (wput [len])
           (wput (exp_value value)))
     | BgpCapability.Unrecognized value \<Rightarrow>
         wseq (wput [unrec_code value]) (wseq (wput [len]) (wput (unrec_value value))))"

lemma check_capability_length_Ok_iff:
  "check_capability_length L nv s n err = Ok (s', l) \<longleftrightarrow> be_u8 L nv s = Ok (s', n) \<and> l = n"
  by (auto simp: check_capability_length_def map_res_def result_simps split: result.splits if_splits)

section \<open>Element codecs\<close>

lemma capability_write_ok [simp]:
  "snd (GracefulRestartAddressFamily_write L g) = Ok ()"
  "snd (AddPathAddressFamily_write L a) = Ok ()"
  "snd (ExtendedNextHopEncoding_write L e) = Ok ()"
  "snd (MultipleLabel_write L m) = Ok ()"
  by (simp_all add: GracefulRestartAddressFamily_write_def AddPathAddressFamily_write_def
      ExtendedNextHopEncoding_write_def MultipleLabel_write_def Let_def)

sublocale wire_lib_laws \<subseteq> gra: pdu_codec "GracefulRestartAddressFamily_from_wire L"
  "\<lambda>v. fst (GracefulRestartAddressFamily_write L v)" "\<lambda>_. True"
proof
  fix s s' v assume "GracefulRestartAddressFamily_from_wire L s = Ok (s', v)"
  then show "\<exists>n>0. n \<le> length (fragment s) \<and> s' = span_slice_from n s"
    by (auto simp: GracefulRestartAddressFamily_from_wire_def Let_def result_simps take_span_eq
        split: if_splits intro!: exI [of _ 4])
next
  fix v :: GracefulRestartAddressFamily and s :: span and rest
  assume "fragment s = fst (GracefulRestartAddressFamily_write L v) @ rest"
  then show "GracefulRestartAddressFamily_from_wire L s =
      Ok (span_slice_from (length (fst (GracefulRestartAddressFamily_write L v))) s, v)"
    by (cases v) (simp add: GracefulRestartAddressFamily_from_wire_def GracefulRestartAddressFamily_write_def
      Let_def reads map_res_def)
qed

sublocale wire_lib_laws \<subseteq> apa: pdu_codec "AddPathAddressFamily_from_wire L"
  "\<lambda>v. fst (AddPathAddressFamily_write L v)" "\<lambda>_. True"
proof
  fix s s' v assume "AddPathAddressFamily_from_wire L s = Ok (s', v)"
  then show "\<exists>n>0. n \<le> length (fragment s) \<and> s' = span_slice_from n s"
    by (auto simp: AddPathAddressFamily_from_wire_def Let_def result_simps map_res_Ok_iff be_u16_Ok_iff
        be_u8_Ok_iff dest!: arg_cong [where f = length] intro!: exI [of _ 4])
next
  fix v :: AddPathAddressFamily and s :: span and rest
  assume "fragment s = fst (AddPathAddressFamily_write L v) @ rest"
  then show "AddPathAddressFamily_from_wire L s =
      Ok (span_slice_from (length (fst (AddPathAddressFamily_write L v))) s, v)"
    by (cases v) (simp add: AddPathAddressFamily_from_wire_def AddPathAddressFamily_write_def
      Let_def reads map_res_def)
qed

sublocale wire_lib_laws \<subseteq> enh: pdu_codec "ExtendedNextHopEncoding_from_wire L"
  "\<lambda>v. fst (ExtendedNextHopEncoding_write L v)" "\<lambda>_. True"
proof
  fix s s' v assume "ExtendedNextHopEncoding_from_wire L s = Ok (s', v)"
  then show "\<exists>n>0. n \<le> length (fragment s) \<and> s' = span_slice_from n s"
    by (auto simp: ExtendedNextHopEncoding_from_wire_def Let_def result_simps take_span_eq
        split: if_splits intro!: exI [of _ 6])
next
  fix v :: ExtendedNextHopEncoding and s :: span and rest
  assume "fragment s = fst (ExtendedNextHopEncoding_write L v) @ rest"
  then show "ExtendedNextHopEncoding_from_wire L s =
      Ok (span_slice_from (length (fst (ExtendedNextHopEncoding_write L v))) s, v)"
    by (cases v) (simp add: ExtendedNextHopEncoding_from_wire_def ExtendedNextHopEncoding_write_def
      Let_def reads map_res_def)
qed

sublocale wire_lib_laws \<subseteq> mlb: pdu_codec "MultipleLabel_from_wire L"
  "\<lambda>v. fst (MultipleLabel_write L v)" "\<lambda>_. True"
proof
  fix s s' v assume "MultipleLabel_from_wire L s = Ok (s', v)"
  then show "\<exists>n>0. n \<le> length (fragment s) \<and> s' = span_slice_from n s"
    by (auto simp: MultipleLabel_from_wire_def Let_def result_simps map_res_Ok_iff be_u16_Ok_iff
        be_u8_Ok_iff dest!: arg_cong [where f = length] intro!: exI [of _ 4])
next
  fix v :: MultipleLabel and s :: span and rest
  assume "fragment s = fst (MultipleLabel_write L v) @ rest"
  then show "MultipleLabel_from_wire L s =
      Ok (span_slice_from (length (fst (MultipleLabel_write L v))) s, v)"
    by (cases v) (simp add: MultipleLabel_from_wire_def MultipleLabel_write_def
      Let_def reads map_res_def)
qed


section \<open>Capabilities\<close>

text \<open>The codes whose value the parser keeps as it is.\<close>

definition unrecognized_code :: "u8 \<Rightarrow> bool" where
  "unrecognized_code c \<longleftrightarrow>
     (case BgpCapabilityCode_try_from c of
        Err _ \<Rightarrow> True
      | Ok code \<Rightarrow> code \<in> {BgpCapabilityCode.OutboundRouteFilteringCapability, BgpCapabilityCode.BgpSecCapability,
          BgpCapabilityCode.SupportForDynamicCapability, BgpCapabilityCode.MultiSessionBgpCapability,
          BgpCapabilityCode.LongLivedGracefulRestartLLGRCapability,
          BgpCapabilityCode.RoutingPolicyDistribution, BgpCapabilityCode.FQDN})"

text \<open>
  The capabilities the format can carry: the value fits the length octet, a restart time has
  12 bits, and an unrecognized capability has a code of its own.
\<close>

primrec capability_wf :: "BgpCapability \<Rightarrow> bool" where
  "capability_wf (BgpCapability.MultiProtocolExtensions _) \<longleftrightarrow> True"
| "capability_wf BgpCapability.RouteRefresh \<longleftrightarrow> True"
| "capability_wf BgpCapability.EnhancedRouteRefresh \<longleftrightarrow> True"
| "capability_wf BgpCapability.CiscoRouteRefresh \<longleftrightarrow> True"
| "capability_wf (BgpCapability.GracefulRestartCapability c) \<longleftrightarrow>
     unat (gr_time c) < 2 ^ 12 \<and> length (gr_address_families c) \<le> 63"
| "capability_wf (BgpCapability.AddPath c) \<longleftrightarrow> length (ap_address_families c) \<le> 63"
| "capability_wf BgpCapability.ExtendedMessage \<longleftrightarrow> True"
| "capability_wf (BgpCapability.MultipleLabels c) \<longleftrightarrow> length (labels c) \<le> 63"
| "capability_wf (BgpCapability.BgpRole _) \<longleftrightarrow> True"
| "capability_wf (BgpCapability.FourOctetAs _) \<longleftrightarrow> True"
| "capability_wf (BgpCapability.ExtendedNextHopEncoding c) \<longleftrightarrow> length (encodings c) \<le> 42"
| "capability_wf (BgpCapability.Experimental c) \<longleftrightarrow> length (exp_value c) \<le> 255"
| "capability_wf (BgpCapability.Unrecognized c) \<longleftrightarrow>
     length (unrec_value c) \<le> 255 \<and> unrecognized_code (unrec_code c)"

lemma located_cap_Ok_iff:
  "located_cap variant mk read s = Some (Ok (s', c)) \<longleftrightarrow> (\<exists>v. read s = Some (Ok (s', v)) \<and> c = mk v)"
  by (auto simp: located_cap_def orbind_eq_Ok parse_into_located_eq_Ok)

lemma located_cap_returns: "read s = Some r \<Longrightarrow> \<exists>r'. located_cap variant mk read s = Some r'"
  by (cases r) (auto simp: located_cap_def parse_into_located_def)

context wire_lib_laws
begin

lemmas capability_read_defs = BgpCapability_value_def Let_def parse_route_refresh_capability_def
  parse_enhanced_route_refresh_capability_def parse_experimental_capability_def
  parse_unrecognized_capability_def parse_multiple_labels_capability_def
  FourOctetAsCapability_from_wire_def MultiProtocolExtensionsCapability_from_wire_def
  BgpRoleCapability_from_wire_def GracefulRestartCapability_from_wire_def
  AddPathCapability_from_wire_def ExtendedNextHopEncodingCapability_from_wire_def

lemma list_capability_returns:
  "\<exists>r. GracefulRestartCapability_from_wire L s = Some r"
  "\<exists>r. AddPathCapability_from_wire L s = Some r"
  "\<exists>r. ExtendedNextHopEncodingCapability_from_wire L s = Some r"
  "\<exists>r. parse_multiple_labels_capability L s = Some r"
  by (auto simp: capability_read_defs orbind_def gra.till_empty_not_None apa.till_empty_not_None
      enh.till_empty_not_None progressing_reader.till_empty_not_None [OF mlb.located_progressing]
      split: option.splits result.splits prod.splits)

lemma capability_value_returns: "\<exists>r. BgpCapability_value L code s = Some r"
  using list_capability_returns [of s]
  by (cases code) (auto simp: BgpCapability_value_def intro: located_cap_returns)

lemma capability_returns: "\<exists>r. BgpCapability_from_wire L s = Some r"
  by (auto simp: BgpCapability_from_wire_def capability_value_returns
      split: result.splits nom_err.splits BgpCapabilityParsingError.splits)

lemma fixed_capability_suffix:
  "FourOctetAsCapability_from_wire L s = Ok (s', c1) \<Longrightarrow> suffix_span s s'"
  "MultiProtocolExtensionsCapability_from_wire L s = Ok (s', c2) \<Longrightarrow> suffix_span s s'"
  "BgpRoleCapability_from_wire L s = Ok (s', c3) \<Longrightarrow> suffix_span s s'"
  "check_capability_length L nv s k err = Ok (s', c4) \<Longrightarrow> suffix_span s s'"
  "length_data L nv s = Ok (s', c5) \<Longrightarrow> suffix_span s s'"
  "length_count L nv s = Ok (s', c6) \<Longrightarrow> suffix_span s s'"
  by (auto simp: FourOctetAsCapability_from_wire_def MultiProtocolExtensionsCapability_from_wire_def
      BgpRoleCapability_from_wire_def Let_def result_simps check_capability_length_Ok_iff map_res_Ok_iff
      be_u8_Ok_iff be_u16_Ok_iff be_u32_Ok_iff
      dest!: arg_cong [where f = length] length_data_OkD length_count_OkD)

lemma capability_value_suffix:
  assumes "BgpCapability_value L code s = Some (Ok (s', c))" shows "suffix_span s s'"
  using assms
  by (cases code) (auto simp: BgpCapability_value_def located_cap_Ok_iff orbind_eq_Ok result_simps
      parse_route_refresh_capability_def parse_enhanced_route_refresh_capability_def
      parse_experimental_capability_def parse_unrecognized_capability_def
      parse_multiple_labels_capability_def GracefulRestartCapability_from_wire_def Let_def
      AddPathCapability_from_wire_def ExtendedNextHopEncodingCapability_from_wire_def
      dest: fixed_capability_suffix)

lemma capability_progress:
  assumes "BgpCapability_from_wire L s = Some (Ok (s', c))"
  shows "\<exists>n>0. n \<le> length (fragment s) \<and> s' = span_slice_from n s"
proof (cases "fragment s")
  case Nil
  with assms show ?thesis by (simp add: BgpCapability_from_wire_def map_res_def be_u8_eq)
next
  case (Cons b bs)
  have "suffix_span (span_slice_from 1 s) s'"
  proof (cases "BgpCapabilityCode_try_from b")
    case (Ok code)
    with assms Cons show ?thesis
      by (auto simp: BgpCapability_from_wire_def map_res_def be_u8_eq intro: capability_value_suffix)
  next
    case (Err e)
    with assms Cons show ?thesis
      by (auto simp: BgpCapability_from_wire_def map_res_def be_u8_eq from_external_error_def
          parse_unrecognized_capability_def result_simps dest: fixed_capability_suffix)
  qed
  then obtain n where "n \<le> length bs" "s' = span_slice_from (Suc n) s"
    by (auto simp: suffix_span_def Cons)
  then show ?thesis by (intro exI [of _ "Suc n"]) (simp add: Cons)
qed

end

lemma flag_bits:
  fixes t a b m :: "'a::len word"
  assumes t: "\<And>n. bit t n \<Longrightarrow> n < 12" and a: "\<And>n. bit a n \<longleftrightarrow> n = 15" and b: "\<And>n. bit b n \<longleftrightarrow> n = 14"
    and m: "\<And>n. bit m n \<longleftrightarrow> n < 12"
    and h: "h = ((0 OR (if r then a else 0)) OR (if g then b else 0)) OR t"
  shows "h AND a = a \<longleftrightarrow> r" "h AND b = b \<longleftrightarrow> g" "h AND m = t"
proof -
  have bh: "bit h n \<longleftrightarrow> (n = 15 \<and> r) \<or> (n = 14 \<and> g) \<or> bit t n" for n
    unfolding h by (auto simp: bit_or_iff a b)
  have single: "h AND c = c \<longleftrightarrow> bit h k" if "\<And>n. bit c n \<longleftrightarrow> n = k" for c k
  proof
    assume "h AND c = c"
    moreover have "bit c k" by (simp add: that)
    ultimately show "bit h k" by (metis bit_and_iff)
  next
    assume "bit h k"
    then show "h AND c = c" by (intro bit_word_eqI) (auto simp: bit_and_iff that)
  qed
  have "h AND a = a \<longleftrightarrow> bit h 15" by (rule single [OF a])
  moreover have "h AND b = b \<longleftrightarrow> bit h 14" by (rule single [OF b])
  moreover have "h AND m = t"
    using t by (intro bit_word_eqI) (auto simp: bit_and_iff bh m)
  ultimately show "h AND a = a \<longleftrightarrow> r" "h AND b = b \<longleftrightarrow> g" "h AND m = t"
    using t [of 15] t [of 14] by (auto simp: bh)
qed

lemma graceful_flags:
  fixes t :: u16
  assumes t: "unat t < 2 ^ 12"
    and h: "h = ((0 OR (if r then 0x8000 else 0x0000)) OR (if g then 0x4000 else 0x0000)) OR t"
  shows "h AND 0x8000 = 0x8000 \<longleftrightarrow> r" "h AND 0x4000 = 0x4000 \<longleftrightarrow> g" "h AND 0x0fff = t"
proof -
  have "take_bit 12 t = t"
    using t by (simp add: take_bit_eq_mod word_unat_eq_iff unat_mod_distrib)
  then have lo: "bit t n \<Longrightarrow> n < 12" for n by (metis bit_take_bit_iff)
  have "(0x8000 :: u16) = 2 ^ 15" "(0x4000 :: u16) = 2 ^ 14" "(0x0fff :: u16) = mask 12"
    by (simp_all add: mask_eq_exp_minus_1)
  then have c: "bit (0x8000 :: u16) n \<longleftrightarrow> n = 15" "bit (0x4000 :: u16) n \<longleftrightarrow> n = 14"
    "bit (0x0fff :: u16) n \<longleftrightarrow> n < 12" for n
    by (simp_all only: bit_exp_iff bit_mask_iff) auto
  show "h AND 0x8000 = 0x8000 \<longleftrightarrow> r" "h AND 0x4000 = 0x4000 \<longleftrightarrow> g" "h AND 0x0fff = t"
    using flag_bits [OF lo c h] by blast+
qed

definition graceful_header :: "GracefulRestartCapability \<Rightarrow> u16" where
  "graceful_header c = ((0 OR (if restart c then 0x8000 else 0x0000))
     OR (if graceful_notification c then 0x4000 else 0x0000)) OR gr_time c"

lemma list_capability_write:
  "GracefulRestartCapability_write L gr =
    (bo_write_u16 L (graceful_header gr)
      @ concat (map (\<lambda>x. fst (GracefulRestartAddressFamily_write L x)) (gr_address_families gr)), Ok ())"
  "AddPathCapability_write L ap =
    (concat (map (\<lambda>x. fst (AddPathAddressFamily_write L x)) (ap_address_families ap)), Ok ())"
  "ExtendedNextHopEncodingCapability_write L en =
    ((of_nat (ExtendedNextHopEncodingCapability_len en) - 1)
      # concat (map (\<lambda>x. fst (ExtendedNextHopEncoding_write L x)) (encodings en)), Ok ())"
  "wseqs (map (\<lambda>l. wmap_err f (MultipleLabel_write L l)) ls) =
    (concat (map (\<lambda>x. fst (MultipleLabel_write L x)) ls), Ok ())"
proof -
  show "GracefulRestartCapability_write L gr = (bo_write_u16 L (graceful_header gr)
      @ concat (map (\<lambda>x. fst (GracefulRestartAddressFamily_write L x)) (gr_address_families gr)), Ok ())"
    unfolding GracefulRestartCapability_write_def graceful_header_def Let_def by (simp only: wseqs_ok capability_write_ok) simp
qed (simp_all add: AddPathCapability_write_def ExtendedNextHopEncodingCapability_write_def wseqs_ok wmap_err_def)

lemma BgpCapability_write_ok [wire_simps, simp]: "snd (BgpCapability_write L c) = Ok ()"
  by (cases c) (simp_all add: BgpCapability_write_def list_capability_write wmap_err_fst_snd
      MultiProtocolExtensionsCapability_write_def FourOctetAsCapability_write_def BgpRoleCapability_write_def)

lemma capability_len_simps [wire_simps]:
  "GracefulRestartCapability_len gr = 4 + 4 * length (gr_address_families gr)"
  "AddPathCapability_len ap = 4 * length (ap_address_families ap)"
  "ExtendedNextHopEncodingCapability_len en = 1 + 6 * length (encodings en)"
  "sum_list (map MultipleLabel_len ls) = 4 * length ls"
  by (simp_all add: GracefulRestartCapability_len_def GracefulRestartAddressFamily_len_def [abs_def]
      AddPathCapability_len_def AddPathAddressFamily_len_def [abs_def]
      ExtendedNextHopEncodingCapability_len_def ExtendedNextHopEncoding_len_def [abs_def]
      MultipleLabel_len_def [abs_def] sum_list_triv)

lemma experimental_code_octet [simp]:
  "u8_from_BgpCapabilityCode (code_from_Experimental x) = u8_from_ExperimentalCapabilityCode x"
  by (cases x) simp_all

context wire_lib_laws
begin

lemma element_write_length [simp]:
  "length (fst (GracefulRestartAddressFamily_write L a)) = 4"
  "length (fst (AddPathAddressFamily_write L b)) = 4"
  "length (fst (ExtendedNextHopEncoding_write L e)) = 6"
  "length (fst (MultipleLabel_write L m)) = 4"
  by (simp_all add: GracefulRestartAddressFamily_write_def AddPathAddressFamily_write_def
      ExtendedNextHopEncoding_write_def MultipleLabel_write_def Let_def)

lemma concat_element_length [simp]:
  "length (concat (map (\<lambda>x. fst (GracefulRestartAddressFamily_write L x)) as)) = 4 * length as"
  "length (concat (map (\<lambda>x. fst (AddPathAddressFamily_write L x)) bs)) = 4 * length bs"
  "length (concat (map (\<lambda>x. fst (ExtendedNextHopEncoding_write L x)) es)) = 6 * length es"
  "length (concat (map (\<lambda>x. fst (MultipleLabel_write L x)) ms)) = 4 * length ms"
  by (simp_all add: length_concat o_def sum_list_triv)

lemma BgpCapability_len_write [wire_simps, simp]:
  "length (fst (BgpCapability_write L c)) = BgpCapability_len c"
  by (cases c) (simp_all add: BgpCapability_write_def list_capability_write wmap_err_fst_snd BgpCapability_len_def
      MultiProtocolExtensionsCapability_write_def FourOctetAsCapability_write_def BgpRoleCapability_write_def
      capability_len_simps MultiProtocolExtensionsCapability_len_def FourOctetAsCapability_len_def
      BgpRoleCapability_len_def)

lemma graceful_restart_read_enc:
  assumes "unat (gr_time c) < 2 ^ 12" "length (gr_address_families c) \<le> 63"
    "fragment s = of_nat (2 + 4 * length (gr_address_families c))
      # fst (GracefulRestartCapability_write L c) @ rest"
  shows "GracefulRestartCapability_from_wire L s =
    Some (Ok (span_slice_from (Suc (2 + 4 * length (gr_address_families c))) s, c))"
proof -
  let ?data = "fst (GracefulRestartCapability_write L c)"
  have "unat (of_nat (2 + 4 * length (gr_address_families c)) :: u8) = length ?data"
    using assms(2) unat_of_nat_u8_id [of "2 + 4 * length (gr_address_families c)"]
    by (simp only: list_capability_write fst_conv length_append length_write concat_element_length)
  then have ld: "length_data L nv s = Ok (span_slice_from (Suc (length ?data)) s, \<lparr>offset = Suc (offset s), fragment = ?data\<rparr>)" for nv
    using length_data_Ok [OF assms(3)] by blast
  show ?thesis
    using graceful_flags [OF assms(1) graceful_header_def]
    by (simp add: GracefulRestartCapability_from_wire_def Let_def ld list_capability_write be_u16_eq
        gra.till_empty_enc GracefulRestartCapability_new_def)
qed


lemma list_capability_read_enc:
  "length (ap_address_families ap) \<le> 63 \<Longrightarrow>
    fragment s = of_nat (AddPathCapability_len ap) # fst (AddPathCapability_write L ap) @ rest \<Longrightarrow>
    AddPathCapability_from_wire L s = Some (Ok (span_slice_from (Suc (AddPathCapability_len ap)) s, ap))"
  "length (encodings en) \<le> 42 \<Longrightarrow>
    fragment s = fst (ExtendedNextHopEncodingCapability_write L en) @ rest \<Longrightarrow>
    ExtendedNextHopEncodingCapability_from_wire L s =
      Some (Ok (span_slice_from (Suc (6 * length (encodings en))) s, en))"
  "length (labels ml) \<le> 63 \<Longrightarrow>
    fragment s = of_nat (4 * length (labels ml)) # concat (map (\<lambda>x. fst (MultipleLabel_write L x)) (labels ml)) @ rest \<Longrightarrow>
    parse_multiple_labels_capability L s =
      Some (Ok (span_slice_from (Suc (4 * length (labels ml))) s, BgpCapability.MultipleLabels ml))"
proof -
  assume "length (ap_address_families ap) \<le> 63"
    "fragment s = of_nat (AddPathCapability_len ap) # fst (AddPathCapability_write L ap) @ rest"
  then show "AddPathCapability_from_wire L s = Some (Ok (span_slice_from (Suc (AddPathCapability_len ap)) s, ap))"
    using unat_of_nat_u8_id [of "4 * length (ap_address_families ap)"]
    by (simp add: AddPathCapability_from_wire_def length_data_Ok list_capability_write capability_len_simps
        apa.till_empty_enc)
next
  assume "length (encodings en) \<le> 42"
    "fragment s = fst (ExtendedNextHopEncodingCapability_write L en) @ rest"
  then show "ExtendedNextHopEncodingCapability_from_wire L s =
      Some (Ok (span_slice_from (Suc (6 * length (encodings en))) s, en))"
    using unat_of_nat_u8_id [of "6 * length (encodings en)"]
    by (simp add: ExtendedNextHopEncodingCapability_from_wire_def length_data_Ok list_capability_write
        capability_len_simps enh.till_empty_enc)
next
  assume "length (labels ml) \<le> 63" "fragment s = of_nat (4 * length (labels ml))
    # concat (map (\<lambda>x. fst (MultipleLabel_write L x)) (labels ml)) @ rest"
  then show "parse_multiple_labels_capability L s =
      Some (Ok (span_slice_from (Suc (4 * length (labels ml))) s, BgpCapability.MultipleLabels ml))"
    using unat_of_nat_u8_id [of "4 * length (labels ml)"]
    by (simp add: parse_multiple_labels_capability_def length_data_Ok pdu_codec.till_empty_enc [OF mlb.located_codec]
        MultipleLabelsCapability_new_def MAX_MULTIPLE_LABELS_def)
qed


lemma capability_dispatch:
  "fragment s = u8_from_BgpCapabilityCode code # bs \<Longrightarrow>
    BgpCapability_from_wire L s = BgpCapability_value L code (span_slice_from 1 s)"
  using BgpCapabilityCode_try_from_Ok [of "u8_from_BgpCapabilityCode code" code]
  by (simp add: BgpCapability_from_wire_def map_res_def be_u8_eq)

lemma unrecognized_dispatch:
  assumes "fragment s = k # bs" "unrecognized_code k"
  shows "BgpCapability_from_wire L s = Some (parse_unrecognized_capability L k (span_slice_from 1 s))"
proof (cases "BgpCapabilityCode_try_from k")
  case (Ok code)
  then have "k = u8_from_BgpCapabilityCode code" by (simp only: BgpCapabilityCode_try_from_Ok)
  with Ok assms show ?thesis
    by (auto simp: capability_dispatch BgpCapability_value_def unrecognized_code_def)
next
  case (Err e)
  with assms show ?thesis
    by (simp add: BgpCapability_from_wire_def map_res_def be_u8_eq from_external_error_def)
qed

lemma located_cap_eq:
  "read s = Some (Ok (s', v)) \<Longrightarrow> located_cap variant mk read s = Some (Ok (s', mk v))"
  by (simp add: located_cap_Ok_iff)

lemma experimental_value:
  "BgpCapability_value L (code_from_Experimental x) s = Some (parse_experimental_capability L x s)"
  by (cases x) (simp_all add: BgpCapability_value_def)

lemma capability_value_read_enc:
  assumes wf: "capability_wf c" and code: "BgpCapability_code c = Ok code"
    and frag: "fragment s = tl (fst (BgpCapability_write L c)) @ rest"
  shows "BgpCapability_value L code s = Some (Ok (span_slice_from (Suc (BgpCapability_value_len c)) s, c))"
proof (cases c)
  case (MultiProtocolExtensions x)
  then show ?thesis
    using frag code by (cases x) (simp add: BgpCapability_write_def BgpCapability_value_def wmap_err_fst_snd
        MultiProtocolExtensionsCapability_write_def MultiProtocolExtensionsCapability_from_wire_def
        MultiProtocolExtensionsCapability_len_def located_cap_Ok_iff check_capability_length_def map_res_def
        reads Let_def)
next
  case (FourOctetAs x)
  then show ?thesis
    using frag code by (cases x) (simp add: BgpCapability_write_def BgpCapability_value_def wmap_err_fst_snd
        FourOctetAsCapability_write_def FourOctetAsCapability_from_wire_def
        FourOctetAsCapability_len_def located_cap_Ok_iff check_capability_length_def map_res_def
        reads Let_def)
next
  case (BgpRole x)
  then show ?thesis
    using frag code BgpRoleValue_try_from_Ok [of "u8_from_BgpRoleValue (role x)" "role x"]
    by (cases x) (simp add: BgpCapability_write_def BgpCapability_value_def wmap_err_fst_snd
        BgpRoleCapability_write_def BgpRoleCapability_from_wire_def BgpCapability_len_def
        BgpRoleCapability_len_def located_cap_Ok_iff check_capability_length_def map_res_def
        reads Let_def)
next
  case (GracefulRestartCapability g)
  then show ?thesis
    using wf frag code graceful_restart_read_enc [of g s rest]
    by (simp add: BgpCapability_write_def BgpCapability_value_def wmap_err_fst_snd BgpCapability_len_def
        capability_len_simps located_cap_Ok_iff)
next
  case (AddPath g)
  then show ?thesis
    using wf frag code list_capability_read_enc(1) [of g s rest]
    by (simp add: BgpCapability_write_def BgpCapability_value_def wmap_err_fst_snd BgpCapability_len_def
        located_cap_Ok_iff)
next
  case (ExtendedNextHopEncoding g)
  then show ?thesis
    using wf frag code list_capability_read_enc(2) [of g s rest]
    by (simp add: BgpCapability_write_def BgpCapability_value_def wmap_err_fst_snd
        capability_len_simps located_cap_Ok_iff)
next
  case (MultipleLabels g)
  then show ?thesis
    using wf frag code list_capability_read_enc(3) [of g s rest]
    by (simp add: BgpCapability_write_def BgpCapability_value_def list_capability_write BgpCapability_len_def
        capability_len_simps)
next
  case (Experimental e)
  then have "unat (of_nat (length (exp_value e)) :: u8) = length (exp_value e)"
    using wf by (simp add: unat_of_nat_u8_id)
  moreover have "code = code_from_Experimental (exp_code e)" using Experimental code by simp
  ultimately show ?thesis
    using frag Experimental
    by (simp add: experimental_value parse_experimental_capability_def BgpCapability_write_def
        BgpCapability_len_def length_count_Ok)
qed (use code frag in \<open>auto simp: BgpCapability_write_def BgpCapability_value_def BgpCapability_len_def
      parse_route_refresh_capability_def parse_enhanced_route_refresh_capability_def
      check_capability_length_def map_res_def be_u8_eq\<close>)

lemma capability_read_enc:
  assumes wf: "capability_wf c" and frag: "fragment s = fst (BgpCapability_write L c) @ rest"
  shows "BgpCapability_from_wire L s = Some (Ok (span_slice_from (BgpCapability_len c) s, c))"
proof (cases "BgpCapability_code c")
  case (Ok code)
  have hd: "fst (BgpCapability_write L c) = u8_from_BgpCapabilityCode code # tl (fst (BgpCapability_write L c))"
    using Ok by (cases c) (auto simp: BgpCapability_write_def known_code_def wmap_err_fst_snd)
  with frag have "fragment s = u8_from_BgpCapabilityCode code # tl (fst (BgpCapability_write L c)) @ rest"
    by (metis append_Cons)
  then show ?thesis
    using capability_dispatch [of s code] capability_value_read_enc [OF wf Ok, of "span_slice_from 1 s" rest]
    by (simp add: BgpCapability_len_def)
next
  case (Err k)
  then obtain v where c: "c = BgpCapability.Unrecognized (UnrecognizedCapability k v)"
    by (cases c) (auto intro: UnrecognizedCapability.exhaust_sel)
  have fr: "fragment s = k # of_nat (length v) # v @ rest" and len: "length v \<le> 255"
    and k: "unrecognized_code k"
    using frag wf by (simp_all add: c BgpCapability_write_def BgpCapability_len_def)
  then show ?thesis
    using unat_of_nat_u8_id [of "length v"]
    by (simp add: unrecognized_dispatch c BgpCapability_len_def parse_unrecognized_capability_def
        length_count_Ok [where data = v and rest = rest])
qed

end

context wire_lib_laws
begin

lemma element_sizes:
  "GracefulRestartAddressFamily_from_wire L s = Ok (s', v1) \<Longrightarrow> length (fragment s') + 4 = length (fragment s)"
  "AddPathAddressFamily_from_wire L s = Ok (s', v2) \<Longrightarrow> length (fragment s') + 4 = length (fragment s)"
  "ExtendedNextHopEncoding_from_wire L s = Ok (s', v3) \<Longrightarrow> length (fragment s') + 6 = length (fragment s)"
  "MultipleLabel_from_wire L s = Ok (s', v4) \<Longrightarrow> length (fragment s') + 4 = length (fragment s)"
  by (auto simp: GracefulRestartAddressFamily_from_wire_def AddPathAddressFamily_from_wire_def
      ExtendedNextHopEncoding_from_wire_def MultipleLabel_from_wire_def Let_def result_simps take_span_eq
      map_res_Ok_iff be_u16_Ok_iff be_u8_Ok_iff dest!: arg_cong [where f = length] split: if_splits)

lemma element_bounds:
  "parse_till_empty (GracefulRestartAddressFamily_from_wire L) s [] = Some (Ok (s', vs1)) \<Longrightarrow>
    4 * length vs1 = length (fragment s)"
  "parse_till_empty (AddPathAddressFamily_from_wire L) s [] = Some (Ok (s', vs2)) \<Longrightarrow>
    4 * length vs2 = length (fragment s)"
  "parse_till_empty (ExtendedNextHopEncoding_from_wire L) s [] = Some (Ok (s', vs3)) \<Longrightarrow>
    6 * length vs3 = length (fragment s)"
  "parse_till_empty (parse_into_located variant (MultipleLabel_from_wire L)) s [] = Some (Ok (s', vs4)) \<Longrightarrow>
    4 * length vs4 = length (fragment s)"
  using gra.till_empty_size [where k = 4 and acc = "[]"] apa.till_empty_size [where k = 4 and acc = "[]"]
    enh.till_empty_size [where k = 6 and acc = "[]"]
    progressing_reader.till_empty_size [OF mlb.located_progressing, where k = 4 and acc = "[]"]
    element_sizes by (fastforce simp: parse_into_located_eq_Ok)+

lemma list_capability_wf:
  "GracefulRestartCapability_from_wire L s = Some (Ok (s', c1)) \<Longrightarrow>
    unat (gr_time c1) < 2 ^ 12 \<and> length (gr_address_families c1) \<le> 63"
  "AddPathCapability_from_wire L s = Some (Ok (s', c2)) \<Longrightarrow> length (ap_address_families c2) \<le> 63"
  "ExtendedNextHopEncodingCapability_from_wire L s = Some (Ok (s', c3)) \<Longrightarrow> length (encodings c3) \<le> 42"
  "parse_multiple_labels_capability L s = Some (Ok (s', c4)) \<Longrightarrow> capability_wf c4"
proof -
  assume "GracefulRestartCapability_from_wire L s = Some (Ok (s', c1))"
  then obtain d p h t where d: "length_data L GracefulRestartCapabilityParsingError.NomError s = Ok (s', d)"
    and p: "be_u16 L GracefulRestartCapabilityParsingError.NomError d = Ok (p, h)"
    and t: "parse_till_empty (GracefulRestartAddressFamily_from_wire L) p [] = Some (Ok (t, gr_address_families c1))"
    and c1: "gr_time c1 = h AND 0x0fff"
    by (auto simp: GracefulRestartCapability_from_wire_def Let_def orbind_eq_Ok GracefulRestartCapability_new_def)
  have "unat (h AND mask 12) < 2 ^ 12"
    by (simp only: take_bit_eq_mask [symmetric] unsigned_take_bit_eq take_bit_nat_less_exp)
  moreover have "(0x0fff :: u16) = mask 12" by (simp add: mask_eq_exp_minus_1)
  moreover have "length (fragment p) \<le> 253"
    using length_data_OkD [OF d] p by (auto simp: be_u16_eq split: if_splits)
  ultimately show "unat (gr_time c1) < 2 ^ 12 \<and> length (gr_address_families c1) \<le> 63"
    using c1 element_bounds(1) [OF t] by simp
next
  assume "AddPathCapability_from_wire L s = Some (Ok (s', c2))"
  then obtain d t where d: "length_data L AddPathCapabilityParsingError.NomError s = Ok (s', d)"
    and t: "parse_till_empty (AddPathAddressFamily_from_wire L) d [] = Some (Ok (t, ap_address_families c2))"
    by (auto simp: AddPathCapability_from_wire_def orbind_eq_Ok)
  show "length (ap_address_families c2) \<le> 63"
    using element_bounds(2) [OF t] length_data_OkD [OF d] by auto
next
  assume "ExtendedNextHopEncodingCapability_from_wire L s = Some (Ok (s', c3))"
  then obtain d t where d: "length_data L ExtendedNextHopEncodingCapabilityParsingError.NomError s = Ok (s', d)"
    and t: "parse_till_empty (ExtendedNextHopEncoding_from_wire L) d [] = Some (Ok (t, encodings c3))"
    by (auto simp: ExtendedNextHopEncodingCapability_from_wire_def orbind_eq_Ok)
  show "length (encodings c3) \<le> 42"
    using element_bounds(3) [OF t] length_data_OkD [OF d] by auto
next
  assume "parse_multiple_labels_capability L s = Some (Ok (s', c4))"
  then show "capability_wf c4"
    by (auto simp: parse_multiple_labels_capability_def orbind_eq_Ok result_simps
        MultipleLabelsCapability_new_def MAX_MULTIPLE_LABELS_def split: if_splits)
qed

lemma capability_value_wf:
  assumes "BgpCapability_value L code s = Some (Ok (s', c))"
  shows "capability_wf c"
proof -
  have tf: "BgpCapabilityCode_try_from (u8_from_BgpCapabilityCode code) = Ok code"
    by (simp only: BgpCapabilityCode_try_from_Ok)
  show ?thesis
    using assms tf
    by (cases code) (auto simp: BgpCapability_value_def located_cap_Ok_iff result_simps
      parse_route_refresh_capability_def parse_enhanced_route_refresh_capability_def
      parse_experimental_capability_def parse_unrecognized_capability_def unrecognized_code_def
      dest: list_capability_wf length_count_OkD)
qed

lemma capability_parsed_wf:
  assumes "BgpCapability_from_wire L s = Some (Ok (s', c))"
  shows "capability_wf c"
proof (cases "fragment s")
  case Nil
  with assms show ?thesis by (simp add: BgpCapability_from_wire_def map_res_def be_u8_eq)
next
  case (Cons b bs)
  show ?thesis
  proof (cases "BgpCapabilityCode_try_from b")
    case (Ok code)
    with assms Cons show ?thesis
      by (auto simp: BgpCapability_from_wire_def map_res_def be_u8_eq intro: capability_value_wf)
  next
    case (Err e)
    with assms Cons have "parse_unrecognized_capability L b (span_slice_from 1 s) = Ok (s', c)"
      by (simp add: unrecognized_dispatch unrecognized_code_def)
    with Err show ?thesis
      by (auto simp: parse_unrecognized_capability_def result_simps unrecognized_code_def dest: length_count_OkD)
  qed
qed

end

context wire_lib_laws
begin

lemma list_capability_consumes:
  "GracefulRestartCapability_from_wire L s = Some (Ok (s', c1)) \<Longrightarrow>
    s' = span_slice_from (Suc (GracefulRestartCapability_len c1 - 2)) s"
  "AddPathCapability_from_wire L s = Some (Ok (s', c2)) \<Longrightarrow>
    s' = span_slice_from (1 + AddPathCapability_len c2) s"
  "ExtendedNextHopEncodingCapability_from_wire L s = Some (Ok (s', c3)) \<Longrightarrow>
    s' = span_slice_from (ExtendedNextHopEncodingCapability_len c3) s"
  "parse_multiple_labels_capability L s = Some (Ok (s', c4)) \<Longrightarrow>
    s' = span_slice_from (1 + BgpCapability_value_len c4) s"
proof -
  assume "GracefulRestartCapability_from_wire L s = Some (Ok (s', c1))"
  then obtain d :: span where "2 \<le> length (fragment d)" "s' = span_slice_from (Suc (length (fragment d))) s"
    "4 * length (gr_address_families c1) = length (fragment d) - 2"
    by (auto simp: GracefulRestartCapability_from_wire_def Let_def orbind_eq_Ok GracefulRestartCapability_new_def
        be_u16_eq dest!: element_bounds length_data_size split: if_splits)
  then show "s' = span_slice_from (Suc (GracefulRestartCapability_len c1 - 2)) s"
    by (simp add: capability_len_simps Suc_diff_le numeral_2_eq_2)
qed (auto simp: AddPathCapability_from_wire_def ExtendedNextHopEncodingCapability_from_wire_def
      parse_multiple_labels_capability_def orbind_eq_Ok result_simps capability_len_simps
      MultipleLabelsCapability_new_def dest!: element_bounds length_data_size split: if_splits)

lemma fixed_capability_consumes:
  "check_capability_length L nv s k err = Ok (s', c1) \<Longrightarrow> s' = span_slice_from 1 s"
  "FourOctetAsCapability_from_wire L s = Ok (s', c2) \<Longrightarrow> s' = span_slice_from 5 s"
  "MultiProtocolExtensionsCapability_from_wire L s = Ok (s', c3) \<Longrightarrow> s' = span_slice_from 5 s"
  "BgpRoleCapability_from_wire L s = Ok (s', c4) \<Longrightarrow> s' = span_slice_from (Suc (Suc 0)) s"
  by (auto simp: FourOctetAsCapability_from_wire_def MultiProtocolExtensionsCapability_from_wire_def
      BgpRoleCapability_from_wire_def Let_def result_simps check_capability_length_Ok_iff map_res_Ok_iff
      be_u8_Ok_iff be_u16_Ok_iff be_u32_Ok_iff)

lemma capability_value_consumes:
  assumes "BgpCapability_value L code s = Some (Ok (s', c))"
  shows "s' = span_slice_from (1 + BgpCapability_value_len c) s"
  using assms
  by (cases code) (auto simp: BgpCapability_value_def located_cap_Ok_iff result_simps
      parse_route_refresh_capability_def parse_enhanced_route_refresh_capability_def
      parse_experimental_capability_def parse_unrecognized_capability_def
      FourOctetAsCapability_len_def BgpRoleCapability_len_def capability_len_simps
      dest!: list_capability_consumes fixed_capability_consumes length_count_size)

lemma capability_consumes:
  assumes "BgpCapability_from_wire L s = Some (Ok (s', c))"
  shows "s' = span_slice_from (BgpCapability_len c) s"
proof (cases "fragment s")
  case Nil
  with assms show ?thesis by (simp add: BgpCapability_from_wire_def map_res_def be_u8_eq)
next
  case (Cons b bs)
  show ?thesis
  proof (cases "BgpCapabilityCode_try_from b")
    case (Ok code)
    with assms Cons have "BgpCapability_value L code (span_slice_from 1 s) = Some (Ok (s', c))"
      by (simp add: BgpCapability_from_wire_def map_res_def be_u8_eq)
    from capability_value_consumes [OF this] show ?thesis by (simp add: BgpCapability_len_def)
  next
    case (Err e)
    with assms Cons have "parse_unrecognized_capability L b (span_slice_from 1 s) = Ok (s', c)"
      by (simp add: unrecognized_dispatch unrecognized_code_def)
    then show ?thesis
      by (auto simp: parse_unrecognized_capability_def result_simps BgpCapability_len_def dest!: length_count_size)
  qed
qed

end

sublocale wire_lib_laws \<subseteq> cap: returning_codec "BgpCapability_from_wire L"
  "\<lambda>c. fst (BgpCapability_write L c)" capability_wf
  by unfold_locales (simp_all add: capability_returns capability_progress capability_read_enc)

text \<open>
  C15: the capability parser returns on every input.  A capability the format can carry is parsed
  back from its serialization, whatever bytes follow, and consumes exactly the announced
  length.  Every capability that was parsed is one the format can carry, so it survives
  being written and parsed again.
\<close>

theorem capability_roundtrip:
  assumes "wire_lib_laws L"
  shows "(\<exists>r. BgpCapability_from_wire L s = Some r) \<and>
    (BgpCapability_from_wire L s = Some (Ok (s', c)) \<longrightarrow> capability_wf c) \<and>
    (capability_wf c \<longrightarrow>
      BgpCapability_write L c = (fst (BgpCapability_write L c), Ok ()) \<and>
      length (fst (BgpCapability_write L c)) = BgpCapability_len c \<and>
      BgpCapability_from_wire L (span_new (fst (BgpCapability_write L c) @ rest)) =
        Some (Ok (\<lparr>offset = BgpCapability_len c, fragment = rest\<rparr>, c)))"
proof (intro conjI impI)
  show "\<exists>r. BgpCapability_from_wire L s = Some r"
    by (rule wire_lib_laws.capability_returns [OF assms])
  show "capability_wf c" if "BgpCapability_from_wire L s = Some (Ok (s', c))"
    using that by (rule wire_lib_laws.capability_parsed_wf [OF assms])
  show "BgpCapability_write L c = (fst (BgpCapability_write L c), Ok ())"
    by (simp add: prod_eq_iff)
  show len: "length (fst (BgpCapability_write L c)) = BgpCapability_len c"
    by (rule wire_lib_laws.BgpCapability_len_write [OF assms])
  show "BgpCapability_from_wire L (span_new (fst (BgpCapability_write L c) @ rest)) =
        Some (Ok (\<lparr>offset = BgpCapability_len c, fragment = rest\<rparr>, c))" if "capability_wf c"
    using wire_lib_laws.capability_read_enc [OF assms that, of "span_new (fst (BgpCapability_write L c) @ rest)" rest]
    by (simp add: span_eqI len)
qed

theorem capability_roundtrip_witness:
  "wire_lib_laws net_lib \<and>
   capability_wf (BgpCapability.AddPath (AddPathCapability [AddPathAddressFamily Ipv4Unicast True False])) \<and>
   BgpCapability_from_wire net_lib (span_new [69, 4, 0, 1, 1, 2, 2, 0]) =
     Some (Ok (\<lparr>offset = 6, fragment = [2, 0]\<rparr>,
       BgpCapability.AddPath (AddPathCapability [AddPathAddressFamily Ipv4Unicast True False])))"
proof -
  let ?c = "BgpCapability.AddPath (AddPathCapability [AddPathAddressFamily Ipv4Unicast True False])"
  have wr: "fst (BgpCapability_write net_lib ?c) = [69, 4, 0, 1, 1, 2]" "BgpCapability_len ?c = 6" "capability_wf ?c"
    by (simp_all add: BgpCapability_write_def wmap_err_def list_capability_write known_code_def BgpCapability_len_def
        capability_len_simps AddPathAddressFamily_write_def net.write_u16_eq Let_def)
  show ?thesis
    using capability_roundtrip [OF net.wire_lib_laws_axioms, of "span_new []" _ ?c "[2, 0]"] wr
      net.wire_lib_laws_axioms by simp
qed

end
