(* ===== verification/Bgp_Context.thy ===== *)
theory Bgp_Context
  imports Bgp_Capabilities
begin

text \<open>
  The parsing context of \<open>crates/bgp-pkt/src/wire/deserializer/mod.rs\<close>: what a session has
  negotiated (add-path and multiple labels per address type and direction), which errors a
  parser tolerates, and the tolerated errors it met.  A \<open>HashSet\<close> is a set and a \<open>HashMap\<close> a
  map.  The IPv4 networks come from the crate \<open>ipnet\<close> and the path attribute errors from the
  UPDATE parser: both are type parameters.
\<close>

section \<open>Directions, add-path and multiple labels\<close>

datatype (plugins only: code) MessageDirection = Inbound | Outbound

record AddPathMap =
  send :: "AddressType set"
  receive :: "AddressType set"

definition AddPathMap_default :: AddPathMap where
  "AddPathMap_default = \<lparr>send = {}, receive = {}\<rparr>"

definition AddPathMap_get :: "AddPathMap \<Rightarrow> AddressType \<Rightarrow> AddPathAddressFamily option" where
  "AddPathMap_get m t =
    (let snd' = (t \<in> send m); rcv = (t \<in> receive m)
     in if snd' \<or> rcv then Some (AddPathAddressFamily t snd' rcv) else None)"

definition set_enabled :: "AddressType set \<Rightarrow> bool \<Rightarrow> AddressType \<Rightarrow> AddressType set" where
  "set_enabled S enabled t = (if enabled then insert t S else S - {t})"

definition AddPathMap_insert ::
  "AddPathMap \<Rightarrow> AddPathAddressFamily \<Rightarrow> AddPathAddressFamily option \<times> AddPathMap" where
  "AddPathMap_insert m family =
    (let t = ap_address_type family; previous = AddPathMap_get m t
     in (previous, \<lparr>send = set_enabled (send m) (ap_send family) t,
                    receive = set_enabled (receive m) (ap_receive family) t\<rparr>))"

definition AddPathMap_clear :: "AddPathMap \<Rightarrow> AddPathMap" where
  "AddPathMap_clear m = m\<lparr>send := {}, receive := {}\<rparr>"

definition AddPathMap_is_empty :: "AddPathMap \<Rightarrow> bool" where
  "AddPathMap_is_empty m \<longleftrightarrow> send m = {} \<and> receive m = {}"

definition AddPathMap_len :: "AddPathMap \<Rightarrow> nat" where
  "AddPathMap_len m = card (send m \<union> receive m)"

definition AddPathMap_extend :: "AddPathMap \<Rightarrow> AddPathMap \<Rightarrow> AddPathMap" where
  "AddPathMap_extend m other = \<lparr>send = send m \<union> send other, receive = receive m \<union> receive other\<rparr>"

definition AddPathMap_negotiate :: "AddPathMap \<Rightarrow> AddPathMap \<Rightarrow> AddPathMap" where
  "AddPathMap_negotiate m remote =
     \<lparr>send = send m \<inter> receive remote, receive = receive m \<inter> send remote\<rparr>"

primrec AddPathMap_enabled :: "AddPathMap \<Rightarrow> AddressType \<Rightarrow> MessageDirection \<Rightarrow> bool" where
  "AddPathMap_enabled m t Outbound \<longleftrightarrow> t \<in> send m"
| "AddPathMap_enabled m t Inbound \<longleftrightarrow> t \<in> receive m"

primrec AddPathMap_from_iter :: "AddPathAddressFamily list \<Rightarrow> AddPathMap \<Rightarrow> AddPathMap" where
  "AddPathMap_from_iter [] families = families"
| "AddPathMap_from_iter (family # iter) families =
    (let families = (if ap_send family
           then families\<lparr>send := insert (ap_address_type family) (send families)\<rparr> else families);
         families = (if ap_receive family
           then families\<lparr>receive := insert (ap_address_type family) (receive families)\<rparr> else families)
     in AddPathMap_from_iter iter families)"

record MultipleLabelsLimits =
  inbound :: u8
  outbound :: u8

definition MultipleLabelsLimits_new :: "u8 \<Rightarrow> u8 \<Rightarrow> MultipleLabelsLimits" where
  "MultipleLabelsLimits_new i out = \<lparr>inbound = i, outbound = out\<rparr>"

primrec MultipleLabelsLimits_get :: "MultipleLabelsLimits \<Rightarrow> MessageDirection \<Rightarrow> u8" where
  "MultipleLabelsLimits_get l Inbound = inbound l"
| "MultipleLabelsLimits_get l Outbound = outbound l"

type_synonym MultipleLabelsMap = "AddressType \<rightharpoonup> MultipleLabelsLimits"

definition DEFAULT_LIMIT :: u8 where
  "DEFAULT_LIMIT = 1"

definition MultipleLabelsMap_insert ::
  "MultipleLabelsMap \<Rightarrow> AddressType \<Rightarrow> u8 \<Rightarrow> u8 \<Rightarrow> MultipleLabelsLimits option \<times> MultipleLabelsMap" where
  "MultipleLabelsMap_insert m t i out = (m t, m(t \<mapsto> MultipleLabelsLimits_new i out))"

definition MultipleLabelsMap_get :: "MultipleLabelsMap \<Rightarrow> AddressType \<Rightarrow> MessageDirection \<Rightarrow> u8 option" where
  "MultipleLabelsMap_get m t d = map_option (\<lambda>limits. MultipleLabelsLimits_get limits d) (m t)"

definition MultipleLabelsMap_extend :: "MultipleLabelsMap \<Rightarrow> MultipleLabelsMap \<Rightarrow> MultipleLabelsMap" where
  "MultipleLabelsMap_extend m other = m ++ other"

definition multiple_labels_limit :: "MultipleLabelsMap \<Rightarrow> AddressType \<Rightarrow> MessageDirection \<Rightarrow> u8" where
  "multiple_labels_limit m t d =
     (case MultipleLabelsMap_get m t d of Some limit \<Rightarrow> limit | None \<Rightarrow> DEFAULT_LIMIT)"

section \<open>The context\<close>

record ('n, 'p) BgpParsingIgnoredErrors =
  non_unicast_withdraw_nlri :: "'n list"
  non_unicast_update_nlri :: "'n list"
  capability_errors :: "BgpCapabilityParsingError list"
  path_attr_errors :: "'p list"

definition BgpParsingIgnoredErrors_default :: "('n, 'p) BgpParsingIgnoredErrors" where
  "BgpParsingIgnoredErrors_default =
     \<lparr>non_unicast_withdraw_nlri = [], non_unicast_update_nlri = [], capability_errors = [],
      path_attr_errors = []\<rparr>"

record ('n, 'p) BgpParsingContext =
  ctx_asn4 :: bool
  ctx_multiple_labels :: MultipleLabelsMap
  ctx_add_path :: AddPathMap
  fail_on_non_unicast_withdraw_nlri :: bool
  fail_on_non_unicast_update_nlri :: bool
  fail_on_capability_error :: bool
  fail_on_malformed_path_attr :: bool
  parsing_errors :: "('n, 'p) BgpParsingIgnoredErrors"

definition BgpParsingContext_new ::
  "bool \<Rightarrow> MultipleLabelsMap \<Rightarrow> AddPathMap \<Rightarrow> bool \<Rightarrow> bool \<Rightarrow> bool \<Rightarrow> bool \<Rightarrow> ('n, 'p) BgpParsingContext" where
  "BgpParsingContext_new four ml ap fw fu fc fm =
     \<lparr>ctx_asn4 = four, ctx_multiple_labels = ml, ctx_add_path = ap,
      fail_on_non_unicast_withdraw_nlri = fw, fail_on_non_unicast_update_nlri = fu,
      fail_on_capability_error = fc, fail_on_malformed_path_attr = fm,
      parsing_errors = BgpParsingIgnoredErrors_default\<rparr>"

definition asn2_default :: "('n, 'p) BgpParsingContext" where
  "asn2_default = BgpParsingContext_new False Map.empty AddPathMap_default True True True True"

definition BgpParsingContext_default :: "('n, 'p) BgpParsingContext" where
  "BgpParsingContext_default = BgpParsingContext_new True Map.empty AddPathMap_default True True True True"

definition set_asn4 :: "bool \<Rightarrow> ('n, 'p) BgpParsingContext \<Rightarrow> ('n, 'p) BgpParsingContext" where
  "set_asn4 value ctx = ctx\<lparr>ctx_asn4 := value\<rparr>"

definition update_add_path ::
  "AddPathCapability \<Rightarrow> ('n, 'p) BgpParsingContext \<Rightarrow> ('n, 'p) BgpParsingContext" where
  "update_add_path add_path ctx =
    (let support = AddPathMap_from_iter (ap_address_families add_path) AddPathMap_default
     in fold (\<lambda>family ctx.
          let t = ap_address_type family
          in ctx\<lparr>ctx_add_path := snd (AddPathMap_insert (ctx_add_path ctx)
               (AddPathAddressFamily t (AddPathMap_enabled support t Outbound)
                 (AddPathMap_enabled support t Inbound)))\<rparr>)
        (ap_address_families add_path) ctx)"

definition update_multiple_label_capability ::
  "MultipleLabel \<Rightarrow> MessageDirection \<Rightarrow> ('n, 'p) BgpParsingContext \<Rightarrow> ('n, 'p) BgpParsingContext" where
  "update_multiple_label_capability label direction ctx =
    (let m = ctx_multiple_labels ctx; t = ml_address_type label;
         limits = (case m t of Some limits \<Rightarrow> limits
           | None \<Rightarrow> MultipleLabelsLimits_new DEFAULT_LIMIT DEFAULT_LIMIT);
         limits = (case direction of Inbound \<Rightarrow> limits\<lparr>inbound := ml_count label\<rparr>
           | Outbound \<Rightarrow> limits\<lparr>outbound := ml_count label\<rparr>)
     in ctx\<lparr>ctx_multiple_labels := m(t \<mapsto> limits)\<rparr>)"

text \<open>The loop of \<open>update_capabilities\<close> over the labels, with the set of address types seen.\<close>

primrec update_multiple_labels ::
  "MultipleLabel list \<Rightarrow> AddressType set \<Rightarrow> MessageDirection \<Rightarrow>
     ('n, 'p) BgpParsingContext \<Rightarrow> ('n, 'p) BgpParsingContext" where
  "update_multiple_labels [] seen direction ctx = ctx"
| "update_multiple_labels (l # ls) seen direction ctx =
    (if ml_address_type l \<notin> seen
     then update_multiple_labels ls (insert (ml_address_type l) seen) direction
            (update_multiple_label_capability l direction ctx)
     else update_multiple_labels ls seen direction ctx)"

definition update_capabilities ::
  "BgpCapability \<Rightarrow> MessageDirection \<Rightarrow> ('n, 'p) BgpParsingContext \<Rightarrow> ('n, 'p) BgpParsingContext" where
  "update_capabilities capability direction ctx =
     (case capability of
        BgpCapability.AddPath add_path \<Rightarrow> update_add_path add_path ctx
      | BgpCapability.MultipleLabels multiple_labels \<Rightarrow>
          update_multiple_labels (labels multiple_labels) {} direction ctx
      | _ \<Rightarrow> ctx)"

definition reset_parsing_errors ::
  "('n, 'p) BgpParsingContext \<Rightarrow> ('n, 'p) BgpParsingIgnoredErrors \<times> ('n, 'p) BgpParsingContext" where
  "reset_parsing_errors ctx =
     (parsing_errors ctx, ctx\<lparr>parsing_errors := BgpParsingIgnoredErrors_default\<rparr>)"

definition push_capability_error ::
  "BgpCapabilityParsingError \<Rightarrow> ('n, 'p) BgpParsingContext \<Rightarrow> ('n, 'p) BgpParsingContext" where
  "push_capability_error e ctx =
     ctx\<lparr>parsing_errors := (parsing_errors ctx)\<lparr>capability_errors :=
       capability_errors (parsing_errors ctx) @ [e]\<rparr>\<rparr>"

section \<open>What the negotiation agrees on\<close>

lemma enabled_get:
  "AddPathMap_get m t = Some f \<longleftrightarrow> f = AddPathAddressFamily t (t \<in> send m) (t \<in> receive m) \<and> (t \<in> send m \<or> t \<in> receive m)"
  by (auto simp: AddPathMap_get_def Let_def)

lemma enabled_insert [simp]:
  "AddPathMap_enabled (snd (AddPathMap_insert m f)) t d =
    (if t = ap_address_type f then (case d of Outbound \<Rightarrow> ap_send f | Inbound \<Rightarrow> ap_receive f)
     else AddPathMap_enabled m t d)"
  by (cases d) (auto simp: AddPathMap_insert_def set_enabled_def Let_def)

lemma enabled_from_iter:
  "AddPathMap_enabled (AddPathMap_from_iter fs m) t d \<longleftrightarrow>
    AddPathMap_enabled m t d \<or>
    (\<exists>f \<in> set fs. ap_address_type f = t \<and> (case d of Outbound \<Rightarrow> ap_send f | Inbound \<Rightarrow> ap_receive f))"
  by (induction fs arbitrary: m) (cases d; force simp: Let_def)+

lemma fold_insert_enabled:
  "AddPathMap_enabled (ctx_add_path (fold (\<lambda>f ctx. let t = ap_address_type f in
      ctx\<lparr>ctx_add_path := snd (AddPathMap_insert (ctx_add_path ctx)
        (AddPathAddressFamily t (s t) (r t)))\<rparr>) fs ctx)) t d =
    (if t \<in> ap_address_type ` set fs then (case d of Outbound \<Rightarrow> s t | Inbound \<Rightarrow> r t)
     else AddPathMap_enabled (ctx_add_path ctx) t d)"
  by (induction fs arbitrary: ctx) (auto simp: Let_def split: MessageDirection.splits)

text \<open>
  C23: after an add-path capability has been taken over, an address type it names is enabled in a
  direction exactly if one of its entries enables it, however often and in whatever order it is
  named, and every other address type is as before.
\<close>

theorem update_add_path_enabled:
  "AddPathMap_enabled (ctx_add_path (update_add_path c ctx)) t d \<longleftrightarrow>
    (if t \<in> ap_address_type ` set (ap_address_families c)
     then (\<exists>f. f \<in> set (ap_address_families c) \<and> ap_address_type f = t \<and>
             (case d of Outbound \<Rightarrow> ap_send f | Inbound \<Rightarrow> ap_receive f))
     else AddPathMap_enabled (ctx_add_path ctx) t d)"
  unfolding update_add_path_def Let_def
  using enabled_from_iter [of "ap_address_families c" AddPathMap_default t Outbound]
    enabled_from_iter [of "ap_address_families c" AddPathMap_default t Inbound]
  by (subst fold_insert_enabled [unfolded Let_def])
    (cases d; auto simp: AddPathMap_default_def)

text \<open>
  C24: add-path negotiation agrees on both ends: what one speaker may send for an address
  type is what the other expects to receive, and it is exactly what both had offered.
\<close>

theorem add_path_negotiation_symmetric:
  "AddPathMap_enabled (AddPathMap_negotiate m n) t Outbound =
     AddPathMap_enabled (AddPathMap_negotiate n m) t Inbound \<and>
   AddPathMap_enabled (AddPathMap_negotiate m n) t Outbound =
     (AddPathMap_enabled m t Outbound \<and> AddPathMap_enabled n t Inbound) \<and>
   AddPathMap_negotiate (AddPathMap_negotiate m n) (AddPathMap_negotiate n m) = AddPathMap_negotiate m n"
  by (auto simp: AddPathMap_negotiate_def)

text \<open>
  The labels loop takes the first entry of an address type and leaves the other direction
  of that type as it was.
\<close>

lemma update_multiple_labels_limit:
  "multiple_labels_limit (ctx_multiple_labels (update_multiple_labels ls seen d ctx)) t e =
    (case List.find (\<lambda>l. ml_address_type l = t) ls of
       Some l \<Rightarrow> if t \<notin> seen \<and> e = d then ml_count l else multiple_labels_limit (ctx_multiple_labels ctx) t e
     | None \<Rightarrow> multiple_labels_limit (ctx_multiple_labels ctx) t e)"
proof (induction ls arbitrary: seen ctx)
  case (Cons l ls)
  have step: "multiple_labels_limit (ctx_multiple_labels (update_multiple_label_capability l d ctx)) t e =
      (if t = ml_address_type l \<and> e = d then ml_count l else multiple_labels_limit (ctx_multiple_labels ctx) t e)"
    by (cases d; cases e) (auto simp: update_multiple_label_capability_def multiple_labels_limit_def
        MultipleLabelsMap_get_def Let_def MultipleLabelsLimits_new_def split: option.splits)
  show ?case
    using Cons step by (auto split: option.splits)
qed simp

text \<open>
  C37: taking over a multiple-labels capability sets, for the direction of the OPEN, the limit of
  every address type to the count of its first entry, and changes no other limit.
\<close>

theorem multiple_labels_first_entry:
  "multiple_labels_limit (ctx_multiple_labels (update_capabilities (BgpCapability.MultipleLabels c) d ctx)) t e =
    (case List.find (\<lambda>l. ml_address_type l = t) (labels c) of
       Some l \<Rightarrow> if e = d then ml_count l else multiple_labels_limit (ctx_multiple_labels ctx) t e
     | None \<Rightarrow> multiple_labels_limit (ctx_multiple_labels ctx) t e)"
  by (simp add: update_capabilities_def update_multiple_labels_limit split: option.splits)

end
