(* ===== verification/Bgp_Open.thy ===== *)
theory Bgp_Open
  imports Bgp_Context Bgp_Notification
begin

text \<open>
  The BGP OPEN message: \<open>crates/bgp-pkt/src/open.rs\<close>, its parser \<open>wire/deserializer/open.rs\<close> and
  its serializer \<open>wire/serializer/open.rs\<close>.  The parser threads the parsing context, in which it
  records the capability errors it tolerates.  An IPv4 address is its 32-bit number.
\<close>

section \<open>Data\<close>

definition BGP_VERSION :: u8 where
  "BGP_VERSION = 4"

datatype (plugins only: code) BgpOpenMessageParameter = Capabilities "BgpCapability list"

record BgpOpenMessage =
  version :: u8
  my_as :: u16
  hold_time :: u16
  bgp_id :: u32
  params :: "BgpOpenMessageParameter list"

definition BgpOpenMessage_new ::
  "u16 \<Rightarrow> u16 \<Rightarrow> u32 \<Rightarrow> BgpOpenMessageParameter list \<Rightarrow> BgpOpenMessage" where
  "BgpOpenMessage_new a h i ps =
     \<lparr>version = BGP_VERSION, my_as = a, hold_time = h, bgp_id = i, params = ps\<rparr>"

primrec param_capabilities :: "BgpOpenMessageParameter \<Rightarrow> BgpCapability list" where
  "param_capabilities (Capabilities capabilities_vec) = capabilities_vec"

definition capabilities :: "BgpOpenMessage \<Rightarrow> BgpCapability list" where
  "capabilities open = concat (map param_capabilities (params open))"

fun four_octet_as :: "BgpCapability \<Rightarrow> u32 option" where
  "four_octet_as (BgpCapability.FourOctetAs c) = Some (asn4 c)"
| "four_octet_as _ = None"

text \<open>\<open>pop\<close> takes the last element of the vector, if there is one.\<close>

definition my_asn4 :: "BgpOpenMessage \<Rightarrow> u32" where
  "my_asn4 open =
     (let asns = List.map_filter four_octet_as (capabilities open)
      in if asns = [] then ucast (my_as open) else last asns)"

section \<open>Parsing\<close>

datatype (plugins only: code) BgpParameterParsingError =
    NomError ErrorKind
  | UndefinedParameterType UndefinedBgpOpenMessageParameterType
  | CapabilityError BgpCapabilityParsingError

datatype (plugins only: code) BgpOpenMessageParsingError =
    NomError ErrorKind
  | UnsupportedVersionNumber u8
  | UnacceptableHoldTime u16
  | InvalidBgpId u32
  | ParameterError BgpParameterParsingError

text \<open>
  The capability loop.  A malformed capability is skipped by its length octet and recorded, if
  the context tolerates it.
\<close>

definition skip_capability ::
  "wire_lib \<Rightarrow> span \<Rightarrow> (span, BgpParameterParsingError located nom_err) result" where
  "skip_capability L capabilities_buf =
     rbind (be_u8 L BgpParameterParsingError.NomError capabilities_buf) (\<lambda>(tmp, _).
     rbind (length_count L BgpParameterParsingError.NomError tmp) (\<lambda>(tmp, _).
     Ok tmp))"

partial_function (option) parse_capabilities ::
  "wire_lib \<Rightarrow> span \<Rightarrow> BgpCapability list \<Rightarrow> ('n, 'p) BgpParsingContext \<Rightarrow>
     ((BgpCapability list, BgpParameterParsingError located nom_err) result
       \<times> ('n, 'p) BgpParsingContext) option" where
  "parse_capabilities L capabilities_buf caps ctx =
     (if span_is_empty capabilities_buf then Some (Ok caps, ctx)
      else (case BgpCapability_from_wire L capabilities_buf of
          None \<Rightarrow> None
        | Some (Ok (tmp, capability)) \<Rightarrow> parse_capabilities L tmp (caps @ [capability]) ctx
        | Some (Err (NIncomplete needed)) \<Rightarrow> Some (Err (NIncomplete needed), ctx)
        | Some (Err (NError err)) \<Rightarrow>
            if \<not> fail_on_capability_error ctx
            then (case skip_capability L capabilities_buf of
                Err e \<Rightarrow> Some (Err e, ctx)
              | Ok tmp \<Rightarrow> parse_capabilities L tmp caps (push_capability_error (lerror err) ctx))
            else Some (Err (NError (from_located CapabilityError err)), ctx)
        | Some (Err (NFailure failure)) \<Rightarrow>
            if \<not> fail_on_capability_error ctx
            then (case skip_capability L capabilities_buf of
                Err e \<Rightarrow> Some (Err e, ctx)
              | Ok tmp \<Rightarrow> parse_capabilities L tmp caps (push_capability_error (lerror failure) ctx))
            else Some (Err (NFailure (from_located CapabilityError failure)), ctx)))"

definition parse_capability_param ::
  "wire_lib \<Rightarrow> span \<Rightarrow> ('n, 'p) BgpParsingContext \<Rightarrow>
     ((BgpOpenMessageParameter, BgpParameterParsingError) iresult \<times> ('n, 'p) BgpParsingContext) option" where
  "parse_capability_param L buf ctx =
     (case length_data L BgpParameterParsingError.NomError buf of
        Err e \<Rightarrow> Some (Err e, ctx)
      | Ok (buf, capabilities_buf) \<Rightarrow>
          (case parse_capabilities L capabilities_buf [] ctx of
             None \<Rightarrow> None
           | Some (Err e, ctx) \<Rightarrow> Some (Err e, ctx)
           | Some (Ok caps, ctx) \<Rightarrow> Some (Ok (buf, Capabilities caps), ctx)))"

definition BgpOpenMessageParameter_from_wire ::
  "wire_lib \<Rightarrow> span \<Rightarrow> ('n, 'p) BgpParsingContext \<Rightarrow>
     ((BgpOpenMessageParameter, BgpParameterParsingError) iresult \<times> ('n, 'p) BgpParsingContext) option" where
  "BgpOpenMessageParameter_from_wire L buf ctx =
    (let begin_buf = buf in
     case map_res (be_u8 L BgpParameterParsingError.NomError) BgpOpenMessageParameterType_try_from
       UndefinedParameterType buf of
       Err e \<Rightarrow> Some (Err e, ctx)
     | Ok (buf, param_type) \<Rightarrow>
         (case param_type of
            BgpOpenMessageParameterType.Capability \<Rightarrow> parse_capability_param L buf ctx
          | BgpOpenMessageParameterType.ExtendedLength \<Rightarrow>
              Some (Err (NError (Located begin_buf (UndefinedParameterType
                (UndefinedBgpOpenMessageParameterType
                  (u8_from_BgpOpenMessageParameterType BgpOpenMessageParameterType.ExtendedLength))))), ctx)))"

partial_function (option) parse_params ::
  "wire_lib \<Rightarrow> span \<Rightarrow> BgpOpenMessageParameter list \<Rightarrow> ('n, 'p) BgpParsingContext \<Rightarrow>
     ((BgpOpenMessageParameter list, BgpOpenMessageParsingError located nom_err) result
       \<times> ('n, 'p) BgpParsingContext) option" where
  "parse_params L params_buf ps ctx =
     (if span_is_empty params_buf then Some (Ok ps, ctx)
      else (case BgpOpenMessageParameter_from_wire L params_buf ctx of
          None \<Rightarrow> None
        | Some (Err e, ctx) \<Rightarrow> Some (Err (map_nom_err_into (from_located ParameterError) e), ctx)
        | Some (Ok (tmp, element), ctx) \<Rightarrow> parse_params L tmp (ps @ [element]) ctx))"

text \<open>\<open>std::net::Ipv4Addr\<close>: the broadcast, multicast and unspecified addresses.\<close>

definition is_broadcast :: "u32 \<Rightarrow> bool" where
  "is_broadcast a \<longleftrightarrow> a = 0xffffffff"

definition is_multicast :: "u32 \<Rightarrow> bool" where
  "is_multicast a \<longleftrightarrow> 224 \<le> unat a div 2 ^ 24 \<and> unat a div 2 ^ 24 \<le> 239"

definition is_unspecified :: "u32 \<Rightarrow> bool" where
  "is_unspecified a \<longleftrightarrow> a = 0"

text \<open>The fixed fields, up to and including the check of the BGP identifier.\<close>

definition BgpOpenMessage_fixed ::
  "wire_lib \<Rightarrow> span \<Rightarrow> (u16 \<times> u16 \<times> u32, BgpOpenMessageParsingError) iresult" where
  "BgpOpenMessage_fixed L buf =
    (let nom = BgpOpenMessageParsingError.NomError in
     rbind (map_res (be_u8 L nom)
       (\<lambda>x. if x = 4 then Ok x else Err (UnsupportedVersionNumber x)) (\<lambda>e. e) buf) (\<lambda>(buf, _).
     rbind (be_u16 L nom buf) (\<lambda>(buf, a).
     let begin_buf = buf in
     rbind (be_u16 L nom buf) (\<lambda>(buf, h).
     if h = 1 \<or> h = 2
     then Err (NError (Located begin_buf (BgpOpenMessageParsingError.UnacceptableHoldTime h)))
     else rbind (be_u32 L nom buf) (\<lambda>(buf, i).
     let begin_buf = buf in
     if is_broadcast i \<or> is_multicast i \<or> is_unspecified i
     then Err (NError (Located begin_buf (InvalidBgpId i)))
     else Ok (buf, (a, h, i)))))))"

definition BgpOpenMessage_from_wire ::
  "wire_lib \<Rightarrow> span \<Rightarrow> ('n, 'p) BgpParsingContext \<Rightarrow>
     ((BgpOpenMessage, BgpOpenMessageParsingError) iresult \<times> ('n, 'p) BgpParsingContext) option" where
  "BgpOpenMessage_from_wire L buf ctx =
     (case rbind (BgpOpenMessage_fixed L buf) (\<lambda>(buf, fields).
             rbind (length_data L BgpOpenMessageParsingError.NomError buf) (\<lambda>(buf, params_buf).
             Ok (buf, (fields, params_buf)))) of
        Err e \<Rightarrow> Some (Err e, ctx)
      | Ok (buf, ((a, h, i), params_buf)) \<Rightarrow>
          (case parse_params L params_buf [] ctx of
             None \<Rightarrow> None
           | Some (Err e, ctx) \<Rightarrow> Some (Err e, ctx)
           | Some (Ok ps, ctx) \<Rightarrow> Some (Ok (buf, BgpOpenMessage_new a h i ps), ctx)))"

primrec OpenMessageError_from_param :: "BgpParameterParsingError \<Rightarrow> OpenMessageError" where
  "OpenMessageError_from_param (BgpParameterParsingError.NomError _) = OpenMessageError.Unspecific []"
| "OpenMessageError_from_param (UndefinedParameterType param_type) =
     OpenMessageError.UnsupportedOptionalParameter
       [case param_type of UndefinedBgpOpenMessageParameterType t \<Rightarrow> t]"
| "OpenMessageError_from_param (CapabilityError _) = OpenMessageError.Unspecific []"

primrec OpenMessageError_from :: "BgpOpenMessageParsingError \<Rightarrow> OpenMessageError" where
  "OpenMessageError_from (BgpOpenMessageParsingError.NomError _) = OpenMessageError.Unspecific []"
| "OpenMessageError_from (UnsupportedVersionNumber _) =
     OpenMessageError.UnsupportedVersionNumber (be_bytes 2 (unat (ucast BGP_VERSION :: u16)))"
| "OpenMessageError_from (BgpOpenMessageParsingError.UnacceptableHoldTime h) =
     OpenMessageError.UnacceptableHoldTime (be_bytes 2 (unat h))"
| "OpenMessageError_from (InvalidBgpId i) = OpenMessageError.BadBgpIdentifier (be_bytes 4 (unat i))"
| "OpenMessageError_from (ParameterError param_error) = OpenMessageError_from_param param_error"

section \<open>Serializing\<close>

datatype (plugins only: code) BgpOpenMessageWritingError =
    StdIOError string
  | CapabilityError BGPCapabilityWritingError

primrec BgpOpenMessageParameter_len :: "BgpOpenMessageParameter \<Rightarrow> nat" where
  "BgpOpenMessageParameter_len (Capabilities caps) = 2 + sum_list (map BgpCapability_len caps)"

definition BgpOpenMessageParameter_write ::
  "wire_lib \<Rightarrow> BgpOpenMessageParameter \<Rightarrow> BgpOpenMessageWritingError writing" where
  "BgpOpenMessageParameter_write L p =
    (let len = BgpOpenMessageParameter_len p - 2 in
     case p of Capabilities caps \<Rightarrow>
       wseq (wput [u8_from_BgpOpenMessageParameterType BgpOpenMessageParameterType.Capability])
       (wseq (wput [of_nat len])
         (wseqs (map (\<lambda>c. wmap_err BgpOpenMessageWritingError.CapabilityError (BgpCapability_write L c)) caps))))"

definition BgpOpenMessage_len :: "BgpOpenMessage \<Rightarrow> nat" where
  "BgpOpenMessage_len open = 10 + sum_list (map BgpOpenMessageParameter_len (params open))"

definition BgpOpenMessage_write :: "wire_lib \<Rightarrow> BgpOpenMessage \<Rightarrow> BgpOpenMessageWritingError writing" where
  "BgpOpenMessage_write L open =
     wseq (wput [version open])
     (wseq (wput (bo_write_u16 L (my_as open)))
     (wseq (wput (bo_write_u16 L (hold_time open)))
     (wseq (wput (bo_write_u32 L (bgp_id open)))
     (let params_length = sum_list (map BgpOpenMessageParameter_len (params open)) in
      wseq (wput [of_nat params_length])
        (wseqs (map (BgpOpenMessageParameter_write L) (params open)))))))"

section \<open>Writing succeeds, with the announced length\<close>

lemma BgpOpenMessageParameter_write_eq:
  "BgpOpenMessageParameter_write L (Capabilities caps) =
     (u8_from_BgpOpenMessageParameterType BgpOpenMessageParameterType.Capability
       # of_nat (sum_list (map BgpCapability_len caps))
       # concat (map (\<lambda>c. fst (BgpCapability_write L c)) caps), Ok ())"
proof -
  have "wseqs (map (\<lambda>c. wmap_err BgpOpenMessageWritingError.CapabilityError (BgpCapability_write L c)) caps) =
    (concat (map (\<lambda>c. fst (BgpCapability_write L c)) caps), Ok ())"
    by (subst wseqs_ok) (simp_all add: wmap_err_fst_snd comp_def)
  then show ?thesis by (simp add: BgpOpenMessageParameter_write_def Let_def)
qed

lemma BgpOpenMessageParameter_write_ok [simp]: "snd (BgpOpenMessageParameter_write L p) = Ok ()"
  by (cases p) (simp add: BgpOpenMessageParameter_write_eq)

lemma BgpOpenMessage_write_eq:
  "BgpOpenMessage_write L open =
     (version open # bo_write_u16 L (my_as open) @ bo_write_u16 L (hold_time open) @
      bo_write_u32 L (bgp_id open) @
      of_nat (sum_list (map BgpOpenMessageParameter_len (params open)))
       # concat (map (\<lambda>p. fst (BgpOpenMessageParameter_write L p)) (params open)), Ok ())"
  by (simp add: BgpOpenMessage_write_def Let_def wseqs_ok comp_def)

lemma BgpOpenMessage_write_ok [simp]: "snd (BgpOpenMessage_write L open) = Ok ()"
  by (simp add: BgpOpenMessage_write_eq)

section \<open>The messages the format can carry\<close>

primrec param_wf :: "BgpOpenMessageParameter \<Rightarrow> bool" where
  "param_wf (Capabilities caps) \<longleftrightarrow>
     list_all capability_wf caps \<and> sum_list (map BgpCapability_len caps) \<le> 255"

definition bgp_id_ok :: "u32 \<Rightarrow> bool" where
  "bgp_id_ok i \<longleftrightarrow> \<not> is_broadcast i \<and> \<not> is_multicast i \<and> \<not> is_unspecified i"

definition open_wf :: "BgpOpenMessage \<Rightarrow> bool" where
  "open_wf open \<longleftrightarrow> version open = BGP_VERSION \<and> hold_time open \<noteq> 1 \<and> hold_time open \<noteq> 2 \<and>
     bgp_id_ok (bgp_id open) \<and> list_all param_wf (params open) \<and>
     sum_list (map BgpOpenMessageParameter_len (params open)) \<le> 255"

context wire_lib_laws
begin

lemma concat_capabilities_length [simp]:
  "length (concat (map (\<lambda>c. fst (BgpCapability_write L c)) caps)) = sum_list (map BgpCapability_len caps)"
  by (simp add: length_concat comp_def)

lemma param_len_write [simp]: "length (fst (BgpOpenMessageParameter_write L p)) = BgpOpenMessageParameter_len p"
  by (cases p) (simp only: BgpOpenMessageParameter_write_eq, simp add: concat_capabilities_length)

lemma open_len_write [simp]: "length (fst (BgpOpenMessage_write L open)) = BgpOpenMessage_len open"
  by (simp add: BgpOpenMessage_write_eq BgpOpenMessage_len_def length_concat comp_def)

subsection \<open>The capability loop\<close>

lemma skip_capability_shrinks:
  "skip_capability L s = Ok s' \<Longrightarrow>
    \<exists>n>0. n \<le> length (fragment s) \<and> s' = span_slice_from n s"
proof -
  assume "skip_capability L s = Ok s'"
  then obtain b bs v where s: "fragment s = b # bs"
    and "length_count L BgpParameterParsingError.NomError (span_slice_from 1 s) = Ok (s', v)"
    by (auto simp: skip_capability_def result_simps be_u8_Ok_iff)
  from length_count_OkD [OF this(2)] obtain n where "n \<le> length bs" "s' = span_slice_from (Suc n) s"
    using s by auto
  then show ?thesis using s by (intro exI [of _ "Suc n"]) simp
qed

lemma capabilities_step:
  assumes "\<not> span_is_empty s"
  obtains
    (Stop) e ctx' where "\<And>acc. parse_capabilities L s acc ctx = Some (Err e, ctx')"
  | (Push) s' c where "BgpCapability_from_wire L s = Some (Ok (s', c))"
      "length (fragment s) = BgpCapability_len c + length (fragment s')"
      "length (fragment s') < length (fragment s)"
      "\<And>acc. parse_capabilities L s acc ctx = parse_capabilities L s' (acc @ [c]) ctx"
  | (Skip) s' e where "\<not> fail_on_capability_error ctx"
      "length (fragment s') < length (fragment s)"
      "\<And>acc. parse_capabilities L s acc ctx = parse_capabilities L s' acc (push_capability_error e ctx)"
proof -
  obtain r where r: "BgpCapability_from_wire L s = Some r" using capability_returns by blast
  have skip: thesis if "r = Err (NError err) \<or> r = Err (NFailure err)" "\<not> fail_on_capability_error ctx" for err
  proof (cases "skip_capability L s")
    case (Ok s')
    from skip_capability_shrinks [OF this] have "length (fragment s') < length (fragment s)" by auto
    with that assms r Ok show thesis
      by (intro Skip [of s' "lerror err"]) (auto simp: parse_capabilities.simps [of L s])
  next
    case (Err e)
    with that assms r show thesis
      by (intro Stop [of e ctx]) (auto simp: parse_capabilities.simps [of L s])
  qed
  show thesis
  proof (cases r)
    case (Ok p)
    then obtain s' c where p: "r = Ok (s', c)" by (cases p) auto
    from capability_progress [of s s' c] r p obtain n where "0 < n" "n \<le> length (fragment s)" "s' = span_slice_from n s"
      by auto
    moreover have "s' = span_slice_from (BgpCapability_len c) s" using capability_consumes r p by simp
    ultimately have "n = BgpCapability_len c" "length (fragment s) = BgpCapability_len c + length (fragment s')"
      "length (fragment s') < length (fragment s)"
      by (auto dest: arg_cong [where f = offset])
    with assms r p show thesis
      by (intro Push [of s' c]) (simp_all add: parse_capabilities.simps [of L s])
  next
    case (Err e)
    show thesis
    proof (cases e)
      case (NIncomplete needed)
      with Err assms r show thesis
        by (intro Stop [of "NIncomplete needed" ctx]) (simp add: parse_capabilities.simps [of L s])
    next
      case (NError err)
      with Err assms r skip [of err] show thesis
        by (cases "fail_on_capability_error ctx")
          (auto intro!: Stop [of "NError (from_located BgpParameterParsingError.CapabilityError err)" ctx]
            simp: parse_capabilities.simps [of L s])
    next
      case (NFailure err)
      with Err assms r skip [of err] show thesis
        by (cases "fail_on_capability_error ctx")
          (auto intro!: Stop [of "NFailure (from_located BgpParameterParsingError.CapabilityError err)" ctx]
            simp: parse_capabilities.simps [of L s])
    qed
  qed
qed

lemma capabilities_empty:
  "span_is_empty s \<Longrightarrow> parse_capabilities L s acc ctx = Some (Ok acc, ctx)"
  by (simp add: parse_capabilities.simps)

lemma capabilities_returns: "\<exists>r. parse_capabilities L s acc ctx = Some r"
proof (induction "length (fragment s)" arbitrary: s acc ctx rule: less_induct)
  case less
  show ?case
  proof (cases "span_is_empty s")
    case True
    then show ?thesis by (simp add: capabilities_empty)
  next
    case False
    then show ?thesis
      by (cases rule: capabilities_step [where ctx = ctx]) (simp_all add: less del: split_paired_Ex)
  qed
qed

lemma capabilities_parsed:
  assumes "parse_capabilities L s acc ctx = Some (Ok caps, ctx')" "list_all capability_wf acc"
  shows "list_all capability_wf caps \<and>
    sum_list (map BgpCapability_len caps) \<le> sum_list (map BgpCapability_len acc) + length (fragment s) \<and>
    (fail_on_capability_error ctx \<longrightarrow> ctx' = ctx)"
  using assms
proof (induction "length (fragment s)" arbitrary: s acc ctx rule: less_induct)
  case less
  show ?case
  proof (cases "span_is_empty s")
    case True
    with less.prems show ?thesis by (simp add: capabilities_empty)
  next
    case False
    then show ?thesis
    proof (cases rule: capabilities_step [where ctx = ctx])
      case (Stop e ctx'')
      with less.prems show ?thesis by simp
    next
      case (Push s' c)
      with less.hyps [of s' "acc @ [c]" ctx] less.prems capability_parsed_wf [OF Push(1)]
      show ?thesis by auto
    next
      case (Skip s' e)
      with less.hyps [of s' acc "push_capability_error e ctx"] less.prems show ?thesis by auto
    qed
  qed
qed

lemma capabilities_read_enc:
  assumes "list_all capability_wf caps" "fragment s = concat (map (\<lambda>c. fst (BgpCapability_write L c)) caps)"
  shows "parse_capabilities L s acc ctx = Some (Ok (acc @ caps), ctx)"
  using assms
proof (induction caps arbitrary: s acc)
  case Nil
  then show ?case by (simp add: capabilities_empty span_is_empty_def)
next
  case (Cons c caps)
  have "\<not> span_is_empty s"
    using Cons.prems cap.total.enc_nonempty [of c] by (auto simp: span_is_empty_def)
  moreover have "BgpCapability_from_wire L s = Some (Ok (span_slice_from (BgpCapability_len c) s, c))"
    using Cons.prems capability_read_enc [of c s] by simp
  moreover have "parse_capabilities L (span_slice_from (BgpCapability_len c) s) (acc @ [c]) ctx =
    Some (Ok ((acc @ [c]) @ caps), ctx)"
    using Cons.prems BgpCapability_len_write [of c] by (intro Cons.IH) auto
  ultimately show ?case by (simp add: parse_capabilities.simps [of L s])
qed

subsection \<open>The parameter loop\<close>

lemma length_data_shrinks:
  "length_data L nv s = Ok (s', d) \<Longrightarrow> length (fragment s) = Suc (length (fragment d)) + length (fragment s')
     \<and> length (fragment d) \<le> 255"
  by (auto simp: length_data_eq split: list.splits if_splits)

lemma param_returns: "\<exists>r. BgpOpenMessageParameter_from_wire L s ctx = Some r"
proof -
  have "\<exists>r. parse_capability_param L s' ctx = Some r" for s'
  proof (cases "length_data L BgpParameterParsingError.NomError s'")
    case (Ok p)
    then show ?thesis using capabilities_returns [of "snd p" "[]" ctx]
      by (cases p) (auto simp: parse_capability_param_def split: result.splits)
  qed (simp add: parse_capability_param_def)
  then show ?thesis
    by (auto simp: BgpOpenMessageParameter_from_wire_def Let_def
        split: result.splits BgpOpenMessageParameterType.splits)
qed

lemma param_parsed:
  assumes "BgpOpenMessageParameter_from_wire L s ctx = Some (Ok (s', p), ctx')"
  shows "param_wf p \<and> BgpOpenMessageParameter_len p + length (fragment s') \<le> length (fragment s) \<and>
    (fail_on_capability_error ctx \<longrightarrow> ctx' = ctx)"
proof -
  from assms obtain b bs where s: "fragment s = b # bs"
    and "parse_capability_param L (span_slice_from 1 s) ctx = Some (Ok (s', p), ctx')"
    by (auto simp: BgpOpenMessageParameter_from_wire_def Let_def map_res_Ok_iff be_u8_Ok_iff
        split: result.splits BgpOpenMessageParameterType.splits)
  then obtain d :: span and caps where
    d: "length_data L BgpParameterParsingError.NomError (span_slice_from 1 s) = Ok (s', d)"
    and caps: "parse_capabilities L d [] ctx = Some (Ok caps, ctx')" and p: "p = Capabilities caps"
    by (auto simp: parse_capability_param_def split: result.splits option.splits)
  from length_data_shrinks [OF d] capabilities_parsed [OF caps] s p show ?thesis by auto
qed

lemma param_read_enc:
  assumes "param_wf p" "fragment s = fst (BgpOpenMessageParameter_write L p) @ rest"
  shows "BgpOpenMessageParameter_from_wire L s ctx =
    Some (Ok (span_slice_from (BgpOpenMessageParameter_len p) s, p), ctx)"
proof (cases p)
  case (Capabilities caps)
  let ?data = "concat (map (\<lambda>c. fst (BgpCapability_write L c)) caps)"
  have frag: "fragment s = u8_from_BgpOpenMessageParameterType BgpOpenMessageParameterType.Capability
      # of_nat (length ?data) # ?data @ rest"
    using assms(2) Capabilities by (simp add: BgpOpenMessageParameter_write_eq)
  have len: "unat (of_nat (length ?data) :: u8) = length ?data"
    using assms(1) Capabilities by (simp add: unat_of_nat_u8_id)
  have "fragment (span_slice_from 1 s) = of_nat (length ?data) # ?data @ rest" using frag by simp
  from length_data_Ok [OF this len]
  have data: "length_data L BgpParameterParsingError.NomError (span_slice_from 1 s) =
      Ok (span_slice_from (Suc (Suc (length ?data))) s, \<lparr>offset = Suc (Suc (offset s)), fragment = ?data\<rparr>)"
    by simp
  have "parse_capabilities L \<lparr>offset = Suc (Suc (offset s)), fragment = ?data\<rparr> [] ctx = Some (Ok caps, ctx)"
    using assms(1) Capabilities capabilities_read_enc [of caps _ "[]" ctx] by simp
  then have "parse_capability_param L (span_slice_from 1 s) ctx =
      Some (Ok (span_slice_from (Suc (Suc (length ?data))) s, p), ctx)"
    using Capabilities by (simp add: parse_capability_param_def data [simplified])
  moreover have "map_res (be_u8 L BgpParameterParsingError.NomError) BgpOpenMessageParameterType_try_from
      UndefinedParameterType s = Ok (span_slice_from 1 s, BgpOpenMessageParameterType.Capability)"
    using frag by (simp add: map_res_Ok_iff be_u8_Ok_iff BgpOpenMessageParameterType_try_from_Ok)
  ultimately show ?thesis
    using Capabilities by (simp add: BgpOpenMessageParameter_from_wire_def Let_def)
qed

lemma params_step:
  assumes "\<not> span_is_empty s"
  obtains
    (Stop) e ctx' where "\<And>acc. parse_params L s acc ctx = Some (Err e, ctx')"
  | (Push) s' p ctx' where "BgpOpenMessageParameter_from_wire L s ctx = Some (Ok (s', p), ctx')"
      "length (fragment s') < length (fragment s)"
      "\<And>acc. parse_params L s acc ctx = parse_params L s' (acc @ [p]) ctx'"
proof -
  obtain r ctx' where r: "BgpOpenMessageParameter_from_wire L s ctx = Some (r, ctx')"
    using param_returns [of s ctx] by auto
  show thesis
  proof (cases r)
    case (Ok q)
    then obtain s' p where q: "r = Ok (s', p)" by (cases q) auto
    then have "length (fragment s') < length (fragment s)"
      using param_parsed [of s ctx s' p ctx'] r by (cases p) auto
    with r q assms show thesis by (intro Push [of s' p ctx']) (simp_all add: parse_params.simps [of L s])
  next
    case (Err e)
    with r assms show thesis by (intro Stop) (simp add: parse_params.simps [of L s])
  qed
qed

lemma params_empty: "span_is_empty s \<Longrightarrow> parse_params L s acc ctx = Some (Ok acc, ctx)"
  by (simp add: parse_params.simps)

lemma params_returns: "\<exists>r. parse_params L s acc ctx = Some r"
proof (induction "length (fragment s)" arbitrary: s acc ctx rule: less_induct)
  case less
  show ?case
  proof (cases "span_is_empty s")
    case True
    then show ?thesis by (simp add: params_empty)
  next
    case False
    then show ?thesis
      by (cases rule: params_step [where ctx = ctx]) (simp_all add: less del: split_paired_Ex)
  qed
qed

lemma params_parsed:
  assumes "parse_params L s acc ctx = Some (Ok ps, ctx')" "list_all param_wf acc"
  shows "list_all param_wf ps \<and>
    sum_list (map BgpOpenMessageParameter_len ps)
      \<le> sum_list (map BgpOpenMessageParameter_len acc) + length (fragment s) \<and>
    (fail_on_capability_error ctx \<longrightarrow> ctx' = ctx)"
  using assms
proof (induction "length (fragment s)" arbitrary: s acc ctx rule: less_induct)
  case less
  show ?case
  proof (cases "span_is_empty s")
    case True
    with less.prems show ?thesis by (simp add: params_empty)
  next
    case False
    then show ?thesis
    proof (cases rule: params_step [where ctx = ctx])
      case (Stop e ctx'')
      with less.prems show ?thesis by simp
    next
      case (Push s' p ctx'')
      with less.hyps [of s' "acc @ [p]" ctx''] less.prems param_parsed [OF Push(1)]
      show ?thesis by auto
    qed
  qed
qed

lemma params_read_enc:
  assumes "list_all param_wf ps" "fragment s = concat (map (\<lambda>p. fst (BgpOpenMessageParameter_write L p)) ps)"
  shows "parse_params L s acc ctx = Some (Ok (acc @ ps), ctx)"
  using assms
proof (induction ps arbitrary: s acc)
  case Nil
  then show ?case by (simp add: params_empty span_is_empty_def)
next
  case (Cons p ps)
  have "fst (BgpOpenMessageParameter_write L p) \<noteq> []"
    by (cases p) (simp add: BgpOpenMessageParameter_write_eq)
  then have "\<not> span_is_empty s" using Cons.prems by (auto simp: span_is_empty_def)
  moreover have "BgpOpenMessageParameter_from_wire L s ctx =
      Some (Ok (span_slice_from (BgpOpenMessageParameter_len p) s, p), ctx)"
    using Cons.prems by (intro param_read_enc) auto
  moreover have "parse_params L (span_slice_from (BgpOpenMessageParameter_len p) s) (acc @ [p]) ctx =
    Some (Ok ((acc @ [p]) @ ps), ctx)"
    using Cons.prems param_len_write [of p] by (intro Cons.IH) auto
  ultimately show ?case by (simp add: parse_params.simps [of L s])
qed

subsection \<open>The message\<close>

lemma open_returns: "\<exists>r. BgpOpenMessage_from_wire L s ctx = Some r"
proof -
  have "\<exists>r. (case parse_params L d [] ctx of None \<Rightarrow> None
      | Some (Err e, ctx) \<Rightarrow> Some (Err e, ctx)
      | Some (Ok ps, ctx) \<Rightarrow> Some (Ok (buf, BgpOpenMessage_new a h i ps), ctx)) = Some r" for d buf a h i
    using params_returns [of d "[]" ctx] by (auto split: result.splits)
  then show ?thesis
    by (auto simp: BgpOpenMessage_from_wire_def split: result.splits)
qed

lemma write_inject:
  "bo_write_u16 L a = bo_write_u16 L a' \<longleftrightarrow> a = a'" "bo_write_u32 L i = bo_write_u32 L i' \<longleftrightarrow> i = i'"
  using be_nat_write by metis+

lemma fixed_Ok_iff:
  "BgpOpenMessage_fixed L s = Ok (s', (a, h, i)) \<longleftrightarrow>
    (\<exists>bs. fragment s = BGP_VERSION # bo_write_u16 L a @ bo_write_u16 L h @ bo_write_u32 L i @ bs) \<and>
    s' = span_slice_from 9 s \<and> h \<noteq> 1 \<and> h \<noteq> 2 \<and> bgp_id_ok i"
  by (auto simp: BgpOpenMessage_fixed_def Let_def result_simps map_res_Ok_iff be_u8_Ok_iff be_u16_Ok_iff
      be_u32_Ok_iff bgp_id_ok_def BGP_VERSION_def write_inject)

lemma open_parsed:
  assumes "BgpOpenMessage_from_wire L s ctx = Some (Ok (s', open), ctx')"
  shows "open_wf open \<and> BgpOpenMessage_len open + length (fragment s') \<le> length (fragment s) \<and>
    (fail_on_capability_error ctx \<longrightarrow> ctx' = ctx)"
proof -
  from assms obtain a h i t and d :: span and ps where fixed: "BgpOpenMessage_fixed L s = Ok (t, (a, h, i))"
    and d: "length_data L BgpOpenMessageParsingError.NomError t = Ok (s', d)"
    and ps: "parse_params L d [] ctx = Some (Ok ps, ctx')" and o: "open = BgpOpenMessage_new a h i ps"
    by (auto simp: BgpOpenMessage_from_wire_def result_simps split: result.splits option.splits)
  from length_data_shrinks [OF d] params_parsed [OF ps] fixed [unfolded fixed_Ok_iff] o
  show ?thesis by (auto simp: open_wf_def BgpOpenMessage_new_def BgpOpenMessage_len_def)
qed

lemma open_read_enc:
  assumes wf: "open_wf open" and frag: "fragment s = fst (BgpOpenMessage_write L open) @ rest"
  shows "BgpOpenMessage_from_wire L s ctx = Some (Ok (span_slice_from (BgpOpenMessage_len open) s, open), ctx)"
proof -
  let ?data = "concat (map (\<lambda>p. fst (BgpOpenMessageParameter_write L p)) (params open))"
  have dl: "length ?data = sum_list (map BgpOpenMessageParameter_len (params open))"
    by (simp add: length_concat comp_def)
  have fixed: "BgpOpenMessage_fixed L s =
      Ok (span_slice_from 9 s, (my_as open, hold_time open, bgp_id open))"
    using wf frag by (simp add: fixed_Ok_iff open_wf_def BgpOpenMessage_write_eq)
  have len: "unat (of_nat (length ?data) :: u8) = length ?data"
    using wf by (simp only: dl) (simp add: unat_of_nat_u8_id open_wf_def)
  have "fragment (span_slice_from 9 s) = of_nat (length ?data) # ?data @ rest"
    using frag by (simp only: dl) (simp add: BgpOpenMessage_write_eq)
  from length_data_Ok [OF this len]
  have data: "length_data L BgpOpenMessageParsingError.NomError (span_slice_from 9 s) =
      Ok (span_slice_from (BgpOpenMessage_len open) s, \<lparr>offset = offset s + 10, fragment = ?data\<rparr>)"
    by (simp only: dl BgpOpenMessage_len_def) (simp add: add.commute)
  have ps: "parse_params L \<lparr>offset = offset s + 10, fragment = ?data\<rparr> [] ctx = Some (Ok (params open), ctx)"
    using wf params_read_enc [of "params open" _ "[]" ctx] by (simp add: open_wf_def)
  have "open = BgpOpenMessage_new (my_as open) (hold_time open) (bgp_id open) (params open)"
    using wf by (simp add: BgpOpenMessage_new_def open_wf_def)
  then show ?thesis by (simp add: BgpOpenMessage_from_wire_def fixed data ps)
qed

end

text \<open>
  C11: the OPEN parser returns on every input and in every context.  What it accepts is a
  version 4 message with an acceptable hold time and a valid identifier whose parameters
  fit the one-octet lengths, no longer than the bytes consumed, and a context that is strict about
  capabilities is left as it was.
\<close>

theorem open_from_wire_sound:
  assumes "wire_lib_laws L"
  shows "\<exists>r ctx'. BgpOpenMessage_from_wire L s ctx = Some (r, ctx') \<and>
    (case r of Err e \<Rightarrow> True
     | Ok (s', open) \<Rightarrow> open_wf open \<and> BgpOpenMessage_len open + span_len s' \<le> span_len s \<and>
         (fail_on_capability_error ctx \<longrightarrow> ctx' = ctx))"
proof -
  obtain r ctx' where r: "BgpOpenMessage_from_wire L s ctx = Some (r, ctx')"
    using wire_lib_laws.open_returns [OF assms, of s ctx] by auto
  show ?thesis
  proof (cases r)
    case (Ok p)
    then show ?thesis using r wire_lib_laws.open_parsed [OF assms, of s ctx "fst p" "snd p" ctx']
      by (cases p) (simp add: span_len_def)
  next
    case (Err e)
    with r show ?thesis by simp
  qed
qed

text \<open>
  C8: a well-formed OPEN message is parsed back from its serialization, whatever bytes follow,
  with the context unchanged; with the previous property, every accepted OPEN message
  survives being written and parsed again.
\<close>

theorem open_roundtrip:
  assumes "wire_lib_laws L" "open_wf open"
  shows "snd (BgpOpenMessage_write L open) = Ok () \<and>
    length (fst (BgpOpenMessage_write L open)) = BgpOpenMessage_len open \<and>
    BgpOpenMessage_from_wire L (span_new (fst (BgpOpenMessage_write L open) @ rest)) ctx =
      Some (Ok (\<lparr>offset = BgpOpenMessage_len open, fragment = rest\<rparr>, open), ctx)"
  using wire_lib_laws.open_read_enc [OF assms, of "span_new (fst (BgpOpenMessage_write L open) @ rest)" rest ctx]
    wire_lib_laws.open_len_write [OF assms(1), of "open"]
  by (simp add: span_eqI)

text \<open>A concrete OPEN message: AS 100, hold time 180, identifier 255.0.0.255, route refresh.\<close>

definition example_open :: BgpOpenMessage where
  "example_open = BgpOpenMessage_new 100 180 0xff0000ff [Capabilities [BgpCapability.RouteRefresh]]"

lemma example_open_wf: "open_wf example_open"
  by (simp add: example_open_def BgpOpenMessage_new_def open_wf_def bgp_id_ok_def is_broadcast_def
      is_multicast_def is_unspecified_def BgpCapability_len_def)

lemma example_open_bytes:
  "fst (BgpOpenMessage_write net_lib example_open) =
    [4, 0, 100, 0, 180, 255, 0, 0, 255, 4, 2, 2, 2, 0]"
  by (simp add: example_open_def BgpOpenMessage_new_def BgpOpenMessage_write_eq BGP_VERSION_def
      BgpOpenMessageParameter_write_eq net.write_u16_eq net.write_u32_law be_bytes_4 BgpCapability_len_def
      BgpCapability_write_def known_code_def)

theorem open_from_wire_sound_witness:
  "wire_lib_laws net_lib \<and>
   (\<exists>r ctx'. BgpOpenMessage_from_wire net_lib (span_new [4, 0, 100, 0, 1]) BgpParsingContext_default =
      Some (r :: (BgpOpenMessage, BgpOpenMessageParsingError) iresult, ctx' :: (nat, nat) BgpParsingContext))"
  using open_from_wire_sound [OF net.wire_lib_laws_axioms, of "span_new [4, 0, 100, 0, 1]"
      "BgpParsingContext_default :: (nat, nat) BgpParsingContext"] net.wire_lib_laws_axioms
  by auto

theorem open_roundtrip_witness:
  "wire_lib_laws net_lib \<and> open_wf example_open \<and>
   BgpOpenMessage_from_wire net_lib (span_new [4, 0, 100, 0, 180, 255, 0, 0, 255, 4, 2, 2, 2, 0, 7])
     (BgpParsingContext_default :: (nat, nat) BgpParsingContext) =
   Some (Ok (\<lparr>offset = 14, fragment = [7]\<rparr>, example_open), BgpParsingContext_default)"
  using open_roundtrip [OF net.wire_lib_laws_axioms example_open_wf, of "[7]"
      "BgpParsingContext_default :: (nat, nat) BgpParsingContext"]
    net.wire_lib_laws_axioms example_open_wf
  by (simp add: example_open_bytes)



end
