(* ===== verification/Bgp_Update.thy ===== *)
theory Bgp_Update
  imports Bgp_Context Bgp_Notification
begin

text \<open>
  BGP UPDATE messages as data: \<open>crates/bgp-pkt/src/update.rs\<close>, the path attributes of
  \<open>path_attribute/path_attribute.rs\<close>, and the errors of \<open>wire/deserializer/update.rs\<close> and
  \<open>wire/deserializer/path_attribute\<close> with the notification they lead to.

  Two type parameters stand for data that the modelled code only carries: \<open>'x\<close> for extended
  communities, the bodies of the BGP-LS and segment routing attributes and the routes of the address
  families other than IPv4 unicast, and \<open>'e\<close> for the errors of their parsers.
\<close>

section \<open>Data\<close>

text \<open>An IPv4 network of the crate \<open>ipnet\<close>: an address and a prefix length.\<close>

record Ipv4Net =
  net_addr :: u32
  net_prefix_len :: u8

datatype (plugins only: code) Ipv4Unicast = Ipv4Unicast (unicast_net: Ipv4Net)

datatype (plugins only: code) InvalidIpv4UnicastNetwork = InvalidIpv4UnicastNetwork Ipv4Net

record Ipv4UnicastAddress =
  path_id :: "u32 option"
  network :: Ipv4Unicast

datatype (plugins only: code) IpAddr = V4 u32 | V6 u128

datatype (plugins only: code) RouteDistinguisher =
    As2Administrator u16 u32
  | Ipv4Administrator u32 u16
  | As4Administrator u32 u16
  | LeafAdRoutes

datatype (plugins only: code) LabeledNextHop =
    Ipv4 RouteDistinguisher u32
  | Ipv6 RouteDistinguisher u128 "u128 option"

datatype (plugins only: code) Origin = IGP | EGP | Incomplete

datatype (plugins only: code) UndefinedOrigin = UndefinedOrigin u8

primrec u8_from_Origin :: "Origin \<Rightarrow> u8" where
  "u8_from_Origin IGP = 0"
| "u8_from_Origin EGP = 1"
| "u8_from_Origin Incomplete = 2"

definition Origin_try_from :: "u8 \<Rightarrow> (Origin, UndefinedOrigin) result" where
  "Origin_try_from v =
     (case List.find (\<lambda>e. u8_from_Origin e = v) [IGP, EGP, Incomplete] of
        Some val \<Rightarrow> Ok val | None \<Rightarrow> Err (UndefinedOrigin v))"

datatype (plugins only: code) AsPathSegmentType = AsSet | AsSequence

record As2PathSegment =
  as2_segment_type :: AsPathSegmentType
  as2_numbers :: "u16 list"

record As4PathSegment =
  as4_segment_type :: AsPathSegmentType
  as4_numbers :: "u32 list"

datatype (plugins only: code) AsPath = As2PathSegments "As2PathSegment list" | As4PathSegments "As4PathSegment list"

primrec u32_list_from_AsPath :: "AsPath \<Rightarrow> u32 list" where
  "u32_list_from_AsPath (As2PathSegments segments) = concat (map (\<lambda>seg. map ucast (as2_numbers seg)) segments)"
| "u32_list_from_AsPath (As4PathSegments segments) = concat (map as4_numbers segments)"

datatype (plugins only: code) Aggregator = As2Aggregator u16 u32 | As4Aggregator u32 u32

record LargeCommunity =
  global_admin :: u32
  local_data1 :: u32
  local_data2 :: u32

datatype (plugins only: code) PathAttributeLength = U8 u8 | U16 u16

record UnknownAttribute =
  ua_code :: u8
  ua_value :: bytes

datatype (plugins only: code) 'x MpReach =
    Ipv4Unicast IpAddr "u128 option" "Ipv4UnicastAddress list"
  | Ipv4Multicast IpAddr "u128 option" "'x list"
  | Ipv4NlriMplsLabels IpAddr "u128 option" "'x list"
  | Ipv4MplsVpnUnicast LabeledNextHop "'x list"
  | Ipv6Unicast u128 "u128 option" "'x list"
  | Ipv6Multicast u128 "u128 option" "'x list"
  | Ipv6NlriMplsLabels IpAddr "u128 option" "'x list"
  | Ipv6MplsVpnUnicast LabeledNextHop "'x list"
  | L2Evpn IpAddr "'x list"
  | RouteTargetMembership IpAddr "'x list"
  | BgpLs IpAddr "'x list"
  | BgpLsVpn LabeledNextHop "'x list"
  | Unknown AddressFamily SubsequentAddressFamily bytes

datatype (plugins only: code) 'x MpUnreach =
    Ipv4Unicast "Ipv4UnicastAddress list"
  | Ipv4Multicast "'x list"
  | Ipv4NlriMplsLabels "'x list"
  | Ipv4MplsVpnUnicast "'x list"
  | Ipv6Unicast "'x list"
  | Ipv6Multicast "'x list"
  | Ipv6NlriMplsLabels "'x list"
  | Ipv6MplsVpnUnicast "'x list"
  | L2Evpn "'x list"
  | RouteTargetMembership "'x list"
  | BgpLs "'x list"
  | BgpLsVpn "'x list"
  | Unknown AddressFamily SubsequentAddressFamily bytes

primrec MpReach_address_type ::
  "'x MpReach \<Rightarrow> (AddressType, AddressFamily \<times> SubsequentAddressFamily) result" where
  "MpReach_address_type (MpReach.Ipv4Unicast _ _ _) = Ok AddressType.Ipv4Unicast"
| "MpReach_address_type (MpReach.Ipv4Multicast _ _ _) = Ok AddressType.Ipv4Multicast"
| "MpReach_address_type (MpReach.Ipv4NlriMplsLabels _ _ _) = Ok AddressType.Ipv4NlriMplsLabels"
| "MpReach_address_type (MpReach.Ipv4MplsVpnUnicast _ _) = Ok AddressType.Ipv4MplsLabeledVpn"
| "MpReach_address_type (MpReach.Ipv6Unicast _ _ _) = Ok AddressType.Ipv6Unicast"
| "MpReach_address_type (MpReach.Ipv6Multicast _ _ _) = Ok AddressType.Ipv6Multicast"
| "MpReach_address_type (MpReach.Ipv6NlriMplsLabels _ _ _) = Ok AddressType.Ipv6NlriMplsLabels"
| "MpReach_address_type (MpReach.Ipv6MplsVpnUnicast _ _) = Ok AddressType.Ipv6MplsLabeledVpn"
| "MpReach_address_type (MpReach.L2Evpn _ _) = Ok AddressType.L2VpnBgpEvpn"
| "MpReach_address_type (MpReach.RouteTargetMembership _ _) = Ok AddressType.RouteTargetConstrains"
| "MpReach_address_type (MpReach.BgpLs _ _) = Ok AddressType.BgpLs"
| "MpReach_address_type (MpReach.BgpLsVpn _ _) = Ok AddressType.BgpLsVpn"
| "MpReach_address_type (MpReach.Unknown afi safi _) = Err (afi, safi)"

primrec MpUnreach_address_type ::
  "'x MpUnreach \<Rightarrow> (AddressType, AddressFamily \<times> SubsequentAddressFamily) result" where
  "MpUnreach_address_type (MpUnreach.Ipv4Unicast _) = Ok AddressType.Ipv4Unicast"
| "MpUnreach_address_type (MpUnreach.Ipv4Multicast _) = Ok AddressType.Ipv4Multicast"
| "MpUnreach_address_type (MpUnreach.Ipv4NlriMplsLabels _) = Ok AddressType.Ipv4NlriMplsLabels"
| "MpUnreach_address_type (MpUnreach.Ipv4MplsVpnUnicast _) = Ok AddressType.Ipv4MplsLabeledVpn"
| "MpUnreach_address_type (MpUnreach.Ipv6Unicast _) = Ok AddressType.Ipv6Unicast"
| "MpUnreach_address_type (MpUnreach.Ipv6Multicast _) = Ok AddressType.Ipv6Multicast"
| "MpUnreach_address_type (MpUnreach.Ipv6NlriMplsLabels _) = Ok AddressType.Ipv6NlriMplsLabels"
| "MpUnreach_address_type (MpUnreach.Ipv6MplsVpnUnicast _) = Ok AddressType.Ipv6MplsLabeledVpn"
| "MpUnreach_address_type (MpUnreach.L2Evpn _) = Ok AddressType.L2VpnBgpEvpn"
| "MpUnreach_address_type (MpUnreach.RouteTargetMembership _) = Ok AddressType.RouteTargetConstrains"
| "MpUnreach_address_type (MpUnreach.BgpLs _) = Ok AddressType.BgpLs"
| "MpUnreach_address_type (MpUnreach.BgpLsVpn _) = Ok AddressType.BgpLsVpn"
| "MpUnreach_address_type (MpUnreach.Unknown afi safi _) = Err (afi, safi)"

datatype (plugins only: code) 'x PathAttributeValue =
    Origin Origin
  | AsPath AsPath
  | As4Path "As4PathSegment list"
  | NextHop u32
  | MultiExitDiscriminator u32
  | LocalPreference u32
  | AtomicAggregate
  | Aggregator Aggregator
  | Communities "u32 list"
  | ExtendedCommunities "'x list"
  | ExtendedCommunitiesIpv6 "'x list"
  | LargeCommunities "LargeCommunity list"
  | Originator u32
  | ClusterList "u32 list"
  | MpReach "'x MpReach"
  | MpUnreach "'x MpUnreach"
  | BgpLs 'x
  | OnlyToCustomer u32
  | Aigp u64
  | PrefixSegmentIdentifier 'x
  | UnknownAttribute UnknownAttribute

text \<open>Which flags an attribute may carry: \<open>None\<close> is either value.\<close>

primrec can_be_optional :: "'x PathAttributeValue \<Rightarrow> bool option" where
  "can_be_optional (PathAttributeValue.Origin _) = Some False"
| "can_be_optional (PathAttributeValue.AsPath _) = Some False"
| "can_be_optional (PathAttributeValue.As4Path _) = Some True"
| "can_be_optional (PathAttributeValue.NextHop _) = Some False"
| "can_be_optional (PathAttributeValue.MultiExitDiscriminator _) = Some True"
| "can_be_optional (PathAttributeValue.LocalPreference _) = Some False"
| "can_be_optional PathAttributeValue.AtomicAggregate = Some False"
| "can_be_optional (PathAttributeValue.Aggregator _) = Some True"
| "can_be_optional (PathAttributeValue.Communities _) = Some True"
| "can_be_optional (PathAttributeValue.ExtendedCommunities _) = Some True"
| "can_be_optional (PathAttributeValue.ExtendedCommunitiesIpv6 _) = Some True"
| "can_be_optional (PathAttributeValue.LargeCommunities _) = Some True"
| "can_be_optional (PathAttributeValue.Originator _) = Some True"
| "can_be_optional (PathAttributeValue.ClusterList _) = Some True"
| "can_be_optional (PathAttributeValue.MpReach _) = Some True"
| "can_be_optional (PathAttributeValue.MpUnreach _) = Some True"
| "can_be_optional (PathAttributeValue.BgpLs _) = Some True"
| "can_be_optional (PathAttributeValue.OnlyToCustomer _) = Some True"
| "can_be_optional (PathAttributeValue.Aigp _) = Some True"
| "can_be_optional (PathAttributeValue.PrefixSegmentIdentifier _) = Some True"
| "can_be_optional (PathAttributeValue.UnknownAttribute _) = None"

primrec can_be_transitive :: "'x PathAttributeValue \<Rightarrow> bool option" where
  "can_be_transitive (PathAttributeValue.Origin _) = Some True"
| "can_be_transitive (PathAttributeValue.AsPath _) = Some True"
| "can_be_transitive (PathAttributeValue.As4Path _) = Some True"
| "can_be_transitive (PathAttributeValue.NextHop _) = Some True"
| "can_be_transitive (PathAttributeValue.MultiExitDiscriminator _) = Some False"
| "can_be_transitive (PathAttributeValue.LocalPreference _) = Some True"
| "can_be_transitive PathAttributeValue.AtomicAggregate = Some True"
| "can_be_transitive (PathAttributeValue.Aggregator _) = Some True"
| "can_be_transitive (PathAttributeValue.Communities _) = Some True"
| "can_be_transitive (PathAttributeValue.ExtendedCommunities _) = Some True"
| "can_be_transitive (PathAttributeValue.ExtendedCommunitiesIpv6 _) = Some True"
| "can_be_transitive (PathAttributeValue.LargeCommunities _) = Some True"
| "can_be_transitive (PathAttributeValue.Originator _) = Some False"
| "can_be_transitive (PathAttributeValue.ClusterList _) = Some False"
| "can_be_transitive (PathAttributeValue.MpReach _) = Some False"
| "can_be_transitive (PathAttributeValue.MpUnreach _) = Some False"
| "can_be_transitive (PathAttributeValue.BgpLs _) = Some False"
| "can_be_transitive (PathAttributeValue.OnlyToCustomer _) = Some True"
| "can_be_transitive (PathAttributeValue.Aigp _) = Some False"
| "can_be_transitive (PathAttributeValue.PrefixSegmentIdentifier _) = Some True"
| "can_be_transitive (PathAttributeValue.UnknownAttribute _) = None"

primrec can_be_partial :: "'x PathAttributeValue \<Rightarrow> bool option" where
  "can_be_partial (PathAttributeValue.Origin _) = Some False"
| "can_be_partial (PathAttributeValue.AsPath _) = Some False"
| "can_be_partial (PathAttributeValue.As4Path _) = None"
| "can_be_partial (PathAttributeValue.NextHop _) = Some False"
| "can_be_partial (PathAttributeValue.MultiExitDiscriminator _) = Some False"
| "can_be_partial (PathAttributeValue.LocalPreference _) = Some False"
| "can_be_partial PathAttributeValue.AtomicAggregate = Some False"
| "can_be_partial (PathAttributeValue.Aggregator _) = None"
| "can_be_partial (PathAttributeValue.Communities _) = None"
| "can_be_partial (PathAttributeValue.ExtendedCommunities _) = None"
| "can_be_partial (PathAttributeValue.ExtendedCommunitiesIpv6 _) = None"
| "can_be_partial (PathAttributeValue.LargeCommunities _) = None"
| "can_be_partial (PathAttributeValue.Originator _) = Some False"
| "can_be_partial (PathAttributeValue.ClusterList _) = Some False"
| "can_be_partial (PathAttributeValue.MpReach _) = Some False"
| "can_be_partial (PathAttributeValue.MpUnreach _) = Some False"
| "can_be_partial (PathAttributeValue.BgpLs _) = Some False"
| "can_be_partial (PathAttributeValue.OnlyToCustomer _) = Some False"
| "can_be_partial (PathAttributeValue.Aigp _) = Some False"
| "can_be_partial (PathAttributeValue.PrefixSegmentIdentifier _) = None"
| "can_be_partial (PathAttributeValue.UnknownAttribute _) = None"

primrec path_attribute_type :: "'x PathAttributeValue \<Rightarrow> (PathAttributeType, u8) result" where
  "path_attribute_type (PathAttributeValue.Origin _) = Ok PathAttributeType.Origin"
| "path_attribute_type (PathAttributeValue.AsPath _) = Ok PathAttributeType.AsPath"
| "path_attribute_type (PathAttributeValue.As4Path _) = Ok PathAttributeType.As4Path"
| "path_attribute_type (PathAttributeValue.NextHop _) = Ok PathAttributeType.NextHop"
| "path_attribute_type (PathAttributeValue.MultiExitDiscriminator _) = Ok PathAttributeType.MultiExitDiscriminator"
| "path_attribute_type (PathAttributeValue.LocalPreference _) = Ok PathAttributeType.LocalPreference"
| "path_attribute_type PathAttributeValue.AtomicAggregate = Ok PathAttributeType.AtomicAggregate"
| "path_attribute_type (PathAttributeValue.Aggregator _) = Ok PathAttributeType.Aggregator"
| "path_attribute_type (PathAttributeValue.Communities _) = Ok PathAttributeType.Communities"
| "path_attribute_type (PathAttributeValue.ExtendedCommunities _) = Ok PathAttributeType.ExtendedCommunities"
| "path_attribute_type (PathAttributeValue.ExtendedCommunitiesIpv6 _) = Ok PathAttributeType.ExtendedCommunitiesIpv6"
| "path_attribute_type (PathAttributeValue.LargeCommunities _) = Ok PathAttributeType.LargeCommunities"
| "path_attribute_type (PathAttributeValue.Originator _) = Ok PathAttributeType.OriginatorId"
| "path_attribute_type (PathAttributeValue.ClusterList _) = Ok PathAttributeType.ClusterList"
| "path_attribute_type (PathAttributeValue.MpReach _) = Ok PathAttributeType.MpReachNlri"
| "path_attribute_type (PathAttributeValue.MpUnreach _) = Ok PathAttributeType.MpUnreachNlri"
| "path_attribute_type (PathAttributeValue.BgpLs _) = Ok PathAttributeType.BgpLsAttribute"
| "path_attribute_type (PathAttributeValue.OnlyToCustomer _) = Ok PathAttributeType.OnlyToCustomer"
| "path_attribute_type (PathAttributeValue.Aigp _) = Ok PathAttributeType.AccumulatedIgp"
| "path_attribute_type (PathAttributeValue.PrefixSegmentIdentifier _) = Ok PathAttributeType.BgpPrefixSid"
| "path_attribute_type (PathAttributeValue.UnknownAttribute u) = Err (ua_code u)"

datatype (plugins only: code) InvalidPathAttribute =
    InvalidOptionalFlagValue bool
  | InvalidTransitiveFlagValue bool
  | InvalidPartialFlagValue bool

record 'x PathAttribute =
  optional :: bool
  transitive :: bool
  partial :: bool
  extended_length :: bool
  attr_value :: "'x PathAttributeValue"

definition flag_conflict :: "bool option \<Rightarrow> bool \<Rightarrow> bool" where
  "flag_conflict allowed flag = (case map_option (\<lambda>x. x \<noteq> flag) allowed of Some b \<Rightarrow> b | None \<Rightarrow> False)"

definition PathAttribute_from ::
  "bool \<Rightarrow> bool \<Rightarrow> bool \<Rightarrow> bool \<Rightarrow> 'x PathAttributeValue \<Rightarrow>
     ('x PathAttribute, 'x PathAttributeValue \<times> InvalidPathAttribute) result" where
  "PathAttribute_from opt tr part ext v =
     (if flag_conflict (can_be_optional v) opt then Err (v, InvalidOptionalFlagValue opt)
      else if flag_conflict (can_be_transitive v) tr then Err (v, InvalidTransitiveFlagValue tr)
      else if flag_conflict (can_be_partial v) part then Err (v, InvalidPartialFlagValue part)
      else Ok \<lparr>optional = opt, transitive = tr, partial = part, extended_length = ext, attr_value = v\<rparr>)"

record 'x BgpUpdateMessage =
  withdrawn_routes :: "Ipv4UnicastAddress list"
  path_attributes :: "'x PathAttribute list"
  nlri :: "Ipv4UnicastAddress list"

section \<open>End-of-RIB markers\<close>

text \<open>The value of \<open>current\<close> after an \<open>MP_UNREACH_NLRI\<close> attribute.\<close>

primrec eor_of_unreach :: "AddressType option \<Rightarrow> 'x MpUnreach \<Rightarrow> AddressType option" where
  "eor_of_unreach current (MpUnreach.Ipv4Unicast ns) = (if ns = [] then Some AddressType.Ipv4Unicast else current)"
| "eor_of_unreach current (MpUnreach.Ipv4Multicast ns) = (if ns = [] then Some AddressType.Ipv4Multicast else current)"
| "eor_of_unreach current (MpUnreach.Ipv4NlriMplsLabels ns) =
     (if ns = [] then Some AddressType.Ipv4NlriMplsLabels else current)"
| "eor_of_unreach current (MpUnreach.Ipv4MplsVpnUnicast ns) =
     (if ns = [] then Some AddressType.Ipv4MplsLabeledVpn else current)"
| "eor_of_unreach current (MpUnreach.Ipv6Unicast ns) = (if ns = [] then Some AddressType.Ipv6Unicast else current)"
| "eor_of_unreach current (MpUnreach.Ipv6Multicast ns) = (if ns = [] then Some AddressType.Ipv6Multicast else current)"
| "eor_of_unreach current (MpUnreach.Ipv6NlriMplsLabels ns) =
     (if ns = [] then Some AddressType.Ipv6NlriMplsLabels else current)"
| "eor_of_unreach current (MpUnreach.Ipv6MplsVpnUnicast ns) =
     (if ns = [] then Some AddressType.Ipv6MplsLabeledVpn else current)"
| "eor_of_unreach current (MpUnreach.L2Evpn ns) = (if ns = [] then Some AddressType.L2VpnBgpEvpn else current)"
| "eor_of_unreach current (MpUnreach.RouteTargetMembership ns) =
     (if ns = [] then Some AddressType.RouteTargetConstrains else current)"
| "eor_of_unreach current (MpUnreach.BgpLs ns) = (if ns = [] then Some AddressType.BgpLs else current)"
| "eor_of_unreach current (MpUnreach.BgpLsVpn ns) = (if ns = [] then Some AddressType.BgpLsVpn else current)"
| "eor_of_unreach current (MpUnreach.Unknown _ _ _) = None"

text \<open>The loop over the attributes, with \<open>current\<close> and \<open>mp_unreach_count\<close>.\<close>

fun eor_loop :: "AddressType option \<Rightarrow> nat \<Rightarrow> 'x PathAttribute list \<Rightarrow> AddressType option" where
  "eor_loop current mp_unreach_count [] = current"
| "eor_loop current mp_unreach_count (attr # attrs) =
     (case attr_value attr of
        PathAttributeValue.MpReach _ \<Rightarrow> None
      | PathAttributeValue.MpUnreach unreach \<Rightarrow>
          if mp_unreach_count + 1 > 1 then None
          else eor_loop (eor_of_unreach current unreach) (mp_unreach_count + 1) attrs
      | _ \<Rightarrow> eor_loop current mp_unreach_count attrs)"

definition end_of_rib :: "'x BgpUpdateMessage \<Rightarrow> AddressType option" where
  "end_of_rib update =
     (if nlri update \<noteq> [] \<or> withdrawn_routes update \<noteq> [] then None
      else if path_attributes update = [] then Some AddressType.Ipv4Unicast
      else eor_loop None 0 (path_attributes update))"

section \<open>Errors\<close>

datatype (plugins only: code) OriginParsingError =
    NomError ErrorKind
  | InvalidOriginLength PathAttributeLength
  | UndefinedOrigin UndefinedOrigin

datatype (plugins only: code) UndefinedAsPathSegmentType = UndefinedAsPathSegmentType u8

datatype (plugins only: code) AsPathParsingError =
    NomError ErrorKind
  | ZeroSegmentLength
  | InvalidAsPathLength nat nat
  | UndefinedAsPathSegmentType UndefinedAsPathSegmentType

datatype (plugins only: code) NextHopParsingError = NomError ErrorKind | InvalidNextHopLength PathAttributeLength

datatype (plugins only: code) MultiExitDiscriminatorParsingError = NomError ErrorKind | InvalidLength PathAttributeLength

datatype (plugins only: code) LocalPreferenceParsingError = NomError ErrorKind | InvalidLength PathAttributeLength

datatype (plugins only: code) AtomicAggregateParsingError = NomError ErrorKind | InvalidLength PathAttributeLength

datatype (plugins only: code) AggregatorParsingError = NomError ErrorKind | InvalidLength PathAttributeLength

datatype (plugins only: code) CommunityParsingError = NomError ErrorKind

datatype (plugins only: code) CommunitiesParsingError = NomError ErrorKind | CommunityError CommunityParsingError

datatype (plugins only: code) 'e ExtendedCommunitiesParsingError = NomError ErrorKind | ExtendedCommunityError 'e

datatype (plugins only: code) 'e ExtendedCommunitiesIpv6ParsingError = NomError ErrorKind | ExtendedCommunityIpv6Error 'e

datatype (plugins only: code) LargeCommunityParsingError = NomError ErrorKind

datatype (plugins only: code) LargeCommunitiesParsingError = NomError ErrorKind | LargeCommunityError LargeCommunityParsingError

datatype (plugins only: code) OriginatorParsingError = NomError ErrorKind

datatype (plugins only: code) ClusterIdParsingError = NomError ErrorKind

datatype (plugins only: code) ClusterListParsingError = NomError ErrorKind | ClusterIdError ClusterIdParsingError

datatype (plugins only: code) UndefinedAigpAttributeType = UndefinedAigpAttributeType u8

datatype (plugins only: code) AigpParsingError =
    NomError ErrorKind
  | UndefinedAigpAttributeType UndefinedAigpAttributeType
  | InvalidLength u16

datatype (plugins only: code) OnlyToCustomerParsingError = NomError ErrorKind

datatype (plugins only: code) UnknownAttributeParsingError = NomError ErrorKind | InvalidLength nat nat

datatype (plugins only: code) Ipv4PrefixParsingError = NomError ErrorKind | InvalidIpv4PrefixLen u8

datatype (plugins only: code) Ipv4UnicastParsingError =
    Ipv4PrefixError Ipv4PrefixParsingError
  | InvalidUnicastNetwork InvalidIpv4UnicastNetwork

datatype (plugins only: code) Ipv4UnicastAddressParsingError = NomError ErrorKind | Ipv4UnicastError Ipv4UnicastParsingError

datatype (plugins only: code) IpAddrParsingError = NomError ErrorKind | InvalidIpAddressType u8 | InvalidIpAddressLength u8

datatype (plugins only: code) UndefinedRouteDistinguisherTypeCode = UndefinedRouteDistinguisherTypeCode u16

datatype (plugins only: code) RouteDistinguisherParsingError =
    NomError ErrorKind
  | UndefinedRouteDistinguisherTypeCode UndefinedRouteDistinguisherTypeCode
  | InvalidLeafAdRoutes u16 u32

datatype (plugins only: code) LabeledIpv4NextHopParsingError =
    NomError ErrorKind
  | RouteDistinguisherError RouteDistinguisherParsingError

datatype (plugins only: code) LabeledIpv6NextHopParsingError =
    NomError ErrorKind
  | RouteDistinguisherError RouteDistinguisherParsingError

datatype (plugins only: code) LabeledNextHopParsingError =
    NomError ErrorKind
  | InvalidLength u8
  | LabeledIpv4NextHopError LabeledIpv4NextHopParsingError
  | LabeledIpv6NextHopError LabeledIpv6NextHopParsingError

datatype (plugins only: code) 'e MpReachParsingError =
    NomError ErrorKind
  | UndefinedAddressFamily UndefinedAddressFamily
  | UndefinedSubsequentAddressFamily UndefinedSubsequentAddressFamily
  | IpAddrError AddressType IpAddrParsingError
  | LabeledNextHopError AddressType LabeledNextHopParsingError
  | Ipv4UnicastAddressError Ipv4UnicastAddressParsingError
  | Ipv4MulticastAddressError 'e
  | Ipv4NlriMplsLabelsAddressError 'e
  | Ipv4MplsVpnUnicastAddressError 'e
  | Ipv6UnicastAddressError 'e
  | Ipv6NlriMplsLabelsAddressError 'e
  | Ipv6MulticastAddressError 'e
  | Ipv6MplsVpnUnicastAddressError 'e
  | L2EvpnAddressError 'e
  | RouteTargetMembershipAddressError 'e
  | BgpLsNlriParsingError 'e

datatype (plugins only: code) 'e MpUnreachParsingError =
    NomError ErrorKind
  | UndefinedAddressFamily UndefinedAddressFamily
  | UndefinedSubsequentAddressFamily UndefinedSubsequentAddressFamily
  | Ipv4UnicastAddressError Ipv4UnicastAddressParsingError
  | Ipv4MulticastAddressError 'e
  | Ipv4NlriMplsLabelsAddressError 'e
  | Ipv4MplsVpnUnicastAddressError 'e
  | Ipv6UnicastAddressError 'e
  | Ipv6MulticastAddressError 'e
  | Ipv6NlriMplsLabelsAddressError 'e
  | Ipv6MplsVpnUnicastAddressError 'e
  | L2EvpnAddressError 'e
  | RouteTargetMembershipAddressError 'e
  | BgpLsError 'e

datatype (plugins only: code) ('x, 'e) PathAttributeParsingError =
    NomError ErrorKind
  | OriginError OriginParsingError
  | AsPathError AsPathParsingError
  | NextHopError NextHopParsingError
  | MultiExitDiscriminatorError MultiExitDiscriminatorParsingError
  | LocalPreferenceError LocalPreferenceParsingError
  | AtomicAggregateError AtomicAggregateParsingError
  | AggregatorError AggregatorParsingError
  | CommunitiesError CommunitiesParsingError
  | ExtendedCommunitiesError "'e ExtendedCommunitiesParsingError"
  | ExtendedCommunitiesErrorIpv6 "'e ExtendedCommunitiesIpv6ParsingError"
  | LargeCommunitiesError LargeCommunitiesParsingError
  | OriginatorError OriginatorParsingError
  | ClusterListError ClusterListParsingError
  | MpReachErrorError "'e MpReachParsingError"
  | MpUnreachErrorError "'e MpUnreachParsingError"
  | OnlyToCustomerError OnlyToCustomerParsingError
  | AigpError AigpParsingError
  | BgpLsError 'e
  | SegmentIdentifierParsingError 'e
  | UnknownAttributeError UnknownAttributeParsingError
  | InvalidPathAttribute InvalidPathAttribute "'x PathAttributeValue"

datatype (plugins only: code) ('x, 'e) BgpUpdateMessageParsingError =
    NomError ErrorKind
  | PathAttributeError "('x, 'e) PathAttributeParsingError"
  | Ipv4PrefixError Ipv4PrefixParsingError
  | InvalidIpv4UnicastNetwork InvalidIpv4UnicastNetwork

type_synonym ('x, 'e) ignored_errors = "(Ipv4Net, ('x, 'e) PathAttributeParsingError) BgpParsingIgnoredErrors"
type_synonym ('x, 'e) parsing_context = "(Ipv4Net, ('x, 'e) PathAttributeParsingError) BgpParsingContext"

primrec UpdateMessageError_from_attr :: "('x, 'e) PathAttributeParsingError \<Rightarrow> UpdateMessageError" where
  "UpdateMessageError_from_attr (PathAttributeParsingError.NomError _) = UpdateMessageError.MalformedAttributeList []"
| "UpdateMessageError_from_attr (OriginError _) = UpdateMessageError.InvalidOriginAttribute []"
| "UpdateMessageError_from_attr (AsPathError _) = UpdateMessageError.MalformedAsPath []"
| "UpdateMessageError_from_attr (NextHopError _) = UpdateMessageError.InvalidNextHopAttribute []"
| "UpdateMessageError_from_attr (MultiExitDiscriminatorError _) = UpdateMessageError.OptionalAttributeError []"
| "UpdateMessageError_from_attr (LocalPreferenceError _) = UpdateMessageError.OptionalAttributeError []"
| "UpdateMessageError_from_attr (AtomicAggregateError _) = UpdateMessageError.OptionalAttributeError []"
| "UpdateMessageError_from_attr (AggregatorError _) = UpdateMessageError.OptionalAttributeError []"
| "UpdateMessageError_from_attr (CommunitiesError _) = UpdateMessageError.OptionalAttributeError []"
| "UpdateMessageError_from_attr (ExtendedCommunitiesError _) = UpdateMessageError.OptionalAttributeError []"
| "UpdateMessageError_from_attr (ExtendedCommunitiesErrorIpv6 _) = UpdateMessageError.OptionalAttributeError []"
| "UpdateMessageError_from_attr (LargeCommunitiesError _) = UpdateMessageError.OptionalAttributeError []"
| "UpdateMessageError_from_attr (OriginatorError _) = UpdateMessageError.OptionalAttributeError []"
| "UpdateMessageError_from_attr (ClusterListError _) = UpdateMessageError.OptionalAttributeError []"
| "UpdateMessageError_from_attr (MpReachErrorError _) = UpdateMessageError.OptionalAttributeError []"
| "UpdateMessageError_from_attr (MpUnreachErrorError _) = UpdateMessageError.OptionalAttributeError []"
| "UpdateMessageError_from_attr (OnlyToCustomerError _) = UpdateMessageError.OptionalAttributeError []"
| "UpdateMessageError_from_attr (AigpError _) = UpdateMessageError.OptionalAttributeError []"
| "UpdateMessageError_from_attr (UnknownAttributeError _) = UpdateMessageError.Unspecific []"
| "UpdateMessageError_from_attr (PathAttributeParsingError.InvalidPathAttribute _ _) =
     UpdateMessageError.AttributeFlagsError []"
| "UpdateMessageError_from_attr (PathAttributeParsingError.BgpLsError _) = UpdateMessageError.Unspecific []"
| "UpdateMessageError_from_attr (SegmentIdentifierParsingError _) = UpdateMessageError.OptionalAttributeError []"

primrec UpdateMessageError_from :: "('x, 'e) BgpUpdateMessageParsingError \<Rightarrow> UpdateMessageError" where
  "UpdateMessageError_from (BgpUpdateMessageParsingError.NomError err) =
     (if err = Eof then UpdateMessageError.MalformedAttributeList [] else UpdateMessageError.Unspecific [])"
| "UpdateMessageError_from (PathAttributeError attr_err) = UpdateMessageError_from_attr attr_err"
| "UpdateMessageError_from (BgpUpdateMessageParsingError.Ipv4PrefixError prefix_err) =
     (if Ipv4PrefixParsingError.NomError Eof = prefix_err then UpdateMessageError.MalformedAttributeList []
      else UpdateMessageError.InvalidNetworkField [])"
| "UpdateMessageError_from (BgpUpdateMessageParsingError.InvalidIpv4UnicastNetwork _) =
     UpdateMessageError.Unspecific []"

section \<open>Properties\<close>

text \<open>The withdrawn routes of an \<open>MP_UNREACH_NLRI\<close> attribute are absent.\<close>

primrec unreach_empty :: "'x MpUnreach \<Rightarrow> bool" where
  "unreach_empty (MpUnreach.Ipv4Unicast ns) = (ns = [])"
| "unreach_empty (MpUnreach.Ipv4Multicast ns) = (ns = [])"
| "unreach_empty (MpUnreach.Ipv4NlriMplsLabels ns) = (ns = [])"
| "unreach_empty (MpUnreach.Ipv4MplsVpnUnicast ns) = (ns = [])"
| "unreach_empty (MpUnreach.Ipv6Unicast ns) = (ns = [])"
| "unreach_empty (MpUnreach.Ipv6Multicast ns) = (ns = [])"
| "unreach_empty (MpUnreach.Ipv6NlriMplsLabels ns) = (ns = [])"
| "unreach_empty (MpUnreach.Ipv6MplsVpnUnicast ns) = (ns = [])"
| "unreach_empty (MpUnreach.L2Evpn ns) = (ns = [])"
| "unreach_empty (MpUnreach.RouteTargetMembership ns) = (ns = [])"
| "unreach_empty (MpUnreach.BgpLs ns) = (ns = [])"
| "unreach_empty (MpUnreach.BgpLsVpn ns) = (ns = [])"
| "unreach_empty (MpUnreach.Unknown _ _ ns) = (ns = [])"

fun mp_unreach_of :: "'x PathAttribute \<Rightarrow> 'x MpUnreach option" where
  "mp_unreach_of a = (case attr_value a of PathAttributeValue.MpUnreach v \<Rightarrow> Some v | _ \<Rightarrow> None)"

definition is_mp_reach :: "'x PathAttribute \<Rightarrow> bool" where
  "is_mp_reach a = (case attr_value a of PathAttributeValue.MpReach _ \<Rightarrow> True | _ \<Rightarrow> False)"

definition mp_unreachs :: "'x PathAttribute list \<Rightarrow> 'x MpUnreach list" where
  "mp_unreachs as = List.map_filter mp_unreach_of as"

lemma mp_unreachs_simps:
  "mp_unreachs [] = []"
  "mp_unreachs (a # as) = (case attr_value a of PathAttributeValue.MpUnreach v \<Rightarrow> v # mp_unreachs as | _ \<Rightarrow> mp_unreachs as)"
  by (simp_all add: mp_unreachs_def List.map_filter_def split: PathAttributeValue.splits)

lemma eor_of_unreach_eq:
  "eor_of_unreach None v = Some t \<longleftrightarrow> unreach_empty v \<and> MpUnreach_address_type v = Ok t"
  by (cases v) auto

lemma eor_loop_seen:
  "eor_loop c (Suc 0) as = (if mp_unreachs as = [] \<and> \<not> list_ex is_mp_reach as then c else None)"
proof (induction as)
  case (Cons a as)
  then show ?case by (cases "attr_value a") (simp_all add: mp_unreachs_simps is_mp_reach_def [of a])
qed (simp add: mp_unreachs_simps)

lemma eor_loop_unseen:
  "eor_loop None 0 as = Some t \<longleftrightarrow>
    \<not> list_ex is_mp_reach as \<and>
    (\<exists>v. mp_unreachs as = [v] \<and> unreach_empty v \<and> MpUnreach_address_type v = Ok t)"
proof (induction as)
  case (Cons a as)
  then show ?case
    by (cases "attr_value a")
      (auto simp: mp_unreachs_simps is_mp_reach_def [of a] eor_loop_seen eor_of_unreach_eq split: if_splits)
qed (simp add: mp_unreachs_simps)

text \<open>
  C36: an UPDATE is an End-of-RIB marker of an address type exactly when it announces and withdraws no
  IPv4 route and either has no attribute at all, for IPv4 unicast, or has no
  \<open>MP_REACH_NLRI\<close> and exactly one \<open>MP_UNREACH_NLRI\<close>, of that address type and with no withdrawn route.
\<close>

theorem end_of_rib_iff:
  "end_of_rib u = Some t \<longleftrightarrow>
    nlri u = [] \<and> withdrawn_routes u = [] \<and>
    (if path_attributes u = [] then t = AddressType.Ipv4Unicast
     else \<not> list_ex is_mp_reach (path_attributes u) \<and>
       (\<exists>v. mp_unreachs (path_attributes u) = [v] \<and> unreach_empty v \<and> MpUnreach_address_type v = Ok t))"
  by (auto simp: end_of_rib_def eor_loop_unseen)



end
