(* ===== verification/Bgp_Message.thy ===== *)
theory Bgp_Message
  imports Bgp_Open Bgp_Update
begin

text \<open>
  ROUTE-REFRESH messages, the message header and the codec of a BGP session:
  \<open>crates/bgp-pkt/src/route_refresh.rs\<close>, \<open>lib.rs\<close>, \<open>wire/deserializer/mod.rs\<close>,
  \<open>wire/deserializer/route_refresh.rs\<close>, \<open>wire/serializer/mod.rs\<close>,
  \<open>wire/serializer/route_refresh.rs\<close> and \<open>codec.rs\<close>.

  The parser and the serializer of the UPDATE body are an argument, the record \<open>update_wire\<close>: what is
  proved of the header, of the other messages and of the framing holds for all of them.
\<close>

section \<open>Route refresh\<close>

record BgpRouteRefreshMessage =
  rr_address_type :: AddressType
  operation_type :: RouteRefreshSubcode

datatype (plugins only: code) BgpRouteRefreshMessageParsingError =
    NomError ErrorKind
  | UndefinedOperation UndefinedRouteRefreshSubcode
  | UndefinedAddressFamily UndefinedAddressFamily
  | UndefinedSubsequentAddressFamily UndefinedSubsequentAddressFamily
  | InvalidAddressType InvalidAddressType

definition BgpRouteRefreshMessage_from_wire ::
  "wire_lib \<Rightarrow> span \<Rightarrow> (BgpRouteRefreshMessage, BgpRouteRefreshMessageParsingError) iresult" where
  "BgpRouteRefreshMessage_from_wire L buf =
    (let input = buf; nom = BgpRouteRefreshMessageParsingError.NomError in
     rbind (map_res (be_u16 L nom) AddressFamily_try_from
       BgpRouteRefreshMessageParsingError.UndefinedAddressFamily buf) (\<lambda>(buf, afi).
     rbind (map_res (be_u8 L nom) RouteRefreshSubcode_try_from UndefinedOperation buf) (\<lambda>(buf, op).
     rbind (map_res (be_u8 L nom) SubsequentAddressFamily_try_from
       BgpRouteRefreshMessageParsingError.UndefinedSubsequentAddressFamily buf) (\<lambda>(buf, safi).
     case from_afi_safi afi safi of
       Ok t \<Rightarrow> Ok (buf, \<lparr>rr_address_type = t, operation_type = op\<rparr>)
     | Err err \<Rightarrow> Err (NError (Located input (BgpRouteRefreshMessageParsingError.InvalidAddressType err)))))))"

definition RouteRefreshError_from :: "BgpRouteRefreshMessageParsingError \<Rightarrow> RouteRefreshError" where
  "RouteRefreshError_from _ = RouteRefreshError.InvalidMessageLength []"

datatype (plugins only: code) BgpRouteRefreshMessageWritingError = StdIOError string

definition BgpRouteRefreshMessage_len :: "BgpRouteRefreshMessage \<Rightarrow> nat" where
  "BgpRouteRefreshMessage_len m = 4"

definition BgpRouteRefreshMessage_write ::
  "wire_lib \<Rightarrow> BgpRouteRefreshMessage \<Rightarrow> BgpRouteRefreshMessageWritingError writing" where
  "BgpRouteRefreshMessage_write L m =
     wseq (wput (bo_write_u16 L (u16_from_AddressFamily (address_family (rr_address_type m)))))
     (wseq (wput [u8_from_RouteRefreshSubcode (operation_type m)])
       (wput [u8_from_SubsequentAddressFamily (subsequent_address_family (rr_address_type m))]))"

section \<open>Messages\<close>

datatype (plugins only: code) 'x BgpMessage =
    Open BgpOpenMessage
  | Update "'x BgpUpdateMessage"
  | Notification BgpNotificationMessage
  | KeepAlive
  | RouteRefresh BgpRouteRefreshMessage

primrec get_type :: "'x BgpMessage \<Rightarrow> BgpMessageType" where
  "get_type (Open _) = BgpMessageType.Open"
| "get_type (Update _) = BgpMessageType.Update"
| "get_type (Notification _) = BgpMessageType.Notification"
| "get_type KeepAlive = BgpMessageType.KeepAlive"
| "get_type (RouteRefresh _) = BgpMessageType.RouteRefresh"

datatype (plugins only: code) ('x, 'e) BgpMessageParsingError =
    NomError ErrorKind
  | ConnectionNotSynchronized u128
  | UndefinedBgpMessageType UndefinedBgpMessageType
  | BadMessageLength u16
  | BgpOpenMessageParsingError BgpOpenMessageParsingError
  | BgpUpdateMessageParsingError "('x, 'e) BgpUpdateMessageParsingError"
  | BgpNotificationMessageParsingError BgpNotificationMessageParsingError
  | BgpRouteRefreshMessageParsingError BgpRouteRefreshMessageParsingError

datatype (plugins only: code) BgpMessageOpenAndLengthParsingError =
    NomError ErrorKind
  | UndefinedBgpMessageType UndefinedBgpMessageType
  | BadMessageLength u16

definition BGP_MIN_MESSAGE_LENGTH :: u16 where
  "BGP_MIN_MESSAGE_LENGTH = 19"

definition BGP_MAX_MESSAGE_LENGTH :: u16 where
  "BGP_MAX_MESSAGE_LENGTH = 4096"

record ('x, 'e, 'w) update_wire =
  upd_from_wire :: "span \<Rightarrow> ('x, 'e) parsing_context \<Rightarrow> MessageDirection \<Rightarrow>
    (('x BgpUpdateMessage, ('x, 'e) BgpUpdateMessageParsingError) iresult \<times> ('x, 'e) parsing_context) option"
  upd_len :: "'x BgpUpdateMessage \<Rightarrow> nat"
  upd_write :: "'x BgpUpdateMessage \<Rightarrow> 'w writing"

section \<open>Parsing\<close>

primrec length_error_into :: "BgpMessageOpenAndLengthParsingError \<Rightarrow> ('x, 'e) BgpMessageParsingError" where
  "length_error_into (BgpMessageOpenAndLengthParsingError.NomError val) = BgpMessageParsingError.NomError val"
| "length_error_into (BgpMessageOpenAndLengthParsingError.UndefinedBgpMessageType val) =
     BgpMessageParsingError.UndefinedBgpMessageType val"
| "length_error_into (BgpMessageOpenAndLengthParsingError.BadMessageLength val) =
     BgpMessageParsingError.BadMessageLength val"

definition into_located_bgp_message_parsing_error ::
  "BgpMessageOpenAndLengthParsingError located nom_err \<Rightarrow> ('x, 'e) BgpMessageParsingError located nom_err" where
  "into_located_bgp_message_parsing_error err =
     map_nom_err_into (\<lambda>inner. Located (lspan inner) (length_error_into (lerror inner))) err"

definition parse_bgp_message_length_and_type ::
  "wire_lib \<Rightarrow> span \<Rightarrow> (u16 \<times> BgpMessageType \<times> span, BgpMessageOpenAndLengthParsingError) iresult" where
  "parse_bgp_message_length_and_type L buf =
    (let pre_len_buf = buf; nom = BgpMessageOpenAndLengthParsingError.NomError;
         bad = (\<lambda>l. Err (NError (Located pre_len_buf (BgpMessageOpenAndLengthParsingError.BadMessageLength l)))) in
     rbind (be_u16 L nom buf) (\<lambda>(buf, len).
     if len < BGP_MIN_MESSAGE_LENGTH then bad len
     else (case take_span L nom (unat (len - 18)) buf of
         Err _ \<Rightarrow> bad len
       | Ok (remainder_buf, buf) \<Rightarrow>
           rbind (map_res (be_u8 L nom) BgpMessageType_try_from
             BgpMessageOpenAndLengthParsingError.UndefinedBgpMessageType buf) (\<lambda>(buf, message_type).
           if (message_type = BgpMessageType.Open \<or> message_type = BgpMessageType.KeepAlive) \<and>
              \<not> (BGP_MIN_MESSAGE_LENGTH \<le> len \<and> len \<le> BGP_MAX_MESSAGE_LENGTH)
           then bad len
           else Ok (buf, (len, message_type, remainder_buf))))))"

text \<open>The body of a message, by its type.\<close>

definition BgpMessage_body ::
  "wire_lib \<Rightarrow> ('x, 'e, 'w) update_wire \<Rightarrow> BgpMessageType \<Rightarrow> span \<Rightarrow> ('x, 'e) parsing_context \<Rightarrow> MessageDirection \<Rightarrow>
     (('x BgpMessage, ('x, 'e) BgpMessageParsingError) iresult \<times> ('x, 'e) parsing_context) option" where
  "BgpMessage_body L U message_type buf ctx direction = (case message_type of
       BgpMessageType.Open \<Rightarrow> map_option (\<lambda>(r, ctx). (rbind
           (parse_into_located BgpMessageParsingError.BgpOpenMessageParsingError (\<lambda>_. r) buf)
           (\<lambda>(buf, open). Ok (buf, BgpMessage.Open open)), ctx)) (BgpOpenMessage_from_wire L buf ctx)
     | BgpMessageType.Update \<Rightarrow> map_option (\<lambda>(r, ctx). (rbind
           (parse_into_located BgpMessageParsingError.BgpUpdateMessageParsingError (\<lambda>_. r) buf)
           (\<lambda>(buf, update). Ok (buf, BgpMessage.Update update)), ctx)) (upd_from_wire U buf ctx direction)
     | BgpMessageType.Notification \<Rightarrow> Some (rbind
           (parse_into_located BgpMessageParsingError.BgpNotificationMessageParsingError
             (BgpNotificationMessage_from_wire L) buf)
           (\<lambda>(buf, notification). Ok (buf, BgpMessage.Notification notification)), ctx)
     | BgpMessageType.KeepAlive \<Rightarrow> Some (Ok (buf, BgpMessage.KeepAlive), ctx)
     | BgpMessageType.RouteRefresh \<Rightarrow> Some (rbind
           (parse_into_located BgpMessageParsingError.BgpRouteRefreshMessageParsingError
             (BgpRouteRefreshMessage_from_wire L) buf)
           (\<lambda>(buf, route_refresh). Ok (buf, BgpMessage.RouteRefresh route_refresh)), ctx))"

definition BgpMessage_header ::
  "wire_lib \<Rightarrow> span \<Rightarrow> (u16 \<times> BgpMessageType \<times> span, ('x, 'e) BgpMessageParsingError) iresult" where
  "BgpMessage_header L buf =
     rbind (map_res (be_u128 L BgpMessageParsingError.NomError)
       (\<lambda>x. if x = -1 then Ok x else Err (BgpMessageParsingError.ConnectionNotSynchronized x)) (\<lambda>e. e) buf)
     (\<lambda>(buf, _). map_err into_located_bgp_message_parsing_error (parse_bgp_message_length_and_type L buf))"

definition BgpMessage_from_wire_direction ::
  "wire_lib \<Rightarrow> ('x, 'e, 'w) update_wire \<Rightarrow> span \<Rightarrow> ('x, 'e) parsing_context \<Rightarrow> MessageDirection \<Rightarrow>
     (('x BgpMessage, ('x, 'e) BgpMessageParsingError) iresult \<times> ('x, 'e) parsing_context) option" where
  "BgpMessage_from_wire_direction L U buf ctx direction =
    (case BgpMessage_header L buf of
       Err e \<Rightarrow> Some (Err e, ctx)
     | Ok (buf, (_, message_type, remainder_buf)) \<Rightarrow>
         map_option (\<lambda>(r, ctx). (rbind r (\<lambda>(buf, msg).
             if \<not> span_is_empty buf
             then Err (NError (Located buf (BgpMessageParsingError.NomError NonEmpty)))
             else Ok (remainder_buf, msg)), ctx))
           (BgpMessage_body L U message_type buf ctx direction))"

definition BgpMessage_from_wire ::
  "wire_lib \<Rightarrow> ('x, 'e, 'w) update_wire \<Rightarrow> span \<Rightarrow> ('x, 'e) parsing_context \<Rightarrow>
     (('x BgpMessage, ('x, 'e) BgpMessageParsingError) iresult \<times> ('x, 'e) parsing_context) option" where
  "BgpMessage_from_wire L U buf ctx = BgpMessage_from_wire_direction L U buf ctx Inbound"

primrec BgpNotificationMessage_from :: "('x, 'e) BgpMessageParsingError \<Rightarrow> BgpNotificationMessage" where
  "BgpNotificationMessage_from (BgpMessageParsingError.NomError _) =
     BgpNotificationMessage.MessageHeaderError (MessageHeaderError.Unspecific [])"
| "BgpNotificationMessage_from (BgpMessageParsingError.ConnectionNotSynchronized header) =
     BgpNotificationMessage.MessageHeaderError
       (MessageHeaderError.ConnectionNotSynchronized (be_bytes 16 (unat header)))"
| "BgpNotificationMessage_from (BgpMessageParsingError.UndefinedBgpMessageType msg_type) =
     BgpNotificationMessage.MessageHeaderError (MessageHeaderError.BadMessageType
       [case msg_type of UndefinedBgpMessageType.UndefinedBgpMessageType t \<Rightarrow> t])"
| "BgpNotificationMessage_from (BgpMessageParsingError.BadMessageLength bad_length) =
     BgpNotificationMessage.MessageHeaderError (MessageHeaderError.BadMessageLength (be_bytes 2 (unat bad_length)))"
| "BgpNotificationMessage_from (BgpMessageParsingError.BgpOpenMessageParsingError open_err) =
     BgpNotificationMessage.OpenMessageError (OpenMessageError_from open_err)"
| "BgpNotificationMessage_from (BgpMessageParsingError.BgpUpdateMessageParsingError update_err) =
     BgpNotificationMessage.UpdateMessageError (UpdateMessageError_from update_err)"
| "BgpNotificationMessage_from (BgpMessageParsingError.BgpNotificationMessageParsingError _) =
     BgpNotificationMessage.FiniteStateMachineError (FiniteStateMachineError.Unspecific [])"
| "BgpNotificationMessage_from (BgpMessageParsingError.BgpRouteRefreshMessageParsingError rr_err) =
     BgpNotificationMessage.RouteRefreshError (RouteRefreshError_from rr_err)"

section \<open>Serializing\<close>

datatype (plugins only: code) 'w BgpMessageWritingError =
    BgpMessageLengthOverflow nat
  | StdIOError string
  | OpenError BgpOpenMessageWritingError
  | UpdateError 'w
  | NotificationError BgpNotificationMessageWritingError
  | RouteRefreshError BgpRouteRefreshMessageWritingError

primrec BgpMessage_body_len :: "('x, 'e, 'w) update_wire \<Rightarrow> 'x BgpMessage \<Rightarrow> nat" where
  "BgpMessage_body_len U (Open open) = BgpOpenMessage_len open"
| "BgpMessage_body_len U (Update update) = upd_len U update"
| "BgpMessage_body_len U (Notification notification) = BgpNotificationMessage_len notification"
| "BgpMessage_body_len U KeepAlive = 0"
| "BgpMessage_body_len U (RouteRefresh route_refresh) = BgpRouteRefreshMessage_len route_refresh"

definition BgpMessage_len :: "('x, 'e, 'w) update_wire \<Rightarrow> 'x BgpMessage \<Rightarrow> nat" where
  "BgpMessage_len U msg = unat BGP_MIN_MESSAGE_LENGTH + BgpMessage_body_len U msg"

primrec BgpMessage_body_write ::
  "wire_lib \<Rightarrow> ('x, 'e, 'w) update_wire \<Rightarrow> 'x BgpMessage \<Rightarrow> 'w BgpMessageWritingError writing" where
  "BgpMessage_body_write L U (Open open) = wmap_err BgpMessageWritingError.OpenError (BgpOpenMessage_write L open)"
| "BgpMessage_body_write L U (Update update) = wmap_err BgpMessageWritingError.UpdateError (upd_write U update)"
| "BgpMessage_body_write L U (Notification notification) =
     wmap_err BgpMessageWritingError.NotificationError (BgpNotificationMessage_write notification)"
| "BgpMessage_body_write L U KeepAlive = wput []"
| "BgpMessage_body_write L U (RouteRefresh route_refresh) =
     wmap_err BgpMessageWritingError.RouteRefreshError (BgpRouteRefreshMessage_write L route_refresh)"

definition BgpMessage_write ::
  "wire_lib \<Rightarrow> ('x, 'e, 'w) update_wire \<Rightarrow> 'x BgpMessage \<Rightarrow> 'w BgpMessageWritingError writing" where
  "BgpMessage_write L U msg =
    (let len = BgpMessage_len U msg in
     if (case msg of Open _ \<Rightarrow> True | KeepAlive \<Rightarrow> True | _ \<Rightarrow> False) \<and> len > unat BGP_MAX_MESSAGE_LENGTH
     then wfail (BgpMessageWritingError.BgpMessageLengthOverflow len)
     else wseq (wput (be_bytes 16 (2 ^ 128 - 1)))
       (wseq (wput (bo_write_u16 L (of_nat len)))
       (wseq (wput [u8_from_BgpMessageType (get_type msg)])
         (BgpMessage_body_write L U msg))))"

section \<open>The session codec\<close>

record ('x, 'e) BgpCodec =
  asn4_sent :: "bool option"
  asn4_received :: "bool option"
  codec_ctx :: "('x, 'e) parsing_context"

definition BgpCodec_default :: "('x, 'e) BgpCodec" where
  "BgpCodec_default = \<lparr>asn4_sent = None, asn4_received = None, codec_ctx = BgpParsingContext_default\<rparr>"

definition BgpCodec_new :: "bool \<Rightarrow> ('x, 'e) BgpCodec" where
  "BgpCodec_new four = \<lparr>asn4_sent = Some four, asn4_received = Some four,
     codec_ctx = BgpParsingContext_new True Map.empty AddPathMap_default False False False False\<rparr>"

definition BgpCodec_new_from_ctx :: "bool \<Rightarrow> ('x, 'e) parsing_context \<Rightarrow> ('x, 'e) BgpCodec" where
  "BgpCodec_new_from_ctx four ctx = \<lparr>asn4_sent = Some four, asn4_received = Some four, codec_ctx = ctx\<rparr>"

datatype (plugins only: code) ('x, 'e) BgpCodecDecoderError =
    IoError string
  | Incomplete "nat option"
  | BgpMessageParsingError "('x, 'e) BgpMessageParsingError"

definition has_four_octet_as :: "BgpOpenMessage \<Rightarrow> bool" where
  "has_four_octet_as open = list_ex (\<lambda>c. case c of BgpCapability.FourOctetAs _ \<Rightarrow> True | _ \<Rightarrow> False) (capabilities open)"

primrec decoder_error :: "('x, 'e) BgpMessageParsingError located nom_err \<Rightarrow> ('x, 'e) BgpCodecDecoderError" where
  "decoder_error (NIncomplete needed) = Incomplete needed"
| "decoder_error (NError error) = BgpCodecDecoderError.BgpMessageParsingError (lerror error)"
| "decoder_error (NFailure error) = BgpCodecDecoderError.BgpMessageParsingError (lerror error)"

type_synonym ('x, 'e) decoded =
  "(('x BgpMessage \<times> ('x, 'e) ignored_errors) option, ('x, 'e) BgpCodecDecoderError) result"

definition BgpCodec_decode ::
  "wire_lib \<Rightarrow> ('x, 'e, 'w) update_wire \<Rightarrow> ('x, 'e) BgpCodec \<Rightarrow> bytes \<Rightarrow>
     (('x, 'e) decoded \<times> ('x, 'e) BgpCodec \<times> bytes) option" where
  "BgpCodec_decode L U codec buf =
    (if length buf \<ge> 19 then
      (let len = unat (bo_read_u16 L (take 3 (drop 16 buf))) in
       if length buf < len then Some (Ok None, codec, buf)
       else (let asn4' = ((case asn4_received codec of Some b \<Rightarrow> b | None \<Rightarrow> False) \<and>
                          (case asn4_sent codec of Some b \<Rightarrow> b | None \<Rightarrow> False));
                 ctx = set_asn4 asn4' (codec_ctx codec)
             in case BgpMessage_from_wire L U (span_new buf) ctx of
                  None \<Rightarrow> None
                | Some (Ok (_, msg), ctx) \<Rightarrow>
                    let codec = (case msg of
                           Open open \<Rightarrow> codec\<lparr>asn4_received := Some (has_four_octet_as open)\<rparr>
                         | _ \<Rightarrow> codec);
                        (errors, ctx) = reset_parsing_errors ctx
                    in Some (Ok (Some (msg, errors)), codec\<lparr>codec_ctx := ctx\<rparr>, drop len buf)
                | Some (Err error, ctx) \<Rightarrow> Some (Err (decoder_error error), codec\<lparr>codec_ctx := ctx\<rparr>, buf)))
     else Some (Ok None, codec, buf))"

definition BgpCodec_encode ::
  "wire_lib \<Rightarrow> ('x, 'e, 'w) update_wire \<Rightarrow> ('x, 'e) BgpCodec \<Rightarrow> 'x BgpMessage \<Rightarrow> bytes \<Rightarrow>
     (unit, 'w BgpMessageWritingError) result \<times> ('x, 'e) BgpCodec \<times> bytes" where
  "BgpCodec_encode L U codec msg dst =
    (let codec = (case msg of
           Open open \<Rightarrow> codec\<lparr>asn4_sent := Some (has_four_octet_as open)\<rparr>
         | _ \<Rightarrow> codec);
         w = BgpMessage_write L U msg
     in (snd w, codec, dst @ fst w))"

section \<open>Route refresh round trip\<close>

lemma BgpRouteRefreshMessage_write_ok [simp]: "snd (BgpRouteRefreshMessage_write L m) = Ok ()"
  by (simp add: BgpRouteRefreshMessage_write_def)

sublocale wire_lib_laws \<subseteq> rrm: pdu_codec "BgpRouteRefreshMessage_from_wire L"
  "\<lambda>m. fst (BgpRouteRefreshMessage_write L m)" "\<lambda>_. True"
proof
  fix s s' m assume "BgpRouteRefreshMessage_from_wire L s = Ok (s', m)"
  then show "\<exists>n>0. n \<le> length (fragment s) \<and> s' = span_slice_from n s"
    by (auto simp: BgpRouteRefreshMessage_from_wire_def Let_def result_simps map_res_Ok_iff be_u16_Ok_iff
        be_u8_Ok_iff dest!: arg_cong [where f = length] intro!: exI [of _ 4])
next
  fix m :: BgpRouteRefreshMessage and s :: span and rest
  assume "fragment s = fst (BgpRouteRefreshMessage_write L m) @ rest"
  then show "BgpRouteRefreshMessage_from_wire L s =
      Ok (span_slice_from (length (fst (BgpRouteRefreshMessage_write L m))) s, m)"
    by (cases m) (simp add: BgpRouteRefreshMessage_from_wire_def BgpRouteRefreshMessage_write_def
      Let_def reads map_res_def RouteRefreshSubcode_try_from_Ok [THEN iffD2])
qed

section \<open>The header\<close>

definition marker :: bytes where
  "marker = be_bytes 16 (2 ^ 128 - 1)"

lemma length_marker [simp]: "length marker = 16"
  by (simp add: marker_def)

lemma marker_value: "word_of_nat (be_nat marker) = (-1 :: u128)"
  by (simp add: marker_def be_nat_be_bytes)

lemma marker_iff:
  assumes "length bs = 16"
  shows "word_of_nat (be_nat bs) = (-1 :: u128) \<longleftrightarrow> bs = marker"
proof
  assume "word_of_nat (be_nat bs) = (-1 :: u128)"
  then have "unat (word_of_nat (be_nat bs) :: u128) = 2 ^ 128 - 1"
    by (simp add: unsigned_minus_1_eq_mask mask_eq_exp_minus_1)
  then have "be_nat bs = 2 ^ 128 - 1"
    using be_nat_bound [of bs] assms by (simp add: unat_of_nat)
  then show "bs = marker" using be_bytes_be_nat [of 16 bs] assms by (simp add: marker_def)
qed (simp add: marker_value)

context wire_lib_laws
begin

text \<open>Up to the type octet, in one equation.\<close>

lemma length_and_type_enc:
  assumes "fragment s = bo_write_u16 L len @ u8_from_BgpMessageType ty # body @ rest"
    and "unat len = 19 + length body"
    and "ty = BgpMessageType.Open \<or> ty = BgpMessageType.KeepAlive \<Longrightarrow> unat len \<le> 4096"
  shows "parse_bgp_message_length_and_type L s =
    Ok (\<lparr>offset = offset s + 3, fragment = body\<rparr>, (len, ty, span_slice_from (unat len - 16) s))"
proof -
  have len: "unat (len - 18) = Suc (length body)"
    using assms(2) by (subst unat_sub) (simp_all add: word_le_nat_alt)
  have min: "\<not> len < BGP_MIN_MESSAGE_LENGTH"
    using assms(2) by (simp add: BGP_MIN_MESSAGE_LENGTH_def word_less_nat_alt)
  have max: "(ty = BgpMessageType.Open \<or> ty = BgpMessageType.KeepAlive) \<Longrightarrow> len \<le> BGP_MAX_MESSAGE_LENGTH"
    using assms(3) by (simp add: BGP_MAX_MESSAGE_LENGTH_def word_le_nat_alt)
  have rd: "be_u16 L BgpMessageOpenAndLengthParsingError.NomError s = Ok (span_slice_from 2 s, len)"
    using assms(1) be_u16_write by blast
  have tk: "take_span L BgpMessageOpenAndLengthParsingError.NomError (unat (len - 18)) (span_slice_from 2 s) =
      Ok (span_slice_from (unat len - 16) s,
        \<lparr>offset = offset s + 2, fragment = u8_from_BgpMessageType ty # body\<rparr>)"
    using assms(1,2) by (simp add: take_span_eq len span_eqI numeral_eq_Suc)
  have ty: "map_res (be_u8 L BgpMessageOpenAndLengthParsingError.NomError) BgpMessageType_try_from
      BgpMessageOpenAndLengthParsingError.UndefinedBgpMessageType
      \<lparr>offset = offset s + 2, fragment = u8_from_BgpMessageType ty # body\<rparr> =
      Ok (\<lparr>offset = offset s + 3, fragment = body\<rparr>, ty)"
    by (simp add: map_res_Ok_iff be_u8_Ok_iff BgpMessageType_try_from_Ok span_eqI)
  show ?thesis
    using min max by (auto simp: parse_bgp_message_length_and_type_def Let_def rd tk ty [simplified])
qed

lemma header_enc:
  assumes "fragment s = marker @ bo_write_u16 L len @ u8_from_BgpMessageType ty # body @ rest"
    and "unat len = 19 + length body"
    and "ty = BgpMessageType.Open \<or> ty = BgpMessageType.KeepAlive \<Longrightarrow> unat len \<le> 4096"
  shows "BgpMessage_header L s =
    Ok (\<lparr>offset = offset s + 19, fragment = body\<rparr>, (len, ty, span_slice_from (unat len) s))"
proof -
  have frag: "fragment (span_slice_from 16 s) = bo_write_u16 L len @ u8_from_BgpMessageType ty # body @ rest"
    using assms(1) by simp
  have "parse_bgp_message_length_and_type L (span_slice_from 16 s) =
    Ok (\<lparr>offset = offset s + 19, fragment = body\<rparr>, (len, ty, span_slice_from (unat len) s))"
    using length_and_type_enc [OF frag assms(2,3)] assms(2) by simp
  then show ?thesis using assms(1) by (simp add: BgpMessage_header_def map_res_def be_u128_eq marker_value)
qed

lemma length_and_type_OkD:
  assumes "parse_bgp_message_length_and_type L s = Ok (b, (len, ty, r))"
  shows "19 \<le> unat len \<and> unat len - 16 \<le> length (fragment s) \<and> r = span_slice_from (unat len - 16) s \<and>
    b = \<lparr>offset = offset s + 3, fragment = take (unat len - 19) (drop 3 (fragment s))\<rparr> \<and>
    take 3 (fragment s) = bo_write_u16 L len @ [u8_from_BgpMessageType ty] \<and>
    (ty = BgpMessageType.Open \<or> ty = BgpMessageType.KeepAlive \<longrightarrow> unat len \<le> 4096)"
proof -
  from assms obtain bs where s: "fragment s = bo_write_u16 L len @ bs"
    and min: "\<not> len < BGP_MIN_MESSAGE_LENGTH" and tk: "unat (len - 18) \<le> length bs"
    and r: "r = span_slice_from (2 + unat (len - 18)) s"
    and ty: "map_res (be_u8 L BgpMessageOpenAndLengthParsingError.NomError) BgpMessageType_try_from
      BgpMessageOpenAndLengthParsingError.UndefinedBgpMessageType
      (span_slice_to (unat (len - 18)) (span_slice_from 2 s)) = Ok (b, ty)"
    and max: "ty = BgpMessageType.Open \<or> ty = BgpMessageType.KeepAlive \<longrightarrow> len \<le> BGP_MAX_MESSAGE_LENGTH"
    by (auto simp: parse_bgp_message_length_and_type_def Let_def result_simps be_u16_Ok_iff take_span_eq
        split: if_splits)
  have len: "19 \<le> unat len" using min by (simp add: BGP_MIN_MESSAGE_LENGTH_def word_less_nat_alt)
  then have sub: "unat (len - 18) = unat len - 18" by (subst unat_sub) (simp_all add: word_le_nat_alt)
  from ty obtain bs' where b: "take (unat len - 18) bs = u8_from_BgpMessageType ty # bs'"
    "b = span_slice_from 1 (span_slice_to (unat len - 18) (span_slice_from 2 s))"
    using s by (auto simp: map_res_Ok_iff be_u8_Ok_iff BgpMessageType_try_from_Ok sub)
  then obtain cs where bs: "bs = u8_from_BgpMessageType ty # cs" using len by (cases bs) (auto simp: take_Cons')
  have len1: "unat len - 18 = Suc (unat len - 19)" using len by simp
  have "b = \<lparr>offset = offset s + 3, fragment = take (unat len - 19) cs\<rparr>"
    using b s bs len by (intro span_eqI) (simp_all add: drop_take len1)
  moreover have "drop 3 (fragment s) = cs" "take 3 (fragment s) = bo_write_u16 L len @ [u8_from_BgpMessageType ty]"
    "unat len - 16 \<le> length (fragment s)" "2 + unat (len - 18) = unat len - 16"
    using s bs tk sub len by simp_all
  ultimately show ?thesis
    using len r max by (simp add: BGP_MAX_MESSAGE_LENGTH_def word_le_nat_alt)
qed

lemma header_OkD:
  assumes "BgpMessage_header L s = Ok (b, (len, ty, r))"
  shows "19 \<le> unat len \<and> unat len \<le> length (fragment s) \<and> r = span_slice_from (unat len) s \<and>
    b = \<lparr>offset = offset s + 19, fragment = take (unat len - 19) (drop 19 (fragment s))\<rparr> \<and>
    take 19 (fragment s) = marker @ bo_write_u16 L len @ [u8_from_BgpMessageType ty] \<and>
    (ty = BgpMessageType.Open \<or> ty = BgpMessageType.KeepAlive \<longrightarrow> unat len \<le> 4096)"
proof -
  from assms have l: "16 \<le> length (fragment s)" and m: "take 16 (fragment s) = marker"
    and p: "parse_bgp_message_length_and_type L (span_slice_from 16 s) = Ok (b, (len, ty, r))"
    by (auto simp: BgpMessage_header_def result_simps map_res_Ok_iff be_u128_eq marker_iff split: if_splits)
  have "take 19 (fragment s) = take 16 (fragment s) @ take 3 (drop 16 (fragment s))"
    by (metis take_add add_numeral_left numeral_plus_numeral semiring_norm(2) semiring_norm(3)
        semiring_norm(4) semiring_norm(6) semiring_norm(7) semiring_norm(8))
  with length_and_type_OkD [OF p] m l show ?thesis by auto
qed

lemma rr_len_write [simp]: "length (fst (BgpRouteRefreshMessage_write L m)) = BgpRouteRefreshMessage_len m"
  by (simp add: BgpRouteRefreshMessage_write_def BgpRouteRefreshMessage_len_def)

end

section \<open>The messages other than UPDATE\<close>

primrec message_wf :: "'x BgpMessage \<Rightarrow> bool" where
  "message_wf (Open open) = open_wf open"
| "message_wf (Update _) = False"
| "message_wf (Notification n) = (19 + BgpNotificationMessage_len n \<le> 65535)"
| "message_wf KeepAlive = True"
| "message_wf (RouteRefresh _) = True"

lemma message_wf_len:
  assumes "message_wf m"
  shows "BgpMessage_len U m \<le> 65535"
    and "get_type m = BgpMessageType.Open \<or> get_type m = BgpMessageType.KeepAlive \<Longrightarrow> BgpMessage_len U m \<le> 4096"
  using assms
  by (cases m; simp add: BgpMessage_len_def BGP_MIN_MESSAGE_LENGTH_def open_wf_def BgpOpenMessage_len_def
      BgpRouteRefreshMessage_len_def)+

lemma message_write_eq:
  assumes "message_wf m"
  shows "BgpMessage_write L U m =
    (marker @ bo_write_u16 L (of_nat (BgpMessage_len U m)) @ u8_from_BgpMessageType (get_type m) #
      fst (BgpMessage_body_write L U m), Ok ())"
proof -
  have nl: "\<not> ((case m of Open _ \<Rightarrow> True | KeepAlive \<Rightarrow> True | _ \<Rightarrow> False) \<and> BgpMessage_len U m > unat BGP_MAX_MESSAGE_LENGTH)"
    using message_wf_len(2) [OF assms, of U] by (cases m) (simp_all add: BGP_MAX_MESSAGE_LENGTH_def)
  have "snd (BgpMessage_body_write L U m) = Ok ()"
    using assms by (cases m) (simp_all add: wmap_err_fst_snd)
  then show ?thesis unfolding BgpMessage_write_def Let_def if_not_P [OF nl] marker_def by simp
qed

lemma message_write_ok: "message_wf m \<Longrightarrow> snd (BgpMessage_write L U m) = Ok ()"
  by (simp add: message_write_eq)

context wire_lib_laws
begin

lemma message_body_len:
  assumes "message_wf m"
  shows "length (fst (BgpMessage_body_write L U m)) = BgpMessage_body_len U m"
  using assms by (cases m) (simp_all add: wmap_err_fst_snd)

lemma message_body_read:
  assumes "message_wf m" "fragment b = fst (BgpMessage_body_write L U m)"
  shows "BgpMessage_body L U (get_type m) b ctx d =
    Some (Ok (span_slice_from (length (fragment b)) b, m), ctx)"
proof (cases m)
  case (Open "open")
  then show ?thesis
    using assms open_read_enc [of "open" b "[]" ctx] by (simp add: BgpMessage_body_def wmap_err_fst_snd)
next
  case (RouteRefresh rr)
  then show ?thesis
    using assms rrm.read_enc [where v = rr and s = b and rest = "[]"] by (simp add: BgpMessage_body_def wmap_err_fst_snd)
next
  case (Notification n)
  then show ?thesis
    using assms notification_iff [of b "span_slice_from (length (fragment b)) b" n] by (simp add: BgpMessage_body_def wmap_err_fst_snd)
qed (use assms in \<open>simp_all add: BgpMessage_body_def\<close>)

lemma message_read_enc:
  fixes U :: "('x, 'e, 'w) update_wire"
  assumes wf: "message_wf m" and frag: "fragment s = fst (BgpMessage_write L U m) @ rest"
  shows "BgpMessage_from_wire_direction L U s ctx d = Some (Ok (span_slice_from (BgpMessage_len U m) s, m), ctx)"
proof -
  let ?body = "fst (BgpMessage_body_write L U m)"
  let ?len = "of_nat (BgpMessage_len U m) :: u16"
  have len: "unat ?len = BgpMessage_len U m"
    using message_wf_len(1) [OF wf, of U] by (intro unat_of_nat_u16_id) simp
  have "(BgpMessage_header L s :: (_, ('x, 'e) BgpMessageParsingError) iresult) =
      Ok (\<lparr>offset = offset s + 19, fragment = ?body\<rparr>, (?len, get_type m, span_slice_from (unat ?len) s))"
  proof (rule header_enc)
    show "fragment s = marker @ bo_write_u16 L ?len @ u8_from_BgpMessageType (get_type m) # ?body @ rest"
      using frag by (simp add: message_write_eq [OF wf])
    show "unat ?len = 19 + length ?body"
      by (simp only: len message_body_len [OF wf]) (simp add: BgpMessage_len_def BGP_MIN_MESSAGE_LENGTH_def)
    show "unat ?len \<le> 4096" if "get_type m = BgpMessageType.Open \<or> get_type m = BgpMessageType.KeepAlive"
      using message_wf_len(2) [OF wf that, of U] by (simp only: len)
  qed
  then show ?thesis
    using message_body_read [OF wf, of "\<lparr>offset = offset s + 19, fragment = ?body\<rparr>" U ctx d]
    by (simp add: BgpMessage_from_wire_direction_def span_is_empty_def len)
qed

lemma message_len_write:
  assumes "message_wf m"
  shows "length (fst (BgpMessage_write L U m)) = BgpMessage_len U m"
  using message_body_len [OF assms, of U]
  by (simp add: message_write_eq [OF assms] BgpMessage_len_def BGP_MIN_MESSAGE_LENGTH_def)

text \<open>What a successful parse says about the input.\<close>

lemma message_from_wire_OkD:
  fixes U :: "('x, 'e, 'w) update_wire"
  assumes "BgpMessage_from_wire_direction L U s ctx d = Some (Ok (s', m), ctx')"
  shows "\<exists>len ty. 19 \<le> unat len \<and> unat len \<le> length (fragment s) \<and> s' = span_slice_from (unat len) s \<and>
    take 19 (fragment s) = marker @ bo_write_u16 L len @ [u8_from_BgpMessageType ty] \<and> get_type m = ty \<and>
    (ty = BgpMessageType.Open \<or> ty = BgpMessageType.KeepAlive \<longrightarrow> unat len \<le> 4096)"
proof -
  from assms obtain b len ty where h: "(BgpMessage_header L s :: (_, ('x, 'e) BgpMessageParsingError) iresult) =
      Ok (b, (len, ty, s'))"
    and "\<exists>b' ctx'. BgpMessage_body L U ty b ctx d = Some (Ok (b', m), ctx')"
    by (auto simp: BgpMessage_from_wire_direction_def result_simps split: result.splits if_splits)
  then have "get_type m = ty"
    by (cases ty) (auto simp: BgpMessage_body_def result_simps)
  with header_OkD [OF h] show ?thesis by blast
qed

lemma message_returns:
  assumes "\<And>s ctx d. \<exists>r. upd_from_wire U s ctx d = Some r"
  shows "\<exists>r. BgpMessage_from_wire_direction L U s ctx d = Some r"
proof -
  have "\<exists>r. BgpMessage_body L U ty b ctx d = Some r" for ty b
    using assms [of b ctx d] open_returns [of b ctx]
    by (cases ty) (auto simp: BgpMessage_body_def)
  then show ?thesis
    by (simp add: BgpMessage_from_wire_direction_def del: split_paired_Ex split: result.splits prod.splits)
qed

lemma bad_length_rejected:
  assumes frag: "fragment s = marker @ bo_write_u16 L len @ rest" and l: "unat len < 19 \<or> length (fragment s) < unat len"
  shows "\<exists>sp. BgpMessage_from_wire_direction L U s ctx d =
    Some (Err (NError (Located sp (BgpMessageParsingError.BadMessageLength len))), ctx)"
proof -
  have "len < BGP_MIN_MESSAGE_LENGTH \<or> (\<not> len < BGP_MIN_MESSAGE_LENGTH \<and> length rest < unat (len - 18))"
  proof (cases "unat len < 19")
    case False
    then have "unat (len - 18) = unat len - 18" by (subst unat_sub) (simp_all add: word_le_nat_alt)
    with False l frag show ?thesis
      by (auto simp: BGP_MIN_MESSAGE_LENGTH_def word_less_nat_alt)
  qed (simp add: BGP_MIN_MESSAGE_LENGTH_def word_less_nat_alt)
  then show ?thesis
    using frag by (auto simp: BgpMessage_from_wire_direction_def BgpMessage_header_def map_res_def Let_def
        parse_bgp_message_length_and_type_def into_located_bgp_message_parsing_error_def be_u128_eq be_u16_eq
        take_span_eq marker_value)
qed

text \<open>The length that the codec reads before parsing.\<close>

lemma frame_length:
  assumes "19 \<le> length buf" "take 19 buf = marker @ bo_write_u16 L len @ [b]"
  shows "bo_read_u16 L (take 3 (drop 16 buf)) = len"
proof -
  have "take 3 (drop 16 buf) = drop 16 (take 19 buf)" by (simp add: drop_take)
  then have "take 3 (drop 16 buf) = bo_write_u16 L len @ [b]" using assms(2) by simp
  then show ?thesis by (simp add: read_u16_law)
qed

lemma frame_prefix:
  assumes wf: "message_wf m" and p: "fst (BgpMessage_write L U m) = p @ q" "q \<noteq> []"
  shows "BgpCodec_decode L U codec p = Some (Ok None, codec, p)"
proof (cases "19 \<le> length p")
  case True
  let ?len = "of_nat (BgpMessage_len U m) :: u16"
  have len: "unat ?len = BgpMessage_len U m"
    using message_wf_len(1) [OF wf, of U] by (intro unat_of_nat_u16_id) simp
  have "take 19 p = take 19 (fst (BgpMessage_write L U m))" using True p(1) by simp
  also have "\<dots> = marker @ bo_write_u16 L ?len @ [u8_from_BgpMessageType (get_type m)]"
    by (simp add: message_write_eq [OF wf])
  finally have "bo_read_u16 L (take 3 (drop 16 p)) = ?len" by (rule frame_length [OF True])
  moreover have "length p < BgpMessage_len U m"
    using message_len_write [OF wf, of U] p by (cases q) simp_all
  ultimately show ?thesis using True by (simp add: BgpCodec_decode_def Let_def len)
next
  case False
  then show ?thesis by (simp add: BgpCodec_decode_def)
qed

lemma frame_complete:
  assumes wf: "message_wf m" and buf: "buf = fst (BgpMessage_write L U m) @ rest"
  shows "\<exists>codec'. BgpCodec_decode L U codec buf = Some (Ok (Some (m, parsing_errors (codec_ctx codec))), codec', rest)
    \<and> parsing_errors (codec_ctx codec') = BgpParsingIgnoredErrors_default
    \<and> asn4_sent codec' = asn4_sent codec
    \<and> asn4_received codec' = (case m of Open open \<Rightarrow> Some (has_four_octet_as open) | _ \<Rightarrow> asn4_received codec)"
proof -
  let ?len = "of_nat (BgpMessage_len U m) :: u16"
  have len: "unat ?len = BgpMessage_len U m"
    using message_wf_len(1) [OF wf, of U] by (intro unat_of_nat_u16_id) simp
  have l: "length buf = BgpMessage_len U m + length rest" "19 \<le> BgpMessage_len U m"
    using message_len_write [OF wf, of U] buf by (simp_all add: BgpMessage_len_def BGP_MIN_MESSAGE_LENGTH_def)
  have "take 19 buf = marker @ bo_write_u16 L ?len @ [u8_from_BgpMessageType (get_type m)]"
    by (simp add: buf message_write_eq [OF wf])
  then have rd: "bo_read_u16 L (take 3 (drop 16 buf)) = ?len" using frame_length l by simp
  have "drop (BgpMessage_len U m) buf = rest" using buf message_len_write [OF wf, of U] by simp
  moreover have "BgpMessage_from_wire L U (span_new buf) ctx =
      Some (Ok (span_slice_from (BgpMessage_len U m) (span_new buf), m), ctx)" for ctx
    unfolding BgpMessage_from_wire_def by (rule message_read_enc [OF wf]) (simp add: buf)
  ultimately show ?thesis
    using l by (simp add: BgpCodec_decode_def Let_def rd len reset_parsing_errors_def set_asn4_def
        split: BgpMessage.split)
qed

end

section \<open>Properties\<close>


text \<open>
  C12: the message parser returns whenever the UPDATE body parser does.  What it accepts starts with
  the marker, a length of at least 19 that fits the input (and at most 4096 for OPEN and
  KEEPALIVE) and the type of the message, and exactly that length is consumed.
\<close>

theorem message_from_wire_sound:
  assumes "wire_lib_laws L" "\<forall>s ctx d. upd_from_wire U s ctx d \<noteq> None"
  shows "\<exists>r ctx'. BgpMessage_from_wire_direction L U s ctx d = Some (r, ctx') \<and>
    (case r of Err e \<Rightarrow> True
     | Ok (s', m) \<Rightarrow> \<exists>len. 19 \<le> unat len \<and> unat len \<le> span_len s \<and> s' = span_slice_from (unat len) s \<and>
         take 19 (fragment s) = marker @ bo_write_u16 L len @ [u8_from_BgpMessageType (get_type m)] \<and>
         (get_type m \<in> {BgpMessageType.Open, BgpMessageType.KeepAlive} \<longrightarrow> unat len \<le> 4096))"
proof -
  obtain r ctx' where r: "BgpMessage_from_wire_direction L U s ctx d = Some (r, ctx')"
    using wire_lib_laws.message_returns [OF assms(1), of U s ctx d] assms(2) by force
  show ?thesis
  proof (cases r)
    case (Ok p)
    then show ?thesis
      using r wire_lib_laws.message_from_wire_OkD [OF assms(1), of U s ctx d "fst p" "snd p" ctx']
      by (cases p) (auto simp: span_len_def)
  next
    case (Err e)
    with r show ?thesis by simp
  qed
qed

text \<open>
  C33: what the peer is told about a malformed header: a marker that is not all ones is answered
  with the octets read, a length below 19 or beyond the bytes received with that length, and
  an undefined type with that octet.
\<close>

theorem header_rejections:
  assumes "wire_lib_laws L"
  shows "(fragment s = bs @ rest \<and> length bs = 16 \<and> bs \<noteq> marker \<longrightarrow>
      (\<exists>sp e. BgpMessage_from_wire_direction L U s ctx d = Some (Err (NError (Located sp e)), ctx) \<and>
        BgpNotificationMessage_from e =
          BgpNotificationMessage.MessageHeaderError (MessageHeaderError.ConnectionNotSynchronized bs))) \<and>
    (fragment s = marker @ bo_write_u16 L len @ rest \<and> (unat len < 19 \<or> length (fragment s) < unat len) \<longrightarrow>
      (\<exists>sp e. BgpMessage_from_wire_direction L U s ctx d = Some (Err (NError (Located sp e)), ctx) \<and>
        BgpNotificationMessage_from e =
          BgpNotificationMessage.MessageHeaderError (MessageHeaderError.BadMessageLength (bo_write_u16 L len)))) \<and>
    (fragment s = marker @ bo_write_u16 L len @ ty # rest \<and> 19 \<le> unat len \<and> unat len \<le> length (fragment s) \<and>
      ty \<notin> range u8_from_BgpMessageType \<longrightarrow>
      (\<exists>sp e. BgpMessage_from_wire_direction L U s ctx d = Some (Err (NError (Located sp e)), ctx) \<and>
        BgpNotificationMessage_from e =
          BgpNotificationMessage.MessageHeaderError (MessageHeaderError.BadMessageType [ty])))"
proof (intro conjI impI; elim conjE)
  note rd = wire_lib_laws.be_u128_eq [OF assms] wire_lib_laws.be_u16_eq [OF assms] wire_lib_laws.be_u8_eq [OF assms]
    wire_lib_laws.take_span_eq [OF assms] wire_lib_laws.length_write [OF assms] wire_lib_laws.be_nat_write [OF assms]
  note defs = BgpMessage_from_wire_direction_def BgpMessage_header_def parse_bgp_message_length_and_type_def
    into_located_bgp_message_parsing_error_def map_res_def from_external_error_def Let_def rd
  show "\<exists>sp e. BgpMessage_from_wire_direction L U s ctx d = Some (Err (NError (Located sp e)), ctx) \<and>
      BgpNotificationMessage_from e =
        BgpNotificationMessage.MessageHeaderError (MessageHeaderError.ConnectionNotSynchronized bs)"
    if "fragment s = bs @ rest" "length bs = 16" "bs \<noteq> marker"
  proof -
    have "unat (word_of_nat (be_nat bs) :: u128) = be_nat bs"
      using be_nat_bound [of bs] that(2) by (simp add: unat_of_nat)
    then show ?thesis
      using that marker_iff [OF that(2)] be_bytes_be_nat [of 16 bs] by (simp add: defs)
  qed
  show "\<exists>sp e. BgpMessage_from_wire_direction L U s ctx d = Some (Err (NError (Located sp e)), ctx) \<and>
      BgpNotificationMessage_from e =
        BgpNotificationMessage.MessageHeaderError (MessageHeaderError.BadMessageLength (bo_write_u16 L len))"
    if frag: "fragment s = marker @ bo_write_u16 L len @ rest" and l: "unat len < 19 \<or> length (fragment s) < unat len"
    using wire_lib_laws.bad_length_rejected [OF assms that, of U ctx d]
    by (auto simp: wire_lib_laws.write_u16_law [OF assms])
  show "\<exists>sp e. BgpMessage_from_wire_direction L U s ctx d = Some (Err (NError (Located sp e)), ctx) \<and>
      BgpNotificationMessage_from e =
        BgpNotificationMessage.MessageHeaderError (MessageHeaderError.BadMessageType [ty])"
    if frag: "fragment s = marker @ bo_write_u16 L len @ ty # rest" and l: "19 \<le> unat len"
      "unat len \<le> length (fragment s)" and ty: "ty \<notin> range u8_from_BgpMessageType"
  proof -
    have "unat (len - 18) = Suc (unat len - 19)" using l by (subst unat_sub) (auto simp: word_le_nat_alt)
    moreover have "BgpMessageType_try_from ty = Err (UndefinedBgpMessageType.UndefinedBgpMessageType ty)"
      using ty by (auto simp: BgpMessageType_try_from_def BgpMessageType_from_repr_def mty.find_disc_iff
          split: option.splits)
    ultimately show ?thesis
      using frag l by (auto simp: defs marker_value BGP_MIN_MESSAGE_LENGTH_def word_less_nat_alt)
  qed
qed

text \<open>
  Reading from a connection: the codec is asked for messages until it has no complete one
  left.
\<close>

inductive decode_run ::
  "wire_lib \<Rightarrow> ('x, 'e, 'w) update_wire \<Rightarrow> ('x, 'e) BgpCodec \<Rightarrow> bytes \<Rightarrow> 'x BgpMessage list \<Rightarrow> ('x, 'e) BgpCodec \<Rightarrow>
     bytes \<Rightarrow> bool"
  for L U where
  wait: "BgpCodec_decode L U codec buf = Some (Ok None, codec', buf') \<Longrightarrow>
    decode_run L U codec buf [] codec' buf'"
| frame: "BgpCodec_decode L U codec buf = Some (Ok (Some (m, errors)), codec', buf') \<Longrightarrow>
    decode_run L U codec' buf' ms codec'' buf'' \<Longrightarrow> decode_run L U codec buf (m # ms) codec'' buf''"



section \<open>Concrete runs\<close>

text \<open>An UPDATE body parser that rejects everything.\<close>

definition no_updates :: "(nat, nat, nat) update_wire" where
  "no_updates = \<lparr>upd_from_wire = (\<lambda>s ctx d. Some (Err (NError (Located s (BgpUpdateMessageParsingError.NomError Eof))), ctx)),
     upd_len = (\<lambda>_. 4), upd_write = (\<lambda>_. wput [0, 0, 0, 0])\<rparr>"

lemma marker_eq: "marker = [255, 255, 255, 255, 255, 255, 255, 255, 255, 255, 255, 255, 255, 255, 255, 255]"
proof -
  have "be_nat [255, 255, 255, 255, 255, 255, 255, 255, 255, 255, 255, 255, 255, 255, 255, 255] = 2 ^ 128 - 1"
    by (simp add: be_nat_def)
  with be_bytes_be_nat [of 16 "[255, 255, 255, 255, 255, 255, 255, 255, 255, 255, 255, 255, 255, 255, 255, 255]"]
  show ?thesis by (simp add: marker_def)
qed

lemma keepalive_bytes:
  "fst (BgpMessage_write net_lib no_updates KeepAlive) =
    [255, 255, 255, 255, 255, 255, 255, 255, 255, 255, 255, 255, 255, 255, 255, 255, 0, 19, 4]"
  using message_write_eq [of KeepAlive net_lib no_updates]
  by (simp add: marker_eq BgpMessage_len_def BGP_MIN_MESSAGE_LENGTH_def net.write_u16_eq)


theorem message_from_wire_sound_witness:
  "wire_lib_laws net_lib \<and> (\<forall>s ctx d. upd_from_wire no_updates s ctx d \<noteq> None) \<and>
   (\<exists>r ctx'. BgpMessage_from_wire_direction net_lib no_updates (span_new [1, 2, 3]) BgpParsingContext_default Inbound =
      Some (r, ctx'))"
proof -
  have u: "\<forall>s ctx d. upd_from_wire no_updates s ctx d \<noteq> None" by (simp add: no_updates_def)
  show ?thesis
    using message_from_wire_sound [OF net.wire_lib_laws_axioms u, of "span_new [1, 2, 3]" BgpParsingContext_default Inbound]
      net.wire_lib_laws_axioms u by auto
qed

theorem header_rejections_witness:
  "wire_lib_laws net_lib \<and>
   (\<exists>sp e. BgpMessage_from_wire_direction net_lib no_updates (span_new (marker @ [0, 18, 4])) BgpParsingContext_default Inbound =
      Some (Err (NError (Located sp e)), BgpParsingContext_default) \<and>
     BgpNotificationMessage_from e =
       BgpNotificationMessage.MessageHeaderError (MessageHeaderError.BadMessageLength [0, 18]))"
  using header_rejections [OF net.wire_lib_laws_axioms, of "span_new (marker @ [0, 18, 4])" "[]" "[4]" no_updates
      BgpParsingContext_default Inbound 18 0] net.wire_lib_laws_axioms
  by (simp add: net.write_u16_eq)



end
