(* ===== verification/NC_Duration.thy ===== *)
theory NC_Duration
  imports NC_Prelude "HOL-Library.Log_Nat"
begin

text \<open>
  \<open>std::time::Duration\<close> and the \<open>f32\<close> arithmetic that the BGP timers use.  A duration is its number
  of nanoseconds.  A finite non-negative \<open>f32\<close> is a rational number; an operation rounds its
  exact result to the nearest number with a 24-bit significand, ties to even, as IEEE 754 binary32
  prescribes.
\<close>

section \<open>Rounding\<close>

definition round_half_even :: "rat \<Rightarrow> int" where
  "round_half_even x =
    (let f = \<lfloor>x\<rfloor>; d = x - of_int f
     in if d < 1 / 2 then f else if 1 / 2 < d then f + 1 else if even f then f else f + 1)"

text \<open>The exponent of a positive number: \<open>2 powi ilog2 x \<le> x < 2 powi (ilog2 x + 1)\<close>.\<close>

definition ilog2 :: "rat \<Rightarrow> int" where
  "ilog2 x = (let (n, d) = quotient_of x; k = bitlen n - bitlen d in if x < 2 powi k then k - 1 else k)"

definition f32_round :: "rat \<Rightarrow> rat" where
  "f32_round x =
    (if x \<le> 0 then 0
     else let ulp = 2 powi (max (ilog2 x - 23) (- 149)) in of_int (round_half_even (x / ulp)) * ulp)"

section \<open>Durations\<close>

type_synonym duration = nat

definition NANOS_PER_SEC :: nat where
  "NANOS_PER_SEC = 1000000000"

definition from_secs :: "nat \<Rightarrow> duration" where
  "from_secs s = s * NANOS_PER_SEC"

definition from_millis :: "nat \<Rightarrow> duration" where
  "from_millis m = m * 1000000"

definition as_secs_f32 :: "duration \<Rightarrow> rat" where
  "as_secs_f32 d =
     f32_round (f32_round (of_nat (d div NANOS_PER_SEC)) +
       f32_round (f32_round (of_nat (d mod NANOS_PER_SEC)) / f32_round (of_nat NANOS_PER_SEC)))"

definition from_secs_f32 :: "rat \<Rightarrow> duration" where
  "from_secs_f32 x = nat (round_half_even (x * of_nat NANOS_PER_SEC))"

definition div_f32 :: "duration \<Rightarrow> rat \<Rightarrow> duration" where
  "div_f32 d r = from_secs_f32 (f32_round (as_secs_f32 d / r))"

definition mul_f32 :: "duration \<Rightarrow> rat \<Rightarrow> duration" where
  "mul_f32 d r = from_secs_f32 (f32_round (r * as_secs_f32 d))"

section \<open>Error bounds\<close>

lemma round_half_even_bounds:
  "of_int (round_half_even x) \<le> x + 1 / 2" "x - 1 / 2 \<le> of_int (round_half_even x)"
proof -
  define k where "k = \<lfloor>x\<rfloor>"
  have "of_int k \<le> x" "x < of_int k + 1" unfolding k_def by linarith+
  moreover have "round_half_even x = (let d = x - of_int k in
      if d < 1 / 2 then k else if 1 / 2 < d then k + 1 else if even k then k else k + 1)"
    by (simp add: round_half_even_def k_def Let_def)
  ultimately show "of_int (round_half_even x) \<le> x + 1 / 2" "x - 1 / 2 \<le> of_int (round_half_even x)"
    by (auto simp: Let_def split: if_splits)
qed

lemma round_half_even_of_int [simp]: "round_half_even (of_int k) = k"
  by (simp add: round_half_even_def)

lemma bitlen_powi:
  assumes "0 < n"
  shows "(2 :: rat) powi (bitlen n - 1) \<le> of_int n" "of_int n < (2 :: rat) powi bitlen n"
proof -
  from assms have b: "2 ^ nat (bitlen n - 1) \<le> n" "n < 2 ^ nat (bitlen n)"
    using bitlen_bounds by auto
  have l: "0 < bitlen n"
  proof (rule ccontr)
    assume "\<not> 0 < bitlen n"
    then have "nat (bitlen n) = 0" by simp
    with b(2) assms show False by simp
  qed
  have "(2 :: rat) powi (bitlen n - 1) = of_int (2 ^ nat (bitlen n - 1))"
    using l by (simp add: power_int_def)
  then show "(2 :: rat) powi (bitlen n - 1) \<le> of_int n" using b(1) by (simp only: of_int_le_iff)
  have "(2 :: rat) powi bitlen n = of_int (2 ^ nat (bitlen n))"
    using l by (simp add: power_int_def)
  then show "of_int n < (2 :: rat) powi bitlen n" using b(2) by (simp only: of_int_less_iff)
qed

lemma ilog2_bounds:
  assumes "0 < x"
  shows "2 powi ilog2 x \<le> x" "x < 2 powi (ilog2 x + 1)"
proof -
  obtain n d where q: "quotient_of x = (n, d)" by force
  have d: "0 < d" and x: "x = of_int n / of_int d" using q quotient_of_denom_pos quotient_of_div by auto
  have n: "0 < n" using assms x d by (simp add: zero_less_divide_iff)
  let ?k = "bitlen n - bitlen d"
  note bn = bitlen_powi [OF n] and bd = bitlen_powi [OF d]
  have "2 powi (?k - 1) = 2 powi (bitlen n - 1) / (2 powi bitlen d :: rat)"
    by (simp add: power_int_diff)
  also have "\<dots> \<le> of_int n / of_int d"
    using bn bd d n by (intro frac_le) (auto intro: order.strict_implies_order)
  finally have lo: "2 powi (?k - 1) \<le> x" by (simp add: x)
  have "of_int n / of_int d < 2 powi bitlen n / (2 powi (bitlen d - 1) :: rat)"
    using bn bd d n by (intro frac_less) (auto simp: zero_less_power_int)
  also have "\<dots> = 2 powi (?k + 1)"
    by (simp add: power_int_diff power_int_add)
  finally have hi: "x < 2 powi (?k + 1)" by (simp add: x)
  show "2 powi ilog2 x \<le> x" "x < 2 powi (ilog2 x + 1)"
    using lo hi by (auto simp: ilog2_def q Let_def)
qed

text \<open>A rounding error is at most one part in \<open>2 ^ 24\<close>, for numbers that are not subnormal.\<close>

lemma f32_round_bounds:
  assumes "2 powi (- 126) \<le> x"
  shows "f32_round x \<le> x * (1 + 1 / 2 ^ 24)" "x * (1 - 1 / 2 ^ 24) \<le> f32_round x"
proof -
  have pos: "0 < x" using assms zero_less_power_int [of "2 :: rat" "- 126"] by linarith
  note b = ilog2_bounds [OF pos]
  have "- 126 \<le> ilog2 x"
  proof (rule ccontr)
    assume "\<not> - 126 \<le> ilog2 x"
    then have "(2 :: rat) powi (ilog2 x + 1) \<le> 2 powi (- 126)" by (intro power_int_increasing) auto
    with b(2) assms show False by linarith
  qed
  then have m: "max (ilog2 x - 23) (- 149) = ilog2 x - 23" by simp
  define u where "u = (2 :: rat) powi (ilog2 x - 23)"
  have u: "0 < u" by (simp add: u_def)
  have "u * 2 ^ 23 = 2 powi ilog2 x" by (simp add: u_def power_int_diff)
  then have ux: "u * 2 ^ 23 \<le> x" using b(1) by simp
  have r: "f32_round x = of_int (round_half_even (x / u)) * u"
    using pos by (simp add: f32_round_def m u_def Let_def)
  have e: "(x / u + 1 / 2) * u = x + u / 2" "(x / u - 1 / 2) * u = x - u / 2"
    using u by (simp_all add: distrib_right left_diff_distrib)
  have "of_int (round_half_even (x / u)) * u \<le> (x / u + 1 / 2) * u"
    using u round_half_even_bounds(1) [of "x / u"] by (intro mult_right_mono) auto
  then have 1: "f32_round x \<le> x + u / 2" by (simp only: r e)
  have "(x / u - 1 / 2) * u \<le> of_int (round_half_even (x / u)) * u"
    using u round_half_even_bounds(2) [of "x / u"] by (intro mult_right_mono) auto
  then have 2: "x - u / 2 \<le> f32_round x" by (simp only: r e)
  from 1 2 ux show "f32_round x \<le> x * (1 + 1 / 2 ^ 24)" "x * (1 - 1 / 2 ^ 24) \<le> f32_round x"
    by (simp_all add: field_simps)
qed

lemma f32_round_0 [simp]: "f32_round 0 = 0"
  by (simp add: f32_round_def)

lemma powi_126: "(2 :: rat) powi (- 126) \<le> 1 / 10 ^ 30"
  by (simp add: power_int_minus divide_simps)

lemma f32_round_near:
  assumes "x = 0 \<or> 1 / 10 ^ 30 \<le> x"
  shows "x * (1 - 1 / 2 ^ 24) \<le> f32_round x \<and> f32_round x \<le> x * (1 + 1 / 2 ^ 24)"
proof (cases "x = 0")
  case False
  with assms powi_126 have "2 powi (- 126) \<le> x" by linarith
  with f32_round_bounds show ?thesis by auto
qed simp

lemma as_secs_f32_near:
  "of_nat d / 10 ^ 9 * (1 - 1 / 2 ^ 20) \<le> as_secs_f32 d \<and> as_secs_f32 d \<le> of_nat d / 10 ^ 9 * (1 + 1 / 2 ^ 20)"
proof -
  define s where "s = (of_nat (d div NANOS_PER_SEC) :: rat)"
  define n where "n = (of_nat (d mod NANOS_PER_SEC) :: rat)"
  define q where "q = f32_round n / f32_round (of_nat NANOS_PER_SEC)"
  have d: "of_nat d / 10 ^ 9 = s + n / 10 ^ 9"
  proof -
    have "(of_nat d :: rat) = of_nat (d div NANOS_PER_SEC * NANOS_PER_SEC + d mod NANOS_PER_SEC)" by simp
    then have "(of_nat d :: rat) = s * 10 ^ 9 + n" by (simp only: of_nat_add of_nat_mult s_def n_def) (simp add: NANOS_PER_SEC_def)
    then show ?thesis by (simp add: field_simps)
  qed
  have s: "s = 0 \<or> 1 \<le> s" "0 \<le> s"
    by (cases "d div NANOS_PER_SEC = 0") (auto simp: s_def)
  have n: "n = 0 \<or> 1 \<le> n" "0 \<le> n" by (cases "d mod NANOS_PER_SEC = 0") (auto simp: n_def)
  have c: "10 ^ 9 * (1 - 1 / 2 ^ 24) \<le> f32_round (of_nat NANOS_PER_SEC)"
    "f32_round (of_nat NANOS_PER_SEC) \<le> 10 ^ 9 * (1 + 1 / 2 ^ 24)"
    using f32_round_near [of "of_nat NANOS_PER_SEC"] by (auto simp: NANOS_PER_SEC_def)
  have fs: "s * (1 - 1 / 2 ^ 24) \<le> f32_round s" "f32_round s \<le> s * (1 + 1 / 2 ^ 24)"
    using f32_round_near [of s] s by auto
  have fn: "n * (1 - 1 / 2 ^ 24) \<le> f32_round n" "f32_round n \<le> n * (1 + 1 / 2 ^ 24)"
    using f32_round_near [of n] n by auto
  have "q \<le> n * (1 + 1 / 2 ^ 24) / (10 ^ 9 * (1 - 1 / 2 ^ 24))"
    unfolding q_def using fn c n by (intro frac_le) auto
  then have q1: "q \<le> n / 10 ^ 9 * (1 + 1 / 2 ^ 22)" using n by (simp add: field_simps)
  have "n * (1 - 1 / 2 ^ 24) / (10 ^ 9 * (1 + 1 / 2 ^ 24)) \<le> q"
    unfolding q_def using fn c n by (intro frac_le) auto
  then have q2: "n / 10 ^ 9 * (1 - 1 / 2 ^ 22) \<le> q" using n by (simp add: field_simps)
  have "q = 0 \<or> 1 / 10 ^ 30 \<le> q" using n q1 q2 by (auto simp: field_simps)
  from f32_round_near [OF this] have fq: "q * (1 - 1 / 2 ^ 24) \<le> f32_round q" "f32_round q \<le> q * (1 + 1 / 2 ^ 24)"
    by auto
  define y where "y = f32_round s + f32_round q"
  have y: "y \<le> (s + n / 10 ^ 9) * (1 + 1 / 2 ^ 21)" "(s + n / 10 ^ 9) * (1 - 1 / 2 ^ 21) \<le> y"
    using fs fq q1 q2 s n by (simp_all add: y_def field_simps)
  have "y = 0 \<or> 1 / 10 ^ 30 \<le> y"
    using s n y by (auto simp: field_simps)
  from f32_round_near [OF this] have fy: "y * (1 - 1 / 2 ^ 24) \<le> f32_round y" "f32_round y \<le> y * (1 + 1 / 2 ^ 24)"
    by auto
  have asf: "as_secs_f32 d = f32_round y" by (simp add: as_secs_f32_def y_def q_def s_def n_def)
  show ?thesis unfolding asf d using fy y s n by (auto simp: field_simps)
qed

text \<open>The two operations of the timers: a third of a whole number of seconds, and jitter.\<close>

lemma from_secs_f32_near:
  "0 \<le> x \<Longrightarrow> x * 10 ^ 9 - 1 / 2 \<le> of_nat (from_secs_f32 x) \<and> of_nat (from_secs_f32 x) \<le> x * 10 ^ 9 + 1 / 2"
proof -
  assume "0 \<le> x"
  let ?r = "round_half_even (x * 10 ^ 9)"
  note b = round_half_even_bounds [of "x * 10 ^ 9"]
  have "0 \<le> ?r"
  proof (rule ccontr)
    assume "\<not> 0 \<le> ?r"
    then have "?r \<le> - 1" by simp
    then have "of_int ?r \<le> (of_int (- 1) :: rat)" by (simp only: of_int_le_iff)
    with b(2) \<open>0 \<le> x\<close> show False by simp
  qed
  then have "(of_nat (from_secs_f32 x) :: rat) = of_int ?r"
    by (simp add: from_secs_f32_def NANOS_PER_SEC_def)
  then show ?thesis using b by simp
qed

lemma div_f32_3_near:
  assumes "1 \<le> h"
  shows "of_nat h * 10 ^ 9 / 3 * (1 - 1 / 2 ^ 19) - 1 \<le> (of_nat (div_f32 (from_secs h) 3) :: rat) \<and>
    of_nat (div_f32 (from_secs h) 3) \<le> of_nat h * 10 ^ 9 / 3 * (1 + 1 / 2 ^ 19) + (1 :: rat)"
proof -
  let ?s = "as_secs_f32 (from_secs h)"
  have s: "of_nat h * (1 - 1 / 2 ^ 20) \<le> ?s" "?s \<le> of_nat h * (1 + 1 / 2 ^ 20)"
    using as_secs_f32_near [of "from_secs h"] by (simp_all add: from_secs_def NANOS_PER_SEC_def field_simps)
  have h: "(1 :: rat) \<le> of_nat h" using assms by simp
  then have "?s / 3 = 0 \<or> 1 / 10 ^ 30 \<le> ?s / 3" using s by simp
  from f32_round_near [OF this] have r: "?s / 3 * (1 - 1 / 2 ^ 24) \<le> f32_round (?s / 3)"
    "f32_round (?s / 3) \<le> ?s / 3 * (1 + 1 / 2 ^ 24)" by auto
  then have "0 \<le> f32_round (?s / 3)" using s h by simp
  from from_secs_f32_near [OF this] r s h show ?thesis by (simp add: div_f32_def)
qed

lemma mul_f32_near:
  assumes "3 / 4 \<le> j" "j \<le> 1" "1000000 \<le> d"
  shows "of_nat d * (1 / 2) \<le> (of_nat (mul_f32 d j) :: rat) \<and> of_nat (mul_f32 d j) \<le> of_nat d * (1 + 1 / 2 ^ 18 :: rat)"
proof -
  let ?s = "as_secs_f32 d"
  have d: "(1000000 :: rat) \<le> of_nat d" using assms(3) of_nat_mono [of 1000000 d] by simp
  have s: "of_nat d / 10 ^ 9 * (1 - 1 / 2 ^ 20) \<le> ?s" "?s \<le> of_nat d / 10 ^ 9 * (1 + 1 / 2 ^ 20)"
    using as_secs_f32_near [of d] by auto
  have pos: "0 \<le> ?s" using s d by simp
  define z where "z = j * ?s"
  have js: "3 / 4 * ?s \<le> z" "z \<le> ?s"
    unfolding z_def using assms pos mult_right_mono [of "3 / 4" j ?s] mult_right_mono [of j 1 ?s] by auto
  have "z = 0 \<or> 1 / 10 ^ 30 \<le> z" using s d js by simp
  from f32_round_near [OF this] have r: "z * (1 - 1 / 2 ^ 24) \<le> f32_round z" "f32_round z \<le> z * (1 + 1 / 2 ^ 24)"
    by auto
  then have "0 \<le> f32_round z" using s d js by simp
  from from_secs_f32_near [OF this] r s d js show ?thesis by (simp add: mul_f32_def z_def [symmetric])
qed

text \<open>
  A keepalive period: a third of the hold time with jitter is positive and shorter than half
  of the hold time.
\<close>

lemma keepalive_period:
  assumes "1 \<le> h" "3 / 4 \<le> j" "j \<le> 1"
  shows "0 < mul_f32 (div_f32 (from_secs h) 3) j" "2 * mul_f32 (div_f32 (from_secs h) 3) j < from_secs h"
proof -
  let ?d = "div_f32 (from_secs h) 3"
  have h: "(1 :: rat) \<le> of_nat h" using assms(1) by simp
  have d: "of_nat h * 10 ^ 9 / 3 * (1 - 1 / 2 ^ 19) - 1 \<le> (of_nat ?d :: rat)"
    "(of_nat ?d :: rat) \<le> of_nat h * 10 ^ 9 / 3 * (1 + 1 / 2 ^ 19) + 1"
    using div_f32_3_near [OF assms(1)] by auto
  have "(of_nat 1000000 :: rat) \<le> of_nat ?d" using d h by simp
  then have "1000000 \<le> ?d" by (simp only: of_nat_le_iff)
  from mul_f32_near [OF assms(2,3) this]
  have m: "of_nat ?d * (1 / 2) \<le> (of_nat (mul_f32 ?d j) :: rat)"
    "(of_nat (mul_f32 ?d j) :: rat) \<le> of_nat ?d * (1 + 1 / 2 ^ 18)" by auto
  have "(0 :: rat) < of_nat (mul_f32 ?d j)" using m d h by simp
  then show "0 < mul_f32 ?d j" by (simp only: of_nat_0_less_iff)
  have "(of_nat (2 * mul_f32 ?d j) :: rat) < of_nat (from_secs h)"
    using m d h by (simp add: from_secs_def NANOS_PER_SEC_def)
  then show "2 * mul_f32 ?d j < from_secs h" by (simp only: of_nat_less_iff)
qed

end
