(* ===== verification/Bgp_Events.thy ===== *)
theory Bgp_Events
  imports Bgp_Message
begin

text \<open>
  The events of a BGP session, \<open>crates/bgp-speaker/src/events.rs\<close> and \<open>fsm.rs\<close>, and the functions
  of \<open>connection.rs\<close> that turn a received message into an event: what an OPEN or UPDATE
  message means for the session and how severe the errors in an UPDATE are.

  \<open>'a\<close> is the type of peer addresses.
\<close>

section \<open>Events\<close>

datatype (plugins only: code) UpdateTreatment =
    Normal
  | AttributeDiscard
  | TreatAsWithdraw
  | ResetAddressFamily u16 u8
  | SessionReset

datatype (plugins only: code) ordering = Less | Equal | Greater

fun UpdateTreatment_cmp :: "UpdateTreatment \<Rightarrow> UpdateTreatment \<Rightarrow> ordering" where
  "UpdateTreatment_cmp Normal Normal = Equal"
| "UpdateTreatment_cmp Normal _ = Less"
| "UpdateTreatment_cmp AttributeDiscard Normal = Greater"
| "UpdateTreatment_cmp AttributeDiscard AttributeDiscard = Equal"
| "UpdateTreatment_cmp AttributeDiscard _ = Less"
| "UpdateTreatment_cmp TreatAsWithdraw Normal = Greater"
| "UpdateTreatment_cmp TreatAsWithdraw AttributeDiscard = Greater"
| "UpdateTreatment_cmp TreatAsWithdraw TreatAsWithdraw = Equal"
| "UpdateTreatment_cmp TreatAsWithdraw _ = Less"
| "UpdateTreatment_cmp (ResetAddressFamily _ _) Normal = Greater"
| "UpdateTreatment_cmp (ResetAddressFamily _ _) AttributeDiscard = Greater"
| "UpdateTreatment_cmp (ResetAddressFamily _ _) TreatAsWithdraw = Greater"
| "UpdateTreatment_cmp (ResetAddressFamily _ _) (ResetAddressFamily _ _) = Equal"
| "UpdateTreatment_cmp (ResetAddressFamily _ _) SessionReset = Less"
| "UpdateTreatment_cmp SessionReset SessionReset = Equal"
| "UpdateTreatment_cmp SessionReset _ = Greater"

text \<open>
  Treatments that reset different address families compare as equal, so the order is only a
  preorder.
\<close>

instantiation UpdateTreatment :: preorder
begin

definition less_UpdateTreatment :: "UpdateTreatment \<Rightarrow> UpdateTreatment \<Rightarrow> bool" where
  "less_UpdateTreatment a b \<longleftrightarrow> UpdateTreatment_cmp a b = Less"

definition less_eq_UpdateTreatment :: "UpdateTreatment \<Rightarrow> UpdateTreatment \<Rightarrow> bool" where
  "less_eq_UpdateTreatment a b \<longleftrightarrow> UpdateTreatment_cmp a b \<noteq> Greater"

instance
proof
  fix x y z :: UpdateTreatment
  show "x < y \<longleftrightarrow> x \<le> y \<and> \<not> y \<le> x"
    by (cases x; cases y) (simp_all add: less_UpdateTreatment_def less_eq_UpdateTreatment_def)
  show "x \<le> x" by (cases x) (simp_all add: less_eq_UpdateTreatment_def)
  show "x \<le> y \<Longrightarrow> y \<le> z \<Longrightarrow> x \<le> z"
    by (cases x; cases y; cases z) (simp_all add: less_eq_UpdateTreatment_def)
qed

end

datatype (plugins only: code) ('x, 'a) ConnectionEvent =
    HoldTimerExpires
  | KeepAliveTimerExpires
  | DelayOpenTimerExpires
  | TcpConnectionRequestAcked 'a
  | TcpConnectionConfirmed 'a
  | TcpConnectionFails
  | BGPOpen BgpOpenMessage
  | BGPOpenWithDelayOpenTimer BgpOpenMessage
  | BGPHeaderErr MessageHeaderError
  | BGPOpenMsgErr OpenMessageError
  | NotifMsgVerErr
  | NotifMsg BgpNotificationMessage
  | NotifMsgErr BgpNotificationMessageParsingError
  | KeepAliveMsg
  | UpdateMsg "'x BgpUpdateMessage" UpdateTreatment
  | UpdateMsgErr UpdateMessageError
  | RouteRefresh BgpRouteRefreshMessage
  | RouteRefreshErr RouteRefreshError

datatype (plugins only: code) ('x, 'a) BgpEvent =
    ManualStart
  | ManualStop
  | AutomaticStart
  | ManualStartWithPassiveTcp
  | AutomaticStartWithPassiveTcp
  | AutomaticStartWithDampPeerOscillations
  | AutomaticStartWithDampPeerOscillationsPassiveTcp
  | AutomaticStop
  | ConnectRetryTimerExpires
  | HoldTimerExpires
  | KeepAliveTimerExpires
  | DelayOpenTimerExpires
  | IdleHoldTimerExpires
  | TcpConnectionValid 'a
  | TcpConnectionRequestInvalid
  | TcpConnectionRequestAcked 'a
  | TcpConnectionConfirmed 'a
  | TcpConnectionFails
  | BGPOpen BgpOpenMessage
  | BGPOpenWithDelayOpenTimer BgpOpenMessage
  | BGPHeaderErr MessageHeaderError
  | BGPOpenMsgErr OpenMessageError
  | OpenCollisionDump
  | NotifMsgVerErr
  | NotifMsg BgpNotificationMessage
  | NotifMsgErr BgpNotificationMessageParsingError
  | KeepAliveMsg
  | UpdateMsg "'x BgpUpdateMessage" UpdateTreatment
  | UpdateMsgErr UpdateMessageError
  | RouteRefresh BgpRouteRefreshMessage
  | RouteRefreshErr RouteRefreshError

primrec BgpEvent_from :: "('x, 'a) ConnectionEvent \<Rightarrow> ('x, 'a) BgpEvent" where
  "BgpEvent_from ConnectionEvent.HoldTimerExpires = BgpEvent.HoldTimerExpires"
| "BgpEvent_from ConnectionEvent.KeepAliveTimerExpires = BgpEvent.KeepAliveTimerExpires"
| "BgpEvent_from ConnectionEvent.DelayOpenTimerExpires = BgpEvent.DelayOpenTimerExpires"
| "BgpEvent_from (ConnectionEvent.TcpConnectionRequestAcked s) = BgpEvent.TcpConnectionRequestAcked s"
| "BgpEvent_from (ConnectionEvent.TcpConnectionConfirmed s) = BgpEvent.TcpConnectionConfirmed s"
| "BgpEvent_from ConnectionEvent.TcpConnectionFails = BgpEvent.TcpConnectionFails"
| "BgpEvent_from (ConnectionEvent.BGPOpen m) = BgpEvent.BGPOpen m"
| "BgpEvent_from (ConnectionEvent.BGPOpenWithDelayOpenTimer m) = BgpEvent.BGPOpenWithDelayOpenTimer m"
| "BgpEvent_from (ConnectionEvent.BGPHeaderErr e) = BgpEvent.BGPHeaderErr e"
| "BgpEvent_from (ConnectionEvent.BGPOpenMsgErr e) = BgpEvent.BGPOpenMsgErr e"
| "BgpEvent_from ConnectionEvent.NotifMsgVerErr = BgpEvent.NotifMsgVerErr"
| "BgpEvent_from (ConnectionEvent.NotifMsg m) = BgpEvent.NotifMsg m"
| "BgpEvent_from (ConnectionEvent.NotifMsgErr e) = BgpEvent.NotifMsgErr e"
| "BgpEvent_from ConnectionEvent.KeepAliveMsg = BgpEvent.KeepAliveMsg"
| "BgpEvent_from (ConnectionEvent.UpdateMsg m t) = BgpEvent.UpdateMsg m t"
| "BgpEvent_from (ConnectionEvent.UpdateMsgErr e) = BgpEvent.UpdateMsgErr e"
| "BgpEvent_from (ConnectionEvent.RouteRefresh m) = BgpEvent.RouteRefresh m"
| "BgpEvent_from (ConnectionEvent.RouteRefreshErr e) = BgpEvent.RouteRefreshErr e"

primrec event_of_parsing_error :: "('x, 'e) BgpMessageParsingError \<Rightarrow> ('x, 'a) ConnectionEvent" where
  "event_of_parsing_error (BgpMessageParsingError.NomError _) =
     ConnectionEvent.BGPHeaderErr (MessageHeaderError.Unspecific [])"
| "event_of_parsing_error (BgpMessageParsingError.ConnectionNotSynchronized header) =
     ConnectionEvent.BGPHeaderErr (MessageHeaderError.ConnectionNotSynchronized (be_bytes 16 (unat header)))"
| "event_of_parsing_error (BgpMessageParsingError.UndefinedBgpMessageType msg_type) =
     ConnectionEvent.BGPHeaderErr (MessageHeaderError.BadMessageType
       [case msg_type of UndefinedBgpMessageType.UndefinedBgpMessageType t \<Rightarrow> t])"
| "event_of_parsing_error (BgpMessageParsingError.BadMessageLength l) =
     ConnectionEvent.BGPHeaderErr (MessageHeaderError.BadMessageLength (be_bytes 2 (unat l)))"
| "event_of_parsing_error (BgpMessageParsingError.BgpOpenMessageParsingError err) =
     ConnectionEvent.BGPOpenMsgErr (OpenMessageError_from err)"
| "event_of_parsing_error (BgpMessageParsingError.BgpUpdateMessageParsingError err) =
     ConnectionEvent.UpdateMsgErr (UpdateMessageError_from err)"
| "event_of_parsing_error (BgpMessageParsingError.BgpNotificationMessageParsingError err) =
     ConnectionEvent.NotifMsgErr err"
| "event_of_parsing_error (BgpMessageParsingError.BgpRouteRefreshMessageParsingError err) =
     ConnectionEvent.RouteRefreshErr (RouteRefreshError_from err)"

primrec event_of_decoder_error :: "('x, 'e) BgpCodecDecoderError \<Rightarrow> ('x, 'a) ConnectionEvent" where
  "event_of_decoder_error (IoError _) = ConnectionEvent.TcpConnectionFails"
| "event_of_decoder_error (BgpCodecDecoderError.Incomplete _) =
     ConnectionEvent.BGPHeaderErr (MessageHeaderError.BadMessageLength [])"
| "event_of_decoder_error (BgpCodecDecoderError.BgpMessageParsingError parse_err) = event_of_parsing_error parse_err"

section \<open>States and errors of the state machine\<close>

datatype (plugins only: code) FsmState = Idle | Connect | Active | OpenSent | OpenConfirm | Established

datatype (plugins only: code) ConnectionState = Connected | OpenSent | OpenConfirm | Established | Terminate

datatype (plugins only: code) ('x, 'a, 'w) FsmStateError =
    BgpMessageWritingError "'w BgpMessageWritingError"
  | InvalidConnectionStateTransition "('x, 'a) BgpEvent" FsmState ConnectionState ConnectionState

section \<open>Errors in UPDATE messages\<close>

definition reset_family :: "AddressFamily \<Rightarrow> SubsequentAddressFamily \<Rightarrow> UpdateTreatment" where
  "reset_family afi safi =
     ResetAddressFamily (u16_from_AddressFamily afi) (u8_from_SubsequentAddressFamily safi)"

primrec treatment_of_mp_reach :: "'e MpReachParsingError \<Rightarrow> UpdateTreatment" where
  "treatment_of_mp_reach (MpReachParsingError.NomError _) = SessionReset"
| "treatment_of_mp_reach (MpReachParsingError.UndefinedAddressFamily _) = SessionReset"
| "treatment_of_mp_reach (MpReachParsingError.UndefinedSubsequentAddressFamily _) = SessionReset"
| "treatment_of_mp_reach (MpReachParsingError.IpAddrError t _) = reset_family (address_family t) (subsequent_address_family t)"
| "treatment_of_mp_reach (MpReachParsingError.LabeledNextHopError t _) = reset_family (address_family t) (subsequent_address_family t)"
| "treatment_of_mp_reach (MpReachParsingError.Ipv4UnicastAddressError _) = reset_family AddressFamily.IPv4 SubsequentAddressFamily.Unicast"
| "treatment_of_mp_reach (MpReachParsingError.Ipv4MulticastAddressError _) = reset_family AddressFamily.IPv4 SubsequentAddressFamily.Multicast"
| "treatment_of_mp_reach (MpReachParsingError.Ipv4NlriMplsLabelsAddressError _) = reset_family AddressFamily.IPv4 SubsequentAddressFamily.NlriMplsLabels"
| "treatment_of_mp_reach (MpReachParsingError.Ipv4MplsVpnUnicastAddressError _) = reset_family AddressFamily.IPv4 SubsequentAddressFamily.MplsVpn"
| "treatment_of_mp_reach (MpReachParsingError.Ipv6UnicastAddressError _) = reset_family AddressFamily.IPv6 SubsequentAddressFamily.Unicast"
| "treatment_of_mp_reach (MpReachParsingError.Ipv6NlriMplsLabelsAddressError _) = reset_family AddressFamily.IPv6 SubsequentAddressFamily.NlriMplsLabels"
| "treatment_of_mp_reach (MpReachParsingError.Ipv6MulticastAddressError _) = reset_family AddressFamily.IPv6 SubsequentAddressFamily.Multicast"
| "treatment_of_mp_reach (MpReachParsingError.Ipv6MplsVpnUnicastAddressError _) = reset_family AddressFamily.IPv6 SubsequentAddressFamily.MplsVpn"
| "treatment_of_mp_reach (MpReachParsingError.L2EvpnAddressError _) = reset_family AddressFamily.L2vpn SubsequentAddressFamily.BgpEvpn"
| "treatment_of_mp_reach (MpReachParsingError.RouteTargetMembershipAddressError _) = reset_family AddressFamily.IPv4 SubsequentAddressFamily.RouteTargetConstrains"
| "treatment_of_mp_reach (MpReachParsingError.BgpLsNlriParsingError _) = reset_family AddressFamily.IPv4 SubsequentAddressFamily.RouteTargetConstrains"

primrec treatment_of_mp_unreach :: "'e MpUnreachParsingError \<Rightarrow> UpdateTreatment" where
  "treatment_of_mp_unreach (MpUnreachParsingError.NomError _) = SessionReset"
| "treatment_of_mp_unreach (MpUnreachParsingError.UndefinedAddressFamily _) = SessionReset"
| "treatment_of_mp_unreach (MpUnreachParsingError.UndefinedSubsequentAddressFamily _) = SessionReset"
| "treatment_of_mp_unreach (MpUnreachParsingError.Ipv4UnicastAddressError _) = reset_family AddressFamily.IPv4 SubsequentAddressFamily.Unicast"
| "treatment_of_mp_unreach (MpUnreachParsingError.Ipv4MulticastAddressError _) = reset_family AddressFamily.IPv4 SubsequentAddressFamily.Multicast"
| "treatment_of_mp_unreach (MpUnreachParsingError.Ipv4NlriMplsLabelsAddressError _) = reset_family AddressFamily.IPv4 SubsequentAddressFamily.NlriMplsLabels"
| "treatment_of_mp_unreach (MpUnreachParsingError.Ipv4MplsVpnUnicastAddressError _) = reset_family AddressFamily.IPv4 SubsequentAddressFamily.MplsVpn"
| "treatment_of_mp_unreach (MpUnreachParsingError.Ipv6UnicastAddressError _) = reset_family AddressFamily.IPv6 SubsequentAddressFamily.Unicast"
| "treatment_of_mp_unreach (MpUnreachParsingError.Ipv6NlriMplsLabelsAddressError _) = reset_family AddressFamily.IPv6 SubsequentAddressFamily.NlriMplsLabels"
| "treatment_of_mp_unreach (MpUnreachParsingError.Ipv6MulticastAddressError _) = reset_family AddressFamily.IPv6 SubsequentAddressFamily.Multicast"
| "treatment_of_mp_unreach (MpUnreachParsingError.Ipv6MplsVpnUnicastAddressError _) = reset_family AddressFamily.IPv6 SubsequentAddressFamily.MplsVpn"
| "treatment_of_mp_unreach (MpUnreachParsingError.L2EvpnAddressError _) = reset_family AddressFamily.L2vpn SubsequentAddressFamily.BgpEvpn"
| "treatment_of_mp_unreach (MpUnreachParsingError.RouteTargetMembershipAddressError _) = reset_family AddressFamily.IPv4 SubsequentAddressFamily.RouteTargetConstrains"
| "treatment_of_mp_unreach (MpUnreachParsingError.BgpLsError _) = reset_family AddressFamily.IPv4 SubsequentAddressFamily.RouteTargetConstrains"

text \<open>The treatment that one error asks for; \<open>None\<close> keeps the treatment as it is.\<close>

primrec treatment_of_attr :: "('x, 'e) PathAttributeParsingError \<Rightarrow> UpdateTreatment option" where
  "treatment_of_attr (PathAttributeParsingError.NomError _) = Some TreatAsWithdraw"
| "treatment_of_attr (PathAttributeParsingError.OriginError _) = Some TreatAsWithdraw"
| "treatment_of_attr (PathAttributeParsingError.AsPathError _) = Some TreatAsWithdraw"
| "treatment_of_attr (PathAttributeParsingError.NextHopError _) = Some TreatAsWithdraw"
| "treatment_of_attr (PathAttributeParsingError.MultiExitDiscriminatorError _) = Some TreatAsWithdraw"
| "treatment_of_attr (PathAttributeParsingError.LocalPreferenceError _) = Some TreatAsWithdraw"
| "treatment_of_attr (PathAttributeParsingError.AtomicAggregateError _) = Some AttributeDiscard"
| "treatment_of_attr (PathAttributeParsingError.AggregatorError _) = Some AttributeDiscard"
| "treatment_of_attr (PathAttributeParsingError.CommunitiesError _) = Some TreatAsWithdraw"
| "treatment_of_attr (PathAttributeParsingError.ExtendedCommunitiesError _) = Some TreatAsWithdraw"
| "treatment_of_attr (PathAttributeParsingError.ExtendedCommunitiesErrorIpv6 _) = Some TreatAsWithdraw"
| "treatment_of_attr (PathAttributeParsingError.LargeCommunitiesError _) = Some TreatAsWithdraw"
| "treatment_of_attr (PathAttributeParsingError.OriginatorError _) = Some TreatAsWithdraw"
| "treatment_of_attr (PathAttributeParsingError.ClusterListError _) = Some TreatAsWithdraw"
| "treatment_of_attr (PathAttributeParsingError.MpReachErrorError err) = Some (treatment_of_mp_reach err)"
| "treatment_of_attr (PathAttributeParsingError.MpUnreachErrorError err) = Some (treatment_of_mp_unreach err)"
| "treatment_of_attr (PathAttributeParsingError.OnlyToCustomerError _) = Some AttributeDiscard"
| "treatment_of_attr (PathAttributeParsingError.AigpError _) = Some AttributeDiscard"
| "treatment_of_attr (PathAttributeParsingError.UnknownAttributeError _) = None"
| "treatment_of_attr (PathAttributeParsingError.InvalidPathAttribute err _) = (case err of InvalidOptionalFlagValue _ \<Rightarrow> Some TreatAsWithdraw
       | InvalidTransitiveFlagValue _ \<Rightarrow> Some TreatAsWithdraw
       | InvalidPartialFlagValue _ \<Rightarrow> None)"
| "treatment_of_attr (PathAttributeParsingError.BgpLsError _) = Some AttributeDiscard"
| "treatment_of_attr (PathAttributeParsingError.SegmentIdentifierParsingError _) = Some AttributeDiscard"

primrec update_treatment_loop :: "UpdateTreatment \<Rightarrow> ('x, 'e) PathAttributeParsingError list \<Rightarrow> UpdateTreatment" where
  "update_treatment_loop treatment [] = treatment"
| "update_treatment_loop treatment (path_err # errs) =
     update_treatment_loop
       (case treatment_of_attr path_err of
          Some tmp \<Rightarrow> if treatment < tmp then tmp else treatment
        | None \<Rightarrow> treatment) errs"

definition update_treatment :: "('x, 'e) ignored_errors \<Rightarrow> UpdateTreatment" where
  "update_treatment errors = update_treatment_loop Normal (path_attr_errors errors)"

section \<open>Received messages as events\<close>

definition handle_open_message ::
  "BgpOpenMessage \<Rightarrow> u32 option \<Rightarrow> bool \<Rightarrow> u32 \<times> ('x, 'a) ConnectionEvent" where
  "handle_open_message open peer_asn delay_timer_running =
    (case peer_asn of
       Some asn \<Rightarrow>
         if asn \<noteq> my_asn4 open
         then (bgp_id open, ConnectionEvent.BGPOpenMsgErr (OpenMessageError.BadPeerAs (be_bytes 4 (unat asn))))
         else if delay_timer_running then (bgp_id open, ConnectionEvent.BGPOpenWithDelayOpenTimer open)
         else (bgp_id open, ConnectionEvent.BGPOpen open)
     | None \<Rightarrow>
         if delay_timer_running then (bgp_id open, ConnectionEvent.BGPOpenWithDelayOpenTimer open)
         else (bgp_id open, ConnectionEvent.BGPOpen open))"

record seen_attrs =
  has_origin :: bool
  has_asn_path :: bool
  has_next_hop :: bool
  bgp_mp_reach_count :: nat
  bgp_mp_unreach_count :: nat

definition no_attrs :: seen_attrs where
  "no_attrs = \<lparr>has_origin = False, has_asn_path = False, has_next_hop = False,
     bgp_mp_reach_count = 0, bgp_mp_unreach_count = 0\<rparr>"

definition see_attr :: "'x PathAttribute \<Rightarrow> seen_attrs \<Rightarrow> seen_attrs" where
  "see_attr attr seen = (case attr_value attr of
       PathAttributeValue.Origin _ \<Rightarrow> seen\<lparr>has_origin := True\<rparr>
     | PathAttributeValue.AsPath _ \<Rightarrow> seen\<lparr>has_asn_path := True\<rparr>
     | PathAttributeValue.As4Path _ \<Rightarrow> seen\<lparr>has_asn_path := True\<rparr>
     | PathAttributeValue.NextHop _ \<Rightarrow> seen\<lparr>has_next_hop := True\<rparr>
     | PathAttributeValue.MpReach _ \<Rightarrow> seen\<lparr>bgp_mp_reach_count := bgp_mp_reach_count seen + 1\<rparr>
     | PathAttributeValue.MpUnreach _ \<Rightarrow> seen\<lparr>bgp_mp_unreach_count := bgp_mp_unreach_count seen + 1\<rparr>
     | _ \<Rightarrow> seen)"

text \<open>The loop stops as soon as an origin and an AS path were seen.\<close>

primrec see_attrs :: "'x PathAttribute list \<Rightarrow> seen_attrs \<Rightarrow> seen_attrs" where
  "see_attrs [] seen = seen"
| "see_attrs (attr # attrs) seen =
     (if has_origin seen \<and> has_asn_path seen then seen else see_attrs attrs (see_attr attr seen))"

definition missing_attr :: "PathAttributeType \<Rightarrow> ('x, 'a) ConnectionEvent option" where
  "missing_attr t = Some (ConnectionEvent.UpdateMsgErr
     (UpdateMessageError.MissingWellKnownAttribute [u8_from_PathAttributeType t]))"

definition handle_update_message ::
  "'x BgpUpdateMessage \<Rightarrow> ('x, 'e) ignored_errors \<Rightarrow> ('x, 'a) ConnectionEvent option" where
  "handle_update_message update errors =
    (let eor = end_of_rib update;
         seen = see_attrs (path_attributes update) no_attrs
     in if eor = None \<and> \<not> has_origin seen then missing_attr PathAttributeType.Origin
        else if eor = None \<and> \<not> has_asn_path seen then missing_attr PathAttributeType.AsPath
        else if eor = None \<and> bgp_mp_reach_count seen = 0 \<and> bgp_mp_unreach_count seen = 0 \<and>
                \<not> has_next_hop seen \<and> nlri update \<noteq> []
          then missing_attr PathAttributeType.NextHop
        else if bgp_mp_reach_count seen > 1 \<or> bgp_mp_unreach_count seen > 1
          then Some (ConnectionEvent.UpdateMsgErr (UpdateMessageError.MalformedAttributeList []))
        else Some (ConnectionEvent.UpdateMsg update (update_treatment errors)))"

section \<open>Properties\<close>

text \<open>How severe a treatment is.\<close>

primrec severity :: "UpdateTreatment \<Rightarrow> nat" where
  "severity Normal = 0"
| "severity AttributeDiscard = 1"
| "severity TreatAsWithdraw = 2"
| "severity (ResetAddressFamily _ _) = 3"
| "severity SessionReset = 4"

lemma less_treatment: "a < b \<longleftrightarrow> severity a < severity b"
  by (cases a; cases b) (simp_all add: less_UpdateTreatment_def)

definition treatments :: "('x, 'e) PathAttributeParsingError list \<Rightarrow> UpdateTreatment list" where
  "treatments errs = Normal # List.map_filter treatment_of_attr errs"

text \<open>The first of the most severe treatments of a list that starts with a current one.\<close>

primrec first_most_severe :: "UpdateTreatment \<Rightarrow> UpdateTreatment list \<Rightarrow> UpdateTreatment" where
  "first_most_severe t [] = t"
| "first_most_severe t (u # us) = first_most_severe (if severity t < severity u then u else t) us"

lemma update_treatment_loop_eq:
  "update_treatment_loop t errs = first_most_severe t (List.map_filter treatment_of_attr errs)"
  by (induction errs arbitrary: t) (auto simp: List.map_filter_def less_treatment split: option.splits)

lemma first_most_severe_max:
  "severity (first_most_severe t us) = Max (severity ` set (t # us)) \<and> first_most_severe t us \<in> set (t # us)"
proof (induction us arbitrary: t)
  case (Cons u us)
  let ?t = "if severity t < severity u then u else t"
  have "Max (severity ` set (t # u # us)) = max (max (severity t) (severity u)) (Max (insert 0 (severity ` set us)))"
    by (cases "us = []") (auto simp: Max_insert max.assoc)
  moreover have "Max (severity ` set (?t # us)) = max (severity ?t) (Max (insert 0 (severity ` set us)))"
    by (cases "us = []") (auto simp: Max_insert)
  moreover have "severity ?t = max (severity t) (severity u)" by simp
  ultimately show ?case using Cons [of ?t] by auto
qed simp

text \<open>
  C17: an UPDATE with tolerated errors gets the treatment of one of its errors, or none, and no error asks
  for a more severe one.
\<close>

theorem update_treatment_most_severe:
  "update_treatment errors \<in> set (treatments (path_attr_errors errors)) \<and>
   severity (update_treatment errors) = Max (severity ` set (treatments (path_attr_errors errors)))"
  using first_most_severe_max [of Normal "List.map_filter treatment_of_attr (path_attr_errors errors)"]
  by (simp add: update_treatment_def update_treatment_loop_eq treatments_def)

text \<open>Scanning attributes.\<close>

definition is_origin :: "'x PathAttribute \<Rightarrow> bool" where
  "is_origin a = (case attr_value a of PathAttributeValue.Origin _ \<Rightarrow> True | _ \<Rightarrow> False)"

definition is_as_path :: "'x PathAttribute \<Rightarrow> bool" where
  "is_as_path a = (case attr_value a of PathAttributeValue.AsPath _ \<Rightarrow> True | PathAttributeValue.As4Path _ \<Rightarrow> True | _ \<Rightarrow> False)"

lemma see_attr_flags:
  "has_origin (see_attr a s) \<longleftrightarrow> has_origin s \<or> is_origin a"
  "has_asn_path (see_attr a s) \<longleftrightarrow> has_asn_path s \<or> is_as_path a"
  by (cases "attr_value a"; simp add: see_attr_def is_origin_def is_as_path_def)+

lemma see_attrs_flags:
  "has_origin (see_attrs as s) \<longleftrightarrow> has_origin s \<or> list_ex is_origin as"
  "has_asn_path (see_attrs as s) \<longleftrightarrow> has_asn_path s \<or> list_ex is_as_path as"
proof (induction as arbitrary: s)
  case (Cons a as)
  { case 1 then show ?case using Cons by (simp add: see_attr_flags) }
  { case 2 then show ?case using Cons by (simp add: see_attr_flags) }
qed simp_all

text \<open>
  C30: an UPDATE that is no End-of-RIB marker is passed on only if it carries an ORIGIN and an
  AS path; in particular an UPDATE that only withdraws routes is reported as an error.
\<close>

theorem update_needs_origin_and_path:
  assumes "end_of_rib u = None"
  shows "(\<not> list_ex is_origin (path_attributes u) \<longrightarrow>
      handle_update_message u errs = missing_attr PathAttributeType.Origin) \<and>
    (list_ex is_origin (path_attributes u) \<and> \<not> list_ex is_as_path (path_attributes u) \<longrightarrow>
      handle_update_message u errs = missing_attr PathAttributeType.AsPath)"
  using assms by (simp add: handle_update_message_def Let_def see_attrs_flags no_attrs_def)

theorem update_needs_origin_and_path_witness:
  "end_of_rib \<lparr>withdrawn_routes = [\<lparr>path_id = None, network = Ipv4Unicast.Ipv4Unicast \<lparr>net_addr = 0x0a000000, net_prefix_len = 8\<rparr>\<rparr>],
     path_attributes = [] :: nat PathAttribute list, nlri = []\<rparr> = None \<and>
   handle_update_message \<lparr>withdrawn_routes = [\<lparr>path_id = None, network = Ipv4Unicast.Ipv4Unicast \<lparr>net_addr = 0x0a000000, net_prefix_len = 8\<rparr>\<rparr>],
     path_attributes = [] :: nat PathAttribute list, nlri = []\<rparr> (BgpParsingIgnoredErrors_default :: (nat, nat) ignored_errors) =
   (Some (ConnectionEvent.UpdateMsgErr (UpdateMessageError.MissingWellKnownAttribute [1])) :: (nat, nat) ConnectionEvent option)"
  using update_needs_origin_and_path [of "\<lparr>withdrawn_routes = [\<lparr>path_id = None, network = Ipv4Unicast.Ipv4Unicast \<lparr>net_addr = 0x0a000000, net_prefix_len = 8\<rparr>\<rparr>],
     path_attributes = [] :: nat PathAttribute list, nlri = []\<rparr>" "BgpParsingIgnoredErrors_default :: (nat, nat) ignored_errors"]
  by (simp add: end_of_rib_def missing_attr_def)

text \<open>
  C29: attributes after the first ORIGIN and AS path are not looked at.  An UPDATE whose attributes start
  with these two, in either order, and that announces IPv4 routes is reported as missing
  its \<open>NEXT_HOP\<close>, whatever attributes follow.
\<close>

theorem update_next_hop_after_as_path_is_missed:
  assumes "path_attributes u = a # b # rest" "is_origin a \<and> is_as_path b \<or> is_as_path a \<and> is_origin b" "nlri u \<noteq> []"
  shows "handle_update_message u errs = missing_attr PathAttributeType.NextHop"
proof -
  have "see_attr b (see_attr a no_attrs) = no_attrs\<lparr>has_origin := True, has_asn_path := True\<rparr>"
    using assms(2) unfolding is_origin_def is_as_path_def
    by (cases "attr_value a"; cases "attr_value b"; simp add: see_attr_def no_attrs_def)
  moreover have "see_attrs rest (no_attrs\<lparr>has_origin := True, has_asn_path := True\<rparr>) =
      no_attrs\<lparr>has_origin := True, has_asn_path := True\<rparr>"
    by (cases rest) simp_all
  moreover have "\<not> (has_origin (see_attr a no_attrs) \<and> has_asn_path (see_attr a no_attrs))"
    by (cases "attr_value a") (simp_all add: see_attr_def no_attrs_def)
  ultimately have "see_attrs (path_attributes u) no_attrs = no_attrs\<lparr>has_origin := True, has_asn_path := True\<rparr>"
    using assms(1) by (auto simp: no_attrs_def)
  then show ?thesis using assms(3) by (simp add: handle_update_message_def end_of_rib_def no_attrs_def)
qed

text \<open>An UPDATE as most implementations send it: ORIGIN, \<open>AS_PATH\<close>, \<open>NEXT_HOP\<close> and one route.\<close>

definition example_update :: "nat BgpUpdateMessage" where
  "example_update =
    (let attr = (\<lambda>v. \<lparr>optional = False, transitive = True, partial = False, extended_length = False, attr_value = v\<rparr>)
     in \<lparr>withdrawn_routes = [],
         path_attributes = [attr (PathAttributeValue.Origin IGP),
           attr (PathAttributeValue.AsPath (As4PathSegments [\<lparr>as4_segment_type = AsSequence, as4_numbers = [65001]\<rparr>])),
           attr (PathAttributeValue.NextHop 0x0a000001)],
         nlri = [\<lparr>path_id = None, network = Ipv4Unicast.Ipv4Unicast \<lparr>net_addr = 0x0a000000, net_prefix_len = 8\<rparr>\<rparr>]\<rparr>)"

theorem update_next_hop_after_as_path_is_missed_witness:
  "handle_update_message example_update (BgpParsingIgnoredErrors_default :: (nat, nat) ignored_errors) =
   (Some (ConnectionEvent.UpdateMsgErr (UpdateMessageError.MissingWellKnownAttribute [3])) :: (nat, nat) ConnectionEvent option)"
  using update_next_hop_after_as_path_is_missed [of example_update _ _ _ "BgpParsingIgnoredErrors_default :: (nat, nat) ignored_errors"]
  by (simp add: example_update_def Let_def is_origin_def is_as_path_def missing_attr_def)

end
