(* ===== verification/Bgp_Config.thy ===== *)
theory Bgp_Config
  imports NC_Duration
begin

text \<open>
  The configuration of a BGP peer and of its connections: \<open>PeerConfig\<close> and \<open>PeerProperties\<close> of
  \<open>crates/bgp-speaker/src/peer.rs\<close> and \<open>ConnectionConfig\<close> of \<open>connection.rs\<close>, with their builders.
  Durations are configured in whole seconds.  The random seed of the default configuration is
  an argument.
\<close>

section \<open>Peers\<close>

record PeerConfig =
  pc_allow_auto_start :: bool
  pc_allow_auto_stop :: bool
  pc_send_notif_without_open :: bool
  pc_connect_retry_duration :: u16
  pc_open_delay_timer_duration :: u16
  pc_hold_timer_duration :: u16
  pc_hold_timer_duration_large_value :: u16
  pc_keepalive_timer_duration :: u16
  pc_idle_hold_duration :: u16
  pc_passive_tcp_establishment :: bool
  pc_collision_detect_established_state :: bool
  pc_rng_seed :: u64

definition PeerConfig_default :: "u64 \<Rightarrow> PeerConfig" where
  "PeerConfig_default seed = \<lparr>pc_allow_auto_start = True,
     pc_allow_auto_stop = True,
     pc_send_notif_without_open = True,
     pc_connect_retry_duration = 10,
     pc_open_delay_timer_duration = 0,
     pc_hold_timer_duration = 180,
     pc_hold_timer_duration_large_value = 240,
     pc_keepalive_timer_duration = 30,
     pc_idle_hold_duration = 1,
     pc_passive_tcp_establishment = False,
     pc_collision_detect_established_state = False,
     pc_rng_seed = seed\<rparr>"

definition PeerConfig_connect_retry_duration :: "PeerConfig \<Rightarrow> duration" where
  "PeerConfig_connect_retry_duration config =
     (if pc_connect_retry_duration config = 0 then from_millis 1
      else from_secs (unat (pc_connect_retry_duration config)))"

text \<open>The builder starts from the default configuration and sets one field at a time.\<close>

definition PeerConfigBuilder_allow_auto_start :: "bool \<Rightarrow> PeerConfig \<Rightarrow> PeerConfig" where
  "PeerConfigBuilder_allow_auto_start v config = config\<lparr>pc_allow_auto_start := v\<rparr>"

definition PeerConfigBuilder_allow_auto_stop :: "bool \<Rightarrow> PeerConfig \<Rightarrow> PeerConfig" where
  "PeerConfigBuilder_allow_auto_stop v config = config\<lparr>pc_allow_auto_stop := v\<rparr>"

definition PeerConfigBuilder_send_notif_without_open :: "bool \<Rightarrow> PeerConfig \<Rightarrow> PeerConfig" where
  "PeerConfigBuilder_send_notif_without_open v config = config\<lparr>pc_send_notif_without_open := v\<rparr>"

definition PeerConfigBuilder_connect_retry_duration :: "u16 \<Rightarrow> PeerConfig \<Rightarrow> PeerConfig" where
  "PeerConfigBuilder_connect_retry_duration v config = config\<lparr>pc_connect_retry_duration := v\<rparr>"

definition PeerConfigBuilder_open_delay_timer_duration :: "u16 \<Rightarrow> PeerConfig \<Rightarrow> PeerConfig" where
  "PeerConfigBuilder_open_delay_timer_duration v config = config\<lparr>pc_open_delay_timer_duration := v\<rparr>"

definition PeerConfigBuilder_hold_timer_duration :: "u16 \<Rightarrow> PeerConfig \<Rightarrow> PeerConfig" where
  "PeerConfigBuilder_hold_timer_duration v config = config\<lparr>pc_hold_timer_duration := v\<rparr>"

definition PeerConfigBuilder_hold_timer_duration_large_value :: "u16 \<Rightarrow> PeerConfig \<Rightarrow> PeerConfig" where
  "PeerConfigBuilder_hold_timer_duration_large_value v config = config\<lparr>pc_hold_timer_duration_large_value := v\<rparr>"

definition PeerConfigBuilder_keepalive_timer_duration :: "u16 \<Rightarrow> PeerConfig \<Rightarrow> PeerConfig" where
  "PeerConfigBuilder_keepalive_timer_duration v config = config\<lparr>pc_keepalive_timer_duration := v\<rparr>"

definition PeerConfigBuilder_idle_hold_duration :: "u16 \<Rightarrow> PeerConfig \<Rightarrow> PeerConfig" where
  "PeerConfigBuilder_idle_hold_duration v config = config\<lparr>pc_idle_hold_duration := v\<rparr>"

definition PeerConfigBuilder_passive_tcp_establishment :: "bool \<Rightarrow> PeerConfig \<Rightarrow> PeerConfig" where
  "PeerConfigBuilder_passive_tcp_establishment v config = config\<lparr>pc_passive_tcp_establishment := v\<rparr>"

definition PeerConfigBuilder_collision_detect_established_state :: "bool \<Rightarrow> PeerConfig \<Rightarrow> PeerConfig" where
  "PeerConfigBuilder_collision_detect_established_state v config = config\<lparr>pc_collision_detect_established_state := v\<rparr>"

definition PeerConfigBuilder_rng_seed :: "u64 \<Rightarrow> PeerConfig \<Rightarrow> PeerConfig" where
  "PeerConfigBuilder_rng_seed v config = config\<lparr>pc_rng_seed := v\<rparr>"

record 'a PeerProperties =
  pp_my_asn :: u32
  pp_peer_asn :: u32
  pp_my_bgp_id :: u32
  pp_peer_addr :: 'a
  pp_allow_dynamic_as :: bool

definition PeerProperties_new :: "u32 \<Rightarrow> u32 \<Rightarrow> u32 \<Rightarrow> 'a \<Rightarrow> bool \<Rightarrow> 'a PeerProperties" where
  "PeerProperties_new my_asn peer_asn my_bgp_id peer_addr allow_dynamic_as =
     \<lparr>pp_my_asn = my_asn, pp_peer_asn = peer_asn, pp_my_bgp_id = my_bgp_id, pp_peer_addr = peer_addr,
      pp_allow_dynamic_as = allow_dynamic_as\<rparr>"

section \<open>Connections\<close>

record ConnectionConfig =
  cfg_send_notif_without_open :: bool
  cfg_open_delay_timer_duration :: u16
  cfg_hold_timer_duration :: u16
  cfg_hold_timer_duration_large_value :: u16
  cfg_keepalive_timer_duration :: u16
  cfg_idle_hold_duration :: u16

definition ConnectionConfig_from :: "PeerConfig \<Rightarrow> ConnectionConfig" where
  "ConnectionConfig_from peer_config = \<lparr>cfg_send_notif_without_open = pc_send_notif_without_open peer_config,
     cfg_open_delay_timer_duration = pc_open_delay_timer_duration peer_config,
     cfg_hold_timer_duration = pc_hold_timer_duration peer_config,
     cfg_hold_timer_duration_large_value = pc_hold_timer_duration_large_value peer_config,
     cfg_keepalive_timer_duration = pc_keepalive_timer_duration peer_config,
     cfg_idle_hold_duration = pc_idle_hold_duration peer_config\<rparr>"

definition ConnectionConfig_default :: ConnectionConfig where
  "ConnectionConfig_default = \<lparr>cfg_send_notif_without_open = True,
     cfg_open_delay_timer_duration = 0,
     cfg_hold_timer_duration = 180,
     cfg_hold_timer_duration_large_value = 240,
     cfg_keepalive_timer_duration = 30,
     cfg_idle_hold_duration = 1\<rparr>"

definition ConnectionConfigBuilder_send_notif_without_open :: "bool \<Rightarrow> ConnectionConfig \<Rightarrow> ConnectionConfig" where
  "ConnectionConfigBuilder_send_notif_without_open v config = config\<lparr>cfg_send_notif_without_open := v\<rparr>"

definition ConnectionConfigBuilder_open_delay_timer_duration :: "u16 \<Rightarrow> ConnectionConfig \<Rightarrow> ConnectionConfig" where
  "ConnectionConfigBuilder_open_delay_timer_duration v config = config\<lparr>cfg_open_delay_timer_duration := v\<rparr>"

definition ConnectionConfigBuilder_hold_timer_duration :: "u16 \<Rightarrow> ConnectionConfig \<Rightarrow> ConnectionConfig" where
  "ConnectionConfigBuilder_hold_timer_duration v config = config\<lparr>cfg_hold_timer_duration := v\<rparr>"

definition ConnectionConfigBuilder_hold_timer_duration_large_value :: "u16 \<Rightarrow> ConnectionConfig \<Rightarrow> ConnectionConfig" where
  "ConnectionConfigBuilder_hold_timer_duration_large_value v config = config\<lparr>cfg_hold_timer_duration_large_value := v\<rparr>"

definition ConnectionConfigBuilder_keepalive_timer_duration :: "u16 \<Rightarrow> ConnectionConfig \<Rightarrow> ConnectionConfig" where
  "ConnectionConfigBuilder_keepalive_timer_duration v config = config\<lparr>cfg_keepalive_timer_duration := v\<rparr>"

definition ConnectionConfigBuilder_idle_hold_duration :: "u16 \<Rightarrow> ConnectionConfig \<Rightarrow> ConnectionConfig" where
  "ConnectionConfigBuilder_idle_hold_duration v config = config\<lparr>cfg_idle_hold_duration := v\<rparr>"

text \<open>The configured durations as the timers use them.\<close>

definition ConnectionConfig_open_delay_timer_duration :: "ConnectionConfig \<Rightarrow> duration" where
  "ConnectionConfig_open_delay_timer_duration config = from_secs (unat (cfg_open_delay_timer_duration config))"

definition ConnectionConfig_hold_timer_duration :: "ConnectionConfig \<Rightarrow> duration" where
  "ConnectionConfig_hold_timer_duration config = from_secs (unat (cfg_hold_timer_duration config))"

definition ConnectionConfig_hold_timer_duration_large_value :: "ConnectionConfig \<Rightarrow> duration" where
  "ConnectionConfig_hold_timer_duration_large_value config = from_secs (unat (cfg_hold_timer_duration_large_value config))"

definition ConnectionConfig_keepalive_timer_duration :: "ConnectionConfig \<Rightarrow> duration" where
  "ConnectionConfig_keepalive_timer_duration config = from_secs (unat (cfg_keepalive_timer_duration config))"

section \<open>Properties\<close>

lemma from_secs_eq_0 [simp]: "from_secs n = 0 \<longleftrightarrow> n = 0"
  by (simp add: from_secs_def NANOS_PER_SEC_def)

text \<open>The retry timer never has a zero period, whatever is configured.\<close>

lemma connect_retry_duration_pos [simp]: "0 < PeerConfig_connect_retry_duration config"
  by (auto simp: PeerConfig_connect_retry_duration_def from_millis_def from_secs_def NANOS_PER_SEC_def unat_gt_0)

end
