(* ===== verification/Bgp_Connection.thy ===== *)
theory Bgp_Connection
  imports Bgp_Events Bgp_Config "HOL-Library.Monad_Syntax"
begin

text \<open>
  One connection to a BGP peer: \<open>crates/bgp-speaker/src/connection.rs\<close>.  A connection owns a framed
  transport, three timers, statistics and the state of the session; events from timers and
  messages come out of \<open>poll_next\<close>, and \<open>handle_event\<close> runs the handler of the current state.

  The transport (\<open>tokio_util::codec::Framed\<close>) and the timers (\<open>tokio::time::Interval\<close>) are an argument
  of the model, a record of their operations.  A handler runs at one instant of a clock.  The value
  \<open>None\<close> of an operation is a panic, which only \<open>tokio::time::interval\<close> can cause, by a zero period.
\<close>

section \<open>Timers and transports\<close>

datatype (plugins only: code) 'v poll = Pending | Ready 'v

text \<open>The monotonic clock, in nanoseconds, and the time of day for statistics.\<close>

record clock =
  now :: nat
  utc :: nat

type_synonym ('x, 'e) framed_item =
  "('x BgpMessage \<times> ('x, 'e) ignored_errors, ('x, 'e) BgpCodecDecoderError) result"

record ('x, 'e, 'w, 't, 'i) runtime =
  interval :: "nat \<Rightarrow> duration \<Rightarrow> 'i option"
  interval_reset :: "nat \<Rightarrow> 'i \<Rightarrow> 'i"
  interval_tick :: "nat \<Rightarrow> 'i \<Rightarrow> 'i option"
  interval_period :: "'i \<Rightarrow> duration"
  framed_next :: "'t \<Rightarrow> ('x, 'e) framed_item option poll \<times> 't"
  framed_ready :: "'t \<Rightarrow> (unit, 'w BgpMessageWritingError) result \<times> 't"
  framed_start_send :: "'x BgpMessage \<Rightarrow> 't \<Rightarrow> (unit, 'w BgpMessageWritingError) result \<times> 't"
  framed_flush :: "'t \<Rightarrow> (unit, 'w BgpMessageWritingError) result \<times> 't"

text \<open>
  The documented behaviour of \<open>tokio::time::Interval\<close>: creation panics exactly on a zero period,
  and after \<open>reset\<close> the next tick completes one period later.
\<close>

locale runtime_laws =
  fixes T :: "('x, 'e, 'w, 't, 'i) runtime"
  assumes interval_panics: "interval T t p = None \<longleftrightarrow> p = 0"
    and interval_period: "interval T t p = Some i \<Longrightarrow> interval_period T i = p"
    and reset_period: "interval_period T (interval_reset T t i) = interval_period T i"
    and tick_period: "interval_tick T t i = Some j \<Longrightarrow> interval_period T j = interval_period T i"
    and tick_after_reset: "interval_tick T t' (interval_reset T t i) = None \<longleftrightarrow> t' < t + interval_period T i"

section \<open>Connections\<close>

datatype (plugins only: code) ConnectionType = Active | Passive

record ConnectionStats =
  created :: nat
  messages_received :: u64
  messages_sent :: u64
  open_received :: u64
  open_sent :: u64
  update_received :: u64
  update_sent :: u64
  keepalive_received :: u64
  keepalive_sent :: u64
  notification_received :: u64
  notification_sent :: u64
  route_refresh_received :: u64
  route_refresh_sent :: u64
  last_received :: "nat option"
  last_sent :: "nat option"

definition ConnectionStats_default :: ConnectionStats where
  "ConnectionStats_default = \<lparr>created = 0, messages_received = 0, messages_sent = 0,
     open_received = 0, open_sent = 0, update_received = 0, update_sent = 0,
     keepalive_received = 0, keepalive_sent = 0, notification_received = 0, notification_sent = 0,
     route_refresh_received = 0, route_refresh_sent = 0, last_received = None, last_sent = None\<rparr>"

record ('a, 't, 'i) Connection =
  c_peer_addr :: 'a
  c_state :: ConnectionState
  c_connection_type :: ConnectionType
  c_config :: ConnectionConfig
  c_my_asn :: u32
  c_peer_asn :: "u32 option"
  c_my_bgp_id :: u32
  c_peer_bgp_id :: "u32 option"
  c_sent_capabilities :: "BgpCapability list option"
  c_received_capabilities :: "BgpCapability list option"
  c_peer_hold_time :: "u16 option"
  c_remote_bgp_id :: "u32 option"
  c_inner :: 't
  c_stats :: ConnectionStats
  c_keepalive_timer :: "'i option"
  c_keepalive_timer_duration :: duration
  c_open_delay_timer :: "'i option"
  c_hold_timer :: "'i option"
  c_hold_timer_duration :: duration
  c_jitter :: rat

definition Connection_new ::
  "'a PeerProperties \<Rightarrow> 'a \<Rightarrow> ConnectionType \<Rightarrow> ConnectionConfig \<Rightarrow> 't \<Rightarrow> rat \<Rightarrow> ('a, 't, 'i) Connection" where
  "Connection_new peer_properties peer_addr connection_type config inner jitter =
    \<lparr>c_peer_addr = peer_addr, c_state = Connected, c_connection_type = connection_type,
     c_config = config, c_my_asn = pp_my_asn peer_properties,
     c_peer_asn = (if pp_allow_dynamic_as peer_properties then None else Some (pp_peer_asn peer_properties)),
     c_my_bgp_id = pp_my_bgp_id peer_properties, c_peer_bgp_id = None,
     c_sent_capabilities = None, c_received_capabilities = None, c_peer_hold_time = None,
     c_remote_bgp_id = None, c_inner = inner, c_stats = ConnectionStats_default,
     c_keepalive_timer = None, c_keepalive_timer_duration = ConnectionConfig_keepalive_timer_duration config,
     c_open_delay_timer = None, c_hold_timer = None,
     c_hold_timer_duration = ConnectionConfig_hold_timer_duration config, c_jitter = jitter\<rparr>"

definition read_open_msg :: "BgpOpenMessage \<Rightarrow> ('a, 't, 'i) Connection \<Rightarrow> ('a, 't, 'i) Connection" where
  "read_open_msg opn c =
     c\<lparr>c_peer_asn := Some (my_asn4 opn),
       c_peer_bgp_id := Some (bgp_id opn),
       c_received_capabilities := Some (capabilities opn),
       c_peer_hold_time := Some (hold_time opn)\<rparr>"

definition set_negotiated_timers :: "('a, 't, 'i) Connection \<Rightarrow> ('a, 't, 'i) Connection" where
  "set_negotiated_timers c =
    (if ConnectionConfig_hold_timer_duration (c_config c) = 0
     then c\<lparr>c_hold_timer_duration := from_secs 0, c_keepalive_timer_duration := from_secs 0\<rparr>
     else let hold = (case c_peer_hold_time c of
                Some received_hold_time \<Rightarrow>
                  from_secs (unat (min (cfg_hold_timer_duration (c_config c)) received_hold_time))
              | None \<Rightarrow> ConnectionConfig_hold_timer_duration_large_value (c_config c))
          in c\<lparr>c_hold_timer_duration := hold, c_keepalive_timer_duration := div_f32 hold 3\<rparr>)"

text \<open>An interval that is reset right after its creation.\<close>

definition start_interval :: "('x, 'e, 'w, 't, 'i) runtime \<Rightarrow> clock \<Rightarrow> duration \<Rightarrow> 'i option" where
  "start_interval T clk d = map_option (interval_reset T (now clk)) (interval T (now clk) d)"

definition start_hold_timer ::
  "('x, 'e, 'w, 't, 'i) runtime \<Rightarrow> clock \<Rightarrow> ('a, 't, 'i) Connection \<Rightarrow> ('a, 't, 'i) Connection option" where
  "start_hold_timer T clk c =
    (if cfg_hold_timer_duration_large_value (c_config c) \<noteq> 0
     then let d = ConnectionConfig_hold_timer_duration_large_value (c_config c)
          in do { timer \<leftarrow> start_interval T clk d;
                  Some (c\<lparr>c_hold_timer_duration := d, c_hold_timer := Some timer\<rparr>) }
     else Some c)"

section \<open>Sending\<close>

definition reset_keepalive_timer ::
  "('x, 'e, 'w, 't, 'i) runtime \<Rightarrow> clock \<Rightarrow> ('a, 't, 'i) Connection \<Rightarrow> ('a, 't, 'i) Connection" where
  "reset_keepalive_timer T clk c =
     c\<lparr>c_keepalive_timer := map_option (interval_reset T (now clk)) (c_keepalive_timer c)\<rparr>"

definition sent_message ::
  "('x, 'e, 'w, 't, 'i) runtime \<Rightarrow> clock \<Rightarrow> 'x BgpMessage \<Rightarrow> ('a, 't, 'i) Connection \<Rightarrow> ('a, 't, 'i) Connection" where
  "sent_message T clk message c =
    (let stats = (c_stats c)\<lparr>messages_sent := messages_sent (c_stats c) + 1, last_sent := Some (utc clk)\<rparr>
     in case message of
          Open opn \<Rightarrow> c\<lparr>c_stats := stats\<lparr>open_sent := open_sent stats + 1\<rparr>,
            c_sent_capabilities := Some (capabilities opn)\<rparr>
        | Update _ \<Rightarrow> reset_keepalive_timer T clk (c\<lparr>c_stats := stats\<lparr>update_sent := update_sent stats + 1\<rparr>\<rparr>)
        | Notification _ \<Rightarrow> c\<lparr>c_stats := stats\<lparr>notification_sent := notification_sent stats + 1\<rparr>\<rparr>
        | KeepAlive \<Rightarrow> reset_keepalive_timer T clk (c\<lparr>c_stats := stats\<lparr>keepalive_sent := keepalive_sent stats + 1\<rparr>\<rparr>)
        | BgpMessage.RouteRefresh _ \<Rightarrow> c\<lparr>c_stats := stats\<lparr>route_refresh_sent := route_refresh_sent stats + 1\<rparr>\<rparr>)"

definition start_send ::
  "('x, 'e, 'w, 't, 'i) runtime \<Rightarrow> clock \<Rightarrow> 'x BgpMessage \<Rightarrow> ('a, 't, 'i) Connection \<Rightarrow>
     (unit, 'w BgpMessageWritingError) result \<times> ('a, 't, 'i) Connection" where
  "start_send T clk message c =
    (let c = sent_message T clk message c; (r, inner) = framed_start_send T message (c_inner c)
     in (r, c\<lparr>c_inner := inner\<rparr>))"

text \<open>\<open>SinkExt::send\<close>: wait until the sink is ready, hand over the message, flush.\<close>

definition send_message ::
  "('x, 'e, 'w, 't, 'i) runtime \<Rightarrow> clock \<Rightarrow> 'x BgpMessage \<Rightarrow> ('a, 't, 'i) Connection \<Rightarrow>
     (unit, 'w BgpMessageWritingError) result \<times> ('a, 't, 'i) Connection" where
  "send_message T clk message c =
    (case framed_ready T (c_inner c) of
       (Err e, inner) \<Rightarrow> (Err e, c\<lparr>c_inner := inner\<rparr>)
     | (Ok _, inner) \<Rightarrow>
         (case start_send T clk message (c\<lparr>c_inner := inner\<rparr>) of
            (Err e, c) \<Rightarrow> (Err e, c)
          | (Ok _, c) \<Rightarrow>
              let (r, inner) = framed_flush T (c_inner c) in (r, c\<lparr>c_inner := inner\<rparr>)))"

section \<open>Handlers\<close>

type_synonym ('x, 'a, 'w) event_result =
  "(('x, 'a) ConnectionEvent, ('x, 'a, 'w) FsmStateError) result"

text \<open>\<open>send(\<dots>).await?\<close>, and a send whose error is only logged.\<close>

definition try_send ::
  "('x, 'e, 'w, 't, 'i) runtime \<Rightarrow> clock \<Rightarrow> 'x BgpMessage \<Rightarrow> ('a, 't, 'i) Connection \<Rightarrow>
     (('a, 't, 'i) Connection \<Rightarrow> ('a, 't, 'i) Connection \<times> ('x, 'a, 'w) event_result) \<Rightarrow>
     ('a, 't, 'i) Connection \<times> ('x, 'a, 'w) event_result" where
  "try_send T clk message c k =
    (case send_message T clk message c of
       (Ok _, c) \<Rightarrow> k c
     | (Err e, c) \<Rightarrow> (c, Err (FsmStateError.BgpMessageWritingError e)))"

definition send_notif ::
  "('x, 'e, 'w, 't, 'i) runtime \<Rightarrow> clock \<Rightarrow> BgpNotificationMessage \<Rightarrow> ('a, 't, 'i) Connection \<Rightarrow> ('a, 't, 'i) Connection" where
  "send_notif T clk notif c = snd (send_message T clk (Notification notif) c)"

definition hold_timer_expired :: BgpNotificationMessage where
  "hold_timer_expired = BgpNotificationMessage.HoldTimerExpiredError (HoldTimerExpiredError.Unspecific 0 [])"

text \<open>The timers of a session after an OPEN message.\<close>

definition start_session_timers ::
  "('x, 'e, 'w, 't, 'i) runtime \<Rightarrow> clock \<Rightarrow> ('a, 't, 'i) Connection \<Rightarrow> ('a, 't, 'i) Connection option" where
  "start_session_timers T clk c =
    do { c \<leftarrow> (if c_keepalive_timer_duration c \<noteq> 0
           then do { timer \<leftarrow> start_interval T clk (mul_f32 (c_keepalive_timer_duration c) (c_jitter c));
                     Some (c\<lparr>c_keepalive_timer := Some timer\<rparr>) }
           else Some c);
         if c_hold_timer_duration c \<noteq> 0
         then do { timer \<leftarrow> start_interval T clk (c_hold_timer_duration c);
                   Some (c\<lparr>c_hold_timer := Some timer\<rparr>) }
         else Some c }"

text \<open>
  What a peer configures: the OPEN message to send and hooks that see, and may change, events.
  The hooks on administrative events are not used by a connection or a peer.
\<close>

record ('p, 'x, 'c, 'ev) PeerPolicy =
  open_message :: "'p \<Rightarrow> BgpOpenMessage \<times> 'p"
  pre_handle_connection_event_hook :: "'ev \<Rightarrow> 'c \<Rightarrow> 'p \<Rightarrow> 'ev \<times> 'p"
  post_handle_connection_event_hook :: "'p \<Rightarrow> 'ev \<Rightarrow> 'c option \<Rightarrow> 'ev"

type_synonym ('p, 'x, 'a, 't, 'i) policy =
  "('p, 'x, ('a, 't, 'i) Connection, ('x, 'a) ConnectionEvent) PeerPolicy"

definition send_open ::
  "('x, 'e, 'w, 't, 'i) runtime \<Rightarrow> clock \<Rightarrow> ('p, 'x, 'a, 't, 'i) policy \<Rightarrow> ('x, 'a) ConnectionEvent \<Rightarrow>
     ('a, 't, 'i) Connection \<Rightarrow> 'p \<Rightarrow> (('a, 't, 'i) Connection \<times> ('x, 'a, 'w) event_result) \<times> 'p" where
  "send_open T clk P event c p =
    (let (opn, p) = open_message P p
     in (try_send T clk (Open opn) c (\<lambda>c. (c\<lparr>c_state := ConnectionState.OpenSent\<rparr>, Ok event)), p))"

definition handle_connected_event ::
  "('x, 'e, 'w, 't, 'i) runtime \<Rightarrow> clock \<Rightarrow> ('p, 'x, 'a, 't, 'i) policy \<Rightarrow> ('x, 'a) ConnectionEvent \<Rightarrow>
     ('a, 't, 'i) Connection \<Rightarrow> 'p \<Rightarrow> ((('a, 't, 'i) Connection \<times> ('x, 'a, 'w) event_result) \<times> 'p) option" where
  "handle_connected_event T clk P event c p =
    (let tcp_connected =
           (if cfg_open_delay_timer_duration (c_config c) = 0
            then do { c \<leftarrow> start_hold_timer T clk c; Some (send_open T clk P event c p) }
            else do { timer \<leftarrow> start_interval T clk (ConnectionConfig_open_delay_timer_duration (c_config c));
                      Some ((c\<lparr>c_open_delay_timer := Some timer\<rparr>, Ok event), p) })
     in case event of
          ConnectionEvent.DelayOpenTimerExpires \<Rightarrow>
            do { c \<leftarrow> start_hold_timer T clk c; Some (send_open T clk P event c p) }
        | ConnectionEvent.TcpConnectionRequestAcked _ \<Rightarrow> tcp_connected
        | ConnectionEvent.TcpConnectionConfirmed _ \<Rightarrow> tcp_connected
        | ConnectionEvent.BGPOpenWithDelayOpenTimer opn \<Rightarrow>
            do { let c = set_negotiated_timers (read_open_msg opn (c\<lparr>c_open_delay_timer := None\<rparr>));
                 let (my_open, p) = open_message P p;
                 c \<leftarrow> start_session_timers T clk c;
                 Some (try_send T clk (Open my_open) c (\<lambda>c.
                   try_send T clk KeepAlive c (\<lambda>c. (c\<lparr>c_state := ConnectionState.OpenConfirm\<rparr>, Ok event))), p) }
        | ConnectionEvent.BGPHeaderErr err \<Rightarrow>
            let c = (if cfg_send_notif_without_open (c_config c)
                     then send_notif T clk (BgpNotificationMessage.MessageHeaderError err) c else c)
            in Some ((c\<lparr>c_state := Terminate\<rparr>, Ok event), p)
        | ConnectionEvent.BGPOpenMsgErr err \<Rightarrow>
            let c = (if cfg_send_notif_without_open (c_config c)
                     then send_notif T clk (BgpNotificationMessage.OpenMessageError err) c else c)
            in Some ((c\<lparr>c_state := Terminate\<rparr>, Ok event), p)
        | ConnectionEvent.NotifMsgVerErr \<Rightarrow> Some ((c\<lparr>c_state := Terminate\<rparr>, Ok event), p)
        | ConnectionEvent.NotifMsgErr _ \<Rightarrow> Some ((c, Ok event), p)
        | _ \<Rightarrow> Some ((c\<lparr>c_state := Terminate\<rparr>, Ok event), p))"

definition notif_and_terminate ::
  "('x, 'e, 'w, 't, 'i) runtime \<Rightarrow> clock \<Rightarrow> BgpNotificationMessage \<Rightarrow> ('x, 'a) ConnectionEvent \<Rightarrow>
     ('a, 't, 'i) Connection \<Rightarrow> (('a, 't, 'i) Connection \<times> ('x, 'a, 'w) event_result) option" where
  "notif_and_terminate T clk notif event c = Some ((send_notif T clk notif c)\<lparr>c_state := Terminate\<rparr>, Ok event)"

definition handle_open_sent_event ::
  "('x, 'e, 'w, 't, 'i) runtime \<Rightarrow> clock \<Rightarrow> ('x, 'a) ConnectionEvent \<Rightarrow>
     ('a, 't, 'i) Connection \<Rightarrow> (('a, 't, 'i) Connection \<times> ('x, 'a, 'w) event_result) option" where
  "handle_open_sent_event T clk event c =
    (let terminate = Some (c\<lparr>c_state := Terminate\<rparr>, Ok event);
         unexpected = notif_and_terminate T clk (BgpNotificationMessage.FiniteStateMachineError
           (FiniteStateMachineError.ReceiveUnexpectedMessageInOpenSentState [])) event c
     in case event of
          ConnectionEvent.HoldTimerExpires \<Rightarrow>
            Some (try_send T clk (Notification hold_timer_expired) c (\<lambda>c. (c\<lparr>c_state := Terminate\<rparr>, Ok event)))
        | ConnectionEvent.BGPOpen opn \<Rightarrow>
            do { c \<leftarrow> start_session_timers T clk
                   (set_negotiated_timers (read_open_msg opn (c\<lparr>c_open_delay_timer := None\<rparr>)));
                 Some (try_send T clk KeepAlive c (\<lambda>c. (c\<lparr>c_state := ConnectionState.OpenConfirm\<rparr>, Ok event))) }
        | ConnectionEvent.TcpConnectionFails \<Rightarrow> terminate
        | ConnectionEvent.BGPHeaderErr err \<Rightarrow>
            notif_and_terminate T clk (BgpNotificationMessage.MessageHeaderError err) event c
        | ConnectionEvent.BGPOpenMsgErr err \<Rightarrow>
            notif_and_terminate T clk (BgpNotificationMessage.OpenMessageError err) event c
        | ConnectionEvent.NotifMsgErr _ \<Rightarrow> Some (c, Ok event)
        | ConnectionEvent.NotifMsgVerErr \<Rightarrow> terminate
        | ConnectionEvent.KeepAliveTimerExpires \<Rightarrow> unexpected
        | ConnectionEvent.DelayOpenTimerExpires \<Rightarrow> unexpected
        | ConnectionEvent.BGPOpenWithDelayOpenTimer _ \<Rightarrow> unexpected
        | ConnectionEvent.NotifMsg _ \<Rightarrow> unexpected
        | ConnectionEvent.KeepAliveMsg \<Rightarrow> unexpected
        | ConnectionEvent.UpdateMsg _ _ \<Rightarrow> unexpected
        | ConnectionEvent.UpdateMsgErr _ \<Rightarrow> unexpected
        | ConnectionEvent.RouteRefresh _ \<Rightarrow> unexpected
        | ConnectionEvent.RouteRefreshErr _ \<Rightarrow> unexpected
        | ConnectionEvent.TcpConnectionRequestAcked _ \<Rightarrow> terminate
        | ConnectionEvent.TcpConnectionConfirmed _ \<Rightarrow> terminate)"

definition reset_hold_timer ::
  "('x, 'e, 'w, 't, 'i) runtime \<Rightarrow> clock \<Rightarrow> ('a, 't, 'i) Connection \<Rightarrow> ('a, 't, 'i) Connection" where
  "reset_hold_timer T clk c = c\<lparr>c_hold_timer := map_option (interval_reset T (now clk)) (c_hold_timer c)\<rparr>"

definition handle_open_confirm_event ::
  "('x, 'e, 'w, 't, 'i) runtime \<Rightarrow> clock \<Rightarrow> ('x, 'a) ConnectionEvent \<Rightarrow>
     ('a, 't, 'i) Connection \<Rightarrow> ('a, 't, 'i) Connection \<times> ('x, 'a, 'w) event_result" where
  "handle_open_confirm_event T clk event c =
    (let terminate = (c\<lparr>c_state := Terminate\<rparr>, Ok event);
         notify = (\<lambda>notif. ((send_notif T clk notif c)\<lparr>c_state := Terminate\<rparr>, Ok event));
         unexpected = notify (BgpNotificationMessage.FiniteStateMachineError
           (FiniteStateMachineError.ReceiveUnexpectedMessageInOpenConfirmState []))
     in case event of
          ConnectionEvent.HoldTimerExpires \<Rightarrow>
            try_send T clk (Notification hold_timer_expired) (c\<lparr>c_state := Terminate\<rparr>) (\<lambda>c. (c, Ok event))
        | ConnectionEvent.KeepAliveTimerExpires \<Rightarrow> try_send T clk KeepAlive c (\<lambda>c. (c, Ok event))
        | ConnectionEvent.NotifMsgVerErr \<Rightarrow> terminate
        | ConnectionEvent.NotifMsg _ \<Rightarrow> terminate
        | ConnectionEvent.BGPHeaderErr err \<Rightarrow> notify (BgpNotificationMessage.MessageHeaderError err)
        | ConnectionEvent.BGPOpenMsgErr err \<Rightarrow> notify (BgpNotificationMessage.OpenMessageError err)
        | ConnectionEvent.BGPOpen _ \<Rightarrow> unexpected
        | ConnectionEvent.KeepAliveMsg \<Rightarrow> ((reset_hold_timer T clk c)\<lparr>c_state := ConnectionState.Established\<rparr>, Ok event)
        | ConnectionEvent.TcpConnectionFails \<Rightarrow> terminate
        | ConnectionEvent.NotifMsgErr _ \<Rightarrow> (c, Ok event)
        | ConnectionEvent.DelayOpenTimerExpires \<Rightarrow> unexpected
        | ConnectionEvent.BGPOpenWithDelayOpenTimer _ \<Rightarrow> unexpected
        | ConnectionEvent.UpdateMsg _ _ \<Rightarrow> unexpected
        | ConnectionEvent.UpdateMsgErr _ \<Rightarrow> unexpected
        | ConnectionEvent.RouteRefresh _ \<Rightarrow> unexpected
        | ConnectionEvent.RouteRefreshErr _ \<Rightarrow> unexpected
        | ConnectionEvent.TcpConnectionRequestAcked _ \<Rightarrow> terminate
        | ConnectionEvent.TcpConnectionConfirmed _ \<Rightarrow> terminate)"

definition handle_established_event ::
  "('x, 'e, 'w, 't, 'i) runtime \<Rightarrow> clock \<Rightarrow> ('x, 'a) ConnectionEvent \<Rightarrow>
     ('a, 't, 'i) Connection \<Rightarrow> ('a, 't, 'i) Connection \<times> ('x, 'a, 'w) event_result" where
  "handle_established_event T clk event c =
    (let terminate = (c\<lparr>c_state := Terminate\<rparr>, Ok event)
     in case event of
          ConnectionEvent.HoldTimerExpires \<Rightarrow>
            ((send_notif T clk hold_timer_expired c)\<lparr>c_state := Terminate\<rparr>, Ok event)
        | ConnectionEvent.KeepAliveTimerExpires \<Rightarrow> try_send T clk KeepAlive c (\<lambda>c. (c, Ok event))
        | ConnectionEvent.KeepAliveMsg \<Rightarrow> (reset_hold_timer T clk c, Ok event)
        | ConnectionEvent.UpdateMsg _ _ \<Rightarrow> (c, Ok event)
        | ConnectionEvent.RouteRefresh _ \<Rightarrow> (c, Ok event)
        | ConnectionEvent.NotifMsgErr _ \<Rightarrow> (c, Ok event)
        | _ \<Rightarrow> terminate)"

definition handle_event ::
  "('x, 'e, 'w, 't, 'i) runtime \<Rightarrow> clock \<Rightarrow> ('p, 'x, 'a, 't, 'i) policy \<Rightarrow> ('x, 'a) ConnectionEvent \<Rightarrow>
     ('a, 't, 'i) Connection \<Rightarrow> 'p \<Rightarrow> ((('a, 't, 'i) Connection \<times> ('x, 'a, 'w) event_result) \<times> 'p) option" where
  "handle_event T clk P event c p =
    (case c_state c of
       Terminate \<Rightarrow> Some ((c, Ok event), p)
     | Connected \<Rightarrow> handle_connected_event T clk P event c p
     | ConnectionState.OpenSent \<Rightarrow> map_option (\<lambda>r. (r, p)) (handle_open_sent_event T clk event c)
     | ConnectionState.OpenConfirm \<Rightarrow> Some (handle_open_confirm_event T clk event c, p)
     | ConnectionState.Established \<Rightarrow> Some (handle_established_event T clk event c, p))"

section \<open>Receiving\<close>

definition received_message ::
  "clock \<Rightarrow> 'x BgpMessage \<Rightarrow> ('x, 'e) ignored_errors \<Rightarrow> ('a, 't, 'i) Connection \<Rightarrow>
     ('x, 'a) ConnectionEvent option \<times> ('a, 't, 'i) Connection" where
  "received_message clk msg errors c =
    (let stats = (c_stats c)\<lparr>messages_received := messages_received (c_stats c) + 1,
           last_received := Some (utc clk)\<rparr>
     in case msg of
          Open opn \<Rightarrow>
            let (peer_bgp_id, event) = handle_open_message opn (c_peer_asn c) (c_open_delay_timer c \<noteq> None)
            in (Some event, c\<lparr>c_stats := stats\<lparr>open_received := open_received stats + 1\<rparr>,
                  c_peer_bgp_id := Some peer_bgp_id\<rparr>)
        | Update update \<Rightarrow>
            (handle_update_message update errors,
             c\<lparr>c_stats := stats\<lparr>update_received := update_received stats + 1\<rparr>\<rparr>)
        | Notification notif \<Rightarrow>
            (case notif of
               BgpNotificationMessage.OpenMessageError (OpenMessageError.UnsupportedVersionNumber _) \<Rightarrow>
                 Some ConnectionEvent.NotifMsgVerErr
             | _ \<Rightarrow> Some (ConnectionEvent.NotifMsg notif),
             c\<lparr>c_stats := stats\<lparr>notification_received := notification_received stats + 1\<rparr>\<rparr>)
        | BgpMessage.RouteRefresh refresh \<Rightarrow>
            (Some (ConnectionEvent.RouteRefresh refresh),
             c\<lparr>c_stats := stats\<lparr>route_refresh_received := route_refresh_received stats + 1\<rparr>\<rparr>)
        | KeepAlive \<Rightarrow>
            (Some ConnectionEvent.KeepAliveMsg,
             c\<lparr>c_stats := stats\<lparr>keepalive_received := keepalive_received stats + 1\<rparr>\<rparr>))"

text \<open>A timer that is not set never ticks.\<close>

definition tick :: "('x, 'e, 'w, 't, 'i) runtime \<Rightarrow> clock \<Rightarrow> 'i option \<Rightarrow> 'i option" where
  "tick T clk timer = Option.bind timer (interval_tick T (now clk))"

definition poll_next ::
  "('x, 'e, 'w, 't, 'i) runtime \<Rightarrow> clock \<Rightarrow> ('a, 't, 'i) Connection \<Rightarrow>
     ('x, 'a) ConnectionEvent option poll \<times> ('a, 't, 'i) Connection" where
  "poll_next T clk c =
    (case tick T clk (c_keepalive_timer c) of
       Some timer \<Rightarrow> (Ready (Some ConnectionEvent.KeepAliveTimerExpires), c\<lparr>c_keepalive_timer := Some timer\<rparr>)
     | None \<Rightarrow>
    (case tick T clk (c_open_delay_timer c) of
       Some _ \<Rightarrow> (Ready (Some ConnectionEvent.DelayOpenTimerExpires), c\<lparr>c_open_delay_timer := None\<rparr>)
     | None \<Rightarrow>
    (case tick T clk (c_hold_timer c) of
       Some timer \<Rightarrow> (Ready (Some ConnectionEvent.HoldTimerExpires), c\<lparr>c_hold_timer := Some timer\<rparr>)
     | None \<Rightarrow>
    (case framed_next T (c_inner c) of
       (Pending, inner) \<Rightarrow> (Pending, c\<lparr>c_inner := inner\<rparr>)
     | (Ready None, inner) \<Rightarrow> (Ready (Some ConnectionEvent.TcpConnectionFails), c\<lparr>c_inner := inner\<rparr>)
     | (Ready (Some (Err err)), inner) \<Rightarrow> (Ready (Some (event_of_decoder_error err)), c\<lparr>c_inner := inner\<rparr>)
     | (Ready (Some (Ok (msg, errors))), inner) \<Rightarrow>
         let (event, c) = received_message clk msg errors (c\<lparr>c_inner := inner\<rparr>) in (Ready event, c)))))"

section \<open>A runtime\<close>

text \<open>
  A runtime over the codec of the previous theory: an interval is its next deadline and its period,
  and a framed transport is the codec with the bytes received, the bytes buffered for writing and the
  bytes sent.
\<close>

record ('x, 'e) framed =
  fr_codec :: "('x, 'e) BgpCodec"
  fr_read :: bytes
  fr_closed :: bool
  fr_write :: bytes
  fr_sent :: bytes

definition framed_new :: "bytes \<Rightarrow> bool \<Rightarrow> ('x, 'e) BgpCodec \<Rightarrow> ('x, 'e) framed" where
  "framed_new bs fin codec = \<lparr>fr_codec = codec, fr_read = bs, fr_closed = fin, fr_write = [], fr_sent = []\<rparr>"

definition duplex_next ::
  "wire_lib \<Rightarrow> ('x, 'e, 'w) update_wire \<Rightarrow> ('x, 'e) framed \<Rightarrow> ('x, 'e) framed_item option poll \<times> ('x, 'e) framed" where
  "duplex_next L U f =
    (case BgpCodec_decode L U (fr_codec f) (fr_read f) of
       None \<Rightarrow> (Pending, f)
     | Some (Ok None, codec, buf) \<Rightarrow>
         (if fr_closed f then Ready None else Pending, f\<lparr>fr_codec := codec, fr_read := buf\<rparr>)
     | Some (Ok (Some item), codec, buf) \<Rightarrow> (Ready (Some (Ok item)), f\<lparr>fr_codec := codec, fr_read := buf\<rparr>)
     | Some (Err e, codec, buf) \<Rightarrow> (Ready (Some (Err e)), f\<lparr>fr_codec := codec, fr_read := buf\<rparr>))"

definition duplex_start_send ::
  "wire_lib \<Rightarrow> ('x, 'e, 'w) update_wire \<Rightarrow> 'x BgpMessage \<Rightarrow> ('x, 'e) framed \<Rightarrow>
     (unit, 'w BgpMessageWritingError) result \<times> ('x, 'e) framed" where
  "duplex_start_send L U m f =
    (let (r, codec, buf) = BgpCodec_encode L U (fr_codec f) m (fr_write f)
     in (r, f\<lparr>fr_codec := codec, fr_write := buf\<rparr>))"

definition duplex_runtime ::
  "wire_lib \<Rightarrow> ('x, 'e, 'w) update_wire \<Rightarrow> ('x, 'e, 'w, ('x, 'e) framed, nat \<times> duration) runtime" where
  "duplex_runtime L U =
    \<lparr>interval = (\<lambda>t p. if p = 0 then None else Some (t, p)),
     interval_reset = (\<lambda>t (d, p). (t + p, p)),
     interval_tick = (\<lambda>t (d, p). if d \<le> t then Some (d + p, p) else None),
     interval_period = snd,
     framed_next = duplex_next L U,
     framed_ready = (\<lambda>f. (Ok (), f)),
     framed_start_send = duplex_start_send L U,
     framed_flush = (\<lambda>f. (Ok (), f\<lparr>fr_sent := fr_sent f @ fr_write f, fr_write := []\<rparr>))\<rparr>"

interpretation duplex: runtime_laws "duplex_runtime L U" for L U
  by unfold_locales (auto simp: duplex_runtime_def split: prod.splits if_splits)

section \<open>Frame conditions\<close>

text \<open>Sending touches the transport, the statistics, the sent capabilities and the keepalive timer.\<close>

lemma sent_message_frame [simp]:
  "c_state (sent_message T clk m c) = c_state c" "c_config (sent_message T clk m c) = c_config c"
  "c_jitter (sent_message T clk m c) = c_jitter c" "c_hold_timer (sent_message T clk m c) = c_hold_timer c"
  "c_open_delay_timer (sent_message T clk m c) = c_open_delay_timer c"
  "c_hold_timer_duration (sent_message T clk m c) = c_hold_timer_duration c"
  "c_keepalive_timer_duration (sent_message T clk m c) = c_keepalive_timer_duration c"
  "c_peer_hold_time (sent_message T clk m c) = c_peer_hold_time c"
  "c_received_capabilities (sent_message T clk m c) = c_received_capabilities c"
  "c_peer_bgp_id (sent_message T clk m c) = c_peer_bgp_id c"
  by (cases m; simp add: sent_message_def Let_def reset_keepalive_timer_def)+

lemma sent_message_inner:
  "sent_message T clk m (c\<lparr>c_inner := inner\<rparr>) = (sent_message T clk m c)\<lparr>c_inner := inner\<rparr>"
  by (cases m) (simp_all add: sent_message_def Let_def reset_keepalive_timer_def)

lemma send_message_cases:
  obtains e inner where "send_message T clk m c = (Err e, c\<lparr>c_inner := inner\<rparr>)"
  | r inner where "send_message T clk m c = (r, (sent_message T clk m c)\<lparr>c_inner := inner\<rparr>)"
proof -
  obtain q inner where q: "framed_ready T (c_inner c) = (q, inner)" by force
  obtain r inner' where r: "framed_start_send T m inner = (r, inner')" by force
  obtain w inner'' where w: "framed_flush T inner' = (w, inner'')" by force
  have s: "start_send T clk m (c\<lparr>c_inner := inner\<rparr>) = (r, (sent_message T clk m c)\<lparr>c_inner := inner'\<rparr>)"
    by (simp add: start_send_def sent_message_inner r)
  show ?thesis
  proof (cases q)
    case (Err e)
    then have "send_message T clk m c = (Err e, c\<lparr>c_inner := inner\<rparr>)" by (simp add: send_message_def q)
    then show ?thesis by (rule that(1))
  next
    case (Ok u)
    then have "send_message T clk m c =
        (case r of Err e \<Rightarrow> (Err e, (sent_message T clk m c)\<lparr>c_inner := inner'\<rparr>)
         | Ok _ \<Rightarrow> (w, (sent_message T clk m c)\<lparr>c_inner := inner''\<rparr>))"
      by (simp add: send_message_def q s w split: result.split)
    then show ?thesis using that(2) by (cases r) auto
  qed
qed

lemma send_message_frame [simp]:
  "c_state (snd (send_message T clk m c)) = c_state c" "c_config (snd (send_message T clk m c)) = c_config c"
  "c_jitter (snd (send_message T clk m c)) = c_jitter c" "c_hold_timer (snd (send_message T clk m c)) = c_hold_timer c"
  "c_open_delay_timer (snd (send_message T clk m c)) = c_open_delay_timer c"
  "c_hold_timer_duration (snd (send_message T clk m c)) = c_hold_timer_duration c"
  "c_keepalive_timer_duration (snd (send_message T clk m c)) = c_keepalive_timer_duration c"
  "c_peer_hold_time (snd (send_message T clk m c)) = c_peer_hold_time c"
  "c_received_capabilities (snd (send_message T clk m c)) = c_received_capabilities c"
  "c_peer_bgp_id (snd (send_message T clk m c)) = c_peer_bgp_id c"
  by (cases T clk m c rule: send_message_cases; simp)+

lemma try_send_cases:
  obtains "fst (send_message T clk m c) = Ok ()" "try_send T clk m c k = k (snd (send_message T clk m c))"
  | e where "try_send T clk m c k = (snd (send_message T clk m c), Err (FsmStateError.BgpMessageWritingError e))"
proof -
  obtain r d where s: "send_message T clk m c = (r, d)" by force
  show ?thesis
  proof (cases r)
    case (Ok u)
    then show ?thesis by (intro that(1)) (simp_all add: try_send_def s)
  next
    case (Err e)
    then have "try_send T clk m c k = (snd (send_message T clk m c), Err (FsmStateError.BgpMessageWritingError e))"
      by (simp add: try_send_def s)
    then show ?thesis by (rule that(2))
  qed
qed

lemma try_sendD:
  "try_send T clk m c k = (c', r) \<Longrightarrow>
     fst (send_message T clk m c) = Ok () \<and> k (snd (send_message T clk m c)) = (c', r) \<or>
     c' = snd (send_message T clk m c) \<and> (\<exists>e. r = Err (FsmStateError.BgpMessageWritingError e))"
  by (cases rule: try_send_cases [of T clk m c k]) auto

lemma send_notif_frame [simp]:
  "c_state (send_notif T clk n c) = c_state c" "c_config (send_notif T clk n c) = c_config c"
  "c_jitter (send_notif T clk n c) = c_jitter c"
  by (simp_all add: send_notif_def)

lemma start_hold_timer_frame:
  "start_hold_timer T clk c = Some c' \<Longrightarrow>
     c_state c' = c_state c \<and> c_config c' = c_config c \<and> c_jitter c' = c_jitter c \<and> c_stats c' = c_stats c \<and> c_inner c' = c_inner c \<and>
     c_sent_capabilities c' = c_sent_capabilities c \<and> c_received_capabilities c' = c_received_capabilities c \<and> c_peer_hold_time c' = c_peer_hold_time c \<and> c_peer_bgp_id c' = c_peer_bgp_id c \<and> c_open_delay_timer c' = c_open_delay_timer c \<and>
     c_connection_type c' = c_connection_type c"
  by (auto simp: start_hold_timer_def Let_def split: if_splits bind_splits)

lemma start_session_timers_frame:
  "start_session_timers T clk c = Some c' \<Longrightarrow>
     c_state c' = c_state c \<and> c_config c' = c_config c \<and> c_jitter c' = c_jitter c \<and> c_stats c' = c_stats c \<and> c_inner c' = c_inner c \<and>
     c_sent_capabilities c' = c_sent_capabilities c \<and> c_received_capabilities c' = c_received_capabilities c \<and> c_peer_hold_time c' = c_peer_hold_time c \<and> c_peer_bgp_id c' = c_peer_bgp_id c \<and> c_open_delay_timer c' = c_open_delay_timer c \<and>
     c_connection_type c' = c_connection_type c \<and> c_hold_timer_duration c' = c_hold_timer_duration c \<and> c_keepalive_timer_duration c' = c_keepalive_timer_duration c"
  by (auto simp: start_session_timers_def split: if_splits bind_splits)

lemma set_negotiated_timers_frame [simp]:
  "c_state (set_negotiated_timers c) = c_state c"
  "c_config (set_negotiated_timers c) = c_config c"
  "c_jitter (set_negotiated_timers c) = c_jitter c"
  "c_stats (set_negotiated_timers c) = c_stats c"
  "c_inner (set_negotiated_timers c) = c_inner c"
  "c_sent_capabilities (set_negotiated_timers c) = c_sent_capabilities c"
  "c_received_capabilities (set_negotiated_timers c) = c_received_capabilities c"
  "c_peer_hold_time (set_negotiated_timers c) = c_peer_hold_time c"
  "c_peer_bgp_id (set_negotiated_timers c) = c_peer_bgp_id c"
  "c_open_delay_timer (set_negotiated_timers c) = c_open_delay_timer c"
  "c_connection_type (set_negotiated_timers c) = c_connection_type c"
  by (simp_all add: set_negotiated_timers_def Let_def)

section \<open>The state machine of a connection\<close>

text \<open>
  The session states as RFC 4271 numbers its events: what an event does to a connection when
  every message can be sent.
\<close>

fun next_state :: "bool \<Rightarrow> ConnectionState \<Rightarrow> ('x, 'a) ConnectionEvent \<Rightarrow> ConnectionState" where
  "next_state delay Terminate _ = Terminate"
| "next_state delay s (ConnectionEvent.NotifMsgErr _) = s"
| "next_state delay Connected ConnectionEvent.DelayOpenTimerExpires = ConnectionState.OpenSent"
| "next_state delay Connected (ConnectionEvent.TcpConnectionRequestAcked _) = (if delay then Connected else ConnectionState.OpenSent)"
| "next_state delay Connected (ConnectionEvent.TcpConnectionConfirmed _) = (if delay then Connected else ConnectionState.OpenSent)"
| "next_state delay Connected (ConnectionEvent.BGPOpenWithDelayOpenTimer _) = ConnectionState.OpenConfirm"
| "next_state delay ConnectionState.OpenSent (ConnectionEvent.BGPOpen _) = ConnectionState.OpenConfirm"
| "next_state delay ConnectionState.OpenConfirm ConnectionEvent.KeepAliveTimerExpires = ConnectionState.OpenConfirm"
| "next_state delay ConnectionState.OpenConfirm ConnectionEvent.KeepAliveMsg = ConnectionState.Established"
| "next_state delay ConnectionState.Established ConnectionEvent.KeepAliveTimerExpires = ConnectionState.Established"
| "next_state delay ConnectionState.Established ConnectionEvent.KeepAliveMsg = ConnectionState.Established"
| "next_state delay ConnectionState.Established (ConnectionEvent.UpdateMsg _ _) = ConnectionState.Established"
| "next_state delay ConnectionState.Established (ConnectionEvent.RouteRefresh _) = ConnectionState.Established"
| "next_state delay _ _ = Terminate"

definition outcome ::
  "('x, 'a) ConnectionEvent \<Rightarrow> ConnectionConfig \<Rightarrow> ConnectionState \<Rightarrow> ConnectionState \<Rightarrow> ('x, 'a, 'w) event_result \<Rightarrow> bool" where
  "outcome ev cfg s s' r \<longleftrightarrow>
     r = Ok ev \<and> s' = next_state (cfg_open_delay_timer_duration cfg \<noteq> 0) s ev \<or>
     (\<exists>e. r = Err (FsmStateError.BgpMessageWritingError e)) \<and>
       (s' = s \<or> s = ConnectionState.OpenConfirm \<and> ev = ConnectionEvent.HoldTimerExpires \<and> s' = Terminate)"

lemma outcome_connected:
  assumes "handle_connected_event T clk P ev c p = Some ((c', r), p')" "c_state c = Connected"
  shows "outcome ev (c_config c) (c_state c) (c_state c') r"
  using assms
  by (cases ev; simp only: handle_connected_event_def Let_def ConnectionEvent.case)
    (auto simp: outcome_def send_open_def read_open_msg_def
      split: if_splits prod.splits bind_splits
      dest!: try_sendD start_hold_timer_frame start_session_timers_frame)

lemma outcome_open_sent:
  assumes "handle_open_sent_event T clk ev c = Some (c', r)" "c_state c = ConnectionState.OpenSent"
  shows "outcome ev (c_config c) (c_state c) (c_state c') r"
  using assms
  by (cases ev; simp only: handle_open_sent_event_def Let_def ConnectionEvent.case)
    (auto simp: outcome_def notif_and_terminate_def read_open_msg_def
      split: bind_splits dest!: try_sendD start_session_timers_frame)

lemma outcome_open_confirm:
  assumes "handle_open_confirm_event T clk ev c = (c', r)" "c_state c = ConnectionState.OpenConfirm"
  shows "outcome ev (c_config c) (c_state c) (c_state c') r"
  using assms
  by (cases ev; simp only: handle_open_confirm_event_def Let_def ConnectionEvent.case)
    (auto simp: outcome_def dest!: try_sendD)

lemma outcome_established:
  assumes "handle_established_event T clk ev c = (c', r)" "c_state c = ConnectionState.Established"
  shows "outcome ev (c_config c) (c_state c) (c_state c') r"
  using assms
  by (cases ev; simp only: handle_established_event_def Let_def ConnectionEvent.case)
    (auto simp: outcome_def reset_hold_timer_def dest!: try_sendD)

lemma handle_event_outcome:
  assumes "handle_event T clk P ev c p = Some ((c', r), p')"
  shows "outcome ev (c_config c) (c_state c) (c_state c') r"
  using assms
  by (cases "c_state c")
    (auto simp: handle_event_def outcome_def
      dest: outcome_connected outcome_open_sent outcome_open_confirm outcome_established
      simp del: next_state.simps simp: next_state.simps(1))

section \<open>No handler panics\<close>

lemma div_f32_0: "div_f32 0 r = 0"
  using round_half_even_of_int [of 0] by (simp add: div_f32_def as_secs_f32_def from_secs_f32_def)

lemma from_secs_0 [simp]: "from_secs 0 = 0"
  by simp

lemma hold_duration_secs:
  "\<exists>h. c_hold_timer_duration (set_negotiated_timers c) = from_secs h \<and>
     c_keepalive_timer_duration (set_negotiated_timers c) = (if h = 0 then 0 else div_f32 (from_secs h) 3)"
proof (cases "cfg_hold_timer_duration (c_config c) = 0")
  case True
  then show ?thesis
    by (intro exI [of _ 0]) (simp add: set_negotiated_timers_def ConnectionConfig_hold_timer_duration_def)
next
  case False
  define h where "h = (case c_peer_hold_time c of
      Some received \<Rightarrow> unat (min (cfg_hold_timer_duration (c_config c)) received)
    | None \<Rightarrow> unat (cfg_hold_timer_duration_large_value (c_config c)))"
  have "set_negotiated_timers c =
      c\<lparr>c_hold_timer_duration := from_secs h, c_keepalive_timer_duration := div_f32 (from_secs h) 3\<rparr>"
    using False by (simp add: set_negotiated_timers_def h_def Let_def ConnectionConfig_hold_timer_duration_def
        ConnectionConfig_hold_timer_duration_large_value_def unat_eq_zero split: option.split)
  then show ?thesis by (intro exI [of _ h]) (simp add: div_f32_0)
qed

context runtime_laws
begin

lemma start_interval_Some: "d \<noteq> 0 \<Longrightarrow> \<exists>i. start_interval T clk d = Some i"
  using interval_panics [of "now clk" d] by (auto simp: start_interval_def)

text \<open>A started interval has the period it was created with and ticks one period later.\<close>

lemma start_interval_ticks:
  assumes "start_interval T clk d = Some i"
  shows "interval_period T i = d \<and> d \<noteq> 0 \<and> (\<forall>t. interval_tick T t i = None \<longleftrightarrow> t < now clk + d)"
proof -
  from assms obtain j where j: "interval T (now clk) d = Some j" "i = interval_reset T (now clk) j"
    by (auto simp: start_interval_def)
  moreover have "interval_period T j = d" using j interval_period by blast
  moreover have "d \<noteq> 0" using interval_panics [of "now clk" d] j by auto
  ultimately show ?thesis using reset_period tick_after_reset by auto
qed

lemma start_hold_timer_Some: "\<exists>c'. start_hold_timer T clk c = Some c'"
  using start_interval_Some [of "ConnectionConfig_hold_timer_duration_large_value (c_config c)" clk]
  by (auto simp: start_hold_timer_def Let_def ConnectionConfig_hold_timer_duration_large_value_def unat_eq_zero)

lemma start_session_timers_Some:
  assumes "3 / 4 \<le> c_jitter c" "c_jitter c \<le> 1"
  shows "\<exists>c'. start_session_timers T clk (set_negotiated_timers c) = Some c'"
proof -
  obtain h where h: "c_hold_timer_duration (set_negotiated_timers c) = from_secs h"
      "c_keepalive_timer_duration (set_negotiated_timers c) = (if h = 0 then 0 else div_f32 (from_secs h) 3)"
    using hold_duration_secs by blast
  show ?thesis
  proof (cases "h = 0")
    case False
    then have "0 < mul_f32 (div_f32 (from_secs h) 3) (c_jitter c)"
      using keepalive_period(1) [of h "c_jitter c"] assms by simp
    then obtain k where k: "start_interval T clk (mul_f32 (div_f32 (from_secs h) 3) (c_jitter c)) = Some k"
      using start_interval_Some by (metis less_irrefl)
    obtain i where i: "start_interval T clk (from_secs h) = Some i"
      using start_interval_Some [of "from_secs h"] False by auto
    show ?thesis using False h k i by (simp add: start_session_timers_def)
  qed (simp add: h start_session_timers_def)
qed

lemma handle_event_returns:
  assumes "3 / 4 \<le> c_jitter c" "c_jitter c \<le> 1"
  shows "handle_event T clk P ev c p \<noteq> None"
proof -
  have d: "start_hold_timer T clk c \<noteq> None" using start_hold_timer_Some [of clk c] by auto
  have o: "cfg_open_delay_timer_duration (c_config c) \<noteq> 0 \<Longrightarrow>
      start_interval T clk (ConnectionConfig_open_delay_timer_duration (c_config c)) \<noteq> None"
    using start_interval_Some [of "ConnectionConfig_open_delay_timer_duration (c_config c)" clk]
    by (simp add: ConnectionConfig_open_delay_timer_duration_def unat_eq_zero)
  have s: "start_session_timers T clk (set_negotiated_timers (read_open_msg opn (c\<lparr>c_open_delay_timer := None\<rparr>))) \<noteq> None" for opn
    using start_session_timers_Some [of "read_open_msg opn (c\<lparr>c_open_delay_timer := None\<rparr>)" clk] assms
    by (simp add: read_open_msg_def)
  show ?thesis
    by (cases "c_state c"; cases ev)
      (auto simp: handle_event_def handle_connected_event_def handle_open_sent_event_def notif_and_terminate_def
        Let_def bind_eq_None_conv d s dest: o simp del: not_None_eq split: prod.splits)
qed

end

section \<open>Invariants\<close>

definition stats_ok :: "ConnectionStats \<Rightarrow> bool" where
  "stats_ok s \<longleftrightarrow>
     messages_sent s = open_sent s + update_sent s + keepalive_sent s + notification_sent s + route_refresh_sent s \<and>
     messages_received s = open_received s + update_received s + keepalive_received s +
       notification_received s + route_refresh_received s \<and>
     created s = 0"

text \<open>
  Besides the statistics: an OPEN message was sent before \<open>OpenSent\<close>, and one was received
  before \<open>OpenConfirm\<close>.
\<close>

definition conn_inv :: "('a, 't, 'i) Connection \<Rightarrow> bool" where
  "conn_inv c \<longleftrightarrow> stats_ok (c_stats c) \<and>
     (c_state c \<in> {ConnectionState.OpenSent, ConnectionState.OpenConfirm, ConnectionState.Established} \<longrightarrow>
        c_sent_capabilities c \<noteq> None) \<and>
     (c_state c \<in> {ConnectionState.OpenConfirm, ConnectionState.Established} \<longrightarrow>
        c_received_capabilities c \<noteq> None \<and> c_peer_hold_time c \<noteq> None \<and> c_peer_bgp_id c \<noteq> None)"

lemma sent_message_stats [simp]: "stats_ok (c_stats c) \<Longrightarrow> stats_ok (c_stats (sent_message T clk m c))"
  by (cases m) (simp_all add: sent_message_def Let_def reset_keepalive_timer_def stats_ok_def)

lemma sent_message_capabilities:
  "c_sent_capabilities (sent_message T clk m c) =
     (case m of Open opn \<Rightarrow> Some (capabilities opn) | _ \<Rightarrow> c_sent_capabilities c)"
  by (cases m) (simp_all add: sent_message_def Let_def reset_keepalive_timer_def)

lemma send_message_stats [simp]: "stats_ok (c_stats c) \<Longrightarrow> stats_ok (c_stats (snd (send_message T clk m c)))"
  by (cases T clk m c rule: send_message_cases) simp_all

lemma send_message_capabilities [simp]:
  "c_sent_capabilities c = Some cs \<Longrightarrow> \<exists>cs. c_sent_capabilities (snd (send_message T clk m c)) = Some cs"
  by (cases T clk m c rule: send_message_cases) (simp_all add: sent_message_capabilities split: BgpMessage.split)

lemma send_open_capabilities:
  "fst (send_message T clk (Open opn) c) = Ok u \<Longrightarrow>
     c_sent_capabilities (snd (send_message T clk (Open opn) c)) = Some (capabilities opn)"
  by (cases rule: send_message_cases [of T clk "Open opn" c]) (simp_all add: sent_message_capabilities)

lemma conn_inv_terminate: "stats_ok (c_stats c) \<Longrightarrow> c_state c = Terminate \<Longrightarrow> conn_inv c"
  by (simp add: conn_inv_def)

lemma conn_inv_send: "conn_inv c \<Longrightarrow> conn_inv (snd (send_message T clk m c))"
  by (auto simp: conn_inv_def)

lemma conn_inv_connected:
  assumes "handle_connected_event T clk P ev c p = Some ((c', r), p')" "c_state c = Connected" "conn_inv c"
  shows "conn_inv c'"
  using assms
  by (cases ev; simp only: handle_connected_event_def Let_def ConnectionEvent.case)
    (auto simp: conn_inv_def send_open_def read_open_msg_def send_notif_def
        send_open_capabilities
      split: if_splits prod.splits bind_splits
      dest!: try_sendD start_hold_timer_frame start_session_timers_frame)

lemma conn_inv_open_sent:
  assumes "handle_open_sent_event T clk ev c = Some (c', r)" "c_state c = ConnectionState.OpenSent" "conn_inv c"
  shows "conn_inv c'"
  using assms
  by (cases ev; simp only: handle_open_sent_event_def Let_def ConnectionEvent.case)
    (auto simp: conn_inv_def notif_and_terminate_def read_open_msg_def send_notif_def
      split: bind_splits dest!: try_sendD start_session_timers_frame)

lemma conn_inv_open_confirm:
  assumes "handle_open_confirm_event T clk ev c = (c', r)" "c_state c = ConnectionState.OpenConfirm" "conn_inv c"
  shows "conn_inv c'"
  using assms
  by (cases ev; simp only: handle_open_confirm_event_def Let_def ConnectionEvent.case)
    (auto simp: conn_inv_def send_notif_def reset_hold_timer_def dest!: try_sendD)

lemma conn_inv_established:
  assumes "handle_established_event T clk ev c = (c', r)" "c_state c = ConnectionState.Established" "conn_inv c"
  shows "conn_inv c'"
  using assms
  by (cases ev; simp only: handle_established_event_def Let_def ConnectionEvent.case)
    (auto simp: conn_inv_def send_notif_def reset_hold_timer_def dest!: try_sendD)

lemma conn_inv_handle_event:
  assumes "handle_event T clk P ev c p = Some ((c', r), p')" "conn_inv c"
  shows "conn_inv c'"
  using assms
  by (cases "c_state c")
    (auto simp: handle_event_def
      dest: conn_inv_connected conn_inv_open_sent conn_inv_open_confirm conn_inv_established)

lemma conn_inv_received: "conn_inv c \<Longrightarrow> conn_inv (snd (received_message clk msg errors c))"
  by (cases msg) (auto simp: received_message_def conn_inv_def stats_ok_def Let_def split: prod.split)

lemma conn_inv_update [simp]:
  "conn_inv (c\<lparr>c_inner := t\<rparr>) = conn_inv c"
  "conn_inv (c\<lparr>c_keepalive_timer := k\<rparr>) = conn_inv c"
  "conn_inv (c\<lparr>c_open_delay_timer := k\<rparr>) = conn_inv c"
  "conn_inv (c\<lparr>c_hold_timer := k\<rparr>) = conn_inv c"
  by (simp_all add: conn_inv_def)

lemma conn_inv_poll: "conn_inv c \<Longrightarrow> conn_inv (snd (poll_next T clk c))"
  by (auto simp: poll_next_def split_beta Let_def intro!: conn_inv_received
      split: option.split poll.split result.split prod.split)

text \<open>What can happen to a connection: events, polls and messages of the peer's owner.\<close>

inductive connection_run ::
  "('x, 'e, 'w, 't, 'i) runtime \<Rightarrow> ('p, 'x, 'a, 't, 'i) policy \<Rightarrow> ('a, 't, 'i) Connection \<Rightarrow> bool"
  for T :: "('x, 'e, 'w, 't, 'i) runtime" and P :: "('p, 'x, 'a, 't, 'i) policy" where
  created: "connection_run T P (Connection_new props addr ty cfg inner jitter)"
| event: "connection_run T P c \<Longrightarrow> handle_event T clk P ev c p = Some ((c', r), p') \<Longrightarrow> connection_run T P c'"
| poll: "connection_run T P c \<Longrightarrow> poll_next T clk c = (e, c') \<Longrightarrow> connection_run T P c'"
| send: "connection_run T P c \<Longrightarrow> send_message T clk m c = (res, c') \<Longrightarrow> connection_run T P c'"

end
