(* ===== verification/Bgp_Policy.thy ===== *)
theory Bgp_Policy
  imports Bgp_Connection
begin

text \<open>
  The policy of \<open>crates/bgp-speaker/src/peer.rs\<close> that echoes capabilities: the OPEN message announces
  the configured capabilities and those the peer announced, except the rejected ones.
\<close>

section \<open>The policy\<close>

definition AS_TRANS :: u16 where
  "AS_TRANS = 23456"

record EchoCapabilitiesPolicy =
  ep_my_asn :: u32
  ep_send_asn4_cap_by_default :: bool
  ep_my_bgp_id :: u32
  ep_remote_as :: "u32 option"
  ep_hold_timer_duration :: u16
  ep_capabilities :: "BgpCapability list"
  ep_reject_capabilities :: "BgpCapability list"
  ep_peer_capabilities :: "BgpCapability list"

definition EchoCapabilitiesPolicy_new ::
  "u32 \<Rightarrow> bool \<Rightarrow> u32 \<Rightarrow> u16 \<Rightarrow> BgpCapability list \<Rightarrow> BgpCapability list \<Rightarrow> EchoCapabilitiesPolicy" where
  "EchoCapabilitiesPolicy_new my_asn send_asn4_cap_by_default my_bgp_id hold_timer_duration caps reject_capabilities =
    \<lparr>ep_my_asn = my_asn, ep_send_asn4_cap_by_default = send_asn4_cap_by_default, ep_my_bgp_id = my_bgp_id,
     ep_remote_as = None, ep_hold_timer_duration = hold_timer_duration, ep_capabilities = caps,
     ep_reject_capabilities = reject_capabilities, ep_peer_capabilities = []\<rparr>"

definition send_asn4_cap_by_default :: "bool \<Rightarrow> EchoCapabilitiesPolicy \<Rightarrow> EchoCapabilitiesPolicy" where
  "send_asn4_cap_by_default v p = p\<lparr>ep_send_asn4_cap_by_default := v\<rparr>"

definition echo_capabilities :: "EchoCapabilitiesPolicy \<Rightarrow> u16 \<Rightarrow> BgpCapability \<Rightarrow> BgpCapability list" where
  "echo_capabilities p my_asn asn4_cap =
    (let caps = ep_capabilities p;
         caps = (if (ep_send_asn4_cap_by_default p \<or> my_asn = AS_TRANS) \<and> asn4_cap \<notin> set caps
                 then asn4_cap # caps else caps)
     in caps @ filter (\<lambda>cap. cap \<notin> set (ep_capabilities p) \<and> cap \<notin> set (ep_reject_capabilities p))
          (ep_peer_capabilities p))"

definition echo_open_message :: "EchoCapabilitiesPolicy \<Rightarrow> BgpOpenMessage \<times> EchoCapabilitiesPolicy" where
  "echo_open_message p =
    (let asn4_cap = BgpCapability.FourOctetAs (FourOctetAsCapability (ep_my_asn p));
         my_asn = (if ep_my_asn p > 65535 then AS_TRANS else ucast (ep_my_asn p));
         caps = echo_capabilities p my_asn asn4_cap;
         ps = (if caps = [] then [] else [Capabilities caps])
     in (BgpOpenMessage_new my_asn (ep_hold_timer_duration p) (ep_my_bgp_id p) ps, p))"

definition learn_open :: "BgpOpenMessage \<Rightarrow> EchoCapabilitiesPolicy \<Rightarrow> EchoCapabilitiesPolicy" where
  "learn_open opn p =
     p\<lparr>ep_remote_as := Some (my_asn4 opn),
       ep_peer_capabilities := filter (\<lambda>cap. BgpCapability_code cap \<noteq> Ok BgpCapabilityCode.FourOctetAs) (capabilities opn)\<rparr>"

definition echo_pre_hook ::
  "('x, 'a) ConnectionEvent \<Rightarrow> ('a, 't, 'i) Connection \<Rightarrow> EchoCapabilitiesPolicy \<Rightarrow>
     ('x, 'a) ConnectionEvent \<times> EchoCapabilitiesPolicy" where
  "echo_pre_hook event connection p =
    (event, case event of
       ConnectionEvent.BGPOpen opn \<Rightarrow> learn_open opn p
     | ConnectionEvent.BGPOpenWithDelayOpenTimer opn \<Rightarrow> learn_open opn p
     | _ \<Rightarrow> p)"

definition echo_policy :: "(EchoCapabilitiesPolicy, 'x, 'a, 't, 'i) policy" where
  "echo_policy = \<lparr>open_message = echo_open_message, pre_handle_connection_event_hook = echo_pre_hook,
     post_handle_connection_event_hook = (\<lambda>p event connection. event)\<rparr>"

section \<open>Policies that only observe\<close>

text \<open>What the state machine of a peer relies on: the hooks of a policy hand the events on.\<close>

locale observing_policy =
  fixes P :: "('p, 'x, 'a, 't, 'i) policy"
  assumes pre_hook: "fst (pre_handle_connection_event_hook P ev c p) = ev"
    and post_hook: "post_handle_connection_event_hook P p ev oc = ev"

interpretation echo: observing_policy echo_policy
  by unfold_locales (simp_all add: echo_policy_def echo_pre_hook_def)

section \<open>The announced AS number\<close>

definition consistent_asn :: "EchoCapabilitiesPolicy \<Rightarrow> bool" where
  "consistent_asn p \<longleftrightarrow>
     (\<forall>cap \<in> set (ep_capabilities p) \<union> set (ep_peer_capabilities p).
        four_octet_as cap = None \<or> four_octet_as cap = Some (ep_my_asn p))"

lemma four_octet_as_code: "four_octet_as cap \<noteq> None \<Longrightarrow> BgpCapability_code cap = Ok BgpCapabilityCode.FourOctetAs"
  by (cases cap) simp_all

lemma learn_open_consistent: "consistent_asn p \<Longrightarrow> consistent_asn (learn_open opn p)"
  using four_octet_as_code by (auto simp: consistent_asn_def learn_open_def)

lemma learn_open_fields [simp]:
  "ep_my_asn (learn_open opn p) = ep_my_asn p" "ep_capabilities (learn_open opn p) = ep_capabilities p"
  "ep_reject_capabilities (learn_open opn p) = ep_reject_capabilities p"
  by (simp_all add: learn_open_def)

lemma learn_opens:
  "consistent_asn p \<Longrightarrow> consistent_asn (fold learn_open opens p)"
  "ep_my_asn (fold learn_open opens p) = ep_my_asn p"
  "ep_capabilities (fold learn_open opens p) = ep_capabilities p"
  "ep_reject_capabilities (fold learn_open opens p) = ep_reject_capabilities p"
  by (induction opens arbitrary: p) (simp_all add: learn_open_consistent)

lemma echo_capabilities_of:
  "capabilities (fst (echo_open_message p)) =
     echo_capabilities p (my_as (fst (echo_open_message p))) (BgpCapability.FourOctetAs (FourOctetAsCapability (ep_my_asn p)))"
  by (simp add: echo_open_message_def Let_def capabilities_def BgpOpenMessage_new_def)

lemma echo_my_as:
  "my_as (fst (echo_open_message p)) = (if ep_my_asn p > 65535 then AS_TRANS else ucast (ep_my_asn p))"
  by (simp add: echo_open_message_def Let_def BgpOpenMessage_new_def)

text \<open>A list all of whose four-octet AS numbers are the same announces that number, if it has one.\<close>

lemma last_asn:
  assumes "\<forall>cap \<in> set caps. four_octet_as cap = None \<or> four_octet_as cap = Some a" "List.map_filter four_octet_as caps \<noteq> []"
  shows "last (List.map_filter four_octet_as caps) = a"
proof -
  have "set (List.map_filter four_octet_as caps) \<subseteq> {a}"
    using assms(1) by (fastforce simp: List.map_filter_def)
  then show ?thesis using last_in_set [OF assms(2)] by auto
qed

lemma echo_open_asn:
  assumes "consistent_asn p"
  shows "my_asn4 (fst (echo_open_message p)) = ep_my_asn p"
proof -
  let ?cap = "BgpCapability.FourOctetAs (FourOctetAsCapability (ep_my_asn p))"
  let ?caps = "capabilities (fst (echo_open_message p))"
  have all: "\<forall>cap \<in> set ?caps. four_octet_as cap = None \<or> four_octet_as cap = Some (ep_my_asn p)"
    using assms by (auto simp: echo_capabilities_of echo_capabilities_def Let_def consistent_asn_def)
  show ?thesis
  proof (cases "List.map_filter four_octet_as ?caps = []")
    case False
    then show ?thesis using last_asn [OF all] by (simp add: my_asn4_def Let_def)
  next
    case True
    then have "?cap \<notin> set ?caps" by (auto simp: List.map_filter_def filter_empty_conv)
    then have "\<not> ep_my_asn p > 65535"
      by (auto simp: echo_capabilities_of echo_capabilities_def echo_my_as Let_def split: if_splits)
    then have "unat (ep_my_asn p) < 65536" by (simp add: word_less_nat_alt)
    then have "ucast (ucast (ep_my_asn p) :: u16) = ep_my_asn p"
      by (intro word_unat_eq_iff [THEN iffD2]) (simp add: unsigned_ucast_eq take_bit_eq_mod unat_mod)
    with True \<open>\<not> ep_my_asn p > 65535\<close> show ?thesis
      by (simp add: my_asn4_def Let_def echo_my_as)
  qed
qed

text \<open>
  C31: a policy that starts with capabilities which name no foreign AS number announces, after any
  OPEN messages of the peer, an OPEN message whose AS number, as its receiver reads it, is the
  configured one, be it two or four octets.  Of what the peer announced, it repeats no
  rejected capability.
\<close>

theorem echo_open_announces_asn:
  assumes "\<forall>cap \<in> set caps. four_octet_as cap = None \<or> four_octet_as cap = Some my_asn"
    and "p = fold learn_open opens (EchoCapabilitiesPolicy_new my_asn send_asn4 my_bgp_id hold caps reject)"
  shows "my_asn4 (fst (echo_open_message p)) = my_asn \<and>
    (\<forall>cap \<in> set (capabilities (fst (echo_open_message p))).
      cap \<in> set caps \<or> cap = BgpCapability.FourOctetAs (FourOctetAsCapability my_asn) \<or>
      cap \<in> set (ep_peer_capabilities p) - set reject)"
proof -
  let ?p0 = "EchoCapabilitiesPolicy_new my_asn send_asn4 my_bgp_id hold caps reject"
  have "consistent_asn ?p0" using assms(1) by (simp add: consistent_asn_def EchoCapabilitiesPolicy_new_def)
  then have "consistent_asn p" by (simp add: assms(2) learn_opens)
  moreover have "ep_my_asn p = my_asn" "ep_capabilities p = caps" "ep_reject_capabilities p = reject"
    by (simp_all add: assms(2) learn_opens EchoCapabilitiesPolicy_new_def)
  ultimately show ?thesis
    using echo_open_asn [of p] by (auto simp: echo_capabilities_of echo_capabilities_def Let_def)
qed

theorem echo_open_announces_asn_witness:
  "four_octet_as BgpCapability.RouteRefresh = None \<and>
   my_asn4 (fst (echo_open_message (fold learn_open [example_open]
     (EchoCapabilitiesPolicy_new 70000 False 1 180 [BgpCapability.RouteRefresh] [])))) = 70000"
  using echo_open_announces_asn [of "[BgpCapability.RouteRefresh]" 70000
      "fold learn_open [example_open] (EchoCapabilitiesPolicy_new 70000 False 1 180 [BgpCapability.RouteRefresh] [])"
      "[example_open]" False 1 180 "[]"]
  by simp

end
