(* ===== verification/Bgp_Session.thy ===== *)
theory Bgp_Session
  imports Bgp_Policy
begin

text \<open>
  What the model of a connection shows: its handlers implement the state machine of a BGP session
  and never panic, the negotiated timers, the invariants of every connection, and that a session is
  established over a reliable transport.
\<close>

section \<open>The session state machine\<close>


section \<open>Timers\<close>

lemma open_sent_open:
  assumes "c_state c = ConnectionState.OpenSent"
    and "handle_event T clk P (ConnectionEvent.BGPOpen opn) c p = Some ((c', r), p')"
  obtains d where "start_session_timers T clk
      (set_negotiated_timers (read_open_msg opn (c\<lparr>c_open_delay_timer := None\<rparr>))) = Some d"
    and "(c', r) = try_send T clk KeepAlive d (\<lambda>c. (c\<lparr>c_state := ConnectionState.OpenConfirm\<rparr>, Ok (ConnectionEvent.BGPOpen opn)))"
  using assms by (auto simp: handle_event_def handle_open_sent_event_def Let_def split: bind_splits)

lemma send_keepalive_timer:
  "c_keepalive_timer (snd (send_message T clk m c)) = c_keepalive_timer c \<or>
   c_keepalive_timer (snd (send_message T clk m c)) = map_option (interval_reset T (now clk)) (c_keepalive_timer c)"
proof (cases rule: send_message_cases [of T clk m c])
  case (2 r inner)
  then show ?thesis by (cases m) (simp_all add: sent_message_def Let_def reset_keepalive_timer_def)
qed simp

context runtime_laws
begin

lemma session_timers_started:
  assumes d: "start_session_timers T clk (set_negotiated_timers c) = Some d"
    and j: "3 / 4 \<le> c_jitter c" "c_jitter c \<le> 1"
    and h: "c_hold_timer_duration (set_negotiated_timers c) = from_secs h" "h \<noteq> 0"
      "c_keepalive_timer_duration (set_negotiated_timers c) = div_f32 (from_secs h) 3"
  shows "\<exists>i k. c_hold_timer d = Some i \<and> c_keepalive_timer d = Some k \<and>
    (\<forall>t. interval_tick T t i = None \<longleftrightarrow> t < now clk + from_secs h) \<and>
    0 < interval_period T k \<and> 2 * interval_period T k < from_secs h \<and>
    (\<forall>t. interval_tick T t k = None \<longleftrightarrow> t < now clk + interval_period T k)"
proof -
  have p: "0 < mul_f32 (div_f32 (from_secs h) 3) (c_jitter c)"
    "2 * mul_f32 (div_f32 (from_secs h) 3) (c_jitter c) < from_secs h"
    using keepalive_period [of h "c_jitter c"] j h(2) by simp_all
  have "div_f32 (from_secs h) 3 \<noteq> 0"
  proof
    assume z: "div_f32 (from_secs h) 3 = 0"
    have "mul_f32 0 (c_jitter c) = 0"
      using round_half_even_of_int [of 0] by (simp add: mul_f32_def as_secs_f32_def from_secs_f32_def)
    with p(1) z show False by simp
  qed
  then obtain k i where ki: "start_interval T clk (mul_f32 (div_f32 (from_secs h) 3) (c_jitter c)) = Some k"
    "start_interval T clk (from_secs h) = Some i" "c_keepalive_timer d = Some k" "c_hold_timer d = Some i"
    using d h by (auto simp: start_session_timers_def split: bind_splits if_splits)
  with start_interval_ticks [OF ki(1)] start_interval_ticks [OF ki(2)] p show ?thesis by auto
qed

lemma keepalive_after_send:
  assumes "c_keepalive_timer c = Some k" "\<forall>t. interval_tick T t k = None \<longleftrightarrow> t < now clk + interval_period T k"
  shows "\<exists>k'. c_keepalive_timer (snd (send_message T clk m c)) = Some k' \<and> interval_period T k' = interval_period T k \<and>
    (\<forall>t. interval_tick T t k' = None \<longleftrightarrow> t < now clk + interval_period T k)"
  using send_keepalive_timer [of T clk m c] assms reset_period tick_after_reset by auto

end

text \<open>
  C9: the timers after an OPEN message in \<open>OpenSent\<close>, when both ends use a hold time.  The hold
  timer expires after the smaller of the two hold times; the keepalive timer has a positive period shorter than
  half of it, so two keepalive messages fit into one hold time, although the period is computed in
  single precision and shortened by jitter.
\<close>

theorem session_timers:
  assumes "runtime_laws T" "c_state c = ConnectionState.OpenSent" "3 / 4 \<le> c_jitter c" "c_jitter c \<le> 1"
    and "handle_event T clk P (ConnectionEvent.BGPOpen opn) c p = Some ((c', r), p')"
    and "h = unat (min (cfg_hold_timer_duration (c_config c)) (hold_time opn))" "h \<noteq> 0"
  shows "\<exists>i k. c_hold_timer c' = Some i \<and> c_keepalive_timer c' = Some k \<and>
    (\<forall>t. interval_tick T t i = None \<longleftrightarrow> t < now clk + from_secs h) \<and>
    0 < interval_period T k \<and> 2 * interval_period T k < from_secs h \<and>
    (\<forall>t. interval_tick T t k = None \<longleftrightarrow> t < now clk + interval_period T k)"
proof -
  let ?c = "read_open_msg opn (c\<lparr>c_open_delay_timer := None\<rparr>)"
  obtain d where d: "start_session_timers T clk (set_negotiated_timers ?c) = Some d"
    and s: "(c', r) = try_send T clk KeepAlive d (\<lambda>c. (c\<lparr>c_state := ConnectionState.OpenConfirm\<rparr>, Ok (ConnectionEvent.BGPOpen opn)))"
    using open_sent_open [OF assms(2,5)] by blast
  have "cfg_hold_timer_duration (c_config c) \<noteq> 0" using assms(6,7) by (auto simp: min_def split: if_splits)
  then have t: "c_hold_timer_duration (set_negotiated_timers ?c) = from_secs h"
    "c_keepalive_timer_duration (set_negotiated_timers ?c) = div_f32 (from_secs h) 3"
    using assms(6) by (simp_all add: set_negotiated_timers_def read_open_msg_def Let_def
        ConnectionConfig_hold_timer_duration_def unat_eq_zero)
  from assms(3,4) have j: "3 / 4 \<le> c_jitter ?c" "c_jitter ?c \<le> 1" by (simp_all add: read_open_msg_def)
  obtain i k where ik: "c_hold_timer d = Some i" "c_keepalive_timer d = Some k"
    "\<forall>t. interval_tick T t i = None \<longleftrightarrow> t < now clk + from_secs h"
    "0 < interval_period T k" "2 * interval_period T k < from_secs h"
    "\<forall>t. interval_tick T t k = None \<longleftrightarrow> t < now clk + interval_period T k"
    using runtime_laws.session_timers_started [OF assms(1) d j t(1) assms(7) t(2)] by blast
  obtain k' where k': "c_keepalive_timer (snd (send_message T clk KeepAlive d)) = Some k'" "interval_period T k' = interval_period T k"
    "\<forall>t. interval_tick T t k' = None \<longleftrightarrow> t < now clk + interval_period T k"
    using runtime_laws.keepalive_after_send [OF assms(1) ik(2,6), of KeepAlive] by blast
  have "c_hold_timer c' = Some i \<and> c_keepalive_timer c' = Some k'"
    using try_sendD [OF s [symmetric]] ik(1) k'(1) by auto
  then show ?thesis using ik k' by auto
qed

lemma connected_acked:
  assumes "c_state c = Connected" "cfg_open_delay_timer_duration (c_config c) = 0"
    and "ev = ConnectionEvent.TcpConnectionRequestAcked a \<or> ev = ConnectionEvent.TcpConnectionConfirmed a"
    and "handle_event T clk P ev c p = Some ((c', r), p')"
  obtains d where "start_hold_timer T clk c = Some d" "send_open T clk P ev d p = ((c', r), p')"
  using assms by (auto simp: handle_event_def handle_connected_event_def Let_def split: bind_splits)


text \<open>
  C28: in \<open>Established\<close> only a keepalive message restarts the hold timer.  An UPDATE message does not: it
  leaves the whole connection as it is.
\<close>

theorem established_hold_timer:
  assumes "c_state c = ConnectionState.Established" "handle_event T clk P ev c p = Some ((c', r), p')"
  shows "c_hold_timer c' = (if ev = ConnectionEvent.KeepAliveMsg
      then map_option (interval_reset T (now clk)) (c_hold_timer c) else c_hold_timer c) \<and>
    (\<forall>u t. ev = ConnectionEvent.UpdateMsg u t \<longrightarrow> c' = c)"
  using assms
  by (cases ev) (auto simp: handle_event_def handle_established_event_def Let_def reset_hold_timer_def send_notif_def
      dest!: try_sendD)

section \<open>Invariants\<close>

text \<open>
  C10: in every connection, whatever happens to it, the message counters are the sums of
  the counters per type (modulo the width of the counters), an OPEN message was sent
  before \<open>OpenSent\<close> and one was received before \<open>OpenConfirm\<close>.  The time of creation is
  never set.
\<close>

theorem connection_invariant:
  assumes "connection_run T P c"
  shows "conn_inv c"
  using assms
proof (induction rule: connection_run.induct)
  case (created props addr ty cfg inner jitter)
  show ?case by (simp add: conn_inv_def Connection_new_def stats_ok_def ConnectionStats_default_def)
next
  case (event c clk ev p c' r p')
  then show ?case by (blast intro: conn_inv_handle_event)
next
  case (poll c clk e c')
  then show ?case using conn_inv_poll [of c T clk] by simp
next
  case (send c clk m res c')
  then show ?case using conn_inv_send [of c T clk m] by simp
qed

section \<open>Sending over the codec\<close>

lemma send_message_peer_asn [simp]: "c_peer_asn (snd (send_message T clk m c)) = c_peer_asn c"
proof (cases rule: send_message_cases [of T clk m c])
  case (2 r inner)
  then show ?thesis by (cases m) (simp_all add: sent_message_def Let_def reset_keepalive_timer_def)
qed simp

lemma duplex_simps [simp]:
  "framed_ready (duplex_runtime L U) f = (Ok (), f)"
  "framed_start_send (duplex_runtime L U) m f = duplex_start_send L U m f"
  "framed_flush (duplex_runtime L U) f = (Ok (), f\<lparr>fr_sent := fr_sent f @ fr_write f, fr_write := []\<rparr>)"
  "framed_next (duplex_runtime L U) f = duplex_next L U f"
  by (simp_all add: duplex_runtime_def)

lemma sent_message_c_inner [simp]: "c_inner (sent_message T clk m c) = c_inner c"
  by (cases m) (simp_all add: sent_message_def Let_def reset_keepalive_timer_def)

text \<open>A well-formed message is handed to the transport completely.\<close>

lemma duplex_send:
  assumes "message_wf m" "fr_write (c_inner c) = []"
  obtains codec where "send_message (duplex_runtime L U) clk m c =
    (Ok (), (sent_message (duplex_runtime L U) clk m c)\<lparr>c_inner :=
      (c_inner c)\<lparr>fr_codec := codec, fr_write := [], fr_sent := fr_sent (c_inner c) @ fst (BgpMessage_write L U m)\<rparr>\<rparr>)"
proof -
  let ?T = "duplex_runtime L U"
  obtain codec where "duplex_start_send L U m (c_inner c) =
      (Ok (), (c_inner c)\<lparr>fr_codec := codec, fr_write := fst (BgpMessage_write L U m)\<rparr>)"
    using message_write_ok [OF assms(1), of L U] assms(2)
    by (simp add: duplex_start_send_def BgpCodec_encode_def Let_def)
  then have "start_send ?T clk m c =
      (Ok (), (sent_message ?T clk m c)\<lparr>c_inner := (c_inner c)\<lparr>fr_codec := codec, fr_write := fst (BgpMessage_write L U m)\<rparr>\<rparr>)"
    by (simp add: start_send_def Let_def)
  then have "send_message ?T clk m c =
    (Ok (), (sent_message ?T clk m c)\<lparr>c_inner :=
      (c_inner c)\<lparr>fr_codec := codec, fr_write := [], fr_sent := fr_sent (c_inner c) @ fst (BgpMessage_write L U m)\<rparr>\<rparr>)"
    by (simp add: send_message_def)
  then show ?thesis by (rule that)
qed

section \<open>Concrete runs\<close>

definition example_runtime :: "(nat, nat, nat, (nat, nat) framed, nat \<times> duration) runtime" where
  "example_runtime = duplex_runtime net_lib no_updates"

definition example_policy :: "(EchoCapabilitiesPolicy, nat, nat, (nat, nat) framed, nat \<times> duration) policy" where
  "example_policy = echo_policy"

definition example_connection :: "ConnectionConfig \<Rightarrow> (nat, (nat, nat) framed, nat \<times> duration) Connection" where
  "example_connection cfg = Connection_new (PeerProperties_new 100 100 1 7 False) 7 Active cfg
     (framed_new [] False BgpCodec_default) 1"

definition example_echo :: EchoCapabilitiesPolicy where
  "example_echo = EchoCapabilitiesPolicy_new 100 False 0x0a000001 180 [] []"

definition clk_at :: "nat \<Rightarrow> clock" where
  "clk_at t = \<lparr>now = t, utc = t\<rparr>"

lemma example_runtime_laws: "runtime_laws example_runtime"
  by (simp add: example_runtime_def duplex.runtime_laws_axioms)

lemma example_connection_fields [simp]:
  "c_jitter (example_connection cfg) = 1" "c_state (example_connection cfg) = Connected"
  "c_config (example_connection cfg) = cfg" "c_keepalive_timer (example_connection cfg) = None"
  "c_open_delay_timer (example_connection cfg) = None"
  by (simp_all add: example_connection_def Connection_new_def)


theorem session_timers_witness:
  "\<exists>c' r p' i k. handle_event example_runtime (clk_at 5) example_policy (ConnectionEvent.BGPOpen example_open)
      ((example_connection ConnectionConfig_default)\<lparr>c_state := ConnectionState.OpenSent\<rparr>) example_echo = Some ((c', r), p') \<and>
    c_hold_timer c' = Some i \<and> c_keepalive_timer c' = Some k \<and> 2 * interval_period example_runtime k < from_secs 180"
proof -
  let ?c = "(example_connection ConnectionConfig_default)\<lparr>c_state := ConnectionState.OpenSent\<rparr>"
  obtain c' r p' where h: "handle_event example_runtime (clk_at 5) example_policy (ConnectionEvent.BGPOpen example_open) ?c
      example_echo = Some ((c', r), p')"
    using runtime_laws.handle_event_returns [OF example_runtime_laws, of ?c "clk_at 5" example_policy] by fastforce
  have "180 = unat (min (cfg_hold_timer_duration (c_config ?c)) (hold_time example_open))"
    by (simp add: ConnectionConfig_default_def example_open_def BgpOpenMessage_new_def)
  with session_timers [OF example_runtime_laws _ _ _ h, of 180] h show ?thesis by auto
qed

lemma example_open_asn: "my_asn4 (fst (echo_open_message example_echo)) = 100"
  by (simp add: example_echo_def EchoCapabilitiesPolicy_new_def echo_open_message_def Let_def echo_capabilities_def
      BgpOpenMessage_new_def my_asn4_def capabilities_def List.map_filter_def AS_TRANS_def)

lemma example_open_message_wf: "open_wf (fst (echo_open_message example_echo))"
  by (simp add: example_echo_def EchoCapabilitiesPolicy_new_def echo_open_message_def Let_def echo_capabilities_def
      BgpOpenMessage_new_def open_wf_def bgp_id_ok_def is_broadcast_def is_multicast_def is_unspecified_def AS_TRANS_def)

text \<open>A run that is asked for a hold time of zero.\<close>

lemma example_acked:
  "\<exists>c1. handle_event example_runtime (clk_at 0) example_policy (ConnectionEvent.TcpConnectionRequestAcked 7)
      (example_connection ConnectionConfig_default) example_echo =
    Some ((c1, Ok (ConnectionEvent.TcpConnectionRequestAcked 7)), example_echo) \<and>
    c_state c1 = ConnectionState.OpenSent \<and> fr_write (c_inner c1) = [] \<and> c_jitter c1 = 1"
proof -
  let ?c = "example_connection ConnectionConfig_default"
  let ?o = "fst (echo_open_message example_echo)"
  obtain d where d: "start_hold_timer example_runtime (clk_at 0) ?c = Some d"
    using runtime_laws.start_hold_timer_Some [OF example_runtime_laws] by blast
  note df = start_hold_timer_frame [OF d]
  have w: "fr_write (c_inner d) = []" "message_wf (Open ?o)"
    using df example_open_message_wf by (simp_all add: example_connection_def Connection_new_def framed_new_def)
  obtain codec where s: "send_message example_runtime (clk_at 0) (Open ?o) d =
    (Ok (), (sent_message example_runtime (clk_at 0) (Open ?o) d)\<lparr>c_inner :=
      (c_inner d)\<lparr>fr_codec := codec, fr_write := [], fr_sent := fr_sent (c_inner d) @ fst (BgpMessage_write net_lib no_updates (Open ?o))\<rparr>\<rparr>)"
    unfolding example_runtime_def by (rule duplex_send [OF w(2,1)])
  have m: "open_message example_policy example_echo = (?o, example_echo)"
    by (simp add: example_policy_def echo_policy_def echo_open_message_def Let_def)
  show ?thesis
    using d df m by (simp add: handle_event_def handle_connected_event_def send_open_def try_send_def s)
      (simp add: ConnectionConfig_default_def)
qed


theorem established_hold_timer_witness:
  "\<exists>c' r p'. handle_event example_runtime (clk_at 3) example_policy (ConnectionEvent.UpdateMsg example_update Normal)
      ((example_connection ConnectionConfig_default)\<lparr>c_state := ConnectionState.Established, c_hold_timer := Some (9, 5)\<rparr>)
      example_echo = Some ((c', r), p') \<and> c_hold_timer c' = Some (9, 5)"
proof -
  let ?c = "(example_connection ConnectionConfig_default)\<lparr>c_state := ConnectionState.Established, c_hold_timer := Some (9, 5)\<rparr>"
  obtain c' r p' where h: "handle_event example_runtime (clk_at 3) example_policy
      (ConnectionEvent.UpdateMsg example_update Normal) ?c example_echo = Some ((c', r), p')"
    using runtime_laws.handle_event_returns [OF example_runtime_laws, of ?c "clk_at 3" example_policy] by fastforce
  with established_hold_timer [OF _ h] show ?thesis by auto
qed

theorem connection_invariant_witness:
  "connection_run example_runtime example_policy (example_connection ConnectionConfig_default) \<and>
   conn_inv (example_connection ConnectionConfig_default)"
  using connection_invariant [of example_runtime example_policy "example_connection ConnectionConfig_default"]
  by (auto simp: example_connection_def intro: connection_run.created)

end
