(* ===== verification/Bgp_Handshake.thy ===== *)
theory Bgp_Handshake
  imports Bgp_Session
begin

text \<open>
  Two speakers joined by their transports: the bytes one connection sends are the bytes the
  other receives.  The codec, the connection and the policy together establish a session.
\<close>

section \<open>Receiving over the codec\<close>

text \<open>A connection none of whose timers is due reads the next message.\<close>

definition quiet :: "('x, 'e, 'w, 't, 'i) runtime \<Rightarrow> clock \<Rightarrow> ('a, 't, 'i) Connection \<Rightarrow> bool" where
  "quiet T clk c \<longleftrightarrow> tick T clk (c_keepalive_timer c) = None \<and> tick T clk (c_open_delay_timer c) = None \<and>
     tick T clk (c_hold_timer c) = None"

lemma duplex_receive:
  fixes U :: "('x, 'e, 'w) update_wire" and c :: "('a, ('x, 'e) framed, nat \<times> duration) Connection"
  assumes "wire_lib_laws L" "message_wf m" "quiet (duplex_runtime L U) clk c"
    and "fr_read (c_inner c) = fst (BgpMessage_write L U m) @ rest"
  obtains errors :: "('x, 'e) ignored_errors" and codec where "poll_next (duplex_runtime L U) clk c =
      (let (event, c) = received_message clk m errors (c\<lparr>c_inner := (c_inner c)\<lparr>fr_codec := codec, fr_read := rest\<rparr>\<rparr>)
       in (Ready event, c))"
proof -
  obtain codec' where d: "BgpCodec_decode L U (fr_codec (c_inner c)) (fr_read (c_inner c)) =
      Some (Ok (Some (m, parsing_errors (codec_ctx (fr_codec (c_inner c))))), codec', rest)"
    using wire_lib_laws.frame_complete [OF assms(1,2,4), of "fr_codec (c_inner c)"] by blast
  have n: "duplex_next L U (c_inner c) = (Ready (Some (Ok (m, parsing_errors (codec_ctx (fr_codec (c_inner c)))))),
      (c_inner c)\<lparr>fr_codec := codec', fr_read := rest\<rparr>)"
    by (simp add: duplex_next_def d)
  show ?thesis using assms(3)
    by (intro that [of "parsing_errors (codec_ctx (fr_codec (c_inner c)))" codec']) (simp add: poll_next_def quiet_def n)
qed

section \<open>One end of a handshake\<close>

text \<open>A new connection without open delay, whose timers are not running and whose buffers are empty.\<close>

definition fresh :: "('a, ('x, 'e) framed, 'i) Connection \<Rightarrow> bool" where
  "fresh c \<longleftrightarrow> c_state c = Connected \<and> cfg_open_delay_timer_duration (c_config c) = 0 \<and>
     3 / 4 \<le> c_jitter c \<and> c_jitter c \<le> 1 \<and>
     c_keepalive_timer c = None \<and> c_open_delay_timer c = None \<and> c_hold_timer c = None \<and>
     fr_read (c_inner c) = [] \<and> fr_write (c_inner c) = [] \<and> fr_sent (c_inner c) = []"

definition connection_up ::
  "('x, 'e, 'w, 't, 'i) runtime \<Rightarrow> clock \<Rightarrow> ('p, 'x, 'a, 't, 'i) policy \<Rightarrow> ('x, 'a) ConnectionEvent \<Rightarrow>
     ('a, 't, 'i) Connection \<times> 'p \<Rightarrow> (('a, 't, 'i) Connection \<times> 'p) option" where
  "connection_up T clk P ev s =
    (case handle_event T clk P ev (fst s) (snd s) of Some ((c, Ok _), p) \<Rightarrow> Some (c, p) | _ \<Rightarrow> None)"

text \<open>Take the next event of a connection and handle it.\<close>

definition serve ::
  "('x, 'e, 'w, 't, 'i) runtime \<Rightarrow> clock \<Rightarrow> ('p, 'x, 'a, 't, 'i) policy \<Rightarrow>
     ('a, 't, 'i) Connection \<times> 'p \<Rightarrow> (('a, 't, 'i) Connection \<times> 'p) option" where
  "serve T clk P s =
    (case poll_next T clk (fst s) of
       (Ready (Some ev), c) \<Rightarrow> connection_up T clk P ev (c, snd s)
     | _ \<Rightarrow> None)"

definition open_sent_with ::
  "wire_lib \<Rightarrow> ('x, 'e, 'w) update_wire \<Rightarrow> clock \<Rightarrow> BgpOpenMessage \<Rightarrow>
    ('a, ('x, 'e) framed, nat \<times> duration) Connection \<Rightarrow> ('a, ('x, 'e) framed, nat \<times> duration) Connection \<Rightarrow> bool" where
  "open_sent_with L U clk o' c c1 \<longleftrightarrow>
     c_state c1 = ConnectionState.OpenSent \<and> c_config c1 = c_config c \<and> c_jitter c1 = c_jitter c \<and>
     c_peer_asn c1 = c_peer_asn c \<and> c_open_delay_timer c1 = None \<and> quiet (duplex_runtime L U) clk c1 \<and>
     fr_read (c_inner c1) = [] \<and> fr_write (c_inner c1) = [] \<and>
     fr_sent (c_inner c1) = fst (BgpMessage_write L U (Open o')) \<and>
     c_sent_capabilities c1 = Some (capabilities o')"

lemma start_hold_timer_quiet:
  assumes "runtime_laws T" "start_hold_timer T clk c = Some d" "c_hold_timer c = None"
  shows "tick T clk (c_hold_timer d) = None"
proof (cases "cfg_hold_timer_duration_large_value (c_config c) = 0")
  case True
  then show ?thesis using assms(2,3) by (simp add: start_hold_timer_def tick_def)
next
  case False
  then obtain i where "c_hold_timer d = Some i"
    and i: "start_interval T clk (ConnectionConfig_hold_timer_duration_large_value (c_config c)) = Some i"
    using assms(2) by (auto simp: start_hold_timer_def Let_def split: bind_splits)
  with runtime_laws.start_interval_ticks [OF assms(1) i] show ?thesis by (simp add: tick_def)
qed

lemma start_hold_timer_other:
  "start_hold_timer T clk c = Some d \<Longrightarrow> c_keepalive_timer d = c_keepalive_timer c \<and> c_peer_asn d = c_peer_asn c"
  by (auto simp: start_hold_timer_def Let_def split: if_splits bind_splits)

lemma up_opens:
  fixes L :: wire_lib and U :: "('x, 'e, 'w) update_wire"
  defines "T \<equiv> duplex_runtime L U"
  assumes "fresh c" "open_message P p = (o', p')" "open_wf o'"
    and "ev = ConnectionEvent.TcpConnectionRequestAcked a \<or> ev = ConnectionEvent.TcpConnectionConfirmed a"
  obtains c1 where "connection_up T clk P ev (c, p) = Some (c1, p')" "open_sent_with L U clk o' c c1" "c_keepalive_timer c1 = None"
proof -
  have laws: "runtime_laws T" unfolding T_def by (rule duplex.runtime_laws_axioms)
  obtain d where d: "start_hold_timer T clk c = Some d" using runtime_laws.start_hold_timer_Some [OF laws] by blast
  note df = start_hold_timer_frame [OF d] start_hold_timer_other [OF d]
  have "message_wf (Open o')" "fr_write (c_inner d) = []" using assms(2,4) df by (auto simp: fresh_def)
  from duplex_send [OF this, of L U clk] obtain codec where s: "send_message T clk (Open o') d =
    (Ok (), (sent_message T clk (Open o') d)\<lparr>c_inner :=
      (c_inner d)\<lparr>fr_codec := codec, fr_write := [], fr_sent := fr_sent (c_inner d) @ fst (BgpMessage_write L U (Open o'))\<rparr>\<rparr>)"
    unfolding T_def by blast
  let ?c1 = "(snd (send_message T clk (Open o') d))\<lparr>c_state := ConnectionState.OpenSent\<rparr>"
  have "connection_up T clk P ev (c, p) = Some (?c1, p')"
    using assms(2,3,5) d
    by (auto simp: connection_up_def handle_event_def handle_connected_event_def fresh_def send_open_def try_send_def s)
  moreover have "quiet T clk ?c1"
    using df assms(2) start_hold_timer_quiet [OF laws d]
    by (simp add: quiet_def fresh_def tick_def s) (simp add: sent_message_def Let_def)
  then have "open_sent_with L U clk o' c ?c1"
    using df assms(2) by (simp add: open_sent_with_def T_def [symmetric] fresh_def s) (simp add: sent_message_def Let_def)
  moreover have "c_keepalive_timer ?c1 = None"
    using df assms(2) by (simp add: fresh_def s) (simp add: sent_message_def Let_def)
  ultimately show ?thesis by (rule that)
qed

text \<open>The timers that an OPEN message starts are not due at once, nor after the keepalive message.\<close>

context runtime_laws
begin

lemma start_session_timers_quiet:
  assumes "start_session_timers T clk c = Some d" "quiet T clk c" "c_keepalive_timer c = None"
  shows "quiet T clk (snd (send_message T clk m d))"
proof -
  have h: "tick T clk (c_hold_timer d) = None"
    using assms(1,2) start_interval_ticks
    by (auto simp: start_session_timers_def quiet_def tick_def split: if_splits bind_splits)
  have k: "\<forall>k. c_keepalive_timer d = Some k \<longrightarrow> interval_period T k \<noteq> 0 \<and> interval_tick T (now clk) k = None"
    using assms(1,3) start_interval_ticks by (auto simp: start_session_timers_def split: if_splits bind_splits)
  have "tick T clk (c_keepalive_timer (snd (send_message T clk m d))) = None"
    using send_keepalive_timer [of T clk m d] k tick_after_reset
    by (cases "c_keepalive_timer d") (auto simp: tick_def)
  moreover have "c_open_delay_timer d = c_open_delay_timer c" using start_session_timers_frame [OF assms(1)] by simp
  ultimately show ?thesis using h assms(2) by (simp add: quiet_def)
qed

end

definition confirmed_with ::
  "wire_lib \<Rightarrow> ('x, 'e, 'w) update_wire \<Rightarrow> clock \<Rightarrow> BgpOpenMessage \<Rightarrow> BgpOpenMessage \<Rightarrow>
    ('a, ('x, 'e) framed, nat \<times> duration) Connection \<Rightarrow> bool" where
  "confirmed_with L U clk o1 o2 c \<longleftrightarrow>
     c_state c = ConnectionState.OpenConfirm \<and> quiet (duplex_runtime L U) clk c \<and>
     fr_read (c_inner c) = [] \<and> fr_write (c_inner c) = [] \<and>
     fr_sent (c_inner c) = fst (BgpMessage_write L U KeepAlive) \<and>
     c_sent_capabilities c = Some (capabilities o1) \<and> c_received_capabilities c = Some (capabilities o2)"

definition receives :: "bytes \<Rightarrow> ('a, ('x, 'e) framed, 'i) Connection \<Rightarrow> ('a, ('x, 'e) framed, 'i) Connection" where
  "receives bs c = c\<lparr>c_inner := (c_inner c)\<lparr>fr_read := fr_read (c_inner c) @ bs, fr_sent := []\<rparr>\<rparr>"

lemma quiet_inner [simp]: "quiet T clk (c\<lparr>c_inner := t\<rparr>) = quiet T clk c"
  by (simp add: quiet_def)

lemma open_confirms:
  fixes L :: wire_lib and U :: "('x, 'e, 'w) update_wire"
  defines "T \<equiv> duplex_runtime L U"
  assumes laws: "wire_lib_laws L" and c1: "open_sent_with L U clk o1 c c1" and k: "c_keepalive_timer c1 = None"
    and j: "3 / 4 \<le> c_jitter c" "c_jitter c \<le> 1"
    and o2: "open_wf o2" "c_peer_asn c = None \<or> c_peer_asn c = Some (my_asn4 o2)"
  obtains c2 where "serve T clk P (receives (fst (BgpMessage_write L U (Open o2))) c1, p) = Some (c2, p)"
    "confirmed_with L U clk o1 o2 c2"
proof -
  let ?c = "receives (fst (BgpMessage_write L U (Open o2))) c1"
  have wf: "message_wf (Open o2)" using o2(1) by simp
  have q: "quiet T clk ?c" using c1 by (simp add: receives_def open_sent_with_def T_def)
  have rd: "fr_read (c_inner ?c) = fst (BgpMessage_write L U (Open o2)) @ []"
    using c1 by (simp add: receives_def open_sent_with_def)
  obtain errors :: "('x, 'e) ignored_errors" and codec where pn: "poll_next T clk ?c =
      (let (event, c) = received_message clk (Open o2) errors (?c\<lparr>c_inner := (c_inner ?c)\<lparr>fr_codec := codec, fr_read := []\<rparr>\<rparr>)
       in (Ready event, c))"
    unfolding T_def by (rule duplex_receive [OF laws wf q [unfolded T_def] rd])
  define e where "e = snd (received_message clk (Open o2) errors (?c\<lparr>c_inner := (c_inner ?c)\<lparr>fr_codec := codec, fr_read := []\<rparr>\<rparr>))"
  have pe: "poll_next T clk ?c = (Ready (Some (ConnectionEvent.BGPOpen o2)), e)"
    using pn o2(2) c1
    by (auto simp: e_def received_message_def handle_open_message_def Let_def open_sent_with_def receives_def split_beta)
  have ef: "c_state e = ConnectionState.OpenSent" "c_jitter e = c_jitter c" "c_keepalive_timer e = None" "quiet T clk e"
    "c_inner e = (c_inner c1)\<lparr>fr_codec := codec, fr_read := [], fr_sent := []\<rparr>" "c_sent_capabilities e = Some (capabilities o1)"
    "c_open_delay_timer e = None"
    using c1 k by (auto simp: e_def received_message_def Let_def open_sent_with_def receives_def quiet_def T_def split_beta)
  let ?e = "read_open_msg o2 (e\<lparr>c_open_delay_timer := None\<rparr>)"
  have rl: "runtime_laws T" unfolding T_def by (rule duplex.runtime_laws_axioms)
  have je: "3 / 4 \<le> c_jitter ?e" "c_jitter ?e \<le> 1" using j ef(2) by (simp_all add: read_open_msg_def)
  obtain d where d: "start_session_timers T clk (set_negotiated_timers ?e) = Some d"
    using runtime_laws.start_session_timers_Some [OF rl je] by blast
  note df = start_session_timers_frame [OF d]
  have "message_wf KeepAlive" "fr_write (c_inner d) = []" using df ef(5) c1 by (auto simp: read_open_msg_def open_sent_with_def)
  from duplex_send [OF this, of L U clk] obtain codec' where s: "send_message T clk KeepAlive d =
    (Ok (), (sent_message T clk KeepAlive d)\<lparr>c_inner :=
      (c_inner d)\<lparr>fr_codec := codec', fr_write := [], fr_sent := fr_sent (c_inner d) @ fst (BgpMessage_write L U KeepAlive)\<rparr>\<rparr>)"
    unfolding T_def by blast
  let ?c2 = "(snd (send_message T clk KeepAlive d))\<lparr>c_state := ConnectionState.OpenConfirm\<rparr>"
  have "serve T clk P (?c, p) = Some (?c2, p)"
    using ef(1) d by (simp add: serve_def pe connection_up_def handle_event_def handle_open_sent_event_def try_send_def s)
  moreover have "quiet T clk (set_negotiated_timers ?e)" "c_keepalive_timer (set_negotiated_timers ?e) = None"
    using ef by (simp_all add: quiet_def set_negotiated_timers_def read_open_msg_def Let_def tick_def)
  then have "quiet T clk ?c2"
    using runtime_laws.start_session_timers_quiet [OF rl d, of KeepAlive] by (simp add: quiet_def)
  then have "confirmed_with L U clk o1 o2 ?c2"
    using df ef c1 by (simp add: confirmed_with_def T_def [symmetric] s read_open_msg_def sent_message_capabilities)
  ultimately show ?thesis by (rule that)
qed

lemma keepalive_establishes:
  fixes L :: wire_lib and U :: "('x, 'e, 'w) update_wire"
  defines "T \<equiv> duplex_runtime L U"
  assumes laws: "wire_lib_laws L" and c: "confirmed_with L U clk o1 o2 c"
  obtains c' where "serve T clk P (receives (fst (BgpMessage_write L U KeepAlive)) c, p) = Some (c', p)"
    "c_state c' = ConnectionState.Established"
    "c_sent_capabilities c' = Some (capabilities o1)" "c_received_capabilities c' = Some (capabilities o2)"
proof -
  let ?c = "receives (fst (BgpMessage_write L U KeepAlive)) c"
  have wf: "message_wf KeepAlive" by simp
  have q: "quiet T clk ?c" using c by (simp add: receives_def confirmed_with_def T_def)
  have rd: "fr_read (c_inner ?c) = fst (BgpMessage_write L U KeepAlive) @ []"
    using c by (simp add: receives_def confirmed_with_def)
  obtain errors :: "('x, 'e) ignored_errors" and codec where pn: "poll_next T clk ?c =
      (let (event, c) = received_message clk KeepAlive errors (?c\<lparr>c_inner := (c_inner ?c)\<lparr>fr_codec := codec, fr_read := []\<rparr>\<rparr>)
       in (Ready event, c))"
    unfolding T_def by (rule duplex_receive [OF laws wf q [unfolded T_def] rd])
  define e where "e = snd (received_message clk (KeepAlive :: 'x BgpMessage) errors
      (?c\<lparr>c_inner := (c_inner ?c)\<lparr>fr_codec := codec, fr_read := []\<rparr>\<rparr>))"
  have pe: "poll_next T clk ?c = (Ready (Some ConnectionEvent.KeepAliveMsg), e)"
    using pn by (simp add: e_def received_message_def Let_def)
  have e: "c_state e = ConnectionState.OpenConfirm" "c_sent_capabilities e = Some (capabilities o1)"
    "c_received_capabilities e = Some (capabilities o2)"
    using c by (simp_all add: e_def received_message_def Let_def confirmed_with_def receives_def)
  let ?c' = "(reset_hold_timer T clk e)\<lparr>c_state := ConnectionState.Established\<rparr>"
  have "serve T clk P (?c, p) = Some (?c', p)"
    using e by (simp add: serve_def pe connection_up_def handle_event_def handle_open_confirm_event_def)
  then show ?thesis using e by (intro that [of ?c']) (simp_all add: reset_hold_timer_def)
qed

section \<open>The handshake\<close>

text \<open>The bytes each end sent since the last exchange arrive at the other end.\<close>

definition exchange ::
  "('a, ('x, 'e) framed, 'i) Connection \<times> ('a, ('x, 'e) framed, 'i) Connection \<Rightarrow>
     ('a, ('x, 'e) framed, 'i) Connection \<times> ('a, ('x, 'e) framed, 'i) Connection" where
  "exchange ab = (receives (fr_sent (c_inner (snd ab))) (fst ab), receives (fr_sent (c_inner (fst ab))) (snd ab))"

text \<open>One end connects, the other accepts; then both exchange bytes and serve their event twice.\<close>

definition handshake ::
  "('x, 'e, 'w, ('x, 'e) framed, 'i) runtime \<Rightarrow> clock \<Rightarrow> ('p, 'x, 'a, ('x, 'e) framed, 'i) policy \<Rightarrow>
     ('a, ('x, 'e) framed, 'i) Connection \<times> 'p \<Rightarrow> ('a, ('x, 'e) framed, 'i) Connection \<times> 'p \<Rightarrow>
     (('a, ('x, 'e) framed, 'i) Connection \<times> ('a, ('x, 'e) framed, 'i) Connection) option" where
  "handshake T clk P a b =
    do { (a, p) \<leftarrow> connection_up T clk P (ConnectionEvent.TcpConnectionRequestAcked (c_peer_addr (fst a))) a;
         (b, q) \<leftarrow> connection_up T clk P (ConnectionEvent.TcpConnectionConfirmed (c_peer_addr (fst b))) b;
         let (a, b) = exchange (a, b);
         (a, p) \<leftarrow> serve T clk P (a, p);
         (b, q) \<leftarrow> serve T clk P (b, q);
         let (a, b) = exchange (a, b);
         (a, p) \<leftarrow> serve T clk P (a, p);
         (b, q) \<leftarrow> serve T clk P (b, q);
         Some (a, b) }"

text \<open>
  C2: two speakers whose OPEN messages are well formed, and each of which accepts the AS number the other
  announces, establish a session: with the bytes of either codec carried to the other end, both
  connections reach \<open>Established\<close> and each has received the capabilities the other has
  sent.
\<close>

theorem handshake_establishes:
  assumes "wire_lib_laws L" "fresh a" "fresh b"
    and "open_message P p = (o1, p')" "open_message P q = (o2, q')" "open_wf o1" "open_wf o2"
    and "c_peer_asn a = None \<or> c_peer_asn a = Some (my_asn4 o2)"
    and "c_peer_asn b = None \<or> c_peer_asn b = Some (my_asn4 o1)"
  shows "\<exists>a' b'. handshake (duplex_runtime L U) clk P (a, p) (b, q) = Some (a', b') \<and>
    c_state a' = ConnectionState.Established \<and> c_state b' = ConnectionState.Established \<and>
    c_received_capabilities a' = c_sent_capabilities b' \<and> c_received_capabilities b' = c_sent_capabilities a' \<and>
    c_sent_capabilities a' = Some (capabilities o1) \<and> c_sent_capabilities b' = Some (capabilities o2)"
proof -
  let ?T = "duplex_runtime L U"
  let ?bytes = "\<lambda>m. fst (BgpMessage_write L U m)"
  obtain a1 where a1: "connection_up ?T clk P (ConnectionEvent.TcpConnectionRequestAcked (c_peer_addr a)) (a, p) = Some (a1, p')"
    "open_sent_with L U clk o1 a a1" "c_keepalive_timer a1 = None"
    by (rule up_opens [OF assms(2,4,6) disjI1 [OF refl]])
  obtain b1 where b1: "connection_up ?T clk P (ConnectionEvent.TcpConnectionConfirmed (c_peer_addr b)) (b, q) = Some (b1, q')"
    "open_sent_with L U clk o2 b b1" "c_keepalive_timer b1 = None"
    by (rule up_opens [OF assms(3,5,7) disjI2 [OF refl]])
  have s1: "fr_sent (c_inner a1) = ?bytes (Open o1)" "fr_sent (c_inner b1) = ?bytes (Open o2)"
    using a1(2) b1(2) by (simp_all add: open_sent_with_def)
  have j: "3 / 4 \<le> c_jitter a" "c_jitter a \<le> 1" "3 / 4 \<le> c_jitter b" "c_jitter b \<le> 1"
    using assms(2,3) by (simp_all add: fresh_def)
  obtain a2 where a2: "serve ?T clk P (receives (?bytes (Open o2)) a1, p') = Some (a2, p')" "confirmed_with L U clk o1 o2 a2"
    by (rule open_confirms [OF assms(1) a1(2,3) j(1,2) assms(7,8)])
  obtain b2 where b2: "serve ?T clk P (receives (?bytes (Open o1)) b1, q') = Some (b2, q')" "confirmed_with L U clk o2 o1 b2"
    by (rule open_confirms [OF assms(1) b1(2,3) j(3,4) assms(6,9)])
  have s2: "fr_sent (c_inner a2) = ?bytes KeepAlive" "fr_sent (c_inner b2) = ?bytes KeepAlive"
    using a2(2) b2(2) by (simp_all add: confirmed_with_def)
  obtain a3 where a3: "serve ?T clk P (receives (?bytes KeepAlive) a2, p') = Some (a3, p')"
    "c_state a3 = ConnectionState.Established" "c_sent_capabilities a3 = Some (capabilities o1)"
    "c_received_capabilities a3 = Some (capabilities o2)"
    by (rule keepalive_establishes [OF assms(1) a2(2)])
  obtain b3 where b3: "serve ?T clk P (receives (?bytes KeepAlive) b2, q') = Some (b3, q')"
    "c_state b3 = ConnectionState.Established" "c_sent_capabilities b3 = Some (capabilities o2)"
    "c_received_capabilities b3 = Some (capabilities o1)"
    by (rule keepalive_establishes [OF assms(1) b2(2)])
  have "handshake ?T clk P (a, p) (b, q) = Some (a3, b3)"
    by (simp add: handshake_def exchange_def a1(1) b1(1) s1 a2(1) b2(1) s2 a3(1) b3(1))
  with a3 b3 show ?thesis by auto
qed

theorem handshake_establishes_witness:
  "wire_lib_laws net_lib \<and>
   (\<exists>a' b'. handshake example_runtime (clk_at 0) example_policy
      (example_connection ConnectionConfig_default, example_echo)
      (example_connection ConnectionConfig_default, example_echo) = Some (a', b') \<and>
    c_state a' = ConnectionState.Established \<and> c_state b' = ConnectionState.Established)"
proof -
  let ?c = "example_connection ConnectionConfig_default"
  let ?o = "fst (echo_open_message example_echo)"
  have f: "fresh ?c"
    by (simp add: fresh_def) (simp add: example_connection_def Connection_new_def framed_new_def ConnectionConfig_default_def)
  have m: "open_message example_policy example_echo = (?o, example_echo)"
    by (simp add: example_policy_def echo_policy_def echo_open_message_def Let_def)
  have p: "c_peer_asn ?c = None \<or> c_peer_asn ?c = Some (my_asn4 ?o)"
    by (simp add: example_open_asn) (simp add: example_connection_def Connection_new_def PeerProperties_new_def)
  show ?thesis
    using handshake_establishes [OF net.wire_lib_laws_axioms f f m m example_open_message_wf example_open_message_wf p p,
        of no_updates "clk_at 0"] net.wire_lib_laws_axioms
    unfolding example_runtime_def by blast
qed

end
