(* ===== verification/Bgp_Peer.thy ===== *)
theory Bgp_Peer
  imports Bgp_Session
begin

text \<open>
  A BGP peer: \<open>crates/bgp-speaker/src/peer.rs\<close>.  A peer owns a main connection, a second connection
  that is tracked until a collision is resolved, the connect retry timer and a queue of
  administrative events, and drives the finite state machine of RFC 4271.

  Timers, transports and the policy are arguments, as for a connection, and so are the
  codec of a new transport and the random numbers.  Every branch of \<open>run\<close> is one function, and their
  interleaving is a step relation.  \<open>None\<close> is a panic.
\<close>

section \<open>State\<close>

datatype (plugins only: code) ('a, 's) PeerAdminEvents =
    ManualStart
  | ManualStop
  | AutomaticStart
  | AutomaticStop
  | TcpConnectionConfirmed 'a 's

datatype (plugins only: code) PeerState = AdminUp | AdminDown

datatype (plugins only: code) ConnectError = TcpConnectionFails

definition BgpEvent_from_ConnectError :: "ConnectError \<Rightarrow> ('x, 'a) BgpEvent" where
  "BgpEvent_from_ConnectError e = (case e of ConnectError.TcpConnectionFails \<Rightarrow> BgpEvent.TcpConnectionFails)"

datatype (plugins only: code) CollisionCheckRet = DropMain | DropTracked | InvalidTrackedBgpId u32

datatype (plugins only: code) ('x, 'a) ConnectionNextEvent = DropMain | DropTracked | Event "('x, 'a) ConnectionEvent"

record PeerStats =
  connect_retry_counter :: u32

record ('p, 'a, 't, 'i, 's, 'g) Peer =
  properties :: "'a PeerProperties"
  policy_state :: 'p
  peer_state :: PeerState
  fsm_state :: FsmState
  p_config :: PeerConfig
  connection :: "('a, 't, 'i) Connection option"
  tracked_connection :: "('a, 't, 'i) Connection option"
  connect_retry_timer :: "'i option"
  p_stats :: PeerStats
  allowed_to_active_connect :: bool
  waiting_admin_events :: "('a, 's) PeerAdminEvents list"
  rng :: 'g

text \<open>
  What a peer uses: the runtime, the policy, the transport over a stream with the codec for a
  peer, the generator seeded with a number and the next random number between 0.75 and 1.
\<close>

record ('x, 'e, 'w, 'p, 'a, 't, 'i, 's, 'g) peer_env =
  rt :: "('x, 'e, 'w, 't, 'i) runtime"
  pol :: "('p, 'x, 'a, 't, 'i) policy"
  new_framed :: "('p, 'a, 't, 'i, 's, 'g) Peer \<Rightarrow> 's \<Rightarrow> 't"
  seed_from :: "u64 \<Rightarrow> 'g"
  random_jitter :: "'g \<Rightarrow> rat \<times> 'g"

definition Peer_new ::
  "('x, 'e, 'w, 'p, 'a, 't, 'i, 's, 'g) peer_env \<Rightarrow> 'a PeerProperties \<Rightarrow> PeerConfig \<Rightarrow> 'p \<Rightarrow> ('p, 'a, 't, 'i, 's, 'g) Peer" where
  "Peer_new E props config policy =
    \<lparr>properties = props, policy_state = policy, peer_state = AdminDown, fsm_state = FsmState.Idle, p_config = config,
     connection = None, tracked_connection = None, connect_retry_timer = None, p_stats = \<lparr>connect_retry_counter = 0\<rparr>,
     allowed_to_active_connect = False, waiting_admin_events = [], rng = seed_from E (pc_rng_seed config)\<rparr>"

type_synonym ('x, 'a, 'w) peer_result = "(('x, 'a) BgpEvent, ('x, 'a, 'w) FsmStateError) result"

section \<open>Connections of a peer\<close>

definition fsm_transition :: "FsmState \<Rightarrow> ('p, 'a, 't, 'i, 's, 'g) Peer \<Rightarrow> ('p, 'a, 't, 'i, 's, 'g) Peer" where
  "fsm_transition new_state p = (if new_state = fsm_state p then p else p\<lparr>fsm_state := new_state\<rparr>)"

definition count_retry :: "('p, 'a, 't, 'i, 's, 'g) Peer \<Rightarrow> ('p, 'a, 't, 'i, 's, 'g) Peer" where
  "count_retry p = p\<lparr>p_stats := (p_stats p)\<lparr>connect_retry_counter := connect_retry_counter (p_stats p) + 1\<rparr>\<rparr>"

definition stop_retry :: "('p, 'a, 't, 'i, 's, 'g) Peer \<Rightarrow> ('p, 'a, 't, 'i, 's, 'g) Peer" where
  "stop_retry p = p\<lparr>connect_retry_timer := None\<rparr>"

definition start_retry ::
  "('x, 'e, 'w, 'p, 'a, 't, 'i, 's, 'g) peer_env \<Rightarrow> clock \<Rightarrow> ('p, 'a, 't, 'i, 's, 'g) Peer \<Rightarrow>
     ('p, 'a, 't, 'i, 's, 'g) Peer option" where
  "start_retry E clk p =
     do { timer \<leftarrow> start_interval (rt E) clk (PeerConfig_connect_retry_duration (p_config p));
          Some (p\<lparr>connect_retry_timer := Some timer\<rparr>) }"

definition add_connection ::
  "('a, 't, 'i) Connection \<Rightarrow> ('p, 'a, 't, 'i, 's, 'g) Peer \<Rightarrow> ('p, 'a, 't, 'i, 's, 'g) Peer" where
  "add_connection c p =
    (if connection p \<noteq> None then p\<lparr>tracked_connection := Some c\<rparr>
     else let after = (case c_state c of
                ConnectionState.Terminate \<Rightarrow> fsm_state p
              | ConnectionState.Connected \<Rightarrow> fsm_state p
              | ConnectionState.OpenSent \<Rightarrow> FsmState.OpenSent
              | ConnectionState.OpenConfirm \<Rightarrow> FsmState.OpenConfirm
              | ConnectionState.Established \<Rightarrow> FsmState.Established)
          in (fsm_transition after p)\<lparr>connection := Some c\<rparr>)"

definition create_connection ::
  "('x, 'e, 'w, 'p, 'a, 't, 'i, 's, 'g) peer_env \<Rightarrow> 'a \<Rightarrow> 's \<Rightarrow> ConnectionType \<Rightarrow> rat \<Rightarrow>
     ('p, 'a, 't, 'i, 's, 'g) Peer \<Rightarrow> ('a, 't, 'i) Connection" where
  "create_connection E peer_addr stream connection_type jitter p =
     Connection_new (properties p) peer_addr connection_type (ConnectionConfig_from (p_config p))
       (new_framed E p stream) jitter"

text \<open>A message sent on a transport that belongs to no connection.\<close>

definition framed_send ::
  "('x, 'e, 'w, 't, 'i) runtime \<Rightarrow> 'x BgpMessage \<Rightarrow> 't \<Rightarrow> (unit, 'w BgpMessageWritingError) result \<times> 't" where
  "framed_send T m t =
    (case framed_ready T t of
       (Err e, t) \<Rightarrow> (Err e, t)
     | (Ok _, t) \<Rightarrow> (case framed_start_send T m t of (Err e, t) \<Rightarrow> (Err e, t) | (Ok _, t) \<Rightarrow> framed_flush T t))"

definition reject_connection ::
  "('x, 'e, 'w, 'p, 'a, 't, 'i, 's, 'g) peer_env \<Rightarrow> 's \<Rightarrow> ('p, 'a, 't, 'i, 's, 'g) Peer \<Rightarrow> 't option" where
  "reject_connection E stream p =
    (if pc_send_notif_without_open (p_config p)
     then Some (snd (framed_send (rt E) (Notification (BgpNotificationMessage.CeaseError
            (CeaseError.ConnectionRejected []))) (new_framed E p stream)))
     else None)"

text \<open>
  A new connection that gets its first event.  An error of the handler leaves the connection out of
  the peer.
\<close>

definition start_connection ::
  "('x, 'e, 'w, 'p, 'a, 't, 'i, 's, 'g) peer_env \<Rightarrow> clock \<Rightarrow> ('x, 'a) ConnectionEvent \<Rightarrow> ('a, 't, 'i) Connection \<Rightarrow>
     ('p, 'a, 't, 'i, 's, 'g) Peer \<Rightarrow> (('p, 'a, 't, 'i, 's, 'g) Peer \<times> ('x, 'a, 'w) peer_result) option" where
  "start_connection E clk ev c p =
    (case handle_event (rt E) clk (pol E) ev c (policy_state p) of
       None \<Rightarrow> None
     | Some ((c, Err e), ps) \<Rightarrow> Some (p\<lparr>policy_state := ps\<rparr>, Err e)
     | Some ((c, Ok ev), ps) \<Rightarrow> Some (add_connection c (p\<lparr>policy_state := ps\<rparr>), Ok (BgpEvent_from ev)))"

definition rejects_connection :: "('p, 'a, 't, 'i, 's, 'g) Peer \<Rightarrow> bool" where
  "rejects_connection p \<longleftrightarrow> peer_state p = AdminDown \<or>
     connection p \<noteq> None \<and> tracked_connection p \<noteq> None \<or>
     fsm_state p = FsmState.Established \<and> \<not> pc_collision_detect_established_state (p_config p)"

definition accept_connection ::
  "('x, 'e, 'w, 'p, 'a, 't, 'i, 's, 'g) peer_env \<Rightarrow> clock \<Rightarrow> 'a \<Rightarrow> 's \<Rightarrow> ('p, 'a, 't, 'i, 's, 'g) Peer \<Rightarrow>
     ((('p, 'a, 't, 'i, 's, 'g) Peer \<times> (('x, 'a) BgpEvent option, ('x, 'a, 'w) FsmStateError) result) \<times> 't option) option" where
  "accept_connection E clk peer_addr tcp_stream p =
    (if rejects_connection p then Some ((p, Ok None), reject_connection E tcp_stream p)
     else let p = stop_retry p;
              (jitter, g) = random_jitter E (rng p);
              p = p\<lparr>rng := g\<rparr>;
              c = create_connection E peer_addr tcp_stream Passive jitter p
          in do { (p, r) \<leftarrow> start_connection E clk (ConnectionEvent.TcpConnectionConfirmed peer_addr) c p;
                  Some ((p, case r of Ok event \<Rightarrow> Ok (Some event) | Err e \<Rightarrow> Err e), None) })"

definition send_bgp_message ::
  "('x, 'e, 'w, 'p, 'a, 't, 'i, 's, 'g) peer_env \<Rightarrow> clock \<Rightarrow> 'x BgpMessage \<Rightarrow> ('p, 'a, 't, 'i, 's, 'g) Peer \<Rightarrow>
     ('p, 'a, 't, 'i, 's, 'g) Peer \<times> (unit, ('x, 'a, 'w) FsmStateError) result" where
  "send_bgp_message E clk msg p =
    (let p = (case tracked_connection p of
           None \<Rightarrow> p
         | Some t \<Rightarrow> (case send_message (rt E) clk msg t of
             (Ok _, t) \<Rightarrow> p\<lparr>tracked_connection := Some t\<rparr>
           | (Err _, t) \<Rightarrow> p\<lparr>tracked_connection := None\<rparr>))
     in case connection p of
          None \<Rightarrow> (p, Ok ())
        | Some c \<Rightarrow> (case send_message (rt E) clk msg c of
            (Ok _, c) \<Rightarrow> (p\<lparr>connection := Some c\<rparr>, Ok ())
          | (Err e, c) \<Rightarrow> (p\<lparr>connection := Some c\<rparr>, Err (FsmStateError.BgpMessageWritingError e))))"

text \<open>
  A stopped peer drops its connections, each after a notification, which is the last thing on its
  transport.
\<close>

definition drop_connection ::
  "('x, 'e, 'w, 'p, 'a, 't, 'i, 's, 'g) peer_env \<Rightarrow> clock \<Rightarrow> CeaseError \<Rightarrow> ('a, 't, 'i) Connection \<Rightarrow> ('a, 't, 'i) Connection" where
  "drop_connection E clk err c = send_notif (rt E) clk (BgpNotificationMessage.CeaseError err) c"

definition shutdown ::
  "('x, 'e, 'w, 'p, 'a, 't, 'i, 's, 'g) peer_env \<Rightarrow> clock \<Rightarrow> ('p, 'a, 't, 'i, 's, 'g) Peer \<Rightarrow>
     ('p, 'a, 't, 'i, 's, 'g) Peer \<times> ('a, 't, 'i) Connection option \<times> ('a, 't, 'i) Connection option" where
  "shutdown E clk p =
    (let p = fsm_transition FsmState.Idle ((stop_retry p)\<lparr>peer_state := AdminDown\<rparr>);
         dropped = map_option (drop_connection E clk (CeaseError.AdministrativeShutdown [])) (connection p);
         dropped_tracked = map_option (drop_connection E clk (CeaseError.AdministrativeShutdown [])) (tracked_connection p)
     in (p\<lparr>connection := None, tracked_connection := None\<rparr>, dropped, dropped_tracked))"

definition start ::
  "('x, 'e, 'w, 'p, 'a, 't, 'i, 's, 'g) peer_env \<Rightarrow> clock \<Rightarrow> ('p, 'a, 't, 'i, 's, 'g) Peer \<Rightarrow>
     ('p, 'a, 't, 'i, 's, 'g) Peer option" where
  "start E clk p =
    (let p = p\<lparr>peer_state := AdminUp, p_stats := (p_stats p)\<lparr>connect_retry_counter := 0\<rparr>\<rparr>
     in if fsm_state p \<noteq> FsmState.Idle then Some p
        else if pc_passive_tcp_establishment (p_config p) then Some (fsm_transition FsmState.Active p)
        else do { p \<leftarrow> start_retry E clk p;
                  Some ((fsm_transition FsmState.Connect p)\<lparr>allowed_to_active_connect := True\<rparr>) })"

definition handle_active_connection ::
  "('x, 'e, 'w, 'p, 'a, 't, 'i, 's, 'g) peer_env \<Rightarrow> clock \<Rightarrow> ('s, ConnectError) result \<Rightarrow> ('p, 'a, 't, 'i, 's, 'g) Peer \<Rightarrow>
     (('p, 'a, 't, 'i, 's, 'g) Peer \<times> ('x, 'a, 'w) peer_result) option" where
  "handle_active_connection E clk connect_result p =
    (case connect_result of
       Ok stream \<Rightarrow>
         let (jitter, g) = random_jitter E (rng p);
             p = p\<lparr>rng := g\<rparr>;
             c = create_connection E (pp_peer_addr (properties p)) stream ConnectionType.Active jitter p
         in start_connection E clk (ConnectionEvent.TcpConnectionRequestAcked (pp_peer_addr (properties p))) c (stop_retry p)
     | Err ConnectError.TcpConnectionFails \<Rightarrow> Some (stop_retry p, Ok BgpEvent.TcpConnectionFails))"

section \<open>Events of the main connection\<close>

definition fsm_state_from_tracked ::
  "FsmState \<Rightarrow> ('a, 't, 'i) Connection \<Rightarrow> (FsmState, ('x, 'a, 'w) FsmStateError) result" where
  "fsm_state_from_tracked state tracked =
    (case c_state tracked of
       Connected \<Rightarrow> Err (InvalidConnectionStateTransition BgpEvent.OpenCollisionDump state Connected Connected)
     | Terminate \<Rightarrow> Err (InvalidConnectionStateTransition BgpEvent.OpenCollisionDump state Terminate Terminate)
     | ConnectionState.OpenSent \<Rightarrow> Ok FsmState.OpenSent
     | ConnectionState.OpenConfirm \<Rightarrow> Ok FsmState.OpenConfirm
     | ConnectionState.Established \<Rightarrow> Ok FsmState.Established)"

definition invalid_transition ::
  "('x, 'a) ConnectionEvent \<Rightarrow> ConnectionState \<Rightarrow> ConnectionState \<Rightarrow> ('p, 'a, 't, 'i, 's, 'g) Peer \<Rightarrow>
     (('p, 'a, 't, 'i, 's, 'g) Peer \<times> ('x, 'a, 'w) peer_result) option" where
  "invalid_transition ev before after p =
     Some (p, Err (InvalidConnectionStateTransition (BgpEvent_from ev) (fsm_state p) before after))"

definition drop_main :: "('p, 'a, 't, 'i, 's, 'g) Peer \<Rightarrow> ('p, 'a, 't, 'i, 's, 'g) Peer" where
  "drop_main p = p\<lparr>connection := None\<rparr>"

definition to_idle :: "('p, 'a, 't, 'i, 's, 'g) Peer \<Rightarrow> ('p, 'a, 't, 'i, 's, 'g) Peer" where
  "to_idle p = fsm_transition FsmState.Idle (drop_main (stop_retry p))"

text \<open>
  The arms of \<open>handle_connection_event\<close>, by the state the connection was in.  \<open>c\<close> is the connection after
  the event and \<open>done\<close> the result of the arms that accept the transition.
\<close>

definition from_connected ::
  "('x, 'e, 'w, 'p, 'a, 't, 'i, 's, 'g) peer_env \<Rightarrow> clock \<Rightarrow> ('x, 'a) ConnectionEvent \<Rightarrow> ('a, 't, 'i) Connection \<Rightarrow>
     ('p, 'a, 't, 'i, 's, 'g) Peer \<Rightarrow> (('p, 'a, 't, 'i, 's, 'g) Peer \<times> ('x, 'a, 'w) peer_result) option" where
  "from_connected E clk ev c p =
    (let after = c_state c; invalid = invalid_transition ev Connected after;
         done' = (\<lambda>p. Some (p, Ok (BgpEvent_from ev)));
         tcp_connected = (let p = stop_retry p in if c_open_delay_timer c = None then invalid p else done' p);
         open_sent = done' (fsm_transition FsmState.OpenSent (stop_retry p));
         open_confirm = done' (fsm_transition FsmState.OpenConfirm (stop_retry p))
     in case after of
          Connected \<Rightarrow> (case ev of
              ConnectionEvent.TcpConnectionRequestAcked _ \<Rightarrow> tcp_connected
            | ConnectionEvent.TcpConnectionConfirmed _ \<Rightarrow> tcp_connected
            | ConnectionEvent.NotifMsgErr _ \<Rightarrow> done' p
            | _ \<Rightarrow> invalid p)
        | ConnectionState.OpenSent \<Rightarrow> (case ev of
              ConnectionEvent.TcpConnectionRequestAcked _ \<Rightarrow> open_sent
            | ConnectionEvent.TcpConnectionConfirmed _ \<Rightarrow> open_sent
            | ConnectionEvent.DelayOpenTimerExpires \<Rightarrow> done' (fsm_transition FsmState.OpenSent p)
            | _ \<Rightarrow> invalid p)
        | ConnectionState.OpenConfirm \<Rightarrow> (case ev of
              ConnectionEvent.BGPOpen _ \<Rightarrow> open_confirm
            | ConnectionEvent.BGPOpenWithDelayOpenTimer _ \<Rightarrow> open_confirm
            | _ \<Rightarrow> invalid p)
        | ConnectionState.Established \<Rightarrow> invalid p
        | Terminate \<Rightarrow> (case ev of
              ConnectionEvent.TcpConnectionFails \<Rightarrow>
                if fsm_state p = FsmState.Connect \<and> c_open_delay_timer c \<noteq> None
                then do { p \<leftarrow> start_retry E clk p; done' (drop_main (fsm_transition FsmState.Active p)) }
                else let p = stop_retry p; p = (if fsm_state p = FsmState.Active then count_retry p else p)
                     in done' (drop_main (fsm_transition FsmState.Idle p))
            | ConnectionEvent.NotifMsgVerErr \<Rightarrow>
                done' (to_idle (if c_open_delay_timer c = None then count_retry p else p))
            | ConnectionEvent.DelayOpenTimerExpires \<Rightarrow> invalid p
            | ConnectionEvent.TcpConnectionRequestAcked _ \<Rightarrow> invalid p
            | ConnectionEvent.TcpConnectionConfirmed _ \<Rightarrow> invalid p
            | ConnectionEvent.BGPOpenWithDelayOpenTimer _ \<Rightarrow> invalid p
            | ConnectionEvent.NotifMsgErr _ \<Rightarrow> invalid p
            | _ \<Rightarrow> done' (to_idle (count_retry p))))"

definition from_open_sent ::
  "('x, 'e, 'w, 'p, 'a, 't, 'i, 's, 'g) peer_env \<Rightarrow> clock \<Rightarrow> ('x, 'a) ConnectionEvent \<Rightarrow> ('a, 't, 'i) Connection \<Rightarrow>
     ('p, 'a, 't, 'i, 's, 'g) Peer \<Rightarrow> (('p, 'a, 't, 'i, 's, 'g) Peer \<times> ('x, 'a, 'w) peer_result) option" where
  "from_open_sent E clk ev c p =
    (let after = c_state c; invalid = invalid_transition ev ConnectionState.OpenSent after;
         done' = (\<lambda>p. Some (p, Ok (BgpEvent_from ev)))
     in case after of
          Connected \<Rightarrow> invalid p
        | ConnectionState.OpenSent \<Rightarrow> (case ev of ConnectionEvent.NotifMsgErr _ \<Rightarrow> done' p | _ \<Rightarrow> invalid p)
        | ConnectionState.OpenConfirm \<Rightarrow> (case ev of
              ConnectionEvent.BGPOpen _ \<Rightarrow> done' (fsm_transition FsmState.OpenConfirm (stop_retry p))
            | _ \<Rightarrow> invalid p)
        | ConnectionState.Established \<Rightarrow> invalid p
        | Terminate \<Rightarrow> (let p = drop_main p in case ev of
              ConnectionEvent.TcpConnectionFails \<Rightarrow>
                do { p \<leftarrow> start_retry E clk p; done' (fsm_transition FsmState.Active p) }
            | ConnectionEvent.NotifMsgVerErr \<Rightarrow> done' (to_idle p)
            | ConnectionEvent.BGPOpen _ \<Rightarrow> invalid p
            | ConnectionEvent.NotifMsgErr _ \<Rightarrow> invalid p
            | ConnectionEvent.TcpConnectionRequestAcked _ \<Rightarrow> invalid p
            | ConnectionEvent.TcpConnectionConfirmed _ \<Rightarrow> invalid p
            | _ \<Rightarrow> done' (to_idle (count_retry p))))"

definition from_open_confirm ::
  "('x, 'a) ConnectionEvent \<Rightarrow> ('a, 't, 'i) Connection \<Rightarrow>
     ('p, 'a, 't, 'i, 's, 'g) Peer \<Rightarrow> (('p, 'a, 't, 'i, 's, 'g) Peer \<times> ('x, 'a, 'w) peer_result) option" where
  "from_open_confirm ev c p =
    (let after = c_state c; invalid = invalid_transition ev ConnectionState.OpenConfirm after;
         done' = (\<lambda>p. Some (p, Ok (BgpEvent_from ev)))
     in case after of
          Connected \<Rightarrow> invalid p
        | ConnectionState.OpenSent \<Rightarrow> invalid p
        | ConnectionState.OpenConfirm \<Rightarrow> (case ev of
              ConnectionEvent.KeepAliveTimerExpires \<Rightarrow> done' p
            | ConnectionEvent.NotifMsgErr _ \<Rightarrow> done' p
            | _ \<Rightarrow> invalid p)
        | ConnectionState.Established \<Rightarrow> (case ev of
              ConnectionEvent.KeepAliveMsg \<Rightarrow> done' (fsm_transition FsmState.Established p)
            | _ \<Rightarrow> invalid p)
        | Terminate \<Rightarrow> (case ev of
              ConnectionEvent.NotifMsgVerErr \<Rightarrow> done' (to_idle p)
            | ConnectionEvent.KeepAliveTimerExpires \<Rightarrow> invalid p
            | ConnectionEvent.KeepAliveMsg \<Rightarrow> invalid p
            | ConnectionEvent.NotifMsgErr _ \<Rightarrow> invalid p
            | ConnectionEvent.TcpConnectionRequestAcked _ \<Rightarrow> invalid p
            | ConnectionEvent.TcpConnectionConfirmed _ \<Rightarrow> invalid p
            | _ \<Rightarrow> done' (to_idle (count_retry p))))"

definition from_established ::
  "('x, 'a) ConnectionEvent \<Rightarrow> ('a, 't, 'i) Connection \<Rightarrow>
     ('p, 'a, 't, 'i, 's, 'g) Peer \<Rightarrow> (('p, 'a, 't, 'i, 's, 'g) Peer \<times> ('x, 'a, 'w) peer_result) option" where
  "from_established ev c p =
    (let after = c_state c; invalid = invalid_transition ev ConnectionState.Established after;
         done' = (\<lambda>p. Some (p, Ok (BgpEvent_from ev)))
     in case after of
          Connected \<Rightarrow> invalid p
        | ConnectionState.OpenSent \<Rightarrow> invalid p
        | ConnectionState.OpenConfirm \<Rightarrow> invalid p
        | ConnectionState.Established \<Rightarrow> (case ev of
              ConnectionEvent.KeepAliveTimerExpires \<Rightarrow> done' p
            | ConnectionEvent.KeepAliveMsg \<Rightarrow> done' p
            | ConnectionEvent.UpdateMsg _ _ \<Rightarrow> done' p
            | ConnectionEvent.RouteRefresh _ \<Rightarrow> done' p
            | ConnectionEvent.NotifMsgErr _ \<Rightarrow> done' p
            | ConnectionEvent.NotifMsg _ \<Rightarrow> done' (to_idle (count_retry p))
            | ConnectionEvent.NotifMsgVerErr \<Rightarrow> done' (to_idle (count_retry p))
            | _ \<Rightarrow> invalid p)
        | Terminate \<Rightarrow> (case ev of
              ConnectionEvent.KeepAliveTimerExpires \<Rightarrow> invalid p
            | ConnectionEvent.KeepAliveMsg \<Rightarrow> invalid p
            | ConnectionEvent.UpdateMsg _ _ \<Rightarrow> invalid p
            | ConnectionEvent.RouteRefresh _ \<Rightarrow> invalid p
            | ConnectionEvent.NotifMsgErr _ \<Rightarrow> invalid p
            | ConnectionEvent.TcpConnectionRequestAcked _ \<Rightarrow> invalid p
            | ConnectionEvent.TcpConnectionConfirmed _ \<Rightarrow> invalid p
            | _ \<Rightarrow> done' (to_idle (count_retry p))))"

definition handle_connection_event ::
  "('x, 'e, 'w, 'p, 'a, 't, 'i, 's, 'g) peer_env \<Rightarrow> clock \<Rightarrow> ('x, 'a) ConnectionEvent \<Rightarrow>
     ('p, 'a, 't, 'i, 's, 'g) Peer \<Rightarrow> (('p, 'a, 't, 'i, 's, 'g) Peer \<times> ('x, 'a, 'w) peer_result) option" where
  "handle_connection_event E clk ev p =
    (case connection p of
       None \<Rightarrow>
         Some (fsm_transition (if fsm_state p = FsmState.OpenSent then FsmState.Active else FsmState.Idle) p,
           Ok BgpEvent.TcpConnectionFails)
     | Some conn \<Rightarrow>
         let (ev, ps) = pre_handle_connection_event_hook (pol E) ev conn (policy_state p)
         in (case handle_event (rt E) clk (pol E) ev conn ps of
               None \<Rightarrow> None
             | Some ((c, Err e), ps) \<Rightarrow> Some (p\<lparr>connection := Some c, policy_state := ps\<rparr>, Err e)
             | Some ((c, Ok ev), ps) \<Rightarrow>
                 let p = p\<lparr>connection := Some c, policy_state := ps\<rparr>;
                     ev = post_handle_connection_event_hook (pol E) ps ev (Some c)
                 in (case c_state conn of
                       Connected \<Rightarrow> from_connected E clk ev c p
                     | ConnectionState.OpenSent \<Rightarrow> from_open_sent E clk ev c p
                     | ConnectionState.OpenConfirm \<Rightarrow> from_open_confirm ev c p
                     | ConnectionState.Established \<Rightarrow> from_established ev c p
                     | Terminate \<Rightarrow> invalid_transition ev Terminate (c_state c) p)))"

section \<open>Collisions\<close>

definition check_connection_collision ::
  "u32 \<Rightarrow> ('a, 't, 'i) Connection option \<Rightarrow> ('a, 't, 'i) Connection option \<Rightarrow> CollisionCheckRet option" where
  "check_connection_collision my_bgp_id main tracked =
    (let info = (\<lambda>oc. Option.bind oc (\<lambda>c. map_option (\<lambda>id. (id, created (c_stats c))) (c_peer_bgp_id c)))
     in case (info main, info tracked) of
          (Some (main_id, main_created), Some (tracked_id, tracked_created)) \<Rightarrow>
            if tracked_id \<noteq> main_id then Some (InvalidTrackedBgpId tracked_id)
            else if my_bgp_id < main_id \<or> my_bgp_id = main_id \<and> tracked_created < main_created
            then Some CollisionCheckRet.DropMain else Some CollisionCheckRet.DropTracked
        | _ \<Rightarrow> None)"

text \<open>
  One turn of the loop of \<open>next_connection_event\<close>.  The loop works on references to the connections of the
  peer; after a tracked connection with another identifier the loop forgets its reference
  (\<open>live\<close>), but the connection stays in the peer.
\<close>

definition resolve_collision ::
  "('x, 'e, 'w, 'p, 'a, 't, 'i, 's, 'g) peer_env \<Rightarrow> clock \<Rightarrow> ('x, 'a) ConnectionEvent option \<Rightarrow> bool \<Rightarrow>
     ('p, 'a, 't, 'i, 's, 'g) Peer \<Rightarrow>
     ('x, 'a) ConnectionNextEvent option \<times> bool \<times> ('p, 'a, 't, 'i, 's, 'g) Peer" where
  "resolve_collision E clk ev live p =
    (case check_connection_collision (pp_my_bgp_id (properties p)) (connection p)
            (if live then tracked_connection p else None) of
       Some CollisionCheckRet.DropMain \<Rightarrow> (Some ConnectionNextEvent.DropMain, live, p)
     | Some CollisionCheckRet.DropTracked \<Rightarrow> (Some ConnectionNextEvent.DropTracked, live, p)
     | Some (InvalidTrackedBgpId peer_id) \<Rightarrow>
         (None, False, p\<lparr>tracked_connection := map_option (send_notif (rt E) clk
            (BgpNotificationMessage.OpenMessageError (OpenMessageError.BadBgpIdentifier (be_bytes 4 (unat peer_id)))))
            (tracked_connection p)\<rparr>)
     | None \<Rightarrow> (map_option Event ev, live, p))"

definition main_branch ::
  "('x, 'e, 'w, 'p, 'a, 't, 'i, 's, 'g) peer_env \<Rightarrow> clock \<Rightarrow> bool \<Rightarrow> ('p, 'a, 't, 'i, 's, 'g) Peer \<Rightarrow>
     ('x, 'a) ConnectionNextEvent option \<times> bool \<times> ('p, 'a, 't, 'i, 's, 'g) Peer" where
  "main_branch E clk live p =
    (case connection p of
       None \<Rightarrow> (None, live, p)
     | Some c \<Rightarrow> (case poll_next (rt E) clk c of
         (Ready (Some ev), c) \<Rightarrow> resolve_collision E clk (Some ev) live (p\<lparr>connection := Some c\<rparr>)
       | (_, c) \<Rightarrow> (None, live, p\<lparr>connection := Some c\<rparr>)))"

definition get_tracked_connection_event ::
  "('x, 'e, 'w, 'p, 'a, 't, 'i, 's, 'g) peer_env \<Rightarrow> clock \<Rightarrow> ('a, 't, 'i) Connection \<Rightarrow>
     ('p, 'a, 't, 'i, 's, 'g) Peer \<Rightarrow> ((BgpOpenMessage, unit) result poll \<times> ('p, 'a, 't, 'i, 's, 'g) Peer) option" where
  "get_tracked_connection_event E clk t p =
    (if fsm_state p = FsmState.Connect \<or> c_state t = ConnectionState.OpenConfirm then Some (Pending, p)
     else case poll_next (rt E) clk t of
            (Ready (Some ev), t) \<Rightarrow>
              (let (ev, ps) = pre_handle_connection_event_hook (pol E) ev t (policy_state p)
               in (case handle_event (rt E) clk (pol E) ev t ps of
                     None \<Rightarrow> None
                   | Some ((t, r), ps) \<Rightarrow>
                       let p = p\<lparr>tracked_connection := Some t, policy_state := ps\<rparr>
                       in Some (Ready (case r of
                              Err _ \<Rightarrow> Err ()
                            | Ok ev \<Rightarrow> (case post_handle_connection_event_hook (pol E) ps ev (Some t) of
                                ConnectionEvent.BGPOpen opn \<Rightarrow> Ok opn
                              | _ \<Rightarrow> Err ())), p)))
          | (_, t) \<Rightarrow> Some (Pending, p\<lparr>tracked_connection := Some t\<rparr>))"

definition tracked_branch ::
  "('x, 'e, 'w, 'p, 'a, 't, 'i, 's, 'g) peer_env \<Rightarrow> clock \<Rightarrow> bool \<Rightarrow> ('p, 'a, 't, 'i, 's, 'g) Peer \<Rightarrow>
     (('x, 'a) ConnectionNextEvent option \<times> bool \<times> ('p, 'a, 't, 'i, 's, 'g) Peer) option" where
  "tracked_branch E clk live p =
    (case (if live then tracked_connection p else None) of
       None \<Rightarrow> Some (None, live, p)
     | Some t \<Rightarrow>
         do { (res, p) \<leftarrow> get_tracked_connection_event E clk t p;
              Some (case res of
                  Pending \<Rightarrow> (None, live, p)
                | Ready _ \<Rightarrow> resolve_collision E clk None live p) })"

text \<open>The result comes with the connection that was dropped, after its notification was sent.\<close>

definition handle_connect_event ::
  "('x, 'e, 'w, 'p, 'a, 't, 'i, 's, 'g) peer_env \<Rightarrow> clock \<Rightarrow> ('x, 'a) ConnectionNextEvent \<Rightarrow>
     ('p, 'a, 't, 'i, 's, 'g) Peer \<Rightarrow>
     ((('p, 'a, 't, 'i, 's, 'g) Peer \<times> ('x, 'a, 'w) peer_result) \<times> ('a, 't, 'i) Connection option) option" where
  "handle_connect_event E clk event p =
    (case event of
       ConnectionNextEvent.DropMain \<Rightarrow>
         (case tracked_connection p of
            None \<Rightarrow> Some ((p, Ok BgpEvent.OpenCollisionDump), None)
          | Some tracked \<Rightarrow>
              let p = count_retry (p\<lparr>tracked_connection := None\<rparr>)
              in (case fsm_state_from_tracked (fsm_state p) tracked of
                    Err e \<Rightarrow> Some ((p, Err e), None)
                  | Ok new_state \<Rightarrow>
                      Some (((fsm_transition new_state p)\<lparr>connection := Some tracked\<rparr>, Ok BgpEvent.OpenCollisionDump),
                        map_option (drop_connection E clk (CeaseError.ConnectionCollisionResolution [])) (connection p))))
     | ConnectionNextEvent.DropTracked \<Rightarrow>
         Some ((p\<lparr>tracked_connection := None\<rparr>, Ok BgpEvent.OpenCollisionDump),
           map_option (drop_connection E clk (CeaseError.ConnectionCollisionResolution [])) (tracked_connection p))
     | Event ev \<Rightarrow> map_option (\<lambda>r. (r, None)) (handle_connection_event E clk ev p))"

section \<open>The branches of \<open>run\<close>\<close>

definition add_admin_event ::
  "('a, 's) PeerAdminEvents \<Rightarrow> ('p, 'a, 't, 'i, 's, 'g) Peer \<Rightarrow> ('p, 'a, 't, 'i, 's, 'g) Peer" where
  "add_admin_event event p = p\<lparr>waiting_admin_events := waiting_admin_events p @ [event]\<rparr>"

definition handle_start ::
  "('x, 'e, 'w, 'p, 'a, 't, 'i, 's, 'g) peer_env \<Rightarrow> clock \<Rightarrow> ('x, 'a) BgpEvent \<Rightarrow> ('x, 'a) BgpEvent \<Rightarrow>
     ('p, 'a, 't, 'i, 's, 'g) Peer \<Rightarrow>
     (('p, 'a, 't, 'i, 's, 'g) Peer \<times> (('x, 'a) BgpEvent option, ('x, 'a, 'w) FsmStateError) result) option" where
  "handle_start E clk active passive p =
    (if fsm_state p \<noteq> FsmState.Idle then Some (p, Ok None)
     else do { p \<leftarrow> start E clk p;
               if pc_passive_tcp_establishment (p_config p)
               then do { p \<leftarrow> start_retry E clk p; Some (p, Ok (Some passive)) }
               else Some (p, Ok (Some active)) })"

definition handle_admin_event ::
  "('x, 'e, 'w, 'p, 'a, 't, 'i, 's, 'g) peer_env \<Rightarrow> clock \<Rightarrow> ('a, 's) PeerAdminEvents \<Rightarrow>
     ('p, 'a, 't, 'i, 's, 'g) Peer \<Rightarrow>
     (('p, 'a, 't, 'i, 's, 'g) Peer \<times> (('x, 'a) BgpEvent option, ('x, 'a, 'w) FsmStateError) result) option" where
  "handle_admin_event E clk admin_event p =
    (case admin_event of
       PeerAdminEvents.ManualStart \<Rightarrow> handle_start E clk BgpEvent.ManualStart BgpEvent.ManualStartWithPassiveTcp p
     | PeerAdminEvents.ManualStop \<Rightarrow>
         let p = fst (shutdown E clk p)
         in Some (p\<lparr>p_stats := (p_stats p)\<lparr>connect_retry_counter := 0\<rparr>\<rparr>, Ok (Some BgpEvent.ManualStop))
     | PeerAdminEvents.AutomaticStart \<Rightarrow> handle_start E clk BgpEvent.AutomaticStart BgpEvent.AutomaticStartWithPassiveTcp p
     | PeerAdminEvents.AutomaticStop \<Rightarrow>
         let p = fst (shutdown E clk p) in Some (count_retry p, Ok (Some BgpEvent.AutomaticStop))
     | PeerAdminEvents.TcpConnectionConfirmed peer_addr stream \<Rightarrow>
         map_option fst (accept_connection E clk peer_addr stream p))"

text \<open>The newest administrative event is taken first.\<close>

definition run_admin ::
  "('x, 'e, 'w, 'p, 'a, 't, 'i, 's, 'g) peer_env \<Rightarrow> clock \<Rightarrow> ('p, 'a, 't, 'i, 's, 'g) Peer \<Rightarrow>
     (('p, 'a, 't, 'i, 's, 'g) Peer \<times> (('x, 'a) BgpEvent option, ('x, 'a, 'w) FsmStateError) result) option" where
  "run_admin E clk p =
    (if waiting_admin_events p = [] then Some (p, Ok None)
     else handle_admin_event E clk (last (waiting_admin_events p))
            (p\<lparr>waiting_admin_events := butlast (waiting_admin_events p)\<rparr>))"

text \<open>The connect branch: the attempt starts once per permission.\<close>

definition may_connect :: "('p, 'a, 't, 'i, 's, 'g) Peer \<Rightarrow> bool" where
  "may_connect p \<longleftrightarrow> fsm_state p = FsmState.Connect \<and> allowed_to_active_connect p"

definition start_connect :: "('p, 'a, 't, 'i, 's, 'g) Peer \<Rightarrow> ('p, 'a, 't, 'i, 's, 'g) Peer" where
  "start_connect p = p\<lparr>allowed_to_active_connect := False\<rparr>"

definition retry_expired :: "('p, 'a, 't, 'i, 's, 'g) Peer \<Rightarrow> ('p, 'a, 't, 'i, 's, 'g) Peer" where
  "retry_expired p =
    (let p = (if fsm_state p = FsmState.Active then fsm_transition FsmState.Connect p else p)
     in drop_main (p\<lparr>allowed_to_active_connect := fsm_state p = FsmState.Connect\<rparr>))"

text \<open>
  One call of \<open>run\<close> is at its start, or waits in its \<open>select\<close>, in which \<open>live\<close> says whether the loop
  still sees the tracked connection and \<open>connecting\<close> whether a connection attempt is under way.
\<close>

datatype (plugins only: code) phase = AtStart | Selecting (live: bool) (connecting: bool)

inductive peer_step ::
  "('x, 'e, 'w, 'p, 'a, 't, 'i, 's, 'g) peer_env \<Rightarrow> ('p, 'a, 't, 'i, 's, 'g) Peer \<times> phase \<Rightarrow>
     ('p, 'a, 't, 'i, 's, 'g) Peer \<times> phase \<Rightarrow> bool"
  for E :: "('x, 'e, 'w, 'p, 'a, 't, 'i, 's, 'g) peer_env" where
  queue_admin: "peer_step E (p, AtStart) (add_admin_event ev p, AtStart)"
| send_msg: "send_bgp_message E clk msg p = (p', r) \<Longrightarrow> peer_step E (p, AtStart) (p', AtStart)"
| admin_returns: "run_admin E clk p = Some (p', r) \<Longrightarrow> r \<noteq> Ok None \<Longrightarrow> peer_step E (p, AtStart) (p', AtStart)"
| admin_continues: "run_admin E clk p = Some (p', Ok None) \<Longrightarrow> peer_step E (p, AtStart) (p', Selecting True False)"
| cancelled: "peer_step E (p, Selecting l c) (p, AtStart)"
| connect_starts: "may_connect p \<Longrightarrow> peer_step E (p, Selecting l False) (start_connect p, Selecting l True)"
| connect_ends: "handle_active_connection E clk res p = Some (p', r) \<Longrightarrow>
     peer_step E (p, Selecting l True) (p', AtStart)"
| retry_ticks: "tick (rt E) clk (connect_retry_timer p) = Some timer \<Longrightarrow>
     peer_step E (p, Selecting l c) (retry_expired (p\<lparr>connect_retry_timer := Some timer\<rparr>), AtStart)"
| main_waits: "main_branch E clk l p = (None, l', p') \<Longrightarrow> peer_step E (p, Selecting l c) (p', Selecting l' c)"
| main_event: "main_branch E clk l p = (Some ev, l', p') \<Longrightarrow>
     handle_connect_event E clk' ev p' = Some ((p'', r), dropped) \<Longrightarrow> peer_step E (p, Selecting l c) (p'', AtStart)"
| tracked_waits: "tracked_branch E clk l p = Some (None, l', p') \<Longrightarrow> peer_step E (p, Selecting l c) (p', Selecting l' c)"
| tracked_event: "tracked_branch E clk l p = Some (Some ev, l', p') \<Longrightarrow>
     handle_connect_event E clk' ev p' = Some ((p'', r), dropped) \<Longrightarrow> peer_step E (p, Selecting l c) (p'', AtStart)"

inductive peer_reachable ::
  "('x, 'e, 'w, 'p, 'a, 't, 'i, 's, 'g) peer_env \<Rightarrow> PeerConfig \<Rightarrow> ('p, 'a, 't, 'i, 's, 'g) Peer \<times> phase \<Rightarrow> bool"
  for E :: "('x, 'e, 'w, 'p, 'a, 't, 'i, 's, 'g) peer_env" and cfg :: PeerConfig where
  initial: "peer_reachable E cfg (Peer_new E props cfg policy, AtStart)"
| step: "peer_reachable E cfg s \<Longrightarrow> peer_step E s s' \<Longrightarrow> peer_reachable E cfg s'"

end
