(* ===== verification/Bgp_Peer_Invariant.thy ===== *)
theory Bgp_Peer_Invariant
  imports Bgp_Peer
begin

text \<open>
  Invariants of a peer over every interleaving of the branches of \<open>run\<close>, for peers without open
  delay, which is the default: the state machine of the peer agrees with its main connection, nothing
  panics and no event of a connection is an invalid transition.
\<close>

section \<open>The environment of a peer\<close>

locale peer_env_laws = runtime_laws "rt E" + observing_policy "pol E"
  for E :: "('x, 'e, 'w, 'p, 'a, 't, 'i, 's, 'g) peer_env" +
  assumes jitter: "3 / 4 \<le> fst (random_jitter E g)" "fst (random_jitter E g) \<le> 1"

text \<open>
  An environment over the codec, with the echo policy and a linear congruential generator.  A
  stream is the bytes that will arrive on it.
\<close>

definition duplex_env ::
  "wire_lib \<Rightarrow> ('x, 'e, 'w) update_wire \<Rightarrow>
     ('x, 'e, 'w, EchoCapabilitiesPolicy, 'a, ('x, 'e) framed, nat \<times> duration, bytes, u64) peer_env" where
  "duplex_env L U =
    \<lparr>rt = duplex_runtime L U, pol = echo_policy,
     new_framed = (\<lambda>p stream. framed_new stream False BgpCodec_default),
     seed_from = id,
     random_jitter = (\<lambda>g. (3 / 4 + of_nat (unat g mod 2 ^ 24) / 2 ^ 26, g * 6364136223846793005 + 1442695040888963407))\<rparr>"

interpretation duplex_env: peer_env_laws "duplex_env L U" for L U
proof (intro peer_env_laws.intro peer_env_laws_axioms.intro)
  fix g :: u64
  have "(of_nat (unat g mod 2 ^ 24) :: rat) \<le> of_nat (2 ^ 24)"
    by (intro of_nat_mono) (simp add: order.strict_implies_order)
  then show "fst (random_jitter (duplex_env L U) g) \<le> 1" by (simp add: duplex_env_def field_simps)
  show "3 / 4 \<le> fst (random_jitter (duplex_env L U) g)" by (simp add: duplex_env_def)
qed (simp_all add: duplex_env_def duplex.runtime_laws_axioms echo.observing_policy_axioms)

section \<open>Connections keep their configuration\<close>

lemma frame_connected:
  "handle_connected_event T clk P ev c p = Some ((c', r), p') \<Longrightarrow> c_config c' = c_config c \<and> c_jitter c' = c_jitter c"
  by (cases ev)
    (auto simp: handle_connected_event_def Let_def send_open_def read_open_msg_def
      split: if_splits prod.splits bind_splits
      dest!: try_sendD start_hold_timer_frame start_session_timers_frame)

lemma frame_open_sent:
  "handle_open_sent_event T clk ev c = Some (c', r) \<Longrightarrow> c_config c' = c_config c \<and> c_jitter c' = c_jitter c"
  by (cases ev)
    (auto simp: handle_open_sent_event_def Let_def notif_and_terminate_def read_open_msg_def
      split: bind_splits dest!: try_sendD start_session_timers_frame)

lemma frame_open_confirm:
  "handle_open_confirm_event T clk ev c = (c', r) \<Longrightarrow> c_config c' = c_config c \<and> c_jitter c' = c_jitter c"
  by (cases ev) (auto simp: handle_open_confirm_event_def Let_def reset_hold_timer_def dest!: try_sendD)

lemma frame_established:
  "handle_established_event T clk ev c = (c', r) \<Longrightarrow> c_config c' = c_config c \<and> c_jitter c' = c_jitter c"
  by (cases ev) (auto simp: handle_established_event_def Let_def reset_hold_timer_def dest!: try_sendD)

lemma handle_event_frame:
  "handle_event T clk P ev c p = Some ((c', r), p') \<Longrightarrow> c_config c' = c_config c \<and> c_jitter c' = c_jitter c"
  by (cases "c_state c")
    (auto simp: handle_event_def dest: frame_connected frame_open_sent frame_open_confirm frame_established)

fun tcp_event :: "('x, 'a) ConnectionEvent \<Rightarrow> bool" where
  "tcp_event (ConnectionEvent.TcpConnectionRequestAcked _) = True"
| "tcp_event (ConnectionEvent.TcpConnectionConfirmed _) = True"
| "tcp_event _ = False"

lemma parsing_error_event: "\<not> tcp_event (event_of_parsing_error e)"
  by (cases e) simp_all

lemma decoder_error_event: "\<not> tcp_event (event_of_decoder_error e)"
  by (cases e) (simp_all add: parsing_error_event)

lemma open_event: "\<not> tcp_event (snd (handle_open_message opn asn delay))"
  by (simp add: handle_open_message_def split: option.split)

lemma update_event: "handle_update_message u errs = Some ev \<Longrightarrow> \<not> tcp_event ev"
  by (auto simp: handle_update_message_def missing_attr_def Let_def split: if_splits)

lemma received_frame:
  assumes "received_message clk m errs c = (ev, c')"
  shows "c_state c' = c_state c \<and> c_config c' = c_config c \<and> c_jitter c' = c_jitter c \<and> (\<forall>e. ev = Some e \<longrightarrow> \<not> tcp_event e)"
proof (cases m)
  case (Open opn)
  then show ?thesis
    using assms open_event [of opn "c_peer_asn c" "c_open_delay_timer c \<noteq> None"]
    by (auto simp: received_message_def Let_def split_beta)
next
  case (Notification n)
  then show ?thesis
    using assms by (auto simp: received_message_def Let_def split: BgpNotificationMessage.splits OpenMessageError.splits)
qed (use assms in \<open>auto simp: received_message_def Let_def dest!: update_event\<close>)

lemma poll_frame:
  "poll_next T clk c = (res, c') \<Longrightarrow>
     c_state c' = c_state c \<and> c_config c' = c_config c \<and> c_jitter c' = c_jitter c \<and>
     (\<forall>e. res = Ready (Some e) \<longrightarrow> \<not> tcp_event e)"
  by (auto simp: poll_next_def Let_def decoder_error_event
      split: option.splits prod.splits poll.splits result.splits dest!: received_frame)

section \<open>The invariant\<close>

text \<open>The state of the peer that goes with a state of its main connection.\<close>

fun agrees :: "ConnectionState \<Rightarrow> FsmState \<Rightarrow> bool" where
  "agrees Connected f = False"
| "agrees ConnectionState.OpenSent f = (f = FsmState.OpenSent)"
| "agrees ConnectionState.OpenConfirm f = (f = FsmState.OpenConfirm)"
| "agrees ConnectionState.Established f = (f = FsmState.Established)"
| "agrees Terminate f = (f = FsmState.OpenConfirm)"

definition conn_ok :: "PeerConfig \<Rightarrow> ('a, 't, 'i) Connection \<Rightarrow> bool" where
  "conn_ok cfg c \<longleftrightarrow> c_config c = ConnectionConfig_from cfg \<and> 3 / 4 \<le> c_jitter c \<and> c_jitter c \<le> 1 \<and> c_state c \<noteq> Connected"

definition peer_inv :: "PeerConfig \<Rightarrow> ('p, 'a, 't, 'i, 's, 'g) Peer \<Rightarrow> bool" where
  "peer_inv cfg p \<longleftrightarrow> p_config p = cfg \<and>
     (\<forall>c. connection p = Some c \<longrightarrow>
        conn_ok cfg c \<and> connect_retry_timer p = None \<and> agrees (c_state c) (fsm_state p)) \<and>
     (\<forall>c. tracked_connection p = Some c \<longrightarrow> conn_ok cfg c) \<and>
     (connection p = None \<longrightarrow> fsm_state p \<in> {FsmState.Idle, FsmState.Connect, FsmState.Active}) \<and>
     (peer_state p = AdminDown \<longrightarrow> fsm_state p = FsmState.Idle \<and> connection p = None \<and>
        tracked_connection p = None \<and> connect_retry_timer p = None)"

lemma no_delay [simp]:
  "cfg_open_delay_timer_duration (ConnectionConfig_from cfg) = pc_open_delay_timer_duration cfg"
  by (simp add: ConnectionConfig_from_def)

lemma fsm_transition_simps [simp]:
  "fsm_state (fsm_transition f p) = f" "p_config (fsm_transition f p) = p_config p"
  "connection (fsm_transition f p) = connection p" "tracked_connection (fsm_transition f p) = tracked_connection p"
  "connect_retry_timer (fsm_transition f p) = connect_retry_timer p" "peer_state (fsm_transition f p) = peer_state p"
  by (simp_all add: fsm_transition_def)

lemma peer_updates [simp]:
  "fsm_state (stop_retry p) = fsm_state p" "p_config (stop_retry p) = p_config p"
  "connection (stop_retry p) = connection p" "tracked_connection (stop_retry p) = tracked_connection p"
  "connect_retry_timer (stop_retry p) = None" "peer_state (stop_retry p) = peer_state p"
  "fsm_state (count_retry p) = fsm_state p" "p_config (count_retry p) = p_config p"
  "connection (count_retry p) = connection p" "tracked_connection (count_retry p) = tracked_connection p"
  "connect_retry_timer (count_retry p) = connect_retry_timer p" "peer_state (count_retry p) = peer_state p"
  "fsm_state (drop_main p) = fsm_state p" "p_config (drop_main p) = p_config p"
  "connection (drop_main p) = None" "tracked_connection (drop_main p) = tracked_connection p"
  "connect_retry_timer (drop_main p) = connect_retry_timer p" "peer_state (drop_main p) = peer_state p"
  "fsm_state (to_idle p) = FsmState.Idle" "p_config (to_idle p) = p_config p"
  "connection (to_idle p) = None" "tracked_connection (to_idle p) = tracked_connection p"
  "connect_retry_timer (to_idle p) = None" "peer_state (to_idle p) = peer_state p"
  by (simp_all add: stop_retry_def count_retry_def drop_main_def to_idle_def)

lemma conn_ok_send [simp]: "conn_ok cfg (snd (send_message T clk m c)) = conn_ok cfg c"
  by (simp add: conn_ok_def)

lemma conn_ok_poll: "poll_next T clk c = (res, c') \<Longrightarrow> conn_ok cfg c' = conn_ok cfg c"
  using poll_frame [of T clk c res c'] by (simp add: conn_ok_def)

lemma conn_ok_handle:
  assumes "handle_event T clk P ev c p = Some ((c', r), p')" "conn_ok cfg c"
  shows "conn_ok cfg c'"
proof -
  have "c_state c' \<noteq> Connected"
    using handle_event_outcome [OF assms(1)] assms(2)
    by (auto simp: outcome_def conn_ok_def elim!: next_state.elims)
  with handle_event_frame [OF assms(1)] assms(2) show ?thesis by (simp add: conn_ok_def)
qed

text \<open>A new connection without open delay has sent its OPEN message or failed.\<close>

lemma conn_ok_new:
  assumes "handle_event T clk P ev (create_connection E addr stream ty j p) ps = Some ((c, Ok ev'), ps')" "tcp_event ev"
    and "pc_open_delay_timer_duration (p_config p) = 0" "3 / 4 \<le> j" "j \<le> 1"
  shows "conn_ok (p_config p) c \<and> c_state c = ConnectionState.OpenSent"
  using handle_event_outcome [OF assms(1)] handle_event_frame [OF assms(1)] assms(2-)
  by (cases ev) (auto simp: outcome_def create_connection_def Connection_new_def conn_ok_def)

definition good_result :: "('x, 'a, 'w) peer_result \<Rightarrow> bool" where
  "good_result r \<longleftrightarrow> (\<forall>ev f s s'. r = Err (InvalidConnectionStateTransition ev f s s') \<longrightarrow> s = Terminate)"

context peer_env_laws
begin

lemma start_retry_Some: "\<exists>i. start_retry E clk p = Some (p\<lparr>connect_retry_timer := Some i\<rparr>)"
  using start_interval_Some [of "PeerConfig_connect_retry_duration (p_config p)" clk] by (auto simp: start_retry_def)

lemma handle_event_cases:
  assumes "conn_ok cfg c"
  obtains c' r ps' where "handle_event (rt E) clk (pol E) ev c ps = Some ((c', r), ps')" "conn_ok cfg c'"
proof -
  have "handle_event (rt E) clk (pol E) ev c ps \<noteq> None"
    using assms by (intro handle_event_returns) (simp_all add: conn_ok_def)
  then obtain c' r ps' where h: "handle_event (rt E) clk (pol E) ev c ps = Some ((c', r), ps')"
    by (metis not_None_eq surj_pair)
  with conn_ok_handle [OF h assms] that show ?thesis by blast
qed

lemma peer_inv_conn:
  "peer_inv cfg p \<Longrightarrow> connection p = Some c \<Longrightarrow> conn_ok cfg c' \<Longrightarrow> agrees (c_state c') (fsm_state p) \<Longrightarrow>
     peer_inv cfg (p\<lparr>connection := Some c', policy_state := ps\<rparr>)"
  by (auto simp: peer_inv_def)

lemma peer_inv_to_idle [intro]: "peer_inv cfg p \<Longrightarrow> peer_inv cfg (to_idle p)"
  by (auto simp: peer_inv_def)

lemma peer_inv_count_retry [simp]: "peer_inv cfg (count_retry p) = peer_inv cfg p"
  by (auto simp: peer_inv_def)

text \<open>A main connection that ends takes the peer to \<open>Idle\<close>, whatever state the connection reports.\<close>

lemma peer_inv_idle:
  "peer_inv cfg p \<Longrightarrow> p_config q = cfg \<Longrightarrow> connection q = None \<Longrightarrow> fsm_state q \<in> {FsmState.Idle, FsmState.Connect, FsmState.Active} \<Longrightarrow>
     tracked_connection q = tracked_connection p \<Longrightarrow> peer_state q = peer_state p \<Longrightarrow> connection p \<noteq> None \<Longrightarrow> peer_inv cfg q"
  by (auto simp: peer_inv_def)

lemma from_open_sent_inv:
  assumes "peer_inv cfg p" "connection p = Some d" "\<not> tcp_event ev" "conn_ok cfg c"
    "c_state d = ConnectionState.OpenSent" "c_state c = next_state False ConnectionState.OpenSent ev"
  shows "\<exists>p' r. from_open_sent E clk ev c (p\<lparr>connection := Some c, policy_state := ps\<rparr>) = Some (p', r) \<and>
    peer_inv cfg p' \<and> good_result r"
proof -
  obtain i where i: "start_retry E clk (drop_main (p\<lparr>connection := Some c, policy_state := ps\<rparr>)) =
      Some ((drop_main (p\<lparr>connection := Some c, policy_state := ps\<rparr>))\<lparr>connect_retry_timer := Some i\<rparr>)"
    using start_retry_Some by blast
  show ?thesis
    using assms
    by (cases ev) (auto simp: from_open_sent_def Let_def good_result_def invalid_transition_def i peer_inv_def)
qed

lemma from_open_confirm_inv:
  assumes "peer_inv cfg p" "connection p = Some d" "\<not> tcp_event ev" "conn_ok cfg c"
    "c_state d = ConnectionState.OpenConfirm" "c_state c = next_state False ConnectionState.OpenConfirm ev"
  shows "\<exists>p' r. from_open_confirm ev c (p\<lparr>connection := Some c, policy_state := ps\<rparr>) = Some (p', r :: ('x, 'a, 'w) peer_result) \<and>
    peer_inv cfg p' \<and> good_result r"
  using assms
  by (cases ev) (auto simp: from_open_confirm_def Let_def good_result_def invalid_transition_def peer_inv_def)

lemma from_established_inv:
  assumes "peer_inv cfg p" "connection p = Some d" "\<not> tcp_event ev" "conn_ok cfg c"
    "c_state d = ConnectionState.Established" "c_state c = next_state False ConnectionState.Established ev"
  shows "\<exists>p' r. from_established ev c (p\<lparr>connection := Some c, policy_state := ps\<rparr>) = Some (p', r :: ('x, 'a, 'w) peer_result) \<and>
    peer_inv cfg p' \<and> good_result r"
  using assms
  by (cases ev) (auto simp: from_established_def Let_def good_result_def invalid_transition_def peer_inv_def)

lemma next_state_delay: "s \<noteq> Connected \<Longrightarrow> next_state d s ev = next_state False s ev"
  by (cases s; cases ev) simp_all

lemma handle_connection_event_inv:
  assumes inv: "peer_inv cfg p" and conn: "connection p = Some c" and ev: "\<not> tcp_event ev"
  shows "\<exists>p' r. handle_connection_event E clk ev p = Some (p', r) \<and> peer_inv cfg p' \<and> good_result r"
proof -
  obtain ps where ps: "pre_handle_connection_event_hook (pol E) ev c (policy_state p) = (ev, ps)"
    using pre_hook [of ev c "policy_state p"] by (metis prod.collapse)
  have ok: "conn_ok cfg c" and ag: "agrees (c_state c) (fsm_state p)" using inv conn by (simp_all add: peer_inv_def)
  obtain c' r ps' where h: "handle_event (rt E) clk (pol E) ev c ps = Some ((c', r), ps')" and ok': "conn_ok cfg c'"
    using handle_event_cases [OF ok] by blast
  note out = handle_event_outcome [OF h]
  show ?thesis
  proof (cases r)
    case (Err e)
    with out obtain e' where e: "e = FsmStateError.BgpMessageWritingError e'"
      and st: "c_state c' = c_state c \<or> c_state c = ConnectionState.OpenConfirm \<and> c_state c' = Terminate"
      by (auto simp: outcome_def)
    have "agrees (c_state c') (fsm_state p)" using ag st by auto
    then have "peer_inv cfg (p\<lparr>connection := Some c', policy_state := ps'\<rparr>)" by (rule peer_inv_conn [OF inv conn ok'])
    then show ?thesis using e by (simp add: handle_connection_event_def conn ps h Err good_result_def)
  next
    case (Ok ev')
    with out have ev': "ev' = ev" and st: "c_state c' = next_state (cfg_open_delay_timer_duration (c_config c) \<noteq> 0) (c_state c) ev"
      by (simp_all add: outcome_def)
    have "c_state c \<noteq> Connected" using ok by (simp add: conn_ok_def)
    then have st: "c_state c' = next_state False (c_state c) ev" using next_state_delay st by metis
    let ?p = "p\<lparr>connection := Some c', policy_state := ps'\<rparr>"
    have u: "handle_connection_event E clk ev p = (case c_state c of
          Connected \<Rightarrow> from_connected E clk ev c' ?p
        | ConnectionState.OpenSent \<Rightarrow> from_open_sent E clk ev c' ?p
        | ConnectionState.OpenConfirm \<Rightarrow> from_open_confirm ev c' ?p
        | ConnectionState.Established \<Rightarrow> from_established ev c' ?p
        | Terminate \<Rightarrow> invalid_transition ev Terminate (c_state c') ?p)"
      by (simp add: handle_connection_event_def conn ps h Ok ev' post_hook Let_def)
    show ?thesis
    proof (cases "c_state c")
      case Connected
      then show ?thesis using ok by (simp add: conn_ok_def)
    next
      case OpenSent
      then show ?thesis using from_open_sent_inv [OF inv conn ev ok'] st u by simp
    next
      case OpenConfirm
      then show ?thesis using from_open_confirm_inv [OF inv conn ev ok'] st u by simp
    next
      case Established
      then show ?thesis using from_established_inv [OF inv conn ev ok'] st u by simp
    next
      case Terminate
      then show ?thesis using st u peer_inv_conn [OF inv conn ok', of ps'] ag
        by (simp add: invalid_transition_def good_result_def)
    qed
  qed
qed

lemma start_connection_inv:
  assumes inv: "peer_inv cfg p" and delay: "pc_open_delay_timer_duration cfg = 0"
    and up: "peer_state p = AdminUp" and timer: "connect_retry_timer p = None"
    and ev: "tcp_event ev" and j: "3 / 4 \<le> j" "j \<le> 1" and q: "p_config q = cfg"
  shows "\<exists>p' r. start_connection E clk ev (create_connection E addr stream ty j q) p = Some (p', r) \<and>
    peer_inv cfg p' \<and> good_result r"
proof -
  let ?c = "create_connection E addr stream ty j q"
  have "handle_event (rt E) clk (pol E) ev ?c (policy_state p) \<noteq> None"
    using j by (intro handle_event_returns) (simp_all add: create_connection_def Connection_new_def)
  then obtain c' r ps' where h: "handle_event (rt E) clk (pol E) ev ?c (policy_state p) = Some ((c', r), ps')"
    by (metis not_None_eq surj_pair)
  show ?thesis
  proof (cases r)
    case (Err e)
    with handle_event_outcome [OF h] have "good_result (Err e :: ('x, 'a, 'w) peer_result)"
      by (auto simp: outcome_def good_result_def)
    moreover have "peer_inv cfg (p\<lparr>policy_state := ps'\<rparr>)" using inv by (simp add: peer_inv_def)
    ultimately show ?thesis by (simp add: start_connection_def h Err)
  next
    case (Ok ev')
    have "conn_ok cfg c' \<and> c_state c' = ConnectionState.OpenSent"
      using conn_ok_new [OF h [unfolded Ok] ev] delay j q by simp
    then have "peer_inv cfg (add_connection c' (p\<lparr>policy_state := ps'\<rparr>))"
      using inv up timer by (auto simp: add_connection_def peer_inv_def)
    then show ?thesis by (simp add: start_connection_def h Ok good_result_def)
  qed
qed

text \<open>Every branch of \<open>run\<close> returns and keeps the invariant.\<close>

lemma handle_active_connection_inv:
  assumes "peer_inv cfg p" "pc_open_delay_timer_duration cfg = 0" "fsm_state p = FsmState.Connect"
  shows "\<exists>p' r. handle_active_connection E clk res p = Some (p', r) \<and> peer_inv cfg p' \<and> good_result r"
proof (cases res)
  case (Ok stream)
  obtain j g where g: "random_jitter E (rng p) = (j, g)" by force
  then have j: "3 / 4 \<le> j" "j \<le> 1" using jitter [of "rng p"] by simp_all
  have "peer_state p = AdminUp" using assms(1,3) by (cases "peer_state p") (auto simp: peer_inv_def)
  then have q: "peer_inv cfg (stop_retry (p\<lparr>rng := g\<rparr>))" "p_config (p\<lparr>rng := g\<rparr>) = cfg"
    "peer_state (stop_retry (p\<lparr>rng := g\<rparr>)) = AdminUp" "connect_retry_timer (stop_retry (p\<lparr>rng := g\<rparr>)) = None"
    using assms(1) by (auto simp: peer_inv_def)
  have "tcp_event (ConnectionEvent.TcpConnectionRequestAcked (pp_peer_addr (properties p)) :: ('x, 'a) ConnectionEvent)"
    by simp
  from start_connection_inv [OF q(1) assms(2) q(3,4) this j q(2), of clk "pp_peer_addr (properties p)" stream ConnectionType.Active]
  show ?thesis by (simp add: handle_active_connection_def Ok g Let_def)
next
  case (Err e)
  have "peer_inv cfg (stop_retry p)" using assms(1) by (auto simp: peer_inv_def)
  then show ?thesis by (cases e) (simp add: handle_active_connection_def Err good_result_def)
qed

lemma accept_connection_inv:
  assumes "peer_inv cfg p" "pc_open_delay_timer_duration cfg = 0"
  shows "\<exists>p' r d. accept_connection E clk addr stream p = Some ((p', r), d) \<and> peer_inv cfg p'"
proof (cases "rejects_connection p")
  case True
  then show ?thesis using assms(1) by (simp add: accept_connection_def)
next
  case False
  obtain j g where g: "random_jitter E (rng (stop_retry p)) = (j, g)" by force
  then have j: "3 / 4 \<le> j" "j \<le> 1" using jitter [of "rng (stop_retry p)"] by simp_all
  let ?p = "(stop_retry p)\<lparr>rng := g\<rparr>"
  have up: "peer_state p = AdminUp" using False by (cases "peer_state p") (simp_all add: rejects_connection_def)
  have q: "peer_inv cfg ?p" "p_config ?p = cfg" "peer_state ?p = AdminUp" "connect_retry_timer ?p = None"
    using assms(1) up by (auto simp: peer_inv_def)
  have ev: "tcp_event (ConnectionEvent.TcpConnectionConfirmed addr :: ('x, 'a) ConnectionEvent)" by simp
  obtain p' r where "start_connection E clk (ConnectionEvent.TcpConnectionConfirmed addr)
      (create_connection E addr stream Passive j ?p) ?p = Some (p', r)" "peer_inv cfg p'"
    using start_connection_inv [OF q(1) assms(2) q(3,4) ev j q(2), of clk addr stream Passive] by auto
  then show ?thesis using False by (simp add: accept_connection_def g Let_def)
qed

lemma shutdown_inv: "peer_inv cfg p \<Longrightarrow> peer_inv cfg (fst (shutdown E clk p))"
  by (simp add: shutdown_def peer_inv_def Let_def)

lemma handle_start_inv:
  assumes "peer_inv cfg p"
  shows "\<exists>p' r. handle_start E clk a b p = Some (p', r) \<and> peer_inv cfg p'"
proof (cases "fsm_state p = FsmState.Idle")
  case False
  then show ?thesis using assms by (simp add: handle_start_def)
next
  case True
  then have c: "connection p = None"
    using assms by (cases "connection p") (auto simp: peer_inv_def elim!: agrees.elims)
  let ?p = "p\<lparr>peer_state := AdminUp, p_stats := (p_stats p)\<lparr>connect_retry_counter := 0\<rparr>\<rparr>"
  obtain i where i: "start_retry E clk ?p = Some (?p\<lparr>connect_retry_timer := Some i\<rparr>)" using start_retry_Some by blast
  obtain k where k: "start_retry E clk (fsm_transition FsmState.Active ?p) =
      Some ((fsm_transition FsmState.Active ?p)\<lparr>connect_retry_timer := Some k\<rparr>)" using start_retry_Some by blast
  show ?thesis
    using True c assms by (auto simp: handle_start_def start_def i k Let_def peer_inv_def)
qed

lemma run_admin_inv:
  assumes "peer_inv cfg p" "pc_open_delay_timer_duration cfg = 0"
  shows "\<exists>p' r. run_admin E clk p = Some (p', r) \<and> peer_inv cfg p'"
proof -
  have inv: "peer_inv cfg (p\<lparr>waiting_admin_events := ws\<rparr>)" for ws using assms(1) by (simp add: peer_inv_def)
  have stats: "peer_inv cfg (q\<lparr>p_stats := x\<rparr>) = peer_inv cfg q" for q :: "('p, 'a, 't, 'i, 's, 'g) Peer" and x
    by (simp add: peer_inv_def)
  have h: "\<exists>p' r. handle_admin_event E clk e q = Some (p', r) \<and> peer_inv cfg p'" if q: "peer_inv cfg q" for e q
  proof (cases e)
    case ManualStart
    then show ?thesis
      using handle_start_inv [OF q, of clk BgpEvent.ManualStart BgpEvent.ManualStartWithPassiveTcp] by (simp add: handle_admin_event_def)
  next
    case ManualStop
    then show ?thesis using shutdown_inv [OF q, of clk] by (simp add: handle_admin_event_def Let_def stats)
  next
    case AutomaticStart
    then show ?thesis
      using handle_start_inv [OF q, of clk BgpEvent.AutomaticStart BgpEvent.AutomaticStartWithPassiveTcp] by (simp add: handle_admin_event_def)
  next
    case AutomaticStop
    then show ?thesis using shutdown_inv [OF q, of clk] by (simp add: handle_admin_event_def Let_def)
  next
    case (TcpConnectionConfirmed addr stream)
    obtain p' r d where "accept_connection E clk addr stream q = Some ((p', r), d)" "peer_inv cfg p'"
      using accept_connection_inv [OF q assms(2)] by blast
    then show ?thesis by (simp add: handle_admin_event_def TcpConnectionConfirmed)
  qed
  show ?thesis using assms(1) h [OF inv] by (simp add: run_admin_def)
qed

lemma resolve_collision_inv:
  assumes "resolve_collision E clk ev l p = (e, l', p')" "peer_inv cfg p"
  shows "peer_inv cfg p' \<and> fsm_state p' = fsm_state p \<and> connection p' = connection p \<and>
    (\<forall>x. e = Some (Event x) \<longrightarrow> ev = Some x) \<and> (e = Some ConnectionNextEvent.DropMain \<longrightarrow> connection p' \<noteq> None)"
proof (cases "check_connection_collision (pp_my_bgp_id (properties p)) (connection p) (if l then tracked_connection p else None)")
  case None
  then show ?thesis using assms by (auto simp: resolve_collision_def)
next
  case (Some ret)
  then have c: "connection p \<noteq> None"
    by (cases "connection p") (simp_all add: check_connection_collision_def Let_def)
  show ?thesis
    using assms Some c by (cases ret) (auto simp: resolve_collision_def peer_inv_def send_notif_def)
qed

lemma main_branch_inv:
  assumes "main_branch E clk l p = (e, l', p')" "peer_inv cfg p"
  shows "peer_inv cfg p' \<and> fsm_state p' = fsm_state p \<and> (e \<noteq> None \<longrightarrow> connection p' \<noteq> None) \<and>
    (\<forall>x. e = Some (Event x) \<longrightarrow> \<not> tcp_event x)"
proof (cases "connection p")
  case None
  then show ?thesis using assms by (simp add: main_branch_def)
next
  case (Some c)
  obtain res c' where po: "poll_next (rt E) clk c = (res, c')" by force
  note fr = poll_frame [OF po]
  have inv: "peer_inv cfg (p\<lparr>connection := Some c'\<rparr>)"
    using assms(2) Some fr by (auto simp: peer_inv_def conn_ok_def)
  show ?thesis
  proof (cases "\<exists>ev. res = Ready (Some ev)")
    case True
    then obtain ev where ev: "res = Ready (Some ev)" by blast
    then have "resolve_collision E clk (Some ev) l (p\<lparr>connection := Some c'\<rparr>) = (e, l', p')"
      using assms(1) Some po by (simp add: main_branch_def)
    from resolve_collision_inv [OF this inv] fr ev show ?thesis by auto
  next
    case False
    then have "(e, l', p') = (None, l, p\<lparr>connection := Some c'\<rparr>)"
      using assms(1) Some po by (auto simp: main_branch_def split: poll.splits option.splits)
    then show ?thesis using inv by simp
  qed
qed

lemma tracked_branch_inv:
  assumes "peer_inv cfg p"
  shows "\<exists>e l' p'. tracked_branch E clk l p = Some (e, l', p') \<and> peer_inv cfg p' \<and> fsm_state p' = fsm_state p \<and>
    (e = Some ConnectionNextEvent.DropMain \<longrightarrow> connection p' \<noteq> None) \<and> (\<forall>x. e \<noteq> Some (Event x))"
proof (cases "if l then tracked_connection p else None")
  case None
  then show ?thesis using assms by (simp add: tracked_branch_def)
next
  case (Some t)
  then have t: "tracked_connection p = Some t" "conn_ok cfg t" using assms by (auto simp: peer_inv_def split: if_splits)
  have "\<exists>res p'. get_tracked_connection_event E clk t p = Some (res, p') \<and> peer_inv cfg p' \<and> fsm_state p' = fsm_state p"
  proof (cases "fsm_state p = FsmState.Connect \<or> c_state t = ConnectionState.OpenConfirm")
    case True
    then show ?thesis using assms by (simp add: get_tracked_connection_event_def)
  next
    case False
    obtain res t' where po: "poll_next (rt E) clk t = (res, t')" by force
    then have ok: "conn_ok cfg t'" using t(2) conn_ok_poll by blast
    show ?thesis
    proof (cases "\<exists>ev. res = Ready (Some ev)")
      case True
      then obtain ev where ev: "res = Ready (Some ev)" by blast
      obtain ps where ps: "pre_handle_connection_event_hook (pol E) ev t' (policy_state p) = (ev, ps)"
        using pre_hook [of ev t' "policy_state p"] by (metis prod.collapse)
      obtain t'' r ps' where h: "handle_event (rt E) clk (pol E) ev t' ps = Some ((t'', r), ps')" "conn_ok cfg t''"
        using handle_event_cases [OF ok] by blast
      have "peer_inv cfg (p\<lparr>tracked_connection := Some t'', policy_state := ps'\<rparr>)"
        using assms h(2) t(1) by (auto simp: peer_inv_def)
      then show ?thesis using False by (simp add: get_tracked_connection_event_def po ev ps h(1) Let_def)
    next
      case no: False
      have "peer_inv cfg (p\<lparr>tracked_connection := Some t'\<rparr>)"
        using assms ok t(1) by (auto simp: peer_inv_def)
      then show ?thesis
        using False no by (cases res) (auto simp: get_tracked_connection_event_def po split: option.split)
    qed
  qed
  then obtain res p' where g: "get_tracked_connection_event E clk t p = Some (res, p')" "peer_inv cfg p'" "fsm_state p' = fsm_state p"
    by blast
  obtain e l' p'' where r: "resolve_collision E clk None l p' = (e, l', p'')" by (metis prod_cases3)
  from resolve_collision_inv [OF r g(2)] g(3) show ?thesis
    using Some g r by (cases res) (auto simp: tracked_branch_def)
qed

lemma handle_connect_event_inv:
  assumes inv: "peer_inv cfg p"
    and "\<And>ev. event = Event ev \<Longrightarrow> connection p \<noteq> None \<and> \<not> tcp_event ev"
    and "event = ConnectionNextEvent.DropMain \<Longrightarrow> connection p \<noteq> None"
  shows "\<exists>p' r d. handle_connect_event E clk event p = Some ((p', r), d) \<and> peer_inv cfg p' \<and> good_result r"
proof (cases event)
  case DropMain
  show ?thesis
  proof (cases "tracked_connection p")
    case None
    then show ?thesis using inv DropMain by (simp add: handle_connect_event_def good_result_def)
  next
    case (Some t)
    have "conn_ok cfg t" using inv Some by (simp add: peer_inv_def)
    then show ?thesis
      using inv Some DropMain assms(3)
      by (cases "c_state t") (auto simp: handle_connect_event_def fsm_state_from_tracked_def good_result_def peer_inv_def
          Let_def conn_ok_def)
  qed
next
  case DropTracked
  have "peer_inv cfg (p\<lparr>tracked_connection := None\<rparr>)" using inv by (simp add: peer_inv_def)
  then show ?thesis using DropTracked by (simp add: handle_connect_event_def good_result_def)
next
  case (Event ev)
  then obtain c where c: "connection p = Some c" "\<not> tcp_event ev" using assms(2) by auto
  from handle_connection_event_inv [OF inv c, of clk] Event show ?thesis by (auto simp: handle_connect_event_def)
qed

text \<open>While a connection attempt is under way the peer is in \<open>Connect\<close>.\<close>

lemma send_bgp_message_inv: "peer_inv cfg p \<Longrightarrow> peer_inv cfg (fst (send_bgp_message E clk m p))"
proof -
  assume inv: "peer_inv cfg p"
  define q where "q = (case tracked_connection p of
           None \<Rightarrow> p
         | Some t \<Rightarrow> (case send_message (rt E) clk m t of
             (Ok _, t) \<Rightarrow> p\<lparr>tracked_connection := Some t\<rparr>
           | (Err _, t) \<Rightarrow> p\<lparr>tracked_connection := None\<rparr>))"
  have q: "peer_inv cfg q \<and> connection q = connection p"
  proof (cases "tracked_connection p")
    case None
    then show ?thesis using inv by (simp add: q_def)
  next
    case (Some t)
    obtain r t' where t': "send_message (rt E) clk m t = (r, t')" by force
    have "conn_ok cfg t'" using inv Some conn_ok_send [of cfg "rt E" clk m t] t' by (simp add: peer_inv_def)
    then show ?thesis using inv Some t' by (cases r) (auto simp: q_def peer_inv_def)
  qed
  show ?thesis
  proof (cases "connection q")
    case None
    then show ?thesis using q by (simp add: send_bgp_message_def q_def [symmetric] Let_def)
  next
    case (Some c)
    obtain r c' where c': "send_message (rt E) clk m c = (r, c')" by force
    have "conn_ok cfg c' \<and> c_state c' = c_state c"
      using q Some conn_ok_send [of cfg "rt E" clk m c] send_message_frame(1) [of "rt E" clk m c] c' by (simp add: peer_inv_def)
    then have "peer_inv cfg (q\<lparr>connection := Some c'\<rparr>)"
      using q Some by (auto simp: peer_inv_def)
    then show ?thesis
      using Some c' by (cases r) (auto simp: send_bgp_message_def q_def [symmetric] Let_def)
  qed
qed

end

definition step_inv :: "PeerConfig \<Rightarrow> ('p, 'a, 't, 'i, 's, 'g) Peer \<times> phase \<Rightarrow> bool" where
  "step_inv cfg s \<longleftrightarrow> peer_inv cfg (fst s) \<and>
     (case snd s of AtStart \<Rightarrow> True | Selecting l c \<Rightarrow> c \<longrightarrow> fsm_state (fst s) = FsmState.Connect)"

lemma peer_new_inv: "step_inv cfg (Peer_new E props cfg policy, AtStart)"
  by (simp add: step_inv_def peer_inv_def Peer_new_def)

context peer_env_laws
begin

lemma peer_step_inv:
  assumes "peer_step E s s'" "step_inv cfg s" "pc_open_delay_timer_duration cfg = 0"
  shows "step_inv cfg s'"
  using assms
proof (induction rule: peer_step.induct)
  case (queue_admin p ev)
  then show ?case by (simp add: step_inv_def peer_inv_def add_admin_event_def)
next
  case (send_msg clk msg p p' r)
  then show ?case using send_bgp_message_inv [of cfg p clk msg] by (simp add: step_inv_def)
next
  case (admin_returns clk p p' r)
  then show ?case using run_admin_inv [of cfg p clk] by (auto simp: step_inv_def)
next
  case (admin_continues clk p p')
  then show ?case using run_admin_inv [of cfg p clk] by (auto simp: step_inv_def)
next
  case (connect_starts p l)
  then show ?case by (simp add: step_inv_def peer_inv_def start_connect_def may_connect_def)
next
  case (connect_ends clk res p p' r l)
  then show ?case using handle_active_connection_inv [of cfg p clk res] by (auto simp: step_inv_def)
next
  case (retry_ticks clk p timer l c)
  then have "connect_retry_timer p \<noteq> None" by (auto simp: tick_def bind_eq_Some_conv)
  with retry_ticks show ?case
    by (auto simp: step_inv_def peer_inv_def retry_expired_def Let_def)
next
  case (main_waits clk l p l' p' c)
  then show ?case using main_branch_inv [of clk l p None l' p' cfg] by (auto simp: step_inv_def)
next
  case (main_event clk l p ev l' p' clk' p'' r dropped c)
  have "peer_inv cfg p" using main_event by (simp add: step_inv_def)
  note m = main_branch_inv [OF main_event(1) this]
  show ?case
    using handle_connect_event_inv [of cfg p' ev clk'] m main_event(2) by (auto simp: step_inv_def)
next
  case (tracked_waits clk l p l' p' c)
  then show ?case using tracked_branch_inv [of cfg p clk l] by (auto simp: step_inv_def)
next
  case (tracked_event clk l p ev l' p' clk' p'' r dropped c)
  then have "peer_inv cfg p" by (simp add: step_inv_def)
  from tracked_branch_inv [OF this, of clk l] tracked_event(1)
  have m: "peer_inv cfg p'" "ev = ConnectionNextEvent.DropMain \<longrightarrow> connection p' \<noteq> None" "\<forall>x. ev \<noteq> Event x" by auto
  show ?case
    using handle_connect_event_inv [OF m(1), of ev clk'] m tracked_event(2) by (auto simp: step_inv_def)
qed (simp add: step_inv_def)

lemma peer_reachable_inv:
  assumes "peer_reachable E cfg s" "pc_open_delay_timer_duration cfg = 0"
  shows "step_inv cfg s"
  using assms by (induction rule: peer_reachable.induct) (auto intro: peer_step_inv peer_new_inv)

end

section \<open>Properties\<close>

text \<open>
  C4: over every interleaving of administrative events, connection attempts, timers and messages, the
  state machine of a peer without open delay agrees with its main connection: without a connection it
  is in \<open>Idle\<close>, \<open>Connect\<close> or \<open>Active\<close>; with one it is in the state of the connection and the
  connect retry timer is stopped.  A terminated connection can only be left over in
  \<open>OpenConfirm\<close>.  A stopped peer is idle and has neither connections nor a timer.
\<close>

theorem peer_agrees_with_connection:
  assumes "peer_env_laws E" "pc_open_delay_timer_duration cfg = 0" "peer_reachable E cfg (p, ph)"
  shows "(case connection p of
      None \<Rightarrow> fsm_state p \<in> {FsmState.Idle, FsmState.Connect, FsmState.Active}
    | Some c \<Rightarrow> connect_retry_timer p = None \<and> agrees (c_state c) (fsm_state p)) \<and>
    (peer_state p = AdminDown \<longrightarrow> fsm_state p = FsmState.Idle \<and> connection p = None \<and>
      tracked_connection p = None \<and> connect_retry_timer p = None)"
  using peer_env_laws.peer_reachable_inv [OF assms(1,3,2)]
  by (auto simp: step_inv_def peer_inv_def split: option.split)


text \<open>
  C25: a failed connection attempt is final.  It stops the connect retry timer and leaves the peer in
  \<open>Connect\<close> without permission to try again; from there no step of the peer changes anything,
  until an administrative event arrives.
\<close>

theorem failed_connect_is_final:
  assumes "handle_active_connection E clk (Err ConnectError.TcpConnectionFails) p = Some (p', r)"
    and "fsm_state p = FsmState.Connect" "connection p = None" "tracked_connection p = None"
    and "waiting_admin_events p = []" "\<not> allowed_to_active_connect p"
    and "peer_step E (p', ph) (q, ph')" "ph \<in> {AtStart, Selecting True False}"
  shows "fsm_state p' = FsmState.Connect \<and>
    (q = p' \<and> ph' \<in> {AtStart, Selecting True False} \<or> (\<exists>ev. q = add_admin_event ev p' \<and> ph' = AtStart))"
proof -
  have p': "fsm_state p' = FsmState.Connect" "connection p' = None" "tracked_connection p' = None"
    "waiting_admin_events p' = []" "\<not> allowed_to_active_connect p'" "connect_retry_timer p' = None"
    using assms(1-6) by (auto simp: handle_active_connection_def stop_retry_def)
  from assms(7,8) p' show ?thesis
    by (cases rule: peer_step.cases)
      (auto simp: send_bgp_message_def run_admin_def may_connect_def tick_def main_branch_def tracked_branch_def)
qed

text \<open>
  C26: collisions.  Of two speakers that see the same two connections, the one with the smaller identifier
  drops its main connection and the one with the larger identifier its tracked connection, whoever
  initiated them.  So if the same connection is the main one at both ends, both connections are
  dropped.
\<close>

theorem collision_by_identifier:
  assumes "c_peer_bgp_id main_a = Some b" "c_peer_bgp_id tracked_a = Some b"
    and "c_peer_bgp_id main_b = Some a" "c_peer_bgp_id tracked_b = Some a" "a < b"
  shows "check_connection_collision a (Some main_a) (Some tracked_a) = Some CollisionCheckRet.DropMain \<and>
    check_connection_collision b (Some main_b) (Some tracked_b) = Some CollisionCheckRet.DropTracked"
proof -
  have "\<not> b < a" "b \<noteq> a" using assms(5) by auto
  then show ?thesis using assms by (simp add: check_connection_collision_def)
qed

section \<open>Examples\<close>

definition example_env ::
  "(nat, nat, nat, EchoCapabilitiesPolicy, nat, (nat, nat) framed, nat \<times> duration, bytes, u64) peer_env" where
  "example_env = duplex_env net_lib no_updates"

definition example_peer ::
  "(EchoCapabilitiesPolicy, nat, (nat, nat) framed, nat \<times> duration, bytes, u64) Peer" where
  "example_peer = Peer_new example_env (PeerProperties_new 100 100 1 7 False) (PeerConfig_default 0) example_echo"

lemma example_env_laws: "peer_env_laws example_env"
  by (simp add: example_env_def duplex_env.peer_env_laws_axioms)

lemma example_config: "pc_open_delay_timer_duration (PeerConfig_default 0) = 0"
  by (simp add: PeerConfig_default_def)

text \<open>A started peer that tries to connect.\<close>

lemma example_connecting:
  obtains p where "peer_reachable example_env (PeerConfig_default 0) (p, Selecting True True)"
    "fsm_state p = FsmState.Connect" "connection p = None" "tracked_connection p = None"
    "waiting_admin_events p = []" "\<not> allowed_to_active_connect p"
proof -
  let ?p = "add_admin_event PeerAdminEvents.ManualStart example_peer"
  have new: "peer_reachable example_env (PeerConfig_default 0) (?p, AtStart)"
    by (rule peer_reachable.step [OF _ peer_step.queue_admin]) (simp add: example_peer_def peer_reachable.initial)
  obtain p ev where s: "run_admin example_env (clk_at 0) ?p = Some (p, Ok (Some ev))"
    and f: "fsm_state p = FsmState.Connect" "connection p = None" "tracked_connection p = None"
      "waiting_admin_events p = []" "allowed_to_active_connect p"
    by (auto simp: run_admin_def add_admin_event_def example_peer_def Peer_new_def handle_admin_event_def handle_start_def
        start_def start_retry_def start_interval_def fsm_transition_def PeerConfig_default_def example_env_def duplex_env_def
        duplex_runtime_def PeerConfig_connect_retry_duration_def from_secs_def NANOS_PER_SEC_def)
  from new s have "peer_reachable example_env (PeerConfig_default 0) (p, AtStart)"
    by (blast intro: peer_reachable.step peer_step.admin_returns)
  moreover have "run_admin example_env (clk_at 0) p = Some (p, Ok None)" using f by (simp add: run_admin_def)
  ultimately have "peer_reachable example_env (PeerConfig_default 0) (p, Selecting True False)"
    by (blast intro: peer_reachable.step peer_step.admin_continues)
  then have "peer_reachable example_env (PeerConfig_default 0) (start_connect p, Selecting True True)"
    using f by (blast intro: peer_reachable.step peer_step.connect_starts may_connect_def [THEN iffD2])
  then show ?thesis by (rule that) (use f in \<open>simp_all add: start_connect_def\<close>)
qed

theorem peer_agrees_with_connection_witness:
  "peer_env_laws example_env \<and> pc_open_delay_timer_duration (PeerConfig_default 0) = 0 \<and>
   (\<exists>p. peer_reachable example_env (PeerConfig_default 0) (p, Selecting True True) \<and> connection p = None \<and>
      fsm_state p \<in> {FsmState.Idle, FsmState.Connect, FsmState.Active})"
proof (rule example_connecting)
  fix p
  assume p: "peer_reachable example_env (PeerConfig_default 0) (p, Selecting True True)" "connection p = None"
  from peer_agrees_with_connection [OF example_env_laws example_config p(1)] p example_env_laws example_config
  show ?thesis by auto
qed


theorem failed_connect_is_final_witness:
  "\<exists>p p' r. peer_reachable example_env (PeerConfig_default 0) (p, Selecting True True) \<and>
     handle_active_connection example_env (clk_at 3) (Err ConnectError.TcpConnectionFails) p = Some (p', r) \<and>
     peer_step example_env (p', AtStart) (p', Selecting True False) \<and> fsm_state p' = FsmState.Connect"
proof (rule example_connecting)
  fix p
  assume p: "peer_reachable example_env (PeerConfig_default 0) (p, Selecting True True)"
    "fsm_state p = FsmState.Connect" "connection p = None" "tracked_connection p = None"
    "waiting_admin_events p = []" "\<not> allowed_to_active_connect p"
  from p obtain p' r where h: "handle_active_connection example_env (clk_at 3) (Err ConnectError.TcpConnectionFails) p = Some (p', r)"
      "waiting_admin_events p' = []"
    by (auto simp: handle_active_connection_def stop_retry_def)
  then have s: "peer_step example_env (p', AtStart) (p', Selecting True False)"
    by (intro peer_step.admin_continues [of _ "clk_at 4"]) (simp add: run_admin_def)
  from failed_connect_is_final [OF h(1) p(2-6) s] h s p(1) show ?thesis by blast
qed

theorem collision_by_identifier_witness:
  "check_connection_collision 3 (Some ((example_connection ConnectionConfig_default)\<lparr>c_peer_bgp_id := Some 9\<rparr>))
      (Some ((example_connection ConnectionConfig_default)\<lparr>c_peer_bgp_id := Some 9\<rparr>)) = Some CollisionCheckRet.DropMain"
  using collision_by_identifier [of "(example_connection ConnectionConfig_default)\<lparr>c_peer_bgp_id := Some 9\<rparr>" 9
      "(example_connection ConnectionConfig_default)\<lparr>c_peer_bgp_id := Some 9\<rparr>"
      "(example_connection ConnectionConfig_default)\<lparr>c_peer_bgp_id := Some 3\<rparr>" 3
      "(example_connection ConnectionConfig_default)\<lparr>c_peer_bgp_id := Some 3\<rparr>"] by simp

end
