(* ===== verification/Spec2Isabelle.thy ===== *)
theory Spec2Isabelle
  imports NC_Prelude NC_Wire NC_BTreeMap Udp_Notif_Wire Udp_Notif_Codec Iana_Address_Family Bgp_Iana Bgp_Notification Bgp_Capabilities Bgp_Context Bgp_Open Bgp_Update Bgp_Message NC_Duration Bgp_Events Bgp_Config Bgp_Connection Bgp_Policy Bgp_Session Bgp_Handshake Bgp_Peer Bgp_Peer_Invariant
begin

text \<open>
  A verification development for NetCalyx, a set of Rust libraries and a collector for network
  telemetry.
\<close>

end
